(* ===== verification/Prelude.thy ===== *)
theory Prelude
  imports Main
begin

text \<open>
  Shared vocabulary of the development: Python exceptions as values, sequencing of fallible
  steps, the indexed accumulating loop of the validators, and the generic facts about them.

  Every script of \<^verbatim>\<open>scripts/\<close> declares one exception class of its own (a
  \<^verbatim>\<open>ValueError\<close> subclass: \<^verbatim>\<open>ReadinessError\<close>,
  \<^verbatim>\<open>RecoveryError\<close>, ...), which its \<^verbatim>\<open>main\<close> catches.
  That class is \<open>Rejected\<close> with the location and fixed text of its message (values
  interpolated after the fixed text are left out). The other constructors are the interpreter
  exceptions that a script can raise without meaning to (\<open>RecursionError\<close> also stands for fuel
  that ran out, where a recursion of a model is given fuel). \<open>NotFound\<close> is
  \<^verbatim>\<open>FileNotFoundError\<close>, the subclass of \<^verbatim>\<open>OSError\<close> that the installer
  jobs single out; \<open>ProcessError\<close> is \<^verbatim>\<open>CalledProcessError\<close> or
  \<^verbatim>\<open>TimeoutExpired\<close>.
\<close>

named_theorems result_simps \<open>rewriting of fallible steps that are asked to succeed\<close>
named_theorems safe_intros \<open>introduction rules for crash freedom\<close>

section \<open>Exceptions as values\<close>

datatype exn =
    Rejected string
  | TypeError
  | KeyError
  | ValueError
  | UnicodeDecodeError
  | OSError
  | NotFound
  | ProcessError
  | RecursionError

type_synonym 'a result = "exn + 'a"

text \<open>The outcome is an answer or a diagnosis of the script's own class, never another exception.\<close>

fun crash_free :: "'a result \<Rightarrow> bool" where
  "crash_free (Inl (Rejected m)) = True"
| "crash_free (Inl e) = False"
| "crash_free (Inr x) = True"

fun bindE :: "'a result \<Rightarrow> ('a \<Rightarrow> 'b result) \<Rightarrow> 'b result" where
  "bindE (Inl e) f = Inl e"
| "bindE (Inr x) f = f x"

lemma bindE_Inr_iff [result_simps]:
  "bindE r f = Inr y \<longleftrightarrow> (\<exists>x. r = Inr x \<and> f x = Inr y)"
  by (cases r) auto

lemma bindE_cong [fundef_cong]:
  "r = r' \<Longrightarrow> (\<And>x. r' = Inr x \<Longrightarrow> f x = g x) \<Longrightarrow> bindE r f = bindE r' g"
  by (cases r') auto

text \<open>A guard of the source: \<^verbatim>\<open>if c: raise e\<close> followed by the rest.\<close>

lemma guard_Inr_iff [result_simps]:
  "(if c then Inl e else r) = Inr y \<longleftrightarrow> \<not> c \<and> r = Inr y"
  by simp

lemma crash_free_Inr [safe_intros]: "crash_free (Inr x)"
  by simp

lemma crash_free_bindE [safe_intros]:
  "crash_free r \<Longrightarrow> (\<And>x. r = Inr x \<Longrightarrow> crash_free (f x)) \<Longrightarrow> crash_free (bindE r f)"
  by (cases r rule: crash_free.cases) auto

lemma crash_free_guard [safe_intros]:
  "(\<not> c \<Longrightarrow> crash_free r) \<Longrightarrow> crash_free (if c then Inl (Rejected m) else r)"
  by simp

section \<open>The indexed loop with early exit\<close>

text \<open>
  \<^verbatim>\<open>for index, x in enumerate(xs): ...\<close> with accumulators: \<open>f\<close> is the body, which
  either raises or returns the accumulators for the next round.
\<close>

fun forE :: "(nat \<Rightarrow> 'x \<Rightarrow> 's \<Rightarrow> 's result) \<Rightarrow> nat \<Rightarrow> 'x list \<Rightarrow> 's \<Rightarrow> 's result" where
  "forE f i [] s = Inr s"
| "forE f i (x # xs) s = bindE (f i x s) (forE f (Suc i) xs)"

lemma crash_free_forE:
  assumes "\<And>j x t. j < length xs \<Longrightarrow> x = xs ! j \<Longrightarrow> P t \<Longrightarrow> crash_free (f (i + j) x t)"
    and "\<And>j x t t'. j < length xs \<Longrightarrow> x = xs ! j \<Longrightarrow> P t \<Longrightarrow> f (i + j) x t = Inr t' \<Longrightarrow> P t'"
    and "P s"
  shows "crash_free (forE f i xs s)"
  using assms
proof (induction xs arbitrary: i s)
  case Nil
  show ?case by simp
next
  case (Cons x xs)
  have head: "crash_free (f i x s)"
    using Cons.prems(1) [of 0 x s] Cons.prems(3) by simp
  have tail: "crash_free (forE f (Suc i) xs t)" if "f i x s = Inr t" for t
  proof (rule Cons.IH)
    show "P t" using Cons.prems(2) [of 0 x s t] Cons.prems(3) that by simp
  next
    fix j y u
    assume "j < length xs" "y = xs ! j" "P u"
    then show "crash_free (f (Suc i + j) y u)"
      using Cons.prems(1) [of "Suc j" y u] by simp
  next
    fix j y u u'
    assume "j < length xs" "y = xs ! j" "P u" "f (Suc i + j) y u = Inr u'"
    then show "P u'"
      using Cons.prems(2) [of "Suc j" y u u'] by simp
  qed
  show ?case
    by (simp only: forE.simps) (rule crash_free_bindE [OF head tail])
qed

lemma crash_free_forE_all [safe_intros]:
  "(\<And>j x t. crash_free (f j x t)) \<Longrightarrow> crash_free (forE f i xs s)"
  by (rule crash_free_forE [where P = "\<lambda>_. True"]) auto

text \<open>
  The contract that the evidence and record loops share: one round succeeds exactly when the
  entry is acceptable on its own (\<open>ok\<close>) and its key is new, and then updates the accumulators
  with \<open>upd\<close>. The whole loop then accepts exactly the lists of acceptable entries with
  pairwise different keys.
\<close>

locale unique_loop =
  fixes step :: "nat \<Rightarrow> 'x \<Rightarrow> 's \<Rightarrow> 's result"
    and ok :: "nat \<Rightarrow> 'x \<Rightarrow> bool"
    and key :: "'x \<Rightarrow> 'k"
    and seen :: "'s \<Rightarrow> 'k set"
    and upd :: "'x \<Rightarrow> 's \<Rightarrow> 's"
  assumes step_iff: "step i x s = Inr t \<longleftrightarrow> ok i x \<and> key x \<notin> seen s \<and> t = upd x s"
    and seen_upd: "seen (upd x s) = insert (key x) (seen s)"
begin

lemma loop_iff:
  "forE step i xs s = Inr t \<longleftrightarrow>
     (\<forall>j. j < length xs \<longrightarrow> ok (i + j) (xs ! j)) \<and> distinct (map key xs) \<and>
     set (map key xs) \<inter> seen s = {} \<and> t = fold upd xs s"
proof (induction xs arbitrary: i s)
  case Nil
  then show ?case by auto
next
  case (Cons x xs)
  have all: "(\<forall>j. j < length (x # xs) \<longrightarrow> ok (i + j) ((x # xs) ! j)) \<longleftrightarrow>
      ok i x \<and> (\<forall>j. j < length xs \<longrightarrow> ok (Suc i + j) (xs ! j))"
    by (auto simp: nth_Cons split: nat.splits)
  show ?case
    unfolding all by (auto simp: bindE_Inr_iff step_iff Cons.IH seen_upd)
qed

lemma loop_seen: "seen (fold upd xs s) = set (map key xs) \<union> seen s"
  by (induction xs arbitrary: s) (auto simp: seen_upd)

end

text \<open>The same contract for a loop without a uniqueness test.\<close>

locale plain_loop =
  fixes step :: "nat \<Rightarrow> 'x \<Rightarrow> 's \<Rightarrow> 's result"
    and ok :: "nat \<Rightarrow> 'x \<Rightarrow> bool"
    and upd :: "'x \<Rightarrow> 's \<Rightarrow> 's"
  assumes step_iff: "step i x s = Inr t \<longleftrightarrow> ok i x \<and> t = upd x s"
begin

lemma loop_iff:
  "forE step i xs s = Inr t \<longleftrightarrow>
     (\<forall>j. j < length xs \<longrightarrow> ok (i + j) (xs ! j)) \<and> t = fold upd xs s"
proof (induction xs arbitrary: i s)
  case Nil
  then show ?case by auto
next
  case (Cons x xs)
  have all: "(\<forall>j. j < length (x # xs) \<longrightarrow> ok (i + j) ((x # xs) ! j)) \<longleftrightarrow>
      ok i x \<and> (\<forall>j. j < length xs \<longrightarrow> ok (Suc i + j) (xs ! j))"
    by (auto simp: nth_Cons split: nat.splits)
  show ?case
    unfolding all by (auto simp: bindE_Inr_iff step_iff Cons.IH)
qed

end

text \<open>Counting statuses in a dictionary of counters.\<close>

definition bump :: "string \<Rightarrow> (string \<Rightarrow> nat) \<Rightarrow> string \<Rightarrow> nat" where
  "bump k c = c(k := Suc (c k))"

lemma fold_bump: "fold (\<lambda>x. bump (g x)) xs c k = c k + count_list (map g xs) k"
  by (induction xs arbitrary: c) (auto simp: bump_def)

lemma fold_bump_zero: "fold (\<lambda>x. bump (g x)) xs (\<lambda>_. 0) = count_list (map g xs)"
  by (rule ext) (simp add: fold_bump)

text \<open>The counters of a run add up to the number of records, when every status is counted.\<close>

lemma sum_count_list:
  "finite S \<Longrightarrow> set xs \<subseteq> S \<Longrightarrow> sum (count_list xs) S = length xs"
  by (rule sum_count_set)

lemma map_snd_zip_comp: "length xs = length ys \<Longrightarrow> map (\<lambda>x. g (snd x)) (zip xs ys) = map g ys"
  by (induction xs ys rule: list_induct2) auto

end
