(* ===== verification/Sha256.thy ===== *)
theory Sha256
  imports Prelude "HOL-Library.Word"
begin

text \<open>
  \<^verbatim>\<open>hashlib.sha256(content).hexdigest()\<close>, which every script uses to bind a file to the
  digest recorded for it, as an executable function (FIPS 180-4; a word is an
  integer below \<open>2 ^ 32\<close> with the wrap-around written out): padding, the
  message schedule as a sliding window of sixteen words, sixty-four rounds per block, and the
  lowercase hexadecimal digest. The lemmas give the form of a digest (64 lowercase hexadecimal
  digits) and kernel-evaluated digests of the contents that the witnesses use.
  A byte string is a \<open>string\<close>, one character for a byte.
\<close>

unbundle bit_operations_syntax

type_synonym u32 = int \<comment> \<open>a 32-bit word, \<open>0 \<le> x < 2 ^ 32\<close>: every operation reduces its result\<close>

section \<open>Words\<close>

definition add32 :: "u32 \<Rightarrow> u32 \<Rightarrow> u32" where
  "add32 x y = (x + y) mod 4294967296"

definition shr :: "nat \<Rightarrow> u32 \<Rightarrow> u32" where
  "shr n x = x div 2 ^ n"

definition rotr :: "nat \<Rightarrow> u32 \<Rightarrow> u32" where
  "rotr n x = x div 2 ^ n + (x mod 2 ^ n) * 2 ^ (32 - n)"

definition big_sigma0 :: "u32 \<Rightarrow> u32" where
  "big_sigma0 x = rotr 2 x XOR rotr 13 x XOR rotr 22 x"

definition big_sigma1 :: "u32 \<Rightarrow> u32" where
  "big_sigma1 x = rotr 6 x XOR rotr 11 x XOR rotr 25 x"

definition small_sigma0 :: "u32 \<Rightarrow> u32" where
  "small_sigma0 x = rotr 7 x XOR rotr 18 x XOR shr 3 x"

definition small_sigma1 :: "u32 \<Rightarrow> u32" where
  "small_sigma1 x = rotr 17 x XOR rotr 19 x XOR shr 10 x"

definition sha_ch :: "u32 \<Rightarrow> u32 \<Rightarrow> u32 \<Rightarrow> u32" where
  "sha_ch x y z = (x AND y) XOR ((4294967295 - x) AND z)"

definition sha_maj :: "u32 \<Rightarrow> u32 \<Rightarrow> u32 \<Rightarrow> u32" where
  "sha_maj x y z = (x AND y) XOR (x AND z) XOR (y AND z)"

definition round_constants :: "u32 list" where
  "round_constants =
    [1116352408, 1899447441, 3049323471, 3921009573, 961987163, 1508970993, 2453635748, 2870763221,
     3624381080, 310598401, 607225278, 1426881987, 1925078388, 2162078206, 2614888103, 3248222580,
     3835390401, 4022224774, 264347078, 604807628, 770255983, 1249150122, 1555081692, 1996064986,
     2554220882, 2821834349, 2952996808, 3210313671, 3336571891, 3584528711, 113926993, 338241895,
     666307205, 773529912, 1294757372, 1396182291, 1695183700, 1986661051, 2177026350, 2456956037,
     2730485921, 2820302411, 3259730800, 3345764771, 3516065817, 3600352804, 4094571909, 275423344,
     430227734, 506948616, 659060556, 883997877, 958139571, 1322822218, 1537002063, 1747873779,
     1955562222, 2024104815, 2227730452, 2361852424, 2428436474, 2756734187, 3204031479, 3329325298]"

type_synonym registers = "u32 \<times> u32 \<times> u32 \<times> u32 \<times> u32 \<times> u32 \<times> u32 \<times> u32"

definition initial_registers :: registers where
  "initial_registers =
    (1779033703, 3144134277, 1013904242, 2773480762, 1359893119, 2600822924, 528734635, 1541459225)"

section \<open>Padding and blocks\<close>

definition be_word :: "int list \<Rightarrow> u32" where
  "be_word bs = foldl (\<lambda>acc b. 256 * acc + b) 0 bs"

definition be_bytes :: "nat \<Rightarrow> int \<Rightarrow> int list" where
  "be_bytes k n = map (\<lambda>i. n div 256 ^ i mod 256) (rev [0..<k])"

definition sha_pad :: "int list \<Rightarrow> int list" where
  "sha_pad m =
     m @ [128] @ replicate ((119 - length m mod 64) mod 64) 0 @ be_bytes 8 (8 * int (length m))"

fun chunks :: "nat \<Rightarrow> nat \<Rightarrow> 'a list \<Rightarrow> 'a list list" where
  "chunks k 0 xs = []"
| "chunks k (Suc n) xs = take k xs # chunks k n (drop k xs)"

definition blocks :: "int list \<Rightarrow> u32 list list" where
  "blocks m = map (\<lambda>b. map be_word (chunks 4 16 b)) (chunks 64 (length m div 64) m)"

section \<open>Compression\<close>

fun sha_round :: "u32 \<Rightarrow> u32 \<Rightarrow> registers \<Rightarrow> registers" where
  "sha_round k w (a, b, c, d, e, f, g, h) =
     (let t1 = add32 (h + big_sigma1 e + sha_ch e f g) (k + w);
          t2 = add32 (big_sigma0 a) (sha_maj a b c)
      in (add32 t1 t2, a, b, c, add32 d t1, e, f, g))"

fun sha_rounds :: "u32 list \<Rightarrow> u32 list \<Rightarrow> registers \<Rightarrow> registers" where
  "sha_rounds (k # ks) (w # ws) r =
     sha_rounds ks
       (ws @ [add32 (small_sigma1 (ws ! 13) + ws ! 8) (small_sigma0 (ws ! 0) + w)])
       (sha_round k w r)"
| "sha_rounds _ _ r = r"

fun add_registers :: "registers \<Rightarrow> registers \<Rightarrow> registers" where
  "add_registers (a, b, c, d, e, f, g, h) (a', b', c', d', e', f', g', h') =
     (add32 a a', add32 b b', add32 c c', add32 d d',
      add32 e e', add32 f f', add32 g g', add32 h h')"

definition sha_compress :: "registers \<Rightarrow> u32 list \<Rightarrow> registers" where
  "sha_compress r block = add_registers r (sha_rounds round_constants block r)"

section \<open>The digest\<close>

definition hex_digit :: "nat \<Rightarrow> char" where
  "hex_digit n = ''0123456789abcdef'' ! n"

definition hex_word :: "u32 \<Rightarrow> string" where
  "hex_word w = map (\<lambda>i. hex_digit (nat (w div 16 ^ i mod 16))) (rev [0..<8])"

fun hex_registers :: "registers \<Rightarrow> string" where
  "hex_registers (a, b, c, d, e, f, g, h) =
     concat (map hex_word [a, b, c, d, e, f, g, h])"

definition sha256_hex :: "string \<Rightarrow> string" where
  "sha256_hex content =
     hex_registers (foldl sha_compress initial_registers (blocks (sha_pad (map of_char content))))"

section \<open>The form of a digest\<close>

definition hex_chars :: string where
  "hex_chars = ''0123456789abcdef''"

lemma hex_digit_in: "n < 16 \<Longrightarrow> hex_digit n \<in> set hex_chars"
  unfolding hex_digit_def hex_chars_def by (rule nth_mem) simp

lemma nat_mod_16: "nat (x mod 16) < 16" for x :: int
proof -
  have "x mod 16 < 16" by simp
  then show ?thesis by linarith
qed

lemma hex_word_form: "length (hex_word w) = 8 \<and> set (hex_word w) \<subseteq> set hex_chars"
  unfolding hex_word_def by (auto intro: hex_digit_in nat_mod_16)

lemma hex_registers_form:
  "length (hex_registers r) = 64 \<and> set (hex_registers r) \<subseteq> set hex_chars"
  by (cases r rule: hex_registers.cases)
    (auto simp: hex_word_form [THEN conjunct1] dest: subsetD [OF hex_word_form [THEN conjunct2]])

lemma sha256_hex_form:
  "length (sha256_hex x) = 64 \<and> set (sha256_hex x) \<subseteq> set hex_chars"
  unfolding sha256_hex_def by (rule hex_registers_form)

section \<open>Digests used by the witnesses\<close>

lemmas sha_evaluation =
  sha_compress_def round_constants_def initial_registers_def rotr_def shr_def add32_def
  big_sigma0_def big_sigma1_def small_sigma0_def small_sigma1_def sha_ch_def sha_maj_def

definition sample_artifact :: string where
  "sample_artifact = ''measured''"

definition sample_digest :: string where
  "sample_digest = ''6a5cc68c4c3410fedb035486291349f57104fe7592f91c6ba052f983000244f6''"

lemma sample_blocks:
  "blocks (sha_pad (map of_char sample_artifact)) =
     [[1835360627, 1970431332, 2147483648, 0, 0, 0, 0, 0, 0, 0, 0, 0, 0, 0, 0, 64]]"
  unfolding sample_artifact_def by code_simp

lemma sample_compress:
  "sha_compress initial_registers
     [1835360627, 1970431332, 2147483648, 0, 0, 0, 0, 0, 0, 0, 0, 0, 0, 0, 0, 64] =
   (1784465036, 1278480638, 3674428550, 689129973, 1896152693, 2465799275, 2689792387, 148726)"
  by (simp add: sha_evaluation)

lemma sample_hex:
  "hex_registers
     (1784465036, 1278480638, 3674428550, 689129973, 1896152693, 2465799275, 2689792387, 148726) =
   sample_digest"
  unfolding sample_digest_def by code_simp

lemma sha256_sample: "sha256_hex sample_artifact = sample_digest"
  unfolding sha256_hex_def sample_blocks by (simp only: foldl.simps sample_compress sample_hex)

end
