(* ===== verification/PyValue.thy ===== *)
theory PyValue
  imports Prelude
begin

text \<open>
  The dynamic values the scripts read from JSON and TOML, and the part of Python's built-in
  operations on them that the scripts use: type tests, key sets, \<^verbatim>\<open>==\<close>,
  hashing, and the string operations.

  A \<^verbatim>\<open>str\<close> is represented by its UTF-8 encoding, one \<open>char\<close> per byte, and a
  \<^verbatim>\<open>bytes\<close> object by its bytes. Equality, concatenation, splitting at ASCII
  separators, prefix tests and substring tests agree with Python's on code points under this
  encoding; \<open>blank\<close> and \<open>py_lower\<close> treat multi-byte characters explicitly.
\<close>

section \<open>Values\<close>

text \<open>A finite float is \<open>m * 2 ^ e\<close>. \<open>PTime\<close> stands for the date and time values of TOML.\<close>

datatype pyfloat = NaN | Infinite bool | Dyadic int int

datatype pyval =
    PNone
  | PBool bool
  | PInt int
  | PFloat pyfloat
  | PStr string
  | PList "pyval list"
  | PDict "(string \<times> pyval) list"
  | PTime string

fun str_that :: "(string \<Rightarrow> bool) \<Rightarrow> pyval \<Rightarrow> bool" where
  "str_that P (PStr s) = P s"
| "str_that P _ = False"

fun int_that :: "(int \<Rightarrow> bool) \<Rightarrow> pyval \<Rightarrow> bool" where
  "int_that P (PInt n) = P n"
| "int_that P _ = False"

fun is_bool :: "pyval \<Rightarrow> bool" where
  "is_bool (PBool b) = True"
| "is_bool _ = False"

fun is_list :: "pyval \<Rightarrow> bool" where
  "is_list (PList xs) = True"
| "is_list _ = False"

fun is_dict :: "pyval \<Rightarrow> bool" where
  "is_dict (PDict d) = True"
| "is_dict _ = False"

text \<open>
  Readers used behind the corresponding type test; off that test they return a default that no
  step of a model depends on.
\<close>

fun str_of :: "pyval \<Rightarrow> string" where
  "str_of (PStr s) = s"
| "str_of _ = []"

fun int_of :: "pyval \<Rightarrow> int" where
  "int_of (PInt n) = n"
| "int_of _ = 0"

fun list_of :: "pyval \<Rightarrow> pyval list" where
  "list_of (PList xs) = xs"
| "list_of _ = []"

text \<open>
  \<open>field v k\<close> is \<^verbatim>\<open>v.get(k)\<close>, and \<^verbatim>\<open>v[k]\<close> behind the test that the key set
  is the expected one (\<open>has_fields\<close>), where the key is present (\<open>has_fields_lookup\<close>).
\<close>

fun field :: "pyval \<Rightarrow> string \<Rightarrow> pyval" where
  "field (PDict d) k = (case map_of d k of Some x \<Rightarrow> x | None \<Rightarrow> PNone)"
| "field _ k = PNone"

fun has_fields :: "string list \<Rightarrow> pyval \<Rightarrow> bool" where
  "has_fields ks (PDict d) = (set (map fst d) = set ks)"
| "has_fields ks _ = False"

lemma has_fields_lookup:
  assumes "has_fields ks v" and "k \<in> set ks"
  shows "\<exists>d. v = PDict d \<and> map_of d k = Some (field v k)"
proof -
  from assms(1) obtain d where d: "v = PDict d" "set (map fst d) = set ks"
    by (cases v) auto
  with assms(2) have "k \<in> fst ` set d" by simp
  then obtain x where "map_of d k = Some x"
    by (metis map_of_eq_None_iff not_None_eq)
  with d show ?thesis by simp
qed

lemma str_that_iff [simp]: "str_that P v \<longleftrightarrow> (\<exists>s. v = PStr s \<and> P s)"
  by (cases v) auto

lemma int_that_iff [simp]: "int_that P v \<longleftrightarrow> (\<exists>n. v = PInt n \<and> P n)"
  by (cases v) auto

lemma is_list_iff: "is_list v \<longleftrightarrow> (\<exists>xs. v = PList xs)"
  by (cases v) auto

lemma is_dict_iff: "is_dict v \<longleftrightarrow> (\<exists>d. v = PDict d)"
  by (cases v) auto

lemma is_bool_iff: "is_bool v \<longleftrightarrow> (\<exists>b. v = PBool b)"
  by (cases v) auto

section \<open>Equality and hashing\<close>

text \<open>
  Python compares \<^verbatim>\<open>bool\<close>, \<^verbatim>\<open>int\<close> and \<^verbatim>\<open>float\<close> by numeric value
  (\<^verbatim>\<open>True == 1 == 1.0\<close>), lists elementwise and dictionaries by key.
\<close>

fun number :: "pyval \<Rightarrow> pyfloat option" where
  "number (PBool b) = Some (Dyadic (of_bool b) 0)"
| "number (PInt n) = Some (Dyadic n 0)"
| "number (PFloat f) = Some f"
| "number _ = None"

definition scaled :: "int \<Rightarrow> int \<Rightarrow> int \<Rightarrow> int" where
  "scaled k m e = m * 2 ^ nat (e - k)"

fun float_eq :: "pyfloat \<Rightarrow> pyfloat \<Rightarrow> bool" where
  "float_eq (Dyadic m e) (Dyadic m' e') = (scaled (min e e') m e = scaled (min e e') m' e')"
| "float_eq (Infinite b) (Infinite b') = (b = b')"
| "float_eq _ _ = False"

fun float_less :: "pyfloat \<Rightarrow> pyfloat \<Rightarrow> bool" where
  "float_less (Dyadic m e) (Dyadic m' e') = (scaled (min e e') m e < scaled (min e e') m' e')"
| "float_less (Dyadic m e) (Infinite b) = b"
| "float_less (Infinite b) (Dyadic m e) = (\<not> b)"
| "float_less (Infinite b) (Infinite b') = (\<not> b \<and> b')"
| "float_less _ _ = False"

fun py_eq :: "pyval \<Rightarrow> pyval \<Rightarrow> bool" where
  "py_eq (PStr a) (PStr b) = (a = b)"
| "py_eq PNone PNone = True"
| "py_eq (PTime a) (PTime b) = (a = b)"
| "py_eq (PList xs) (PList ys) = list_all2 py_eq xs ys"
| "py_eq (PDict xs) (PDict ys) =
     (set (map fst xs) = set (map fst ys) \<and>
      list_all (\<lambda>(k, v). case map_of ys k of Some w \<Rightarrow> py_eq v w | None \<Rightarrow> False) xs)"
| "py_eq a b =
     (case number a of
        None \<Rightarrow> False
      | Some x \<Rightarrow> (case number b of None \<Rightarrow> False | Some y \<Rightarrow> float_eq x y))"

text \<open>\<^verbatim>\<open>n < v\<close> for an integer \<open>n\<close>: a number, or a \<^verbatim>\<open>TypeError\<close>.\<close>

definition int_less :: "int \<Rightarrow> pyval \<Rightarrow> bool result" where
  "int_less n v =
     (case number v of None \<Rightarrow> Inl TypeError | Some y \<Rightarrow> Inr (float_less (Dyadic n 0) y))"

fun hashable :: "pyval \<Rightarrow> bool" where
  "hashable (PList xs) = False"
| "hashable (PDict d) = False"
| "hashable _ = True"

text \<open>\<^verbatim>\<open>v in {...}\<close> for a set of strings raises on an unhashable \<open>v\<close>.\<close>

definition in_str_set :: "pyval \<Rightarrow> string list \<Rightarrow> bool result" where
  "in_str_set v ss =
     (if \<not> hashable v then Inl TypeError else Inr (str_that (\<lambda>s. s \<in> set ss) v))"

lemma py_eq_str [simp]: "py_eq v (PStr s) \<longleftrightarrow> v = PStr s"
  by (cases v) (auto split: option.splits)

lemma py_eq_str' [simp]: "py_eq (PStr s) v \<longleftrightarrow> v = PStr s"
  by (cases v) (auto split: option.splits)

lemma py_eq_int_int [simp]: "py_eq (PInt m) (PInt n) \<longleftrightarrow> m = n"
  by (simp add: scaled_def)

lemma py_eq_strs:
  "py_eq v (PList (map PStr ss)) \<longleftrightarrow> v = PList (map PStr ss)"
proof (cases v)
  case (PList xs)
  have "list_all2 py_eq xs (map PStr ss) \<longleftrightarrow> xs = map PStr ss"
    by (induction ss arbitrary: xs) (auto simp: list_all2_Cons2)
  with PList show ?thesis by simp
qed (auto split: option.splits)

lemma py_eq_bool_one: "py_eq (PBool True) (PInt 1)"
  by (simp add: scaled_def)

declare py_eq.simps [simp del]

section \<open>Strings\<close>

text \<open>\<^verbatim>\<open>str.strip\<close> is used as a test for text: \<open>blank s\<close> iff \<^verbatim>\<open>not s.strip()\<close>.\<close>

definition space_chars :: "string list" where
  "space_chars =
    map (\<lambda>c. [c]) [CHR 0x09, CHR 0x0A, CHR 0x0B, CHR 0x0C, CHR 0x0D, CHR 0x1C, CHR 0x1D,
      CHR 0x1E, CHR 0x1F, CHR 0x20] @
    [[CHR 0xC2, CHR 0x85], [CHR 0xC2, CHR 0xA0], [CHR 0xE1, CHR 0x9A, CHR 0x80]] @
    map (\<lambda>c. [CHR 0xE2, CHR 0x80, c]) [CHR 0x80, CHR 0x81, CHR 0x82, CHR 0x83, CHR 0x84,
      CHR 0x85, CHR 0x86, CHR 0x87, CHR 0x88, CHR 0x89, CHR 0x8A, CHR 0xA8, CHR 0xA9, CHR 0xAF] @
    [[CHR 0xE2, CHR 0x81, CHR 0x9F], [CHR 0xE3, CHR 0x80, CHR 0x80]]"

fun blank :: "string \<Rightarrow> bool" where
  "blank [] = True"
| "blank [a] = ([a] \<in> set space_chars)"
| "blank [a, b] = (if [a] \<in> set space_chars then blank [b] else [a, b] \<in> set space_chars)"
| "blank (a # b # c # s) =
     (if [a] \<in> set space_chars then blank (b # c # s)
      else if [a, b] \<in> set space_chars then blank (c # s)
      else if [a, b, c] \<in> set space_chars then blank s
      else False)"

text \<open>\<^verbatim>\<open>isinstance(v, str) and v.strip()\<close>\<close>

abbreviation is_text :: "pyval \<Rightarrow> bool" where
  "is_text \<equiv> str_that (\<lambda>s. \<not> blank s)"

lemma blank_first: "s \<noteq> [] \<Longrightarrow> \<not> blank s \<or> (\<exists>w. w \<in> set space_chars \<and> hd w = hd s)"
  by (cases s rule: blank.cases) (auto intro: bexI split: if_splits)

text \<open>ASCII lower case, and \<^verbatim>\<open>str.lower\<close> as far as ASCII prefixes of its result go.\<close>

definition ascii_lower :: "char \<Rightarrow> char" where
  "ascii_lower c =
     (if 65 \<le> (of_char c :: nat) \<and> (of_char c :: nat) \<le> 90 then char_of (of_char c + 32 :: nat) else c)"

text \<open>
  Two non-ASCII characters have an ASCII letter in their lower case: the Kelvin sign and the
  capital I with a dot.
\<close>

fun py_lower :: "string \<Rightarrow> string" where
  "py_lower [] = []"
| "py_lower (a # s) =
     (if a = CHR 0xE2 \<and> take 2 s = [CHR 0x84, CHR 0xAA] then CHR ''k'' # py_lower (drop 2 s)
      else if a = CHR 0xC4 \<and> take 1 s = [CHR 0xB0] then
        CHR ''i'' # CHR 0xCC # CHR 0x87 # py_lower (drop 1 s)
      else ascii_lower a # py_lower s)"

fun starts_with :: "string \<Rightarrow> string \<Rightarrow> bool" where
  "starts_with [] s = True"
| "starts_with (c # p) [] = False"
| "starts_with (c # p) (d # s) = (c = d \<and> starts_with p s)"

lemma starts_with_iff: "starts_with p s \<longleftrightarrow> (\<exists>t. s = p @ t)"
  by (induction p s rule: starts_with.induct) auto

text \<open>\<^verbatim>\<open>needle in haystack\<close>\<close>

fun contains :: "string \<Rightarrow> string \<Rightarrow> bool" where
  "contains n [] = (n = [])"
| "contains n (c # s) = (starts_with n (c # s) \<or> contains n s)"

lemma starts_with_contains: "starts_with n s \<Longrightarrow> contains n s"
  by (cases s; cases n) auto

lemma contains_iff: "contains n s \<longleftrightarrow> (\<exists>a b. s = a @ n @ b)"
proof (induction s)
  case Nil
  show ?case by auto
next
  case (Cons c s)
  show ?case
  proof
    assume "contains n (c # s)"
    then consider "starts_with n (c # s)" | "contains n s" by auto
    then show "\<exists>a b. c # s = a @ n @ b"
    proof cases
      case 1
      then show ?thesis by (metis append_Nil starts_with_iff)
    next
      case 2
      then show ?thesis using Cons by (metis append_Cons)
    qed
  next
    assume "\<exists>a b. c # s = a @ n @ b"
    then obtain a b where ab: "c # s = a @ n @ b" by blast
    show "contains n (c # s)"
    proof (cases a)
      case Nil
      with ab show ?thesis by (intro starts_with_contains) (simp add: starts_with_iff)
    next
      case (Cons x a')
      with ab have "s = a' @ n @ b" by simp
      with Cons.IH show ?thesis by auto
    qed
  qed
qed

text \<open>\<^verbatim>\<open>str.strip()\<close>: blanks are removed at both ends; \<open>n\<close> bounds their number.\<close>

fun strip_front :: "nat \<Rightarrow> string list \<Rightarrow> string \<Rightarrow> string" where
  "strip_front 0 ws s = s"
| "strip_front (Suc n) ws s =
     (case find (\<lambda>x. starts_with x s) ws of
        None \<Rightarrow> s
      | Some x \<Rightarrow> strip_front n ws (drop (length x) s))"

definition py_strip :: "string \<Rightarrow> string" where
  "py_strip s =
     (let front = strip_front (length s) space_chars s
      in rev (strip_front (length front) (map rev space_chars) (rev front)))"

fun show_nat :: "nat \<Rightarrow> string" where
  "show_nat n =
     (if n < 10 then [char_of (48 + n)] else show_nat (n div 10) @ [char_of (48 + n mod 10)])"

declare show_nat.simps [simp del]

text \<open>An f-string location such as \<^verbatim>\<open>gates[3].evidence[0]\<close>.\<close>

definition item :: "string \<Rightarrow> nat \<Rightarrow> string" where
  "item base i = base @ ''['' @ show_nat i @ '']''"

section \<open>Decoding\<close>

definition cont :: "nat \<Rightarrow> bool" where
  "cont b \<longleftrightarrow> 128 \<le> b \<and> b \<le> 191"

text \<open>Well-formed UTF-8 (no overlong forms, no surrogates, at most U+10FFFF).\<close>

fun utf8_codes :: "nat list \<Rightarrow> bool" where
  "utf8_codes [] = True"
| "utf8_codes (a # s) =
     (if a < 128 then utf8_codes s
      else if 194 \<le> a \<and> a \<le> 223 then
        (case s of b # s' \<Rightarrow> cont b \<and> utf8_codes s' | _ \<Rightarrow> False)
      else if 224 \<le> a \<and> a \<le> 239 then
        (case s of b # c # s' \<Rightarrow>
           cont b \<and> cont c \<and> (a = 224 \<longrightarrow> 160 \<le> b) \<and> (a = 237 \<longrightarrow> b \<le> 159) \<and> utf8_codes s'
         | _ \<Rightarrow> False)
      else if 240 \<le> a \<and> a \<le> 244 then
        (case s of b # c # d # s' \<Rightarrow>
           cont b \<and> cont c \<and> cont d \<and> (a = 240 \<longrightarrow> 144 \<le> b) \<and> (a = 244 \<longrightarrow> b \<le> 143) \<and>
           utf8_codes s'
         | _ \<Rightarrow> False)
      else False)"

definition utf8_valid :: "string \<Rightarrow> bool" where
  "utf8_valid s = utf8_codes (map of_char s)"

text \<open>ASCII text is valid.\<close>

lemma utf8_ascii: "list_all (\<lambda>b. b < 128) bs \<Longrightarrow> utf8_codes bs"
  by (induction bs rule: utf8_codes.induct) auto

text \<open>\<^verbatim>\<open>Path.read_text\<close> opens the file with universal newlines.\<close>

fun universal_newlines :: "string \<Rightarrow> string" where
  "universal_newlines [] = []"
| "universal_newlines (a # s) =
     (if a = CHR 0x0D then
        CHR 0x0A # (case s of b # s' \<Rightarrow> if b = CHR 0x0A then universal_newlines s'
                                       else universal_newlines s | [] \<Rightarrow> [])
      else a # universal_newlines s)"

definition decode_text :: "string \<Rightarrow> string result" where
  "decode_text raw =
     (if \<not> utf8_valid raw then Inl UnicodeDecodeError else Inr (universal_newlines raw))"

end
