(* ===== verification/Patterns.thy ===== *)
theory Patterns
  imports PyValue
begin

text \<open>
  The regular expressions of the scripts, as data, and their matcher. \<open>fullmatch r s\<close> is
  Python's \<^verbatim>\<open>re.fullmatch\<close> (where a leading \<^verbatim>\<open>^\<close> and a trailing
  \<^verbatim>\<open>$\<close> have no further effect); it works by derivatives and is proved to decide
  the language of the expression (\<open>fullmatch_iff\<close>). The identifier, digest, revision and
  version patterns are transcribed from the scripts, with closed forms for the ones that only
  bound a length and a character class. \<open>placeholder_evidence\<close> is the word search that the
  ledgers use to refuse placeholder artifacts.
\<close>

section \<open>Regular expressions\<close>

datatype rx = Nothing | Epsilon | Cls string | Seq rx rx | Alt rx rx | Star rx

inductive matches :: "rx \<Rightarrow> string \<Rightarrow> bool" where
  m_eps: "matches Epsilon []"
| m_cls: "c \<in> set cs \<Longrightarrow> matches (Cls cs) [c]"
| m_seq: "matches r s \<Longrightarrow> matches q t \<Longrightarrow> matches (Seq r q) (s @ t)"
| m_altl: "matches r s \<Longrightarrow> matches (Alt r q) s"
| m_altr: "matches q s \<Longrightarrow> matches (Alt r q) s"
| m_star0: "matches (Star r) []"
| m_star: "matches r (c # s) \<Longrightarrow> matches (Star r) t \<Longrightarrow> matches (Star r) (c # s @ t)"

inductive_cases m_nothingE: "matches Nothing s"
inductive_simps matches_eps: "matches Epsilon s"
inductive_simps matches_cls: "matches (Cls cs) s"
inductive_simps matches_seq: "matches (Seq r q) s"
inductive_simps matches_alt: "matches (Alt r q) s"
inductive_cases m_star_ConsE: "matches (Star r) (c # s)"

fun nullable :: "rx \<Rightarrow> bool" where
  "nullable Nothing = False"
| "nullable Epsilon = True"
| "nullable (Cls cs) = False"
| "nullable (Seq r q) = (nullable r \<and> nullable q)"
| "nullable (Alt r q) = (nullable r \<or> nullable q)"
| "nullable (Star r) = True"

fun deriv :: "char \<Rightarrow> rx \<Rightarrow> rx" where
  "deriv c Nothing = Nothing"
| "deriv c Epsilon = Nothing"
| "deriv c (Cls cs) = (if c \<in> set cs then Epsilon else Nothing)"
| "deriv c (Seq r q) =
     (if nullable r then Alt (Seq (deriv c r) q) (deriv c q) else Seq (deriv c r) q)"
| "deriv c (Alt r q) = Alt (deriv c r) (deriv c q)"
| "deriv c (Star r) = Seq (deriv c r) (Star r)"

fun fullmatch :: "rx \<Rightarrow> string \<Rightarrow> bool" where
  "fullmatch r [] = nullable r"
| "fullmatch r (c # s) = fullmatch (deriv c r) s"

lemma nullable_iff: "nullable r \<longleftrightarrow> matches r []"
  by (induction r) (auto simp: matches_eps matches_cls matches_seq matches_alt
      intro: m_star0 elim: m_nothingE)

lemma matches_star_Cons:
  "matches (Star r) (c # s) \<longleftrightarrow> (\<exists>u v. s = u @ v \<and> matches r (c # u) \<and> matches (Star r) v)"
  by (blast elim: m_star_ConsE intro: m_star)

lemma matches_seq_Cons:
  "matches (Seq r q) (c # s) \<longleftrightarrow>
     (matches r [] \<and> matches q (c # s)) \<or> (\<exists>u v. s = u @ v \<and> matches r (c # u) \<and> matches q v)"
  by (auto simp: matches_seq Cons_eq_append_conv)

lemma deriv_iff: "matches (deriv c r) s \<longleftrightarrow> matches r (c # s)"
proof (induction r arbitrary: s)
  case (Star r)
  then show ?case by (auto simp: matches_star_Cons matches_seq)
next
  case (Seq r q)
  have "matches (deriv c (Seq r q)) s \<longleftrightarrow>
      (nullable r \<and> matches q (c # s)) \<or> (\<exists>u v. s = u @ v \<and> matches r (c # u) \<and> matches q v)"
    by (auto simp: matches_alt matches_seq Seq)
  then show ?case by (simp only: matches_seq_Cons nullable_iff)
qed (auto simp: matches_eps matches_cls matches_alt elim: m_nothingE)

theorem fullmatch_iff: "fullmatch r s \<longleftrightarrow> matches r s"
  by (induction s arbitrary: r) (auto simp: nullable_iff deriv_iff)

section \<open>Repetition\<close>

fun rept :: "nat \<Rightarrow> rx \<Rightarrow> rx" where
  "rept 0 r = Epsilon"
| "rept (Suc n) r = Seq r (rept n r)"

fun upto_rx :: "nat \<Rightarrow> rx \<Rightarrow> rx" where
  "upto_rx 0 r = Epsilon"
| "upto_rx (Suc n) r = Alt Epsilon (Seq r (upto_rx n r))"

definition between :: "nat \<Rightarrow> nat \<Rightarrow> rx \<Rightarrow> rx" where
  "between m n r = Seq (rept m r) (upto_rx (n - m) r)"

definition plus_rx :: "rx \<Rightarrow> rx" where
  "plus_rx r = Seq r (Star r)"

definition opt_rx :: "rx \<Rightarrow> rx" where
  "opt_rx r = Alt Epsilon r"

lemma matches_seq_cls:
  "matches (Seq (Cls cs) q) s \<longleftrightarrow> (\<exists>c t. s = c # t \<and> c \<in> set cs \<and> matches q t)"
proof
  assume "matches (Seq (Cls cs) q) s"
  then show "\<exists>c t. s = c # t \<and> c \<in> set cs \<and> matches q t"
    by (auto simp: matches_seq matches_cls)
next
  assume "\<exists>c t. s = c # t \<and> c \<in> set cs \<and> matches q t"
  then obtain c t where s: "s = [c] @ t" and "c \<in> set cs" "matches q t" by auto
  then show "matches (Seq (Cls cs) q) s" unfolding s by (intro m_seq m_cls)
qed

lemma matches_rept_cls:
  "matches (rept n (Cls cs)) s \<longleftrightarrow> length s = n \<and> set s \<subseteq> set cs"
proof (induction n arbitrary: s)
  case 0
  then show ?case by (auto simp: matches_eps)
next
  case (Suc n)
  then show ?case by (cases s) (auto simp: matches_seq_cls)
qed

lemma matches_upto_cls:
  "matches (upto_rx n (Cls cs)) s \<longleftrightarrow> length s \<le> n \<and> set s \<subseteq> set cs"
proof (induction n arbitrary: s)
  case 0
  then show ?case by (auto simp: matches_eps)
next
  case (Suc n)
  then show ?case by (cases s) (auto simp: matches_seq_cls matches_alt matches_eps)
qed

lemma matches_between_cls:
  assumes "m \<le> n"
  shows "matches (between m n (Cls cs)) s \<longleftrightarrow> m \<le> length s \<and> length s \<le> n \<and> set s \<subseteq> set cs"
proof
  assume "matches (between m n (Cls cs)) s"
  then show "m \<le> length s \<and> length s \<le> n \<and> set s \<subseteq> set cs"
    using assms by (auto simp: between_def matches_seq matches_rept_cls matches_upto_cls)
next
  assume s: "m \<le> length s \<and> length s \<le> n \<and> set s \<subseteq> set cs"
  have "matches (rept m (Cls cs)) (take m s)"
    using s by (auto simp: matches_rept_cls dest: in_set_takeD)
  moreover have "matches (upto_rx (n - m) (Cls cs)) (drop m s)"
    using s by (auto simp: matches_upto_cls dest: in_set_dropD)
  ultimately have "matches (between m n (Cls cs)) (take m s @ drop m s)"
    unfolding between_def by (rule m_seq)
  then show "matches (between m n (Cls cs)) s" by simp
qed

section \<open>The patterns of the scripts\<close>

definition digits :: string where "digits = ''0123456789''"
definition lower_hex :: string where "lower_hex = ''0123456789abcdef''"
definition lower_alnum :: string where "lower_alnum = ''abcdefghijklmnopqrstuvwxyz0123456789''"

definition SHA256_RE :: rx where
  "SHA256_RE = rept 64 (Cls lower_hex)"

definition REVISION_RE :: rx where
  "REVISION_RE = between 40 64 (Cls lower_hex)"

definition ID_RE :: rx where
  "ID_RE = Seq (plus_rx (Cls lower_alnum)) (Star (Seq (Cls ''-'') (plus_rx (Cls lower_alnum))))"

definition VERSION_RE :: rx where
  "VERSION_RE =
     Seq (plus_rx (Cls digits)) (Seq (Cls ''.'') (Seq (plus_rx (Cls digits)) (Seq (Cls ''.'')
       (Seq (plus_rx (Cls digits))
         (opt_rx (Seq (Cls ''-'')
           (plus_rx (Cls (''0123456789ABCDEFGHIJKLMNOPQRSTUVWXYZ'' @
             ''abcdefghijklmnopqrstuvwxyz.-'')))))))))"

lemma sha256_re_iff:
  "fullmatch SHA256_RE s \<longleftrightarrow> length s = 64 \<and> set s \<subseteq> set lower_hex"
  by (simp add: SHA256_RE_def fullmatch_iff matches_rept_cls)

lemma revision_re_iff:
  "fullmatch REVISION_RE s \<longleftrightarrow> 40 \<le> length s \<and> length s \<le> 64 \<and> set s \<subseteq> set lower_hex"
  by (simp add: REVISION_RE_def fullmatch_iff matches_between_cls)

text \<open>\<^verbatim>\<open>len(set(value)) == 1\<close>\<close>

definition is_placeholder :: "string \<Rightarrow> bool" where
  "is_placeholder s \<longleftrightarrow> card (set s) = 1"

lemma is_placeholder_iff: "is_placeholder s \<longleftrightarrow> s \<noteq> [] \<and> (\<forall>c \<in> set s. c = hd s)"
proof
  assume "is_placeholder s"
  then obtain x where x: "set s = {x}"
    unfolding is_placeholder_def using card_1_singletonE by blast
  then show "s \<noteq> [] \<and> (\<forall>c \<in> set s. c = hd s)"
    by (metis empty_not_insert list.set(1) list.set_sel(1) singletonD)
next
  assume s: "s \<noteq> [] \<and> (\<forall>c \<in> set s. c = hd s)"
  then have "set s = {hd s}" by auto
  then show "is_placeholder s" by (simp add: is_placeholder_def)
qed

section \<open>Placeholder evidence\<close>

text \<open>
  \<^verbatim>\<open>PLACEHOLDER_EVIDENCE_RE.search(content)\<close>: one of the words between word
  boundaries, letter case ignored (on bytes, so for ASCII letters).
\<close>

definition word_char :: "char \<Rightarrow> bool" where
  "word_char c \<longleftrightarrow> ascii_lower c \<in> set (''_'' @ lower_alnum)"

definition placeholder_words :: "string list" where
  "placeholder_words =
     [''mock'', ''placeholder'', ''synthetic'', ''sample'', ''example only'', ''example-only'']"

definition word_at :: "string \<Rightarrow> string \<Rightarrow> bool" where
  "word_at w s \<longleftrightarrow>
     starts_with w (map ascii_lower s) \<and>
     (case drop (length w) s of [] \<Rightarrow> True | c # _ \<Rightarrow> \<not> word_char c)"

fun word_search :: "bool \<Rightarrow> string \<Rightarrow> bool" where
  "word_search after_word [] = False"
| "word_search after_word (c # s) =
     ((\<not> after_word \<and> list_ex (\<lambda>w. word_at w (c # s)) placeholder_words) \<or>
      word_search (word_char c) s)"

definition placeholder_evidence :: "string \<Rightarrow> bool" where
  "placeholder_evidence content = word_search False content"

text \<open>The names that mark an artifact path as a placeholder.\<close>

definition placeholder_prefixes :: "string list" where
  "placeholder_prefixes = [''mock'', ''placeholder'', ''synthetic'', ''sample'']"

definition placeholder_part :: "string \<Rightarrow> bool" where
  "placeholder_part p \<longleftrightarrow> list_ex (\<lambda>w. starts_with w (py_lower p)) placeholder_prefixes"

end
