(* ===== verification/Paths.thy ===== *)
theory Paths
  imports Patterns
begin

text \<open>
  \<^verbatim>\<open>pathlib.PurePosixPath\<close> as the scripts use it (parsing, \<^verbatim>\<open>parts\<close>,
  \<^verbatim>\<open>is_absolute\<close>, joining with \<^verbatim>\<open>/\<close>, \<^verbatim>\<open>relative_to\<close>,
  \<^verbatim>\<open>name\<close>), and the path guard \<^verbatim>\<open>safe_relative\<close>, which five scripts
  define in two forms. The locale \<open>path_guard\<close> states what a guard promises to the code behind
  it; both forms are interpreted, and they turn out to accept the same strings.
\<close>

section \<open>Pure paths\<close>

fun split_on :: "char \<Rightarrow> string \<Rightarrow> string list" where
  "split_on sep [] = [[]]"
| "split_on sep (c # s) =
     (if c = sep then [] # split_on sep s
      else case split_on sep s of [] \<Rightarrow> [[c]] | p # ps \<Rightarrow> (c # p) # ps)"

record pure_path =
  anchor :: string
  tail :: "string list"

definition Path :: "string \<Rightarrow> pure_path" where
  "Path s =
     \<lparr> anchor =
         (if starts_with ''//'' s \<and> \<not> starts_with ''///'' s then ''//''
          else if starts_with ''/'' s then ''/'' else []),
       tail = filter (\<lambda>p. p \<noteq> [] \<and> p \<noteq> ''.'') (split_on CHR ''/'' s) \<rparr>"

definition path_parts :: "pure_path \<Rightarrow> string list" where
  "path_parts p = (if anchor p = [] then tail p else anchor p # tail p)"

definition is_absolute :: "pure_path \<Rightarrow> bool" where
  "is_absolute p \<longleftrightarrow> anchor p \<noteq> []"

definition join :: "pure_path \<Rightarrow> string \<Rightarrow> pure_path" where
  "join p s = (if is_absolute (Path s) then Path s else p\<lparr>tail := tail p @ tail (Path s)\<rparr>)"

fun strip_parts :: "string list \<Rightarrow> string list \<Rightarrow> string list option" where
  "strip_parts [] xs = Some xs"
| "strip_parts (p # ps) [] = None"
| "strip_parts (p # ps) (x # xs) = (if p = x then strip_parts ps xs else None)"

text \<open>\<^verbatim>\<open>None\<close> is the \<^verbatim>\<open>ValueError\<close> of a path outside \<open>base\<close>.\<close>

definition relative_to :: "pure_path \<Rightarrow> pure_path \<Rightarrow> string list option" where
  "relative_to p base = (if anchor p = anchor base then strip_parts (tail base) (tail p) else None)"

definition path_name :: "pure_path \<Rightarrow> string" where
  "path_name p = (if tail p = [] then [] else last (tail p))"

lemma strip_parts_iff: "strip_parts ps xs = Some ys \<longleftrightarrow> xs = ps @ ys"
  by (induction ps xs rule: strip_parts.induct) auto

lemma relative_to_iff:
  "relative_to p base = Some ys \<longleftrightarrow> anchor p = anchor base \<and> tail p = tail base @ ys"
  by (simp add: relative_to_def strip_parts_iff)

lemma tail_Path_clean: "p \<in> set (tail (Path s)) \<Longrightarrow> p \<noteq> [] \<and> p \<noteq> ''.''"
  by (auto simp: Path_def)

lemma split_on_no_sep: "p \<in> set (split_on sep s) \<Longrightarrow> sep \<notin> set p"
  by (induction sep s arbitrary: p rule: split_on.induct)
    (auto split: if_splits list.splits)

lemma split_on_whole: "sep \<notin> set p \<Longrightarrow> split_on sep p = [p]"
  by (induction p) auto

lemma Path_part:
  assumes "p \<in> set (tail (Path s))"
  shows "Path p = \<lparr>anchor = [], tail = [p]\<rparr>"
proof -
  have "CHR ''/'' \<notin> set p"
    using assms split_on_no_sep [of p "CHR ''/''" s] by (simp add: Path_def)
  moreover have "p \<noteq> []" "p \<noteq> ''.''"
    using tail_Path_clean [OF assms] by auto
  ultimately show ?thesis
    by (cases p) (auto simp: Path_def split_on_whole simp del: split_on.simps)
qed

lemma join_relative:
  "\<not> is_absolute (Path s) \<Longrightarrow> join p s = p\<lparr>tail := tail p @ tail (Path s)\<rparr>"
  by (simp add: join_def)

section \<open>The guards\<close>

text \<open>The form of the readiness, control-matrix and installer-recovery scripts.\<close>

definition safe_relative :: "string \<Rightarrow> bool" where
  "safe_relative value \<longleftrightarrow>
     value \<noteq> [] \<and> \<not> is_absolute (Path value) \<and> ''..'' \<notin> set (path_parts (Path value))"

text \<open>The form of the release-channel and threat-model scripts.\<close>

definition strict_safe_relative :: "string \<Rightarrow> bool" where
  "strict_safe_relative value \<longleftrightarrow>
     value \<noteq> [] \<and> \<not> is_absolute (Path value) \<and> ''..'' \<notin> set (path_parts (Path value)) \<and>
     list_all (\<lambda>part. part \<noteq> [] \<and> part \<noteq> ''.'') (path_parts (Path value))"

text \<open>
  What the code behind a guard relies on: the joined path stays below the base it is joined to,
  component by component, and climbs nowhere.
\<close>

locale path_guard =
  fixes safe :: "string \<Rightarrow> bool"
  assumes guard_relative: "safe s \<Longrightarrow> \<not> is_absolute (Path s)"
    and guard_no_climb: "safe s \<Longrightarrow> ''..'' \<notin> set (tail (Path s))"
begin

lemma join_tail: "safe s \<Longrightarrow> tail (join p s) = tail p @ tail (Path s)"
  by (simp add: join_relative guard_relative)

lemma join_anchor: "safe s \<Longrightarrow> anchor (join p s) = anchor p"
  by (simp add: join_relative guard_relative)

lemma join_below: "safe s \<Longrightarrow> relative_to (join p s) p = Some (tail (Path s))"
  by (simp add: relative_to_iff join_tail join_anchor)

lemma below_iff:
  assumes "safe s" and "safe b"
  shows "(\<exists>ys. relative_to (join p s) (join p b) = Some ys) \<longleftrightarrow>
     (\<exists>ys. tail (Path s) = tail (Path b) @ ys)"
  using assms by (simp add: relative_to_iff join_tail join_anchor)

end

interpretation plain: path_guard safe_relative
  by unfold_locales (auto simp: safe_relative_def path_parts_def is_absolute_def)

interpretation strict: path_guard strict_safe_relative
  by unfold_locales (auto simp: strict_safe_relative_def path_parts_def is_absolute_def)

text \<open>
  The two forms of the path guard that the scripts define accept the same strings: the extra
  test of the stricter form is already guaranteed by the way paths are parsed.
\<close>

theorem safe_relative_forms_agree: "strict_safe_relative value = safe_relative value"
proof -
  have "list_all (\<lambda>part. part \<noteq> [] \<and> part \<noteq> ''.'') (path_parts (Path value))"
    if "\<not> is_absolute (Path value)"
    using that tail_Path_clean [of _ "value"]
    by (auto simp: path_parts_def is_absolute_def list_all_iff)
  then show ?thesis by (auto simp: strict_safe_relative_def safe_relative_def)
qed

end
