(* ===== verification/FileSystem.thy ===== *)
theory FileSystem
  imports Paths
begin

text \<open>
  The file tree below the repository root, with symbolic links, and the file operations the
  validators use: \<^verbatim>\<open>Path.is_symlink\<close>, \<^verbatim>\<open>Path.is_file\<close>,
  \<^verbatim>\<open>Path.read_bytes\<close> and \<^verbatim>\<open>Path.read_text\<close>. A tree maps the
  canonical position of a node (its components from \<^verbatim>\<open>/\<close>) to the node; paths are
  resolved as the kernel does, following at most \<open>max_links\<close> links. The closing lemmas say when
  a path denotes the node at its own position (no link on the way).
\<close>

datatype node =
    Regular string bool  \<comment> \<open>content, and whether the reader may open it\<close>
  | Directory
  | Link string
  | Special

type_synonym fs = "string list \<Rightarrow> node option"

definition node_at :: "fs \<Rightarrow> string list \<Rightarrow> node option" where
  "node_at fs q = (if q = [] then Some Directory else fs q)"

definition max_links :: nat where
  "max_links = 40"

text \<open>
  \<open>walk fs follow n cur cs\<close> resolves the components \<open>cs\<close> from the directory at position
  \<open>cur\<close>, with \<open>n\<close> links left; a link in last place is followed iff \<open>follow\<close>.
\<close>

fun walk :: "fs \<Rightarrow> bool \<Rightarrow> nat \<Rightarrow> string list \<Rightarrow> string list \<Rightarrow> string list option" where
  "walk fs follow n cur [] = Some cur"
| "walk fs follow n cur (c # cs) =
     (if c = ''..'' then walk fs follow n (butlast cur) cs
      else case fs (cur @ [c]) of
        None \<Rightarrow> None
      | Some Directory \<Rightarrow> walk fs follow n (cur @ [c]) cs
      | Some (Link t) \<Rightarrow>
          (if cs = [] \<and> \<not> follow then Some (cur @ [c])
           else (case n of
               0 \<Rightarrow> None
             | Suc m \<Rightarrow>
                 (if is_absolute (Path t) then walk fs follow m [] (tail (Path t) @ cs)
                  else walk fs follow m cur (tail (Path t) @ cs))))
      | Some _ \<Rightarrow> (if cs = [] then Some (cur @ [c]) else None))"

definition lstat :: "fs \<Rightarrow> pure_path \<Rightarrow> node option" where
  "lstat fs p = Option.bind (walk fs False max_links [] (tail p)) (node_at fs)"

definition stat :: "fs \<Rightarrow> pure_path \<Rightarrow> node option" where
  "stat fs p = Option.bind (walk fs True max_links [] (tail p)) (node_at fs)"

definition is_symlink :: "fs \<Rightarrow> pure_path \<Rightarrow> bool" where
  "is_symlink fs p = (case lstat fs p of Some (Link t) \<Rightarrow> True | _ \<Rightarrow> False)"

definition is_file :: "fs \<Rightarrow> pure_path \<Rightarrow> bool" where
  "is_file fs p = (case stat fs p of Some (Regular c r) \<Rightarrow> True | _ \<Rightarrow> False)"

definition read_bytes :: "fs \<Rightarrow> pure_path \<Rightarrow> string result" where
  "read_bytes fs p = (case stat fs p of Some (Regular c True) \<Rightarrow> Inr c | _ \<Rightarrow> Inl OSError)"

definition read_text :: "fs \<Rightarrow> pure_path \<Rightarrow> string result" where
  "read_text fs p = bindE (read_bytes fs p) decode_text"

text \<open>The guard before most reads: \<^verbatim>\<open>path.is_symlink() or not path.is_file()\<close>.\<close>

definition not_regular :: "fs \<Rightarrow> pure_path \<Rightarrow> bool" where
  "not_regular fs p \<longleftrightarrow> is_symlink fs p \<or> \<not> is_file fs p"

definition abs_path :: "string list \<Rightarrow> pure_path" where
  "abs_path r = \<lparr>anchor = ''/'', tail = r\<rparr>"

text \<open>Joining a name, which is one component.\<close>

lemma Path_name:
  assumes "CHR ''/'' \<notin> set s" and "s \<noteq> []" and "s \<noteq> ''.''"
  shows "Path s = \<lparr>anchor = [], tail = [s]\<rparr>"
proof -
  have "split_on CHR ''/'' s = [s]" by (rule split_on_whole [OF assms(1)])
  moreover have "\<not> starts_with ''/'' s"
    using assms(1) by (auto simp: starts_with_iff)
  moreover from this have "\<not> starts_with ''//'' s" by (auto simp: starts_with_iff)
  ultimately show ?thesis using assms(2,3) by (simp add: Path_def)
qed

lemma join_name:
  assumes "CHR ''/'' \<notin> set s" and "s \<noteq> []" and "s \<noteq> ''.''"
  shows "join (abs_path r) s = abs_path (r @ [s])"
  using Path_name [OF assms] by (simp add: join_def is_absolute_def abs_path_def)

lemma read_bytes_iff:
  "read_bytes fs p = Inr c \<longleftrightarrow> stat fs p = Some (Regular c True)"
  by (auto simp: read_bytes_def split: option.splits node.splits bool.splits)

lemma read_bytes_Inl: "read_bytes fs p = Inl e \<Longrightarrow> e = OSError"
  by (auto simp: read_bytes_def split: option.splits node.splits bool.splits)

lemma read_bytes_is_file: "read_bytes fs p = Inr c \<Longrightarrow> is_file fs p"
  by (simp add: read_bytes_iff is_file_def)

text \<open>A tree in which the reader may open every regular file.\<close>

definition readable_tree :: "fs \<Rightarrow> bool" where
  "readable_tree fs \<longleftrightarrow> (\<forall>q c. fs q \<noteq> Some (Regular c False))"

lemma read_bytes_regular:
  assumes "readable_tree fs" and "is_file fs p"
  shows "\<exists>c. read_bytes fs p = Inr c"
proof -
  from assms(2) obtain c r where st: "stat fs p = Some (Regular c r)"
    by (auto simp: is_file_def split: option.splits node.splits)
  then obtain q where "node_at fs q = Some (Regular c r)"
    by (auto simp: stat_def bind_eq_Some_conv)
  then have "fs q = Some (Regular c r)"
    by (auto simp: node_at_def split: if_splits)
  with assms(1) have r by (cases r) (auto simp: readable_tree_def)
  with st show ?thesis by (auto simp: read_bytes_def)
qed

lemma read_bytes_safe [safe_intros]:
  "readable_tree fs \<Longrightarrow> \<not> not_regular fs p \<Longrightarrow> crash_free (read_bytes fs p)"
  by (auto simp: not_regular_def dest: read_bytes_regular)

section \<open>Paths without links\<close>

text \<open>Every proper position on the way to \<open>r\<close>, and \<open>r\<close> itself, is a directory.\<close>

definition plain_dirs :: "fs \<Rightarrow> string list \<Rightarrow> bool" where
  "plain_dirs fs r \<longleftrightarrow>
     ''..'' \<notin> set r \<and> (\<forall>k. 0 < k \<and> k \<le> length r \<longrightarrow> fs (take k r) = Some Directory)"

lemma plain_dirs_Nil [simp]: "plain_dirs fs []"
  by (simp add: plain_dirs_def)

lemma plain_dirs_snoc:
  assumes "plain_dirs fs r" and "fs (r @ [c]) = Some Directory" and "c \<noteq> ''..''"
  shows "plain_dirs fs (r @ [c])"
  using assms by (auto simp: plain_dirs_def le_Suc_eq)

lemma plain_dirs_prefix: "plain_dirs fs (r @ s) \<Longrightarrow> plain_dirs fs r"
  unfolding plain_dirs_def by (auto dest: spec [of _ "_ :: nat"])

lemma walk_plain_dirs:
  "plain_dirs fs (r @ s) \<Longrightarrow> walk fs follow n r (s @ cs) = walk fs follow n (r @ s) cs"
proof (induction s arbitrary: r)
  case Nil
  then show ?case by simp
next
  case (Cons c s)
  have "plain_dirs fs (r @ [c])"
    using plain_dirs_prefix [of fs "r @ [c]" s] Cons.prems by simp
  then have c: "c \<noteq> ''..''" and dir: "fs (r @ [c]) = Some Directory"
    by (auto simp: plain_dirs_def dest: spec [of _ "Suc (length r)"])
  have "walk fs follow n (r @ [c]) (s @ cs) = walk fs follow n ((r @ [c]) @ s) cs"
    by (rule Cons.IH) (use Cons.prems in simp)
  with c dir show ?case by simp
qed

lemma is_symlink_below:
  assumes "plain_dirs fs r" and "c \<noteq> ''..''"
  shows "is_symlink fs (abs_path (r @ [c])) \<longleftrightarrow> (\<exists>t. fs (r @ [c]) = Some (Link t))"
proof -
  have "walk fs False max_links [] (r @ [c]) = walk fs False max_links r [c]"
    using walk_plain_dirs [of fs "[]" r] assms(1) by simp
  with assms(2) show ?thesis
    by (auto simp: is_symlink_def lstat_def abs_path_def node_at_def split: option.splits node.splits)
qed

text \<open>
  The walk of \<^verbatim>\<open>retained_file\<close> and \<^verbatim>\<open>require_regular_evidence\<close>: every
  prefix of the path below the root is tested for being a link.
\<close>

fun traverses_symlink :: "fs \<Rightarrow> pure_path \<Rightarrow> string list \<Rightarrow> bool" where
  "traverses_symlink fs current [] = False"
| "traverses_symlink fs current (part # parts) =
     (is_symlink fs (join current part) \<or> traverses_symlink fs (join current part) parts)"

lemma join_part:
  "p \<in> set (tail (Path s)) \<Longrightarrow> join (abs_path r) p = abs_path (r @ [p])"
  by (simp add: join_def Path_part is_absolute_def abs_path_def)

text \<open>
  A path that passes the prefix test and resolves at all resolves to its own position: what is
  then read is the node stored there, not one a link points to.
\<close>

lemma walk_no_links:
  assumes "plain_dirs fs r" and "''..'' \<notin> set cs" and "set cs \<subseteq> set (tail (Path s))"
    and "\<not> traverses_symlink fs (abs_path r) cs" and "walk fs True n r cs = Some q"
  shows "q = r @ cs"
  using assms
proof (induction cs arbitrary: r)
  case Nil
  then show ?case by simp
next
  case (Cons c cs)
  from Cons.prems have c: "c \<noteq> ''..''" and step: "join (abs_path r) c = abs_path (r @ [c])"
    by (auto simp: join_part)
  from Cons.prems(4) step have nolink: "\<not> is_symlink fs (abs_path (r @ [c]))"
    and rest: "\<not> traverses_symlink fs (abs_path (r @ [c])) cs" by auto
  from nolink have nl: "\<And>t. fs (r @ [c]) \<noteq> Some (Link t)"
    using is_symlink_below [OF Cons.prems(1) c] by blast
  show ?case
  proof (cases "cs = []")
    case True
    with Cons.prems(5) c nl show ?thesis by (auto split: option.splits node.splits)
  next
    case False
    with Cons.prems(5) c nl have dir: "fs (r @ [c]) = Some Directory"
      and w: "walk fs True n (r @ [c]) cs = Some q"
      by (auto split: option.splits node.splits)
    have "q = (r @ [c]) @ cs"
      by (rule Cons.IH [OF plain_dirs_snoc [OF Cons.prems(1) dir c] _ _ rest w])
        (use Cons.prems in auto)
    then show ?thesis by simp
  qed
qed

lemma stat_no_links:
  assumes root: "plain_dirs fs r"
    and cs: "''..'' \<notin> set cs" "set cs \<subseteq> set (tail (Path s))"
    and links: "\<not> traverses_symlink fs (abs_path r) cs"
    and stat: "stat fs (abs_path (r @ cs)) = Some nd"
  shows "node_at fs (r @ cs) = Some nd"
proof -
  have "walk fs True max_links [] (r @ cs) = walk fs True max_links r cs"
    using walk_plain_dirs [of fs "[]" r] root by simp
  with stat obtain q where "walk fs True max_links r cs = Some q" "node_at fs q = Some nd"
    by (auto simp: stat_def abs_path_def bind_eq_Some_conv)
  with walk_no_links [OF root cs links] show ?thesis by simp
qed

end
