(* ===== verification/Timestamps.thy ===== *)
theory Timestamps
  imports Patterns
begin

text \<open>
  The timestamps of the ledgers: \<^verbatim>\<open>datetime.fromisoformat(value[:-1] + "+00:00")\<close>
  for a string that ends in \<^verbatim>\<open>Z\<close>, as CPython 3.12 (the interpreter of the project's
  workflow runners) parses it, and the comparison of the results. The parser reads the UTF-8
  bytes of the string, accepts every ISO 8601 form that \<^verbatim>\<open>fromisoformat\<close> accepts
  (calendar and week dates, with and without separators, fractions, offsets), and yields
  \<open>None\<close> for its \<^verbatim>\<open>ValueError\<close>. A result is aware (it carries an offset) or naive;
  both are microseconds since 0001-01-01, an aware one in UTC. Comparing an aware with a naive
  one is Python's \<^verbatim>\<open>TypeError\<close>.
\<close>

datatype timestamp = Naive int | Aware int

definition is_digit :: "char \<Rightarrow> bool" where
  "is_digit c \<longleftrightarrow> c \<in> set digits"

fun parse_digits :: "nat \<Rightarrow> int \<Rightarrow> string \<Rightarrow> (int \<times> string) option" where
  "parse_digits 0 v s = Some (v, s)"
| "parse_digits (Suc n) v [] = None"
| "parse_digits (Suc n) v (c # s) =
     (if is_digit c then parse_digits n (10 * v + (of_char c - 48)) s else None)"

section \<open>Times\<close>

definition fraction :: "int list \<Rightarrow> string \<Rightarrow> (int list \<times> int \<times> string) option" where
  "fraction vals q =
     (let n = min 6 (length q) in
      case parse_digits n 0 q of
        None \<Rightarrow> None
      | Some (v, rest) \<Rightarrow> Some (vals, v * 10 ^ (6 - n), dropWhile is_digit rest))"

text \<open>
  Hours, minutes, seconds and fraction: \<open>k\<close> components may still follow the present one. The
  last part of the result is the unparsed rest.
\<close>

fun hh_mm_ss_ff :: "nat \<Rightarrow> bool \<Rightarrow> int list \<Rightarrow> string \<Rightarrow> (int list \<times> int \<times> string) option" where
  "hh_mm_ss_ff k has_sep vals s =
     (case parse_digits 2 0 s of
        None \<Rightarrow> None
      | Some (v, rest) \<Rightarrow>
          (case rest of
             [] \<Rightarrow> Some (vals @ [v], 0, [])
           | c # q \<Rightarrow>
               (let sep = (if vals = [] then c = CHR '':'' else has_sep) in
                if q = [] then Some (vals @ [v], 0, rest)
                else if sep \<and> c = CHR '':'' then
                  (case k of 0 \<Rightarrow> fraction (vals @ [v]) q
                   | Suc k' \<Rightarrow> hh_mm_ss_ff k' sep (vals @ [v]) q)
                else if c = CHR ''.'' \<or> c = CHR '','' then fraction (vals @ [v]) q
                else if \<not> sep then
                  (case k of 0 \<Rightarrow> fraction (vals @ [v]) rest
                   | Suc k' \<Rightarrow> hh_mm_ss_ff k' sep (vals @ [v]) rest)
                else None)))"

declare hh_mm_ss_ff.simps [simp del]

definition nth0 :: "int list \<Rightarrow> nat \<Rightarrow> int" where
  "nth0 vs i = (if i < length vs then vs ! i else 0)"

definition zone_start :: "char \<Rightarrow> bool" where
  "zone_start c \<longleftrightarrow> c = CHR ''+'' \<or> c = CHR ''-'' \<or> c = CHR ''Z''"

text \<open>Time of day in components, microseconds, and the offset in microseconds, if any.\<close>

definition iso_time :: "string \<Rightarrow> (int list \<times> int \<times> int option) option" where
  "iso_time s =
     (case hh_mm_ss_ff 2 True [] (takeWhile (\<lambda>c. \<not> zone_start c) s) of
        None \<Rightarrow> None
      | Some (vals, us, rest) \<Rightarrow>
          (case dropWhile (\<lambda>c. \<not> zone_start c) s of
             [] \<Rightarrow> (if rest \<noteq> [] then None else Some (vals, us, None))
           | c # z \<Rightarrow>
               (if c = CHR ''Z'' then (if z \<noteq> [] then None else Some (vals, us, Some 0))
                else case hh_mm_ss_ff 2 True [] z of
                  None \<Rightarrow> None
                | Some (zv, zu, zrest) \<Rightarrow>
                    (if zrest \<noteq> [] then None
                     else
                       let off = nth0 zv 0 * 3600 + nth0 zv 1 * 60 + nth0 zv 2;
                           sgn = (if c = CHR ''-'' then -1 else 1)
                       in Some (vals, us, Some (if off = 0 then 0 else sgn * (off * 1000000 + zu)))))))"

section \<open>Dates\<close>

definition leap_year :: "int \<Rightarrow> bool" where
  "leap_year y \<longleftrightarrow> y mod 4 = 0 \<and> (y mod 100 \<noteq> 0 \<or> y mod 400 = 0)"

definition days_in_month :: "int \<Rightarrow> int \<Rightarrow> int" where
  "days_in_month y m =
     (if m = 2 then (if leap_year y then 29 else 28)
      else if m \<in> {4, 6, 9, 11} then 30 else 31)"

definition days_before_month :: "int \<Rightarrow> int \<Rightarrow> int" where
  "days_before_month y m =
     [0, 0, 31, 59, 90, 120, 151, 181, 212, 243, 273, 304, 334] ! nat m +
     (if 2 < m \<and> leap_year y then 1 else 0)"

definition ymd_ordinal :: "int \<Rightarrow> int \<Rightarrow> int \<Rightarrow> int" where
  "ymd_ordinal y m d =
     (let p = y - 1 in p * 365 + p div 4 - p div 100 + p div 400) + days_before_month y m + d"

definition valid_date :: "int \<Rightarrow> int \<Rightarrow> int \<Rightarrow> bool" where
  "valid_date y m d \<longleftrightarrow>
     1 \<le> y \<and> y \<le> 9999 \<and> 1 \<le> m \<and> m \<le> 12 \<and> 1 \<le> d \<and> d \<le> days_in_month y m"

definition week_one_monday :: "int \<Rightarrow> int" where
  "week_one_monday y =
     (let first = ymd_ordinal y 1 1; weekday = (first + 6) mod 7; monday = first - weekday
      in if weekday > 3 then monday + 7 else monday)"

definition week_ordinal :: "int \<Rightarrow> int \<Rightarrow> int \<Rightarrow> int option" where
  "week_ordinal y w d =
     (let first = ymd_ordinal y 1 1 mod 7;
          long_year = (first = 4 \<or> (first = 3 \<and> leap_year y));
          ord = week_one_monday y + (w - 1) * 7 + d - 1
      in if 1 \<le> y \<and> y \<le> 9999 \<and> (1 \<le> w \<and> w \<le> 52 \<or> w = 53 \<and> long_year) \<and> 1 \<le> d \<and> d \<le> 7 \<and>
            1 \<le> ord \<and> ord \<le> 3652059
         then Some ord else None)"

definition drop_sep :: "bool \<Rightarrow> string \<Rightarrow> string option" where
  "drop_sep sep s =
     (if \<not> sep then Some s
      else case s of [] \<Rightarrow> None | c # r \<Rightarrow> (if c = CHR ''-'' then Some r else None))"

definition iso_week_date :: "int \<Rightarrow> bool \<Rightarrow> string \<Rightarrow> int option" where
  "iso_week_date y sep s =
     (case parse_digits 2 0 s of
        None \<Rightarrow> None
      | Some (w, rest) \<Rightarrow>
          (if rest = [] then week_ordinal y w 1
           else case drop_sep sep rest of
             None \<Rightarrow> None
           | Some r \<Rightarrow>
               (case parse_digits 1 0 r of
                  None \<Rightarrow> None
                | Some (d, r') \<Rightarrow> (if r' \<noteq> [] then None else week_ordinal y w d))))"

definition iso_calendar_date :: "int \<Rightarrow> bool \<Rightarrow> string \<Rightarrow> int option" where
  "iso_calendar_date y sep s =
     (case parse_digits 2 0 s of
        None \<Rightarrow> None
      | Some (m, rest) \<Rightarrow>
          (case drop_sep sep rest of
             None \<Rightarrow> None
           | Some r \<Rightarrow>
               (case parse_digits 2 0 r of
                  None \<Rightarrow> None
                | Some (d, r') \<Rightarrow>
                    (if r' \<noteq> [] \<or> \<not> valid_date y m d then None else Some (ymd_ordinal y m d)))))"

definition iso_date :: "string \<Rightarrow> int option" where
  "iso_date s =
     (case parse_digits 4 0 s of
        None \<Rightarrow> None
      | Some (y, rest) \<Rightarrow>
          (let sep = (take 1 rest = ''-''); r = (if sep then drop 1 rest else rest)
           in if take 1 r = ''W'' then iso_week_date y sep (drop 1 r)
              else iso_calendar_date y sep r))"

text \<open>Where the date part ends (of a string of at least seven bytes).\<close>

definition date_length :: "string \<Rightarrow> nat option" where
  "date_length s =
     (let n = length s in
      if n = 7 then Some 7
      else if s ! 4 = CHR ''-'' then
        (if s ! 5 = CHR ''W'' then
           (if n > 8 \<and> s ! 8 = CHR ''-'' then
              (if n = 9 then None else if n > 10 \<and> is_digit (s ! 10) then Some 8 else Some 10)
            else Some 8)
         else Some 10)
      else if s ! 4 = CHR ''W'' then
        (let idx = 7 + length (takeWhile is_digit (drop 7 s))
         in if idx < 9 then Some idx else if even idx then Some 7 else Some 8)
      else Some 8)"

text \<open>The byte length of the separator character between date and time.\<close>

definition separator_width :: "char \<Rightarrow> nat" where
  "separator_width c =
     (let b = (of_char c :: nat)
      in if b < 128 then 1 else if 224 \<le> b \<and> b < 240 then 3 else if 240 \<le> b then 4 else 2)"

definition day_us :: int where
  "day_us = 86400000000"

definition fromisoformat :: "string \<Rightarrow> timestamp option" where
  "fromisoformat s =
     (if length s < 7 then None
      else case date_length s of
        None \<Rightarrow> None
      | Some k \<Rightarrow>
          (case iso_date (take k s) of
             None \<Rightarrow> None
           | Some ord \<Rightarrow>
               (case drop k s of
                  [] \<Rightarrow> Some (Naive ((ord - 1) * day_us))
                | c # _ \<Rightarrow>
                    (let t = drop (k + separator_width c) s in
                     if t = [] then None
                     else case iso_time t of
                       None \<Rightarrow> None
                     | Some (vals, us, zone) \<Rightarrow>
                         (let h = nth0 vals 0; mi = nth0 vals 1; se = nth0 vals 2;
                              local_us = (ord - 1) * day_us + ((h * 60 + mi) * 60 + se) * 1000000 + us
                          in if \<not> (h < 24 \<and> mi < 60 \<and> se < 60) then None
                             else case zone of
                               None \<Rightarrow> Some (Naive local_us)
                             | Some off \<Rightarrow>
                                 (if \<bar>off\<bar> < day_us then Some (Aware (local_us - off)) else None))))))"

section \<open>The scripts' timestamp check\<close>

text \<open>
  All scripts test for the final \<^verbatim>\<open>Z\<close>, replace it by \<^verbatim>\<open>+00:00\<close> and
  convert the \<^verbatim>\<open>ValueError\<close>; \<open>no_z\<close> and \<open>bad\<close> are their two messages.
\<close>

definition utc_timestamp :: "string \<Rightarrow> string \<Rightarrow> string \<Rightarrow> timestamp result" where
  "utc_timestamp no_z bad v =
     (if v = [] \<or> last v \<noteq> CHR ''Z'' then Inl (Rejected no_z)
      else case fromisoformat (butlast v @ ''+00:00'') of
        None \<Rightarrow> Inl (Rejected bad)
      | Some t \<Rightarrow> Inr t)"

fun timestamp_less :: "timestamp \<Rightarrow> timestamp \<Rightarrow> bool result" where
  "timestamp_less (Naive a) (Naive b) = Inr (a < b)"
| "timestamp_less (Aware a) (Aware b) = Inr (a < b)"
| "timestamp_less _ _ = Inl TypeError"

definition is_utc :: "string \<Rightarrow> timestamp \<Rightarrow> bool" where
  "is_utc v t \<longleftrightarrow> v \<noteq> [] \<and> last v = CHR ''Z'' \<and> fromisoformat (butlast v @ ''+00:00'') = Some t"

lemma utc_timestamp_iff [result_simps]: "utc_timestamp m1 m2 v = Inr t \<longleftrightarrow> is_utc v t"
  by (auto simp: utc_timestamp_def is_utc_def split: option.splits)

lemma is_utc_unique: "is_utc v t \<Longrightarrow> is_utc v t' \<Longrightarrow> t = t'"
  by (simp add: is_utc_def)

lemma utc_timestamp_safe [safe_intros]: "crash_free (utc_timestamp m1 m2 v)"
  by (auto simp: utc_timestamp_def split: option.splits)

section \<open>The order of timestamps\<close>

text \<open>Naive and aware timestamps each are ordered by their value; they do not compare.\<close>

instantiation timestamp :: order
begin

fun less_eq_timestamp :: "timestamp \<Rightarrow> timestamp \<Rightarrow> bool" where
  "Naive a \<le> Naive b \<longleftrightarrow> a \<le> b"
| "Aware a \<le> Aware b \<longleftrightarrow> a \<le> b"
| "Naive a \<le> Aware b \<longleftrightarrow> False"
| "Aware a \<le> Naive b \<longleftrightarrow> False"

definition less_timestamp :: "timestamp \<Rightarrow> timestamp \<Rightarrow> bool" where
  "t < u \<longleftrightarrow> t \<le> u \<and> \<not> u \<le> (t :: timestamp)"

instance
proof
  fix t u v :: timestamp
  show "t < u \<longleftrightarrow> t \<le> u \<and> \<not> u \<le> t" by (rule less_timestamp_def)
  show "t \<le> t" by (cases t) simp_all
  show "t \<le> u \<Longrightarrow> u \<le> v \<Longrightarrow> t \<le> v" by (cases t; cases u; cases v) simp_all
  show "t \<le> u \<Longrightarrow> u \<le> t \<Longrightarrow> t = u" by (cases t; cases u) simp_all
qed

end

text \<open>The comparison that a guard makes succeeds exactly when the order holds.\<close>

lemma timestamp_less_False [result_simps]: "timestamp_less t u = Inr False \<longleftrightarrow> u \<le> t"
  by (cases t; cases u) auto

lemma ex_not_late: "(\<exists>late. r = Inr late \<and> \<not> late) \<longleftrightarrow> r = Inr False" for r :: "bool result"
  by (metis (full_types))

lemma timestamp_less_iff:
  "timestamp_less t u = Inr b \<longleftrightarrow>
     (\<exists>x y. (t = Naive x \<and> u = Naive y \<or> t = Aware x \<and> u = Aware y) \<and> b = (x < y))"
  by (cases t; cases u) auto

end
