(* ===== verification/Samples.thy ===== *)
theory Samples
  imports Sha256 FileSystem Timestamps
begin

text \<open>
  Concrete inputs that the witnesses of the ledgers share: a revision, a timestamp, trees with
  one artifact below an evidence directory, and a tree whose evidence directory is a link to a
  place outside the repository.
\<close>

definition sample_revision :: string where
  "sample_revision = ''0123456789abcdef0123456789abcdef01234567''"

definition sample_time :: string where
  "sample_time = ''2026-08-03T00:00:00Z''"

definition sample_stamp :: timestamp where
  "sample_stamp = Aware 63921312000000000"

definition sample_root :: pure_path where
  "sample_root = abs_path [''repo'']"

text \<open>The chain of directories down to a position.\<close>

definition dir_chain :: "string list \<Rightarrow> (string list \<times> node) list" where
  "dir_chain r = map (\<lambda>k. (take k r, Directory)) [1..<Suc (length r)]"

text \<open>One artifact \<open>a.bin\<close> in the directory \<open>dir\<close> of the repository.\<close>

definition artifact_tree :: "string list \<Rightarrow> fs" where
  "artifact_tree dir =
     map_of (([''repo''] @ dir @ [''a.bin''], Regular sample_artifact True) #
             dir_chain ([''repo''] @ dir))"

text \<open>The same artifact outside the repository, reached through a link named \<open>dir/linked\<close>.\<close>

definition escape_tree :: "string list \<Rightarrow> fs" where
  "escape_tree dir =
     map_of (([''outside'', ''a.bin''], Regular sample_artifact True) #
             ([''outside''], Directory) #
             ([''repo''] @ dir @ [''linked''], Link ''/outside'') #
             dir_chain ([''repo''] @ dir))"

lemma sample_time_utc: "is_utc sample_time sample_stamp"
  by code_simp

lemma sample_revision_ok: "fullmatch REVISION_RE sample_revision"
  unfolding revision_re_iff by code_simp

lemma sample_revision_real: "\<not> is_placeholder sample_revision"
  by (simp add: is_placeholder_iff sample_revision_def)

lemma lower_hex_chars: "lower_hex = hex_chars"
  by (simp add: lower_hex_def hex_chars_def)

lemma sha256_re_digest [simp]: "fullmatch SHA256_RE (sha256_hex x)"
  using sha256_hex_form [of x] by (simp add: sha256_re_iff lower_hex_chars)

lemma sample_digest_ok [simp]: "fullmatch SHA256_RE sample_digest"
  using sha256_re_digest [of sample_artifact] by (simp add: sha256_sample)

lemma sample_digest_real: "\<not> is_placeholder sample_digest"
  by (simp add: is_placeholder_iff sample_digest_def)

lemma readable_map_of:
  "list_all (\<lambda>(q, nd). \<forall>c. nd \<noteq> Regular c False) xs \<Longrightarrow> readable_tree (map_of xs)"
  unfolding readable_tree_def by (auto dest!: map_of_SomeD simp: list_all_iff)

end
