(* ===== verification/Ledger.thy ===== *)
theory Ledger
  imports Samples
begin

text \<open>
  What the ledgers of \<^verbatim>\<open>production/\<close> have in common: the tests on lists of strings,
  and the loop that checks one record after the other against its canonical identity while it
  counts statuses. The loop's contract is the locale \<open>canonical_loop\<close>, refined to
  \<open>status_ledger\<close> when the status of every accepted record is one of a fixed list; the recovery,
  control-matrix and threat-model scripts interpret it.
\<close>

section \<open>Lists of strings\<close>

text \<open>
  \<^verbatim>\<open>len(v) == len(set(v))\<close> is \<open>distinct\<close>; it is only reached for lists of strings,
  where hashing cannot fail. \<open>unique_strings_in\<close> is the test of an array of allowed words,
  \<open>nonempty_unique_texts\<close> that of an array of non-empty strings.
\<close>

definition unique_strings_in :: "string list \<Rightarrow> pyval \<Rightarrow> bool" where
  "unique_strings_in allowed v \<longleftrightarrow>
     is_list v \<and> list_of v \<noteq> [] \<and> list_all (str_that (\<lambda>s. True)) (list_of v) \<and>
     distinct (list_of v) \<and> list_all (\<lambda>x. str_of x \<in> set allowed) (list_of v)"

definition nonempty_unique_texts :: "pyval \<Rightarrow> bool" where
  "nonempty_unique_texts v \<longleftrightarrow>
     is_list v \<and> list_of v \<noteq> [] \<and> list_all is_text (list_of v) \<and> distinct (list_of v)"

definition text_list :: "pyval \<Rightarrow> bool" where
  "text_list v \<longleftrightarrow> is_list v \<and> list_all is_text (list_of v)"

definition texts :: "pyval \<Rightarrow> string list" where
  "texts v = map str_of (list_of v)"

lemma all_strings_iff: "list_all (str_that P) xs \<longleftrightarrow> (\<exists>ss. xs = map PStr ss \<and> list_all P ss)"
proof (induction xs)
  case (Cons x xs)
  then show ?case by (cases x) (auto simp: Cons_eq_map_conv)
qed simp

lemma distinct_PStr [simp]: "distinct (map PStr ss) \<longleftrightarrow> distinct ss"
  by (simp add: distinct_map inj_on_def)

lemma texts_PList [simp]: "texts (PList (map PStr ss)) = ss"
  by (simp add: texts_def comp_def)

lemma nonempty_unique_texts_iff:
  "nonempty_unique_texts v \<longleftrightarrow>
     (\<exists>ss. v = PList (map PStr ss) \<and> ss \<noteq> [] \<and> distinct ss \<and> list_all (\<lambda>s. \<not> blank s) ss)"
  by (cases v) (auto simp: nonempty_unique_texts_def all_strings_iff simp del: str_that_iff)

lemma unique_strings_in_iff:
  "unique_strings_in allowed v \<longleftrightarrow>
     (\<exists>ss. v = PList (map PStr ss) \<and> ss \<noteq> [] \<and> distinct ss \<and> set ss \<subseteq> set allowed)"
proof (cases v)
  case (PList xs)
  have "list_all (\<lambda>x. str_of x \<in> set allowed) (map PStr ss) \<longleftrightarrow> set ss \<subseteq> set allowed" for ss
    by (auto simp: list_all_iff)
  with PList show ?thesis
    by (auto simp: unique_strings_in_def all_strings_iff list.pred_True simp del: str_that_iff)
qed (auto simp: unique_strings_in_def)

text \<open>Readers of a record and of its evidence entries, for the statements.\<close>

definition status_of :: "pyval \<Rightarrow> string" where
  "status_of v = str_of (field v ''status'')"

definition evidence_of :: "pyval \<Rightarrow> pyval list" where
  "evidence_of v = list_of (field v ''evidence'')"

definition path_of :: "pyval \<Rightarrow> string" where
  "path_of x = str_of (field x ''path'')"

definition revision_of :: "pyval \<Rightarrow> string" where
  "revision_of x = str_of (field x ''revision'')"

definition kinds_of :: "pyval list \<Rightarrow> string set" where
  "kinds_of es = set (map (\<lambda>x. str_of (field x ''kind'')) es)"

lemma list_all2_member: "list_all2 P xs ys \<Longrightarrow> y \<in> set ys \<Longrightarrow> \<exists>x. P x y"
  by (induction rule: list_all2_induct) auto

section \<open>The collecting loop\<close>

text \<open>A loop that appends one answer per round.\<close>

locale collect_loop =
  fixes step :: "nat \<Rightarrow> 'x \<Rightarrow> 'y list \<Rightarrow> 'y list result"
    and answer :: "'x \<Rightarrow> 'y \<Rightarrow> bool"
  assumes step_iff: "step i x acc = Inr acc' \<longleftrightarrow> (\<exists>y. answer x y \<and> acc' = acc @ [y])"
begin

lemma collect_iff:
  "forE step i xs acc = Inr r \<longleftrightarrow> (\<exists>ys. list_all2 answer xs ys \<and> r = acc @ ys)"
proof (induction xs arbitrary: i acc)
  case (Cons x xs)
  have "forE step i (x # xs) acc = Inr r \<longleftrightarrow>
      (\<exists>y ys. answer x y \<and> list_all2 answer xs ys \<and> r = acc @ y # ys)"
    by (auto simp: bindE_Inr_iff step_iff Cons.IH)
  then show ?case by (auto simp: list_all2_Cons1)
qed auto

end

section \<open>The canonical loop\<close>

text \<open>
  \<^verbatim>\<open>for index, (expected, record) in enumerate(zip(canonical, records, strict=True))\<close> with
  one counter per status.
\<close>

locale canonical_loop =
  fixes step :: "nat \<Rightarrow> 'e \<times> pyval \<Rightarrow> (string \<Rightarrow> nat) \<Rightarrow> (string \<Rightarrow> nat) result"
    and ok :: "'e \<Rightarrow> pyval \<Rightarrow> bool"
    and status :: "pyval \<Rightarrow> string"
  assumes step_iff: "step i x c = Inr c' \<longleftrightarrow> ok (fst x) (snd x) \<and> c' = bump (status (snd x)) c"

sublocale canonical_loop \<subseteq> rounds: plain_loop
  step "\<lambda>i x. ok (fst x) (snd x)" "\<lambda>x. bump (status (snd x))"
  by unfold_locales (rule step_iff)

context canonical_loop
begin

lemma canonical_iff:
  "length xs = length es \<and> forE step 0 (zip es xs) (\<lambda>_. 0) = Inr c \<longleftrightarrow>
     list_all2 ok es xs \<and> c = count_list (map status xs)"
proof (cases "length es = length xs")
  case True
  then show ?thesis
    by (simp add: rounds.loop_iff list_all2_conv_all_nth fold_bump_zero map_snd_zip_comp)
qed (auto dest: list_all2_lengthD)

end

locale status_ledger = canonical_loop +
  fixes statuses :: "string list"
  assumes statuses_distinct: "distinct statuses"
    and ok_status: "ok e x \<Longrightarrow> status x \<in> set statuses"
begin

lemma statuses_known: "list_all2 ok es xs \<Longrightarrow> set (map status xs) \<subseteq> set statuses"
  by (induction rule: list_all2_induct) (auto intro: ok_status)

lemma total:
  assumes "list_all2 ok es xs"
  shows "sum_list (map (count_list (map status xs)) statuses) = length es"
proof -
  have "sum_list (map (count_list (map status xs)) statuses) =
      sum (count_list (map status xs)) (set statuses)"
    by (rule sum_list_distinct_conv_sum_set [OF statuses_distinct])
  also have "\<dots> = length (map status xs)"
    by (rule sum_count_list) (use statuses_known [OF assms] in auto)
  finally show ?thesis using list_all2_lengthD [OF assms] by simp
qed

end

section \<open>Loops against an indexed identity\<close>

text \<open>
  A loop whose records must equal the entry of a canonical table at their index, and must also be
  new: when the table has no repetition, the first demand implies the second, which \<open>inv\<close>
  expresses.
\<close>

locale ranked_loop =
  fixes step :: "nat \<Rightarrow> 'x \<Rightarrow> 's \<Rightarrow> 's result"
    and ok :: "nat \<Rightarrow> 'x \<Rightarrow> bool"
    and fresh :: "'x \<Rightarrow> 's \<Rightarrow> bool"
    and upd :: "'x \<Rightarrow> 's \<Rightarrow> 's"
    and inv :: "nat \<Rightarrow> 's \<Rightarrow> bool"
    and bound :: nat
  assumes step_iff: "step i x s = Inr t \<longleftrightarrow> ok i x \<and> fresh x s \<and> t = upd x s"
    and inv_fresh: "i < bound \<Longrightarrow> inv i s \<Longrightarrow> ok i x \<Longrightarrow> fresh x s"
    and inv_upd: "i < bound \<Longrightarrow> inv i s \<Longrightarrow> ok i x \<Longrightarrow> inv (Suc i) (upd x s)"
begin

lemma ranked_iff:
  "inv i s \<Longrightarrow> i + length xs \<le> bound \<Longrightarrow>
     forE step i xs s = Inr t \<longleftrightarrow>
     (\<forall>j. j < length xs \<longrightarrow> ok (i + j) (xs ! j)) \<and> t = fold upd xs s"
proof (induction xs arbitrary: i s)
  case Nil
  then show ?case by auto
next
  case (Cons x xs)
  have all: "(\<forall>j. j < length (x # xs) \<longrightarrow> ok (i + j) ((x # xs) ! j)) \<longleftrightarrow>
      ok i x \<and> (\<forall>j. j < length xs \<longrightarrow> ok (Suc i + j) (xs ! j))"
    by (auto simp: nth_Cons split: nat.splits)
  show ?case
  proof (cases "ok i x")
    case True
    from Cons.prems have "i < bound" by simp
    with True Cons.prems have "fresh x s" "inv (Suc i) (upd x s)"
      using inv_fresh inv_upd by blast+
    with True Cons.prems show ?thesis
      unfolding all by (auto simp: bindE_Inr_iff step_iff Cons.IH)
  next
    case False
    then show ?thesis unfolding all by (simp add: bindE_Inr_iff step_iff)
  qed
qed

end

section \<open>Tests that can raise\<close>

text \<open>\<^verbatim>\<open>any(f(x) for x in xs)\<close>: evaluated from the left until the first success.\<close>

fun anyE :: "('x \<Rightarrow> bool result) \<Rightarrow> 'x list \<Rightarrow> bool result" where
  "anyE f [] = Inr False"
| "anyE f (x # xs) = bindE (f x) (\<lambda>b. if b then Inr True else anyE f xs)"

lemma anyE_False_iff: "anyE f xs = Inr False \<longleftrightarrow> (\<forall>x \<in> set xs. f x = Inr False)"
  by (induction xs) (auto simp: bindE_Inr_iff)

lemma crash_free_anyE [safe_intros]:
  "(\<And>x. x \<in> set xs \<Longrightarrow> crash_free (f x)) \<Longrightarrow> crash_free (anyE f xs)"
  by (induction xs) (auto intro!: crash_free_bindE)

lemma ex_anyE:
  "(\<exists>b. anyE f xs = Inr b \<and> \<not> b \<and> P) \<longleftrightarrow> (\<forall>x \<in> set xs. f x = Inr False) \<and> P"
  by (auto simp: anyE_False_iff [symmetric])

section \<open>Loops without an accumulator\<close>

lemma ex_unit: "(\<exists>u :: unit. P u) \<longleftrightarrow> P ()"
  by auto

lemma forE_unit_iff:
  assumes "\<And>j x. x \<in> set xs \<Longrightarrow> step j x () = Inr () \<longleftrightarrow> ok x"
  shows "forE step i xs () = Inr () \<longleftrightarrow> (\<forall>x \<in> set xs. ok x)"
  using assms
proof (induction xs arbitrary: i)
  case (Cons x xs)
  have "forE step i (x # xs) () = Inr () \<longleftrightarrow> step i x () = Inr () \<and> forE step (Suc i) xs () = Inr ()"
    by (simp add: bindE_Inr_iff ex_unit)
  with Cons.IH [of "Suc i"] Cons.prems show ?case by auto
qed simp

lemma crash_free_forE_nth:
  assumes "\<And>j x t. x \<in> set xs \<Longrightarrow> crash_free (f j x t)"
  shows "crash_free (forE f i xs s)"
  by (rule crash_free_forE [where P = "\<lambda>_. True"]) (auto intro: assms)

section \<open>Readable text and zone-aware times\<close>

text \<open>
  What crash freedom needs of the input: \<open>text_tree\<close> says that the regular files of the tree can
  be opened and are UTF-8, \<open>aware_time\<close> that a timestamp, if it parses at all, carries a time
  zone.
\<close>

definition text_tree :: "fs \<Rightarrow> bool" where
  "text_tree fs \<longleftrightarrow> readable_tree fs \<and> (\<forall>q c r. fs q = Some (Regular c r) \<longrightarrow> utf8_valid c)"

definition aware_time :: "pyval \<Rightarrow> bool" where
  "aware_time v \<longleftrightarrow> (\<forall>t. is_utc (str_of v) t \<longrightarrow> (\<exists>us. t = Aware us))"

lemma text_tree_read:
  assumes "text_tree fs" and "is_file fs p"
  shows "\<exists>text. read_text fs p = Inr text"
proof -
  from assms obtain c where c: "read_bytes fs p = Inr c"
    using read_bytes_regular unfolding text_tree_def by blast
  then obtain q where "node_at fs q = Some (Regular c True)"
    by (auto simp: read_bytes_iff stat_def bind_eq_Some_conv)
  then have "fs q = Some (Regular c True)" by (simp add: node_at_def split: if_splits)
  with assms(1) have "utf8_valid c" by (auto simp: text_tree_def)
  with c show ?thesis by (simp add: read_text_def decode_text_def)
qed

lemma is_file_not_regular: "\<not> not_regular fs p \<Longrightarrow> is_file fs p"
  by (simp add: not_regular_def)

lemma read_bytes_file_safe:
  "text_tree fs \<Longrightarrow> is_file fs p \<Longrightarrow> crash_free (read_bytes fs p)"
  using read_bytes_regular unfolding text_tree_def by fastforce

lemma read_text_file_safe [safe_intros]:
  "text_tree fs \<Longrightarrow> is_file fs p \<Longrightarrow> crash_free (read_text fs p)"
  using text_tree_read by fastforce

lemma aware_time_less_safe:
  "aware_time v \<Longrightarrow> aware_time w \<Longrightarrow> is_utc (str_of v) t \<Longrightarrow> is_utc (str_of w) u \<Longrightarrow>
     crash_free (timestamp_less t u)"
  by (cases t; cases u) (fastforce simp: aware_time_def)+

end
