(* ===== verification/Recovery.thy ===== *)
theory Recovery
  imports Ledger
begin

text \<open>
  \<^verbatim>\<open>scripts/verify_installer_recovery.py\<close>: the installer and recovery certification
  manifest. \<open>recovery_load\<close> reads it, \<open>recovery_evidence_step\<close> is one round of
  \<^verbatim>\<open>validate_evidence\<close>, \<open>recovery_scenario_step\<close> one round of
  \<^verbatim>\<open>audit\<close>. The lemmas state exactly which manifests are accepted
  (\<open>recovery_audit_iff\<close>), and the properties what acceptance means for a certification.
\<close>

section \<open>The code\<close>

definition recovery_manifest :: string where
  "recovery_manifest = ''production/installer-recovery.json''"

definition recovery_evidence_root :: string where
  "recovery_evidence_root = ''production/evidence/installer-recovery''"

definition recovery_scenarios :: "(string \<times> string) list" where
  "recovery_scenarios =
    [(''clean-install'', ''Clean install''),
     (''reinstall'', ''Reinstall onto an existing Arach partition''),
     (''dual-boot'', ''Dual-boot preservation''),
     (''encrypted-storage'', ''Encrypted storage create and unlock''),
     (''tpm-recovery'', ''TPM-backed recovery''),
     (''secure-boot'', ''Secure Boot and signed boot''),
     (''interrupted-partitioning'', ''Interrupted partitioning''),
     (''disk-full'', ''Disk-full safeguards''),
     (''corrupted-cache'', ''Corrupted cache handling''),
     (''power-loss-activation'', ''Power loss during activation''),
     (''failed-kernel-rollback'', ''Failed-kernel rollback''),
     (''rescue-media'', ''Rescue and repair media''),
     (''major-version-upgrade'', ''Major-version in-place upgrade'')]"

definition recovery_statuses :: "string list" where
  "recovery_statuses = [''pending'', ''failed'', ''passed'']"

definition recovery_outcomes :: "string list" where
  "recovery_outcomes =
     [''success'', ''rollback-success'', ''resume-possible'', ''manual-intervention-required'']"

definition recovery_entry_fields :: "string list" where
  "recovery_entry_fields =
     [''artifact'', ''sha256'', ''catalog_sha256'', ''plan_sha256'', ''journal_sha256'',
      ''captured_at'', ''revision'', ''outcome'', ''post_recovery_boot'', ''cosmic_launch'']"

definition recovery_digest_fields :: "string list" where
  "recovery_digest_fields = [''sha256'', ''catalog_sha256'', ''plan_sha256'', ''journal_sha256'']"

text \<open>\<open>json\<close> is \<^verbatim>\<open>json.loads\<close>: \<open>None\<close> for its \<^verbatim>\<open>JSONDecodeError\<close>.\<close>

definition recovery_load ::
    "(string \<Rightarrow> pyval option) \<Rightarrow> fs \<Rightarrow> pure_path \<Rightarrow> pyval result" where
  "recovery_load json fs root =
     (case read_text fs (join root recovery_manifest) of
        Inl e \<Rightarrow> (if e = OSError then Inl (Rejected ''cannot load'') else Inl e)
      | Inr text \<Rightarrow>
          (case json text of
             None \<Rightarrow> Inl (Rejected ''cannot load'')
           | Some v \<Rightarrow>
               (if \<not> is_dict v
                then Inl (Rejected ''installer recovery manifest root must be an object'')
                else Inr v)))"

definition recovery_timestamp :: "string \<Rightarrow> timestamp result" where
  "recovery_timestamp =
     utc_timestamp ''captured_at must use UTC Z form'' ''captured_at is not RFC 3339 compatible''"

type_synonym recovery_acc = "string set \<times> pyval list"

definition recovery_evidence_step ::
    "fs \<Rightarrow> pure_path \<Rightarrow> string \<Rightarrow> nat \<Rightarrow> pyval \<Rightarrow> recovery_acc \<Rightarrow> recovery_acc result" where
  "recovery_evidence_step fs root scenario_id index entry acc =
     (let base = item (scenario_id @ ''.evidence'') index;
          artifact = str_of (field entry ''artifact'');
          path = join root artifact
      in
      if \<not> has_fields recovery_entry_fields entry
        then Inl (Rejected (base @ '' has unexpected or missing fields''))
      else if \<not> str_that safe_relative (field entry ''artifact'')
        then Inl (Rejected (base @ ''.artifact must be a safe relative path''))
      else if artifact \<in> fst acc
        then Inl (Rejected (base @ ''.artifact is duplicated''))
      else if relative_to path (join root recovery_evidence_root) = None
        then Inl (Rejected (base @ ''.artifact must be beneath '' @ recovery_evidence_root))
      else if not_regular fs path
        then Inl (Rejected (base @ ''.artifact is missing or not regular''))
      else if \<not> list_all (\<lambda>f. str_that (fullmatch SHA256_RE) (field entry f)) recovery_digest_fields
        then Inl (Rejected (base @ ''.'' @
          hd (filter (\<lambda>f. \<not> str_that (fullmatch SHA256_RE) (field entry f)) recovery_digest_fields) @
          '' must be a lowercase SHA-256 digest''))
      else bindE (read_bytes fs path) (\<lambda>content.
        if \<not> py_eq (PStr (sha256_hex content)) (field entry ''sha256'')
          then Inl (Rejected (base @ ''.sha256 does not match the artifact''))
        else if \<not> str_that (fullmatch REVISION_RE) (field entry ''revision'')
          then Inl (Rejected (base @ ''.revision must be a full Git object ID''))
        else if \<not> str_that (\<lambda>s. True) (field entry ''captured_at'')
          then Inl (Rejected (base @ ''.captured_at must be a timestamp''))
        else bindE (recovery_timestamp (str_of (field entry ''captured_at''))) (\<lambda>t.
          if \<not> str_that (\<lambda>s. s \<in> set recovery_outcomes) (field entry ''outcome'')
            then Inl (Rejected (base @ ''.outcome is invalid''))
          else if \<not> is_bool (field entry ''post_recovery_boot'') \<or>
                  \<not> is_bool (field entry ''cosmic_launch'')
            then Inl (Rejected (base @ '' boot and COSMIC results must be booleans''))
          else Inr (insert artifact (fst acc), snd acc @ [entry]))))"

definition recovery_validate_evidence ::
    "fs \<Rightarrow> pure_path \<Rightarrow> string \<Rightarrow> pyval \<Rightarrow> pyval list result" where
  "recovery_validate_evidence fs root scenario_id entries =
     (if \<not> is_list entries then Inl (Rejected (scenario_id @ ''.evidence must be an array''))
      else bindE (forE (recovery_evidence_step fs root scenario_id) 0 (list_of entries) ({}, []))
        (\<lambda>acc. Inr (snd acc)))"

definition recovery_accepts :: "pyval \<Rightarrow> bool" where
  "recovery_accepts entry \<longleftrightarrow>
     str_that (\<lambda>s. s \<in> set [''success'', ''rollback-success'', ''resume-possible''])
       (field entry ''outcome'') \<and>
     field entry ''post_recovery_boot'' = PBool True \<and> field entry ''cosmic_launch'' = PBool True"

definition recovery_scenario_step ::
    "fs \<Rightarrow> pure_path \<Rightarrow> nat \<Rightarrow> (string \<times> string) \<times> pyval \<Rightarrow> (string \<Rightarrow> nat) \<Rightarrow>
     (string \<Rightarrow> nat) result" where
  "recovery_scenario_step fs root index x counts =
     (let base = item ''scenarios'' index; expected = fst x; scenario = snd x;
          status = str_of (field scenario ''status''); blocker = field scenario ''blocker''
      in
      if \<not> has_fields [''id'', ''title'', ''status'', ''blocker'', ''evidence''] scenario
        then Inl (Rejected (base @ '' has invalid fields''))
      else if \<not> py_eq (field scenario ''id'') (PStr (fst expected)) \<or>
              \<not> py_eq (field scenario ''title'') (PStr (snd expected))
        then Inl (Rejected (base @ '' differs from the canonical scenario order''))
      else if \<not> str_that (\<lambda>s. s \<in> set recovery_statuses) (field scenario ''status'')
        then Inl (Rejected (base @ ''.status is invalid''))
      else bindE (recovery_validate_evidence fs root (fst expected) (field scenario ''evidence''))
        (\<lambda>entries.
          if status = ''pending'' \<and> entries \<noteq> []
            then Inl (Rejected (base @ '' pending scenario cannot carry evidence''))
          else if status = ''pending'' \<and> \<not> is_text blocker
            then Inl (Rejected (base @ '' pending scenario requires a blocker''))
          else if status = ''failed'' \<and> entries = []
            then Inl (Rejected (base @ '' failed scenario requires failure evidence''))
          else if status = ''failed'' \<and> \<not> is_text blocker
            then Inl (Rejected (base @ '' failed scenario requires a blocker''))
          else if status \<noteq> ''pending'' \<and> status \<noteq> ''failed'' \<and> blocker \<noteq> PNone
            then Inl (Rejected (base @ '' passed scenario cannot retain a blocker''))
          else if status \<noteq> ''pending'' \<and> status \<noteq> ''failed'' \<and>
                  \<not> list_ex recovery_accepts entries
            then Inl (Rejected
              (base @ '' passed scenario lacks successful boot and COSMIC evidence''))
          else Inr (bump status counts)))"

definition recovery_audit :: "fs \<Rightarrow> pure_path \<Rightarrow> pyval \<Rightarrow> (string \<Rightarrow> nat) result" where
  "recovery_audit fs root manifest =
     (if \<not> has_fields [''format'', ''distribution'', ''scenarios''] manifest
        then Inl (Rejected ''installer recovery manifest has invalid fields'')
      else if \<not> py_eq (field manifest ''format'') (PInt 1) \<or>
              \<not> py_eq (field manifest ''distribution'') (PStr ''ArachOS'')
        then Inl (Rejected ''installer recovery manifest identity is invalid'')
      else if \<not> is_list (field manifest ''scenarios'') \<or>
              length (list_of (field manifest ''scenarios'')) \<noteq> length recovery_scenarios
        then Inl (Rejected ''installer recovery manifest must contain thirteen scenarios'')
      else forE (recovery_scenario_step fs root) 0
        (zip recovery_scenarios (list_of (field manifest ''scenarios''))) (\<lambda>_. 0))"

definition recovery_run ::
    "(string \<Rightarrow> pyval option) \<Rightarrow> fs \<Rightarrow> pure_path \<Rightarrow> (string \<Rightarrow> nat) result" where
  "recovery_run json fs root = bindE (recovery_load json fs root) (recovery_audit fs root)"

section \<open>What is accepted\<close>

text \<open>An evidence entry that is acceptable on its own.\<close>

definition recovery_entry_ok :: "fs \<Rightarrow> pure_path \<Rightarrow> pyval \<Rightarrow> bool" where
  "recovery_entry_ok fs root entry \<longleftrightarrow>
     has_fields recovery_entry_fields entry \<and>
     (\<exists>artifact content revision captured t.
        field entry ''artifact'' = PStr artifact \<and> safe_relative artifact \<and>
        relative_to (join root artifact) (join root recovery_evidence_root) \<noteq> None \<and>
        \<not> not_regular fs (join root artifact) \<and>
        read_bytes fs (join root artifact) = Inr content \<and>
        field entry ''sha256'' = PStr (sha256_hex content) \<and>
        list_all (\<lambda>f. str_that (fullmatch SHA256_RE) (field entry f)) recovery_digest_fields \<and>
        field entry ''revision'' = PStr revision \<and> fullmatch REVISION_RE revision \<and>
        field entry ''captured_at'' = PStr captured \<and> is_utc captured t) \<and>
     str_that (\<lambda>s. s \<in> set recovery_outcomes) (field entry ''outcome'') \<and>
     is_bool (field entry ''post_recovery_boot'') \<and> is_bool (field entry ''cosmic_launch'')"

definition artifact_of :: "pyval \<Rightarrow> string" where
  "artifact_of entry = str_of (field entry ''artifact'')"

lemma recovery_evidence_step_iff:
  "recovery_evidence_step fs root sid i entry acc = Inr acc' \<longleftrightarrow>
     recovery_entry_ok fs root entry \<and> artifact_of entry \<notin> fst acc \<and>
     acc' = (insert (artifact_of entry) (fst acc), snd acc @ [entry])"
  by (auto simp: recovery_evidence_step_def recovery_entry_ok_def artifact_of_def Let_def
      result_simps recovery_timestamp_def)

interpretation recovery_entries: unique_loop
  "recovery_evidence_step fs root sid" "\<lambda>i. recovery_entry_ok fs root" artifact_of fst
  "\<lambda>entry acc. (insert (artifact_of entry) (fst acc), snd acc @ [entry])"
  for fs root sid
  by unfold_locales (simp_all add: recovery_evidence_step_iff)

lemma recovery_fold_snd:
  "snd (fold (\<lambda>entry acc. (insert (artifact_of entry) (fst acc), snd acc @ [entry])) xs acc) =
     snd acc @ xs"
  by (induction xs arbitrary: acc) auto

definition recovery_entries_ok :: "fs \<Rightarrow> pure_path \<Rightarrow> pyval list \<Rightarrow> bool" where
  "recovery_entries_ok fs root es \<longleftrightarrow>
     list_all (recovery_entry_ok fs root) es \<and> distinct (map artifact_of es)"

lemma recovery_validate_evidence_iff:
  "recovery_validate_evidence fs root sid v = Inr es \<longleftrightarrow>
     v = PList es \<and> recovery_entries_ok fs root es"
proof (cases v)
  case (PList xs)
  show ?thesis
    unfolding PList
    by (auto simp: recovery_validate_evidence_def result_simps recovery_entries.loop_iff
        recovery_fold_snd recovery_entries_ok_def list_all_length)
qed (simp_all add: recovery_validate_evidence_def)

text \<open>The rule for each status, on the validated evidence.\<close>

definition recovery_status_rule :: "string \<Rightarrow> pyval \<Rightarrow> pyval list \<Rightarrow> bool" where
  "recovery_status_rule status blocker es \<longleftrightarrow>
     (if status = ''pending'' then es = [] \<and> is_text blocker
      else if status = ''failed'' then es \<noteq> [] \<and> is_text blocker
      else blocker = PNone \<and> list_ex recovery_accepts es)"

definition recovery_scenario_ok :: "fs \<Rightarrow> pure_path \<Rightarrow> string \<times> string \<Rightarrow> pyval \<Rightarrow> bool" where
  "recovery_scenario_ok fs root expected scenario \<longleftrightarrow>
     has_fields [''id'', ''title'', ''status'', ''blocker'', ''evidence''] scenario \<and>
     field scenario ''id'' = PStr (fst expected) \<and> field scenario ''title'' = PStr (snd expected) \<and>
     (\<exists>status es. field scenario ''status'' = PStr status \<and> status \<in> set recovery_statuses \<and>
        field scenario ''evidence'' = PList es \<and> recovery_entries_ok fs root es \<and>
        recovery_status_rule status (field scenario ''blocker'') es)"

lemma recovery_scenario_step_iff:
  "recovery_scenario_step fs root i x c = Inr c' \<longleftrightarrow>
     recovery_scenario_ok fs root (fst x) (snd x) \<and> c' = bump (status_of (snd x)) c"
proof -
  have rule: "(\<not> (s = ''pending'' \<and> es \<noteq> []) \<and> \<not> (s = ''pending'' \<and> \<not> t) \<and>
      \<not> (s = ''failed'' \<and> es = []) \<and> \<not> (s = ''failed'' \<and> \<not> t) \<and>
      \<not> (s \<noteq> ''pending'' \<and> s \<noteq> ''failed'' \<and> b \<noteq> PNone) \<and>
      \<not> (s \<noteq> ''pending'' \<and> s \<noteq> ''failed'' \<and> \<not> a)) \<longleftrightarrow>
      (if s = ''pending'' then es = [] \<and> t else if s = ''failed'' then es \<noteq> [] \<and> t
       else b = PNone \<and> a)" for s t a and b :: pyval and es :: "pyval list"
    by simp
  have "recovery_scenario_step fs root i x c = Inr c' \<longleftrightarrow>
     has_fields [''id'', ''title'', ''status'', ''blocker'', ''evidence''] (snd x) \<and>
     field (snd x) ''id'' = PStr (fst (fst x)) \<and> field (snd x) ''title'' = PStr (snd (fst x)) \<and>
     (\<exists>s. field (snd x) ''status'' = PStr s \<and> s \<in> set recovery_statuses) \<and>
     (\<exists>es. field (snd x) ''evidence'' = PList es \<and> recovery_entries_ok fs root es \<and>
        recovery_status_rule (status_of (snd x)) (field (snd x) ''blocker'') es \<and>
        c' = bump (status_of (snd x)) c)"
    unfolding recovery_scenario_step_def recovery_status_rule_def rule [symmetric] Let_def
      status_of_def [symmetric]
    by (simp only: result_simps recovery_validate_evidence_iff py_eq_str str_that_iff
        de_Morgan_disj not_not conj_assoc) blast
  then show ?thesis
    by (auto simp: recovery_scenario_ok_def status_of_def)
qed

interpretation recovery_loop: status_ledger
  "recovery_scenario_step fs root" "recovery_scenario_ok fs root" status_of recovery_statuses
  for fs root
proof
  show "distinct recovery_statuses" by (simp add: recovery_statuses_def)
next
  fix e x
  assume "recovery_scenario_ok fs root e x"
  then show "status_of x \<in> set recovery_statuses"
    by (auto simp: recovery_scenario_ok_def status_of_def)
qed (rule recovery_scenario_step_iff)

definition recovery_manifest_ok :: "fs \<Rightarrow> pure_path \<Rightarrow> pyval \<Rightarrow> pyval list \<Rightarrow> bool" where
  "recovery_manifest_ok fs root manifest scenarios \<longleftrightarrow>
     has_fields [''format'', ''distribution'', ''scenarios''] manifest \<and>
     py_eq (field manifest ''format'') (PInt 1) \<and>
     field manifest ''distribution'' = PStr ''ArachOS'' \<and>
     field manifest ''scenarios'' = PList scenarios \<and>
     list_all2 (recovery_scenario_ok fs root) recovery_scenarios scenarios"

lemma recovery_audit_iff:
  "recovery_audit fs root manifest = Inr counts \<longleftrightarrow>
     (\<exists>scenarios. recovery_manifest_ok fs root manifest scenarios \<and>
        counts = count_list (map status_of scenarios))"
proof (cases "field manifest ''scenarios''")
  case (PList xs)
  show ?thesis
    unfolding recovery_audit_def recovery_manifest_ok_def
    by (simp add: PList result_simps recovery_loop.canonical_iff)
qed (simp_all add: recovery_audit_def recovery_manifest_ok_def)

section \<open>Properties\<close>

lemma recovery_evidence_step_safe:
  "readable_tree fs \<Longrightarrow> crash_free (recovery_evidence_step fs root sid i entry acc)"
  unfolding recovery_evidence_step_def Let_def recovery_timestamp_def
  by (intro safe_intros) auto

lemma recovery_validate_evidence_safe [safe_intros]:
  "readable_tree fs \<Longrightarrow> crash_free (recovery_validate_evidence fs root sid v)"
  unfolding recovery_validate_evidence_def
  by (intro safe_intros recovery_evidence_step_safe)

lemma recovery_scenario_step_safe:
  "readable_tree fs \<Longrightarrow> crash_free (recovery_scenario_step fs root i x c)"
  unfolding recovery_scenario_step_def Let_def by (intro safe_intros)

lemma recovery_audit_scenario:
  assumes "recovery_audit fs root manifest = Inr counts"
    and "field manifest ''scenarios'' = PList scenarios" and "i < length recovery_scenarios"
  shows "recovery_scenario_ok fs root (recovery_scenarios ! i) (scenarios ! i)"
  using assms by (auto simp: recovery_audit_iff recovery_manifest_ok_def list_all2_conv_all_nth)

section \<open>A concrete certification\<close>

definition sample_recovery_entry :: "string \<Rightarrow> pyval" where
  "sample_recovery_entry path =
     PDict [(''artifact'', PStr path), (''sha256'', PStr sample_digest),
       (''catalog_sha256'', PStr sample_digest), (''plan_sha256'', PStr sample_digest),
       (''journal_sha256'', PStr sample_digest), (''captured_at'', PStr sample_time),
       (''revision'', PStr sample_revision), (''outcome'', PStr ''success''),
       (''post_recovery_boot'', PBool True), (''cosmic_launch'', PBool True)]"

definition sample_scenario :: "string \<times> string \<Rightarrow> string \<Rightarrow> pyval \<Rightarrow> pyval list \<Rightarrow> pyval" where
  "sample_scenario x status blocker es =
     PDict [(''id'', PStr (fst x)), (''title'', PStr (snd x)), (''status'', PStr status),
       (''blocker'', blocker), (''evidence'', PList es)]"

definition recovery_dir :: "string list" where
  "recovery_dir = [''production'', ''evidence'', ''installer-recovery'']"

definition recovery_artifact :: string where
  "recovery_artifact = ''production/evidence/installer-recovery/a.bin''"

definition sample_recovery_scenarios :: "pyval list" where
  "sample_recovery_scenarios =
     sample_scenario (hd recovery_scenarios) ''passed'' PNone
       [sample_recovery_entry recovery_artifact] #
     map (\<lambda>x. sample_scenario x ''pending'' (PStr ''open'') []) (List.tl recovery_scenarios)"

definition sample_recovery_manifest :: pyval where
  "sample_recovery_manifest =
     PDict [(''format'', PInt 1), (''distribution'', PStr ''ArachOS''),
       (''scenarios'', PList sample_recovery_scenarios)]"

lemma sample_recovery_entry_ok:
  assumes "read_bytes fs (join sample_root path) = Inr sample_artifact" and "safe_relative path"
    and "relative_to (join sample_root path) (join sample_root recovery_evidence_root) \<noteq> None"
    and "\<not> not_regular fs (join sample_root path)"
  shows "recovery_entry_ok fs sample_root (sample_recovery_entry path)"
  using assms sample_revision_ok sample_time_utc
  by (auto simp: recovery_entry_ok_def sample_recovery_entry_def recovery_entry_fields_def
      recovery_digest_fields_def recovery_outcomes_def sha256_sample)

lemma sample_recovery_accepted:
  "recovery_audit (artifact_tree recovery_dir) sample_root sample_recovery_manifest =
     Inr (count_list (map status_of sample_recovery_scenarios))"
proof -
  let ?fs = "artifact_tree recovery_dir"
  have entry: "recovery_entry_ok ?fs sample_root (sample_recovery_entry recovery_artifact)"
    by (rule sample_recovery_entry_ok; code_simp)
  have passed: "recovery_scenario_ok ?fs sample_root (hd recovery_scenarios)
      (sample_scenario (hd recovery_scenarios) ''passed'' PNone
        [sample_recovery_entry recovery_artifact])"
    using entry
    by (simp add: recovery_scenario_ok_def sample_scenario_def recovery_statuses_def
        recovery_entries_ok_def recovery_status_rule_def recovery_accepts_def
        sample_recovery_entry_def)
  have pending: "recovery_scenario_ok ?fs sample_root x
      (sample_scenario x ''pending'' (PStr ''open'') [])" for x
    by (simp add: recovery_scenario_ok_def sample_scenario_def recovery_statuses_def
        recovery_entries_ok_def recovery_status_rule_def space_chars_def)
  have "list_all2 (recovery_scenario_ok ?fs sample_root)
      (hd recovery_scenarios # List.tl recovery_scenarios) sample_recovery_scenarios"
    using passed pending by (simp add: sample_recovery_scenarios_def list_all2_map2 list_all2_same)
  then have "list_all2 (recovery_scenario_ok ?fs sample_root) recovery_scenarios
      sample_recovery_scenarios"
    by (simp add: recovery_scenarios_def)
  then show ?thesis
    by (auto simp: recovery_audit_iff recovery_manifest_ok_def sample_recovery_manifest_def)
qed

text \<open>
  The certification audit raises nothing but its own diagnosis: on any document whatever,
  as long as the regular files of the tree can be opened, it either rejects with a message or
  returns the counts.
\<close>

theorem recovery_audit_never_crashes:
  "readable_tree fs \<Longrightarrow> crash_free (recovery_audit fs root (PDict d))"
  unfolding recovery_audit_def by (intro safe_intros recovery_scenario_step_safe)

theorem recovery_audit_never_crashes_witness:
  "crash_free (recovery_audit (\<lambda>_. None) (abs_path []) (PDict []))"
  by (rule recovery_audit_never_crashes) (simp add: readable_tree_def)

text \<open>
  C35. A scenario that the ledger calls passed is certified: it sits at its canonical place,
  keeps no blocker, and retains an entry that reports a successful outcome with a boot and a
  COSMIC launch, whose artifact exists and has the recorded digest.
\<close>

theorem recovery_passed_is_certified:
  assumes "recovery_audit fs root manifest = Inr counts"
    and "field manifest ''scenarios'' = PList scenarios" and "i < length recovery_scenarios"
    and "status_of (scenarios ! i) = ''passed''"
  shows "field (scenarios ! i) ''id'' = PStr (fst (recovery_scenarios ! i)) \<and>
    field (scenarios ! i) ''blocker'' = PNone \<and>
    (\<exists>es e content. field (scenarios ! i) ''evidence'' = PList es \<and> e \<in> set es \<and>
       recovery_accepts e \<and> read_bytes fs (join root (artifact_of e)) = Inr content \<and>
       field e ''sha256'' = PStr (sha256_hex content))"
proof -
  from recovery_audit_scenario [OF assms(1-3)] assms(4) obtain es where
    es: "field (scenarios ! i) ''evidence'' = PList es" "recovery_entries_ok fs root es"
      "field (scenarios ! i) ''blocker'' = PNone" "list_ex recovery_accepts es"
      "field (scenarios ! i) ''id'' = PStr (fst (recovery_scenarios ! i))"
    by (auto simp: recovery_scenario_ok_def recovery_status_rule_def status_of_def)
  then obtain e where e: "e \<in> set es" "recovery_accepts e" by (auto simp: list_ex_iff)
  with es(2) have "recovery_entry_ok fs root e" by (auto simp: recovery_entries_ok_def list_all_iff)
  then obtain content where "read_bytes fs (join root (artifact_of e)) = Inr content"
      "field e ''sha256'' = PStr (sha256_hex content)"
    by (auto simp: recovery_entry_ok_def artifact_of_def)
  with es e show ?thesis by blast
qed

theorem recovery_passed_is_certified_witness:
  "field (sample_recovery_scenarios ! 0) ''id'' = PStr ''clean-install''"
proof -
  have c: "field sample_recovery_manifest ''scenarios'' = PList sample_recovery_scenarios"
    and l: "0 < length recovery_scenarios"
    and p: "status_of (sample_recovery_scenarios ! 0) = ''passed''"
    by (simp_all add: sample_recovery_manifest_def recovery_scenarios_def status_of_def
        sample_recovery_scenarios_def sample_scenario_def)
  from recovery_passed_is_certified [OF sample_recovery_accepted c l p] show ?thesis
    by (simp add: recovery_scenarios_def)
qed

text \<open>
  The reported totals add up: pending, failed and passed scenarios together are the thirteen
  of the certification plan.
\<close>

theorem recovery_counts_total:
  assumes "recovery_audit fs root manifest = Inr counts"
  shows "counts ''pending'' + counts ''failed'' + counts ''passed'' = 13"
proof -
  from assms obtain scenarios where
    all: "list_all2 (recovery_scenario_ok fs root) recovery_scenarios scenarios"
    and counts: "counts = count_list (map status_of scenarios)"
    by (auto simp: recovery_audit_iff recovery_manifest_ok_def)
  from recovery_loop.total [OF all] show ?thesis
    by (simp add: counts recovery_statuses_def recovery_scenarios_def)
qed

theorem recovery_counts_total_witness:
  "count_list (map status_of sample_recovery_scenarios) ''pending'' +
   count_list (map status_of sample_recovery_scenarios) ''failed'' +
   count_list (map status_of sample_recovery_scenarios) ''passed'' = 13"
  by (rule recovery_counts_total [OF sample_recovery_accepted])

text \<open>
  The evidence boundary is only lexical: the check that an artifact lies beneath the evidence
  root compares path components and tests the last component for being a link, so a directory
  link below the evidence root leads out of it. An entry is accepted whose content is read from a
  place outside the repository.
\<close>

theorem recovery_evidence_can_leave_root:
  "\<exists>fs entry q.
     recovery_validate_evidence fs sample_root ''clean-install'' (PList [entry]) = Inr [entry] \<and>
     walk fs True max_links [] (tail (join sample_root (artifact_of entry))) = Some q \<and>
     hd q \<noteq> ''repo''"
proof (intro exI conjI)
  let ?p = "''production/evidence/installer-recovery/linked/a.bin''"
  have "recovery_entry_ok (escape_tree recovery_dir) sample_root (sample_recovery_entry ?p)"
    by (rule sample_recovery_entry_ok; code_simp)
  then show "recovery_validate_evidence (escape_tree recovery_dir) sample_root ''clean-install''
      (PList [sample_recovery_entry ?p]) = Inr [sample_recovery_entry ?p]"
    by (simp add: recovery_validate_evidence_iff recovery_entries_ok_def)
  show "walk (escape_tree recovery_dir) True max_links []
      (tail (join sample_root (artifact_of (sample_recovery_entry ?p)))) =
      Some [''outside'', ''a.bin'']"
    by code_simp
  show "hd [''outside'', ''a.bin''] \<noteq> ''repo''" by simp
qed

end
