(* ===== verification/Controls.thy ===== *)
theory Controls
  imports Ledger
begin

text \<open>
  \<^verbatim>\<open>scripts/verify_control_matrices.py\<close>: the three production control matrices.
  \<open>control_evidence_step\<close> is one round of \<^verbatim>\<open>validate_evidence\<close>,
  \<open>control_step\<close> one round of \<^verbatim>\<open>validate_document\<close>, \<open>control_audit\<close> the
  whole \<^verbatim>\<open>audit\<close> with the file set, the loads and the three documents. The lemmas
  characterise acceptance; the properties say what a qualified control guarantees.
\<close>

section \<open>The code\<close>

definition matrix_root :: string where
  "matrix_root = ''production/control-matrices''"

definition control_evidence_root :: string where
  "control_evidence_root = ''production/evidence''"

definition control_matrices :: "(string \<times> string list) list" where
  "control_matrices =
    [(''desktop-services'',
      [''networking'', ''wifi-authentication'', ''time-synchronization'', ''dbus'', ''portals'',
       ''audio-bluetooth-audio'', ''credentials-authorization'', ''printing-removable-media'',
       ''cameras'', ''notifications'', ''updates-diagnostics'', ''locale-fonts'',
       ''input-accessibility'', ''power-management'']),
     (''security'',
      [''threat-models'', ''continuous-fuzzing'', ''hardening'', ''privilege-separation'',
       ''sandboxing'', ''key-operations'', ''sbom-attestations'', ''reproducible-builds'',
       ''vulnerability-response'']),
     (''release-operations'',
      [''hardware-matrix'', ''support-levels'', ''release-channels'', ''mirrors'',
       ''rollback-drills'', ''advisories-release-notes'', ''soak-testing''])]"

definition control_statuses :: "string list" where
  "control_statuses = [''pending'', ''implemented'', ''failed'', ''qualified'']"

definition control_evidence_kinds :: "string list" where
  "control_evidence_kinds =
     [''attestation'', ''fuzz-report'', ''hardware-report'', ''hardening-report'', ''key-drill'',
      ''mirror-report'', ''recovery-report'', ''release-report'', ''reproducibility-report'',
      ''sbom'', ''security-report'', ''serial-log'', ''service-snapshot'', ''soak-report'',
      ''test-report'', ''threat-model'', ''vulnerability-drill'']"

definition control_environments :: "string list" where
  "control_environments =
     [''continuous-integration'', ''design-review'', ''hardware-lab'', ''independent-builder'',
      ''physical-hardware'', ''qemu'', ''release-operations'']"

definition control_timestamp :: "string \<Rightarrow> string \<Rightarrow> timestamp result" where
  "control_timestamp v path =
     utc_timestamp (path @ '' must use UTC Z form'') (path @ '' is not RFC 3339 compatible'') v"

definition control_load ::
    "(string \<Rightarrow> pyval option) \<Rightarrow> fs \<Rightarrow> pure_path \<Rightarrow> pyval result" where
  "control_load json fs path =
     (if not_regular fs path then Inl (Rejected ''matrix is not a regular file'')
      else case read_text fs path of
        Inl e \<Rightarrow> (if e = OSError then Inl (Rejected ''cannot load matrix'') else Inl e)
      | Inr text \<Rightarrow>
          (case json text of
             None \<Rightarrow> Inl (Rejected ''cannot load matrix'')
           | Some v \<Rightarrow>
               (if \<not> is_dict v then Inl (Rejected ''matrix root must be an object'') else Inr v)))"

definition control_entry_fields :: "string list" where
  "control_entry_fields =
     [''kind'', ''path'', ''sha256'', ''captured_at'', ''revision'', ''component'', ''environment'']"

record evidence_acc =
  acc_kinds :: "string set"
  acc_environments :: "string set"
  acc_paths :: "string set"

definition control_evidence_step ::
    "fs \<Rightarrow> pure_path \<Rightarrow> string \<Rightarrow> pyval \<Rightarrow> string \<Rightarrow> nat \<Rightarrow> pyval \<Rightarrow> evidence_acc \<Rightarrow>
     evidence_acc result" where
  "control_evidence_step fs root matrix_id control base index x acc =
     (let item_base = item (base @ ''.evidence'') index;
          kind = field x ''kind''; environment = field x ''environment'';
          path_value = field x ''path'';
          path = join root (str_of path_value);
          boundary = join (join root control_evidence_root) matrix_id
      in
      if \<not> has_fields control_entry_fields x
        then Inl (Rejected (item_base @ '' has unexpected or missing fields''))
      else if \<not> str_that (\<lambda>s. s \<in> set control_evidence_kinds) kind
        then Inl (Rejected (item_base @ ''.kind is invalid''))
      else if \<not> str_that (\<lambda>s. s \<in> set control_environments) environment
        then Inl (Rejected (item_base @ ''.environment is invalid''))
      else if \<not> str_that (\<lambda>s. PStr s \<in> set (list_of (field control ''components'')))
                (field x ''component'')
        then Inl (Rejected (item_base @ ''.component is outside the control boundary''))
      else if \<not> str_that safe_relative path_value
        then Inl (Rejected (item_base @ ''.path must be a safe relative path''))
      else if str_of path_value \<in> acc_paths acc
        then Inl (Rejected (item_base @ ''.path is duplicated''))
      else if relative_to path boundary = None
        then Inl (Rejected (item_base @ ''.path must be beneath '' @ control_evidence_root @
          ''/'' @ matrix_id))
      else if not_regular fs path
        then Inl (Rejected (item_base @ ''.path is missing or not regular''))
      else if \<not> str_that (fullmatch SHA256_RE) (field x ''sha256'')
        then Inl (Rejected (item_base @ ''.sha256 must be a lowercase SHA-256 digest''))
      else bindE (read_bytes fs path) (\<lambda>content.
        if \<not> py_eq (PStr (sha256_hex content)) (field x ''sha256'')
          then Inl (Rejected (item_base @ ''.sha256 does not match the artifact''))
        else if \<not> str_that (fullmatch REVISION_RE) (field x ''revision'')
          then Inl (Rejected (item_base @ ''.revision must be a full Git object ID''))
        else if \<not> str_that (\<lambda>s. True) (field x ''captured_at'')
          then Inl (Rejected (item_base @ ''.captured_at must be a timestamp''))
        else bindE (control_timestamp (str_of (field x ''captured_at''))
                     (item_base @ ''.captured_at''))
          (\<lambda>t. Inr \<lparr> acc_kinds = insert (str_of kind) (acc_kinds acc),
                    acc_environments = insert (str_of environment) (acc_environments acc),
                    acc_paths = insert (str_of path_value) (acc_paths acc) \<rparr>)))"

definition no_evidence :: evidence_acc where
  "no_evidence = \<lparr> acc_kinds = {}, acc_environments = {}, acc_paths = {} \<rparr>"

definition control_validate_evidence ::
    "fs \<Rightarrow> pure_path \<Rightarrow> string \<Rightarrow> pyval \<Rightarrow> string \<Rightarrow> (string set \<times> string set) result" where
  "control_validate_evidence fs root matrix_id control base =
     (if \<not> is_list (field control ''evidence'')
        then Inl (Rejected (base @ ''.evidence must be an array''))
      else bindE (forE (control_evidence_step fs root matrix_id control base) 0
                   (list_of (field control ''evidence'')) no_evidence)
        (\<lambda>acc. Inr (acc_kinds acc, acc_environments acc)))"

definition control_fields :: "string list" where
  "control_fields =
     [''id'', ''title'', ''status'', ''components'', ''required_evidence'',
      ''required_environments'', ''evidence'', ''blockers'']"

definition control_step ::
    "fs \<Rightarrow> pure_path \<Rightarrow> string \<Rightarrow> nat \<Rightarrow> string \<times> pyval \<Rightarrow> (string \<Rightarrow> nat) \<Rightarrow>
     (string \<Rightarrow> nat) result" where
  "control_step fs root matrix_id index x counts =
     (let base = item (matrix_id @ ''.controls'') index; control = snd x;
          status = str_of (field control ''status''); blockers = field control ''blockers'';
          evidence = list_of (field control ''evidence'')
      in
      if \<not> has_fields control_fields control
        then Inl (Rejected (base @ '' has unexpected or missing fields''))
      else if \<not> py_eq (field control ''id'') (PStr (fst x))
        then Inl (Rejected (base @ ''.id differs from the canonical control order''))
      else if \<not> is_text (field control ''title'')
        then Inl (Rejected (base @ ''.title is empty''))
      else if \<not> str_that (\<lambda>s. s \<in> set control_statuses) (field control ''status'')
        then Inl (Rejected (base @ ''.status is invalid''))
      else if \<not> nonempty_unique_texts (field control ''components'')
        then Inl (Rejected (base @ ''.components must be a non-empty unique string array''))
      else if \<not> unique_strings_in control_evidence_kinds (field control ''required_evidence'')
        then Inl (Rejected (base @ ''.required_evidence is invalid''))
      else if \<not> unique_strings_in control_environments (field control ''required_environments'')
        then Inl (Rejected (base @ ''.required_environments is invalid''))
      else if \<not> text_list blockers
        then Inl (Rejected (base @ ''.blockers must contain non-empty strings''))
      else bindE (control_validate_evidence fs root matrix_id control base) (\<lambda>(kinds, envs).
        if status = ''qualified'' \<and>
           list_ex (\<lambda>e. is_placeholder (str_of (field e ''revision''))) evidence
          then Inl (Rejected (base @
            ''.evidence contains a placeholder revision and cannot qualify''))
        else if status = ''qualified'' \<and> list_of blockers \<noteq> []
          then Inl (Rejected (base @ ''.blockers must be empty after qualification''))
        else if status = ''qualified'' \<and>
                \<not> set (texts (field control ''required_evidence'')) \<subseteq> kinds
          then Inl (Rejected (base @ ''.evidence lacks required kinds''))
        else if status = ''qualified'' \<and>
                \<not> set (texts (field control ''required_environments'')) \<subseteq> envs
          then Inl (Rejected (base @ ''.evidence lacks required environments''))
        else if status = ''failed'' \<and> (list_of blockers = [] \<or> evidence = [])
          then Inl (Rejected (base @ '' failed control requires blockers and evidence''))
        else if status \<noteq> ''qualified'' \<and> status \<noteq> ''failed'' \<and> list_of blockers = []
          then Inl (Rejected (base @ '' unqualified control requires a blocker''))
        else Inr (bump status counts)))"

definition control_validate_document ::
    "fs \<Rightarrow> pure_path \<Rightarrow> pyval \<Rightarrow> string list \<Rightarrow> (string \<Rightarrow> nat) result" where
  "control_validate_document fs root document expected_ids =
     (let controls = field document ''controls'' in
      if \<not> has_fields [''format'', ''distribution'', ''matrix'', ''title'', ''controls''] document
        then Inl (Rejected ''matrix has unexpected or missing top-level fields'')
      else if \<not> py_eq (field document ''format'') (PInt 1) \<or>
              \<not> py_eq (field document ''distribution'') (PStr ''ArachOS'')
        then Inl (Rejected ''matrix format or distribution identity is invalid'')
      else if \<not> str_that (fullmatch ID_RE) (field document ''matrix'')
        then Inl (Rejected ''matrix identifier is invalid'')
      else if \<not> is_text (field document ''title'')
        then Inl (Rejected ''matrix title is empty'')
      else if \<not> is_list controls \<or> length (list_of controls) \<noteq> length expected_ids
        then Inl (Rejected ''matrix control count differs from its canonical definition'')
      else forE (control_step fs root (str_of (field document ''matrix''))) 0
        (zip expected_ids (list_of controls)) (\<lambda>_. 0))"

text \<open>
  \<^verbatim>\<open>path.stem\<close> of a directory entry, and the file set of the matrix directory:
  \<open>names\<close> are its entries as the system lists them.
\<close>

definition stem :: "string \<Rightarrow> string" where
  "stem name =
     (let suffix = takeWhile (\<lambda>c. c \<noteq> CHR ''.'') (rev name);
          before = take (length name - Suc (length suffix)) name
      in if suffix = [] \<or> before = [] \<or> length suffix = length name then name else before)"

definition matrix_files :: "fs \<Rightarrow> pure_path \<Rightarrow> string list \<Rightarrow> string set" where
  "matrix_files fs root names =
     set (map stem (filter (\<lambda>n.
       drop (length n - 5) n = ''.json'' \<and>
       is_file fs (join (join root matrix_root) n) \<and>
       \<not> is_symlink fs (join (join root matrix_root) n)) names))"

definition matrix_step ::
    "(string \<Rightarrow> pyval option) \<Rightarrow> fs \<Rightarrow> pure_path \<Rightarrow> nat \<Rightarrow> string \<times> string list \<Rightarrow>
     (string \<times> (string \<Rightarrow> nat)) list \<Rightarrow> (string \<times> (string \<Rightarrow> nat)) list result" where
  "matrix_step json fs root index x acc =
     bindE (control_load json fs (join (join root matrix_root) (fst x @ ''.json''))) (\<lambda>document.
       if \<not> py_eq (field document ''matrix'') (PStr (fst x))
         then Inl (Rejected (fst x @ '' declares the wrong matrix identifier''))
       else bindE (control_validate_document fs root document (snd x))
         (\<lambda>counts. Inr (acc @ [(fst x, counts)])))"

definition control_audit ::
    "(string \<Rightarrow> pyval option) \<Rightarrow> fs \<Rightarrow> pure_path \<Rightarrow> string list \<Rightarrow>
     (string \<times> (string \<Rightarrow> nat)) list result" where
  "control_audit json fs root names =
     (if matrix_files fs root names \<noteq> set [''desktop-services'', ''security'', ''release-operations'']
        then Inl (Rejected ''control matrix file set differs'')
      else forE (matrix_step json fs root) 0 control_matrices [])"

section \<open>What is accepted\<close>

text \<open>An evidence entry that is acceptable on its own.\<close>

definition control_entry_ok :: "fs \<Rightarrow> pure_path \<Rightarrow> string \<Rightarrow> pyval \<Rightarrow> pyval \<Rightarrow> bool" where
  "control_entry_ok fs root matrix_id control x \<longleftrightarrow>
     has_fields control_entry_fields x \<and>
     (\<exists>kind environment component.
        field x ''kind'' = PStr kind \<and> kind \<in> set control_evidence_kinds \<and>
        field x ''environment'' = PStr environment \<and> environment \<in> set control_environments \<and>
        field x ''component'' = PStr component \<and>
        PStr component \<in> set (list_of (field control ''components''))) \<and>
     (\<exists>path content revision captured t.
        field x ''path'' = PStr path \<and> safe_relative path \<and>
        relative_to (join root path) (join (join root control_evidence_root) matrix_id) \<noteq> None \<and>
        \<not> not_regular fs (join root path) \<and> read_bytes fs (join root path) = Inr content \<and>
        field x ''sha256'' = PStr (sha256_hex content) \<and>
        field x ''revision'' = PStr revision \<and> fullmatch REVISION_RE revision \<and>
        field x ''captured_at'' = PStr captured \<and> is_utc captured t)"

definition control_collect :: "pyval \<Rightarrow> evidence_acc \<Rightarrow> evidence_acc" where
  "control_collect x acc =
     \<lparr> acc_kinds = insert (str_of (field x ''kind'')) (acc_kinds acc),
       acc_environments = insert (str_of (field x ''environment'')) (acc_environments acc),
       acc_paths = insert (path_of x) (acc_paths acc) \<rparr>"

lemma control_evidence_step_iff:
  "control_evidence_step fs root mid control base i x acc = Inr acc' \<longleftrightarrow>
     control_entry_ok fs root mid control x \<and> path_of x \<notin> acc_paths acc \<and>
     acc' = control_collect x acc"
proof -
  have "control_evidence_step fs root mid control base i x acc = Inr acc' \<longleftrightarrow>
      has_fields control_entry_fields x \<and>
      (\<exists>kind. field x ''kind'' = PStr kind \<and> kind \<in> set control_evidence_kinds) \<and>
      (\<exists>environment. field x ''environment'' = PStr environment \<and>
         environment \<in> set control_environments) \<and>
      (\<exists>component. field x ''component'' = PStr component \<and>
         PStr component \<in> set (list_of (field control ''components''))) \<and>
      (\<exists>path. field x ''path'' = PStr path \<and> safe_relative path) \<and>
      path_of x \<notin> acc_paths acc \<and>
      relative_to (join root (path_of x)) (join (join root control_evidence_root) mid) \<noteq> None \<and>
      \<not> not_regular fs (join root (path_of x)) \<and>
      (\<exists>d. field x ''sha256'' = PStr d \<and> fullmatch SHA256_RE d) \<and>
      (\<exists>content. read_bytes fs (join root (path_of x)) = Inr content \<and>
         field x ''sha256'' = PStr (sha256_hex content)) \<and>
      (\<exists>revision. field x ''revision'' = PStr revision \<and> fullmatch REVISION_RE revision) \<and>
      (\<exists>captured. field x ''captured_at'' = PStr captured) \<and>
      (\<exists>t. is_utc (str_of (field x ''captured_at'')) t) \<and> acc' = control_collect x acc"
    unfolding control_evidence_step_def control_collect_def path_of_def control_timestamp_def
      Let_def
    by (simp only: result_simps py_eq_str' str_that_iff not_not conj_assoc simp_thms) blast
  then show ?thesis
    by (auto simp: control_entry_ok_def path_of_def)
qed

interpretation control_entries: unique_loop
  "control_evidence_step fs root mid control base"
  "\<lambda>i. control_entry_ok fs root mid control" path_of acc_paths control_collect
  for fs root mid control base
  by unfold_locales (simp_all add: control_evidence_step_iff control_collect_def)

lemma control_fold:
  "acc_kinds (fold control_collect xs acc) =
     set (map (\<lambda>x. str_of (field x ''kind'')) xs) \<union> acc_kinds acc"
  "acc_environments (fold control_collect xs acc) =
     set (map (\<lambda>x. str_of (field x ''environment'')) xs) \<union> acc_environments acc"
  by (induction xs arbitrary: acc) (auto simp: control_collect_def)

definition control_entries_ok :: "fs \<Rightarrow> pure_path \<Rightarrow> string \<Rightarrow> pyval \<Rightarrow> pyval list \<Rightarrow> bool" where
  "control_entries_ok fs root mid control es \<longleftrightarrow>
     list_all (control_entry_ok fs root mid control) es \<and> distinct (map path_of es)"

definition environments_of :: "pyval list \<Rightarrow> string set" where
  "environments_of es = set (map (\<lambda>x. str_of (field x ''environment'')) es)"

lemma control_validate_evidence_iff:
  "control_validate_evidence fs root mid control base = Inr (ks, envs) \<longleftrightarrow>
     is_list (field control ''evidence'') \<and>
     control_entries_ok fs root mid control (evidence_of control) \<and>
     ks = kinds_of (evidence_of control) \<and> envs = environments_of (evidence_of control)"
  by (auto simp: control_validate_evidence_def result_simps control_entries.loop_iff
      control_fold control_entries_ok_def list_all_length no_evidence_def kinds_of_def
      environments_of_def evidence_of_def)

text \<open>The rule for each status, on the validated evidence.\<close>

definition control_status_rule :: "pyval \<Rightarrow> bool" where
  "control_status_rule control \<longleftrightarrow>
     (if status_of control = ''qualified'' then
        list_all (\<lambda>e. \<not> is_placeholder (revision_of e)) (evidence_of control) \<and>
        list_of (field control ''blockers'') = [] \<and>
        set (texts (field control ''required_evidence'')) \<subseteq> kinds_of (evidence_of control) \<and>
        set (texts (field control ''required_environments'')) \<subseteq> environments_of (evidence_of control)
      else if status_of control = ''failed'' then
        list_of (field control ''blockers'') \<noteq> [] \<and> (evidence_of control) \<noteq> []
      else list_of (field control ''blockers'') \<noteq> [])"

definition control_shape_ok :: "string \<Rightarrow> pyval \<Rightarrow> bool" where
  "control_shape_ok expected control \<longleftrightarrow>
     has_fields control_fields control \<and> field control ''id'' = PStr expected \<and>
     is_text (field control ''title'') \<and>
     str_that (\<lambda>s. s \<in> set control_statuses) (field control ''status'') \<and>
     nonempty_unique_texts (field control ''components'') \<and>
     unique_strings_in control_evidence_kinds (field control ''required_evidence'') \<and>
     unique_strings_in control_environments (field control ''required_environments'') \<and>
     text_list (field control ''blockers'')"

definition control_ok :: "fs \<Rightarrow> pure_path \<Rightarrow> string \<Rightarrow> string \<Rightarrow> pyval \<Rightarrow> bool" where
  "control_ok fs root mid expected control \<longleftrightarrow>
     control_shape_ok expected control \<and> is_list (field control ''evidence'') \<and>
     control_entries_ok fs root mid control (evidence_of control) \<and> control_status_rule control"

lemma control_step_iff:
  "control_step fs root mid i x c = Inr c' \<longleftrightarrow>
     control_ok fs root mid (fst x) (snd x) \<and> c' = bump (status_of (snd x)) c"
proof -
  have rule: "(\<not> (s = ''qualified'' \<and> p) \<and> \<not> (s = ''qualified'' \<and> b \<noteq> []) \<and>
      \<not> (s = ''qualified'' \<and> \<not> k) \<and> \<not> (s = ''qualified'' \<and> \<not> v) \<and>
      \<not> (s = ''failed'' \<and> (b = [] \<or> es = [])) \<and>
      \<not> (s \<noteq> ''qualified'' \<and> s \<noteq> ''failed'' \<and> b = [])) \<longleftrightarrow>
      (if s = ''qualified'' then \<not> p \<and> b = [] \<and> k \<and> v
       else if s = ''failed'' then b \<noteq> [] \<and> es \<noteq> [] else b \<noteq> [])"
    for s p k v and b es :: "pyval list"
    by simp
  have placeholder: "list_all (\<lambda>e. \<not> is_placeholder (revision_of e)) es \<longleftrightarrow>
      \<not> list_ex (\<lambda>e. is_placeholder (revision_of e)) es" for es
    by (auto simp: list_all_iff list_ex_iff)
  show ?thesis
    unfolding control_step_def control_ok_def control_shape_ok_def control_status_rule_def
      placeholder rule [symmetric] Let_def status_of_def [symmetric] revision_of_def [symmetric]
      evidence_of_def [symmetric]
    by (simp only: result_simps split_paired_Ex prod.case control_validate_evidence_iff py_eq_str
        not_not conj_assoc simp_thms) blast
qed

interpretation control_loop: status_ledger
  "control_step fs root mid" "control_ok fs root mid" status_of control_statuses
  for fs root mid
proof
  show "distinct control_statuses" by (simp add: control_statuses_def)
next
  fix e x
  assume "control_ok fs root mid e x"
  then show "status_of x \<in> set control_statuses"
    by (auto simp: control_ok_def control_shape_ok_def status_of_def)
qed (rule control_step_iff)

definition control_document_ok ::
    "fs \<Rightarrow> pure_path \<Rightarrow> pyval \<Rightarrow> string list \<Rightarrow> string \<Rightarrow> pyval list \<Rightarrow> bool" where
  "control_document_ok fs root document ids mid controls \<longleftrightarrow>
     has_fields [''format'', ''distribution'', ''matrix'', ''title'', ''controls''] document \<and>
     py_eq (field document ''format'') (PInt 1) \<and>
     field document ''distribution'' = PStr ''ArachOS'' \<and>
     field document ''matrix'' = PStr mid \<and> fullmatch ID_RE mid \<and>
     is_text (field document ''title'') \<and> field document ''controls'' = PList controls \<and>
     list_all2 (control_ok fs root mid) ids controls"

lemma control_validate_document_iff:
  "control_validate_document fs root document ids = Inr counts \<longleftrightarrow>
     (\<exists>mid controls. control_document_ok fs root document ids mid controls \<and>
        counts = count_list (map status_of controls))"
proof (cases "field document ''controls''")
  case (PList xs)
  show ?thesis
    unfolding control_validate_document_def control_document_ok_def Let_def
    by (auto simp: PList result_simps control_loop.canonical_iff)
qed (simp_all add: control_validate_document_def control_document_ok_def Let_def)

section \<open>Crash freedom\<close>

lemma control_evidence_step_safe:
  "readable_tree fs \<Longrightarrow> crash_free (control_evidence_step fs root mid control base i x acc)"
  unfolding control_evidence_step_def Let_def control_timestamp_def
  by (intro safe_intros) auto

lemma control_validate_evidence_safe [safe_intros]:
  "readable_tree fs \<Longrightarrow> crash_free (control_validate_evidence fs root mid control base)"
  unfolding control_validate_evidence_def
  by (intro safe_intros control_evidence_step_safe)

lemma control_step_safe:
  "readable_tree fs \<Longrightarrow> crash_free (control_step fs root mid i x c)"
  unfolding control_step_def Let_def case_prod_beta by (intro safe_intros)

section \<open>Where the evidence of a matrix lies\<close>

lemma star_alphabet:
  "matches r s \<Longrightarrow> r = Star q \<Longrightarrow> (\<And>t. matches q t \<Longrightarrow> set t \<subseteq> A) \<Longrightarrow> set s \<subseteq> A"
proof (induction rule: matches.induct)
  case (m_star r c s t)
  then have "set (c # s) \<subseteq> A" "set t \<subseteq> A" by blast+
  then show ?case by simp
qed simp_all

lemma id_re_part:
  assumes "fullmatch ID_RE s"
  shows "tail (Path s) = [s]" "\<not> is_absolute (Path s)"
proof -
  let ?A = "set (CHR ''-'' # lower_alnum)"
  have word: "set t \<subseteq> ?A \<and> t \<noteq> []" if "matches (plus_rx (Cls lower_alnum)) t" for t
  proof -
    from that obtain c u where t: "t = c # u" and c: "c \<in> set lower_alnum"
      and u: "matches (Star (Cls lower_alnum)) u"
      by (auto simp: plus_rx_def matches_seq_cls)
    have "set u \<subseteq> ?A"
      by (rule star_alphabet [OF u refl]) (auto simp: matches_cls)
    with t c show ?thesis by auto
  qed
  from assms obtain t u where s: "s = t @ u" and t: "matches (plus_rx (Cls lower_alnum)) t"
    and u: "matches (Star (Seq (Cls ''-'') (plus_rx (Cls lower_alnum)))) u"
    by (auto simp: ID_RE_def fullmatch_iff matches_seq)
  have "set u \<subseteq> ?A"
    by (rule star_alphabet [OF u refl]) (use word in \<open>fastforce simp: matches_seq_cls\<close>)
  with s word [OF t] have A: "set s \<subseteq> ?A" and ne: "s \<noteq> []" by auto
  then have sep: "CHR ''/'' \<notin> set s" and dot: "CHR ''.'' \<notin> set s"
    by (auto simp: lower_alnum_def)
  from ne dot have "s \<noteq> ''.''" by auto
  with ne sep show "tail (Path s) = [s]"
    by (simp add: Path_def split_on_whole)
  from ne sep show "\<not> is_absolute (Path s)"
    by (cases s) (auto simp: Path_def is_absolute_def)
qed

lemma control_entry_digest:
  assumes "control_entry_ok fs root mid control x"
  shows "\<exists>content. read_bytes fs (join root (path_of x)) = Inr content \<and>
     field x ''sha256'' = PStr (sha256_hex content)"
  using assms by (auto simp: control_entry_ok_def path_of_def)

lemma control_root_safe: "safe_relative control_evidence_root"
  by code_simp

lemma control_entry_place:
  assumes "control_entry_ok fs root mid control x" and "fullmatch ID_RE mid"
  shows "\<exists>ys. tail (join root (path_of x)) =
     tail root @ tail (Path control_evidence_root) @ mid # ys"
proof -
  from assms(1) obtain ys where
    "relative_to (join root (path_of x)) (join (join root control_evidence_root) mid) = Some ys"
    by (auto simp: control_entry_ok_def path_of_def)
  then show ?thesis
    by (simp add: relative_to_iff plain.join_tail [OF control_root_safe]
        join_relative [OF id_re_part(2) [OF assms(2)]] id_re_part(1) [OF assms(2)])
qed

lemma control_document_entry:
  assumes "control_validate_document fs root document ids = Inr counts"
    and "control \<in> set (list_of (field document ''controls''))" and "x \<in> set (evidence_of control)"
  shows "control_entry_ok fs root (str_of (field document ''matrix'')) control x"
    and "fullmatch ID_RE (str_of (field document ''matrix''))"
proof -
  from assms(1) obtain mid controls where d: "control_document_ok fs root document ids mid controls"
    by (auto simp: control_validate_document_iff)
  then have c: "controls = list_of (field document ''controls'')"
    and m: "mid = str_of (field document ''matrix'')" and i: "fullmatch ID_RE mid"
    and all: "list_all2 (control_ok fs root mid) ids controls"
    by (auto simp: control_document_ok_def)
  from all assms(2) c obtain e where "control_ok fs root mid e control"
    by (metis list_all2_member)
  with assms(3) m show "control_entry_ok fs root (str_of (field document ''matrix'')) control x"
    by (auto simp: control_ok_def control_entries_ok_def list_all_iff)
  from i m show "fullmatch ID_RE (str_of (field document ''matrix''))" by simp
qed

definition matrix_counts ::
    "(string \<Rightarrow> pyval option) \<Rightarrow> fs \<Rightarrow> pure_path \<Rightarrow> string \<times> string list \<Rightarrow>
     string \<times> (string \<Rightarrow> nat) \<Rightarrow> bool" where
  "matrix_counts json fs root x y \<longleftrightarrow>
     fst y = fst x \<and>
     (\<exists>document.
        control_load json fs (join (join root matrix_root) (fst x @ ''.json'')) = Inr document \<and>
        field document ''matrix'' = PStr (fst x) \<and>
        control_validate_document fs root document (snd x) = Inr (snd y))"

interpretation matrix_loop: collect_loop "matrix_step json fs root" "matrix_counts json fs root"
  for json fs root
  by unfold_locales (auto simp: matrix_step_def matrix_counts_def result_simps)

section \<open>A concrete matrix\<close>

definition sample_control_entry :: "string \<Rightarrow> pyval" where
  "sample_control_entry path =
     PDict [(''kind'', PStr ''test-report''), (''path'', PStr path),
       (''sha256'', PStr sample_digest), (''captured_at'', PStr sample_time),
       (''revision'', PStr sample_revision), (''component'', PStr ''ArachOS''),
       (''environment'', PStr ''qemu'')]"

definition sample_control :: "string \<Rightarrow> string \<Rightarrow> pyval list \<Rightarrow> pyval list \<Rightarrow> pyval" where
  "sample_control ident status blockers es =
     PDict [(''id'', PStr ident), (''title'', PStr ident), (''status'', PStr status),
       (''components'', PList [PStr ''ArachOS'']),
       (''required_evidence'', PList [PStr ''test-report'']),
       (''required_environments'', PList [PStr ''qemu'']), (''evidence'', PList es),
       (''blockers'', PList blockers)]"

definition sample_matrix :: "string \<Rightarrow> pyval list \<Rightarrow> pyval" where
  "sample_matrix mid controls =
     PDict [(''format'', PInt 1), (''distribution'', PStr ''ArachOS''), (''matrix'', PStr mid),
       (''title'', PStr mid), (''controls'', PList controls)]"

definition control_artifact :: "string \<Rightarrow> string" where
  "control_artifact mid = control_evidence_root @ ''/'' @ mid @ ''/a.bin''"

definition qualified_sample :: "string \<Rightarrow> pyval" where
  "qualified_sample mid =
     sample_control ''networking'' ''qualified'' [] [sample_control_entry (control_artifact mid)]"

definition pending_sample :: "string \<Rightarrow> pyval" where
  "pending_sample ident = sample_control ident ''pending'' [PStr ''open''] []"

definition control_dir :: "string \<Rightarrow> string list" where
  "control_dir mid = [''production'', ''evidence'', mid]"

lemma sample_control_shape:
  assumes "\<not> blank ident" and "status \<in> set control_statuses" and "list_all is_text blockers"
  shows "control_shape_ok ident (sample_control ident status blockers es)"
  using assms
  by (simp add: control_shape_ok_def sample_control_def nonempty_unique_texts_def
      unique_strings_in_def text_list_def control_fields_def control_evidence_kinds_def
      control_environments_def space_chars_def)

lemma pending_sample_ok:
  "\<not> blank ident \<Longrightarrow> control_ok fs root mid ident (pending_sample ident)"
  unfolding control_ok_def pending_sample_def
  by (intro conjI sample_control_shape)
    (simp_all add: control_statuses_def sample_control_def control_entries_ok_def evidence_of_def
      control_status_rule_def status_of_def space_chars_def)

lemma sample_matrix_accepted:
  assumes "fullmatch ID_RE mid" and "\<not> blank mid"
    and "list_all2 (control_ok fs root mid) ids controls"
  shows "control_validate_document fs root (sample_matrix mid controls) ids =
     Inr (count_list (map status_of controls))"
  using assms
  by (auto simp: control_validate_document_iff control_document_ok_def sample_matrix_def)

definition two_matrix_tree :: fs where
  "two_matrix_tree =
     map_add (artifact_tree (control_dir ''security''))
       (artifact_tree (control_dir ''desktop-services''))"

definition sample_artifact_at :: "string \<Rightarrow> string \<Rightarrow> bool" where
  "sample_artifact_at mid path \<longleftrightarrow>
     safe_relative path \<and>
     relative_to (join sample_root path) (join (join sample_root control_evidence_root) mid) \<noteq>
       None \<and>
     \<not> not_regular two_matrix_tree (join sample_root path) \<and>
     read_bytes two_matrix_tree (join sample_root path) = Inr sample_artifact"

lemma sample_artifacts:
  "sample_artifact_at ''desktop-services'' (control_artifact ''desktop-services'')"
  "sample_artifact_at ''security'' (control_artifact ''security'')"
  by code_simp+

lemma qualified_sample_ok:
  assumes "sample_artifact_at mid (control_artifact mid)"
  shows "control_ok two_matrix_tree sample_root mid ''networking'' (qualified_sample mid)"
proof -
  have "control_entry_ok two_matrix_tree sample_root mid (qualified_sample mid)
      (sample_control_entry (control_artifact mid))"
    using assms sample_revision_ok sample_time_utc
    by (auto simp: control_entry_ok_def sample_control_entry_def control_entry_fields_def
        control_evidence_kinds_def control_environments_def qualified_sample_def
        sample_control_def sha256_sample sample_artifact_at_def)
  then show ?thesis
    unfolding control_ok_def
    by (intro conjI, unfold qualified_sample_def, intro sample_control_shape)
      (simp_all add: control_statuses_def space_chars_def control_entries_ok_def evidence_of_def
        sample_control_def control_status_rule_def status_of_def revision_of_def
        sample_control_entry_def sample_revision_real kinds_of_def environments_of_def
        texts_def)
qed

definition sample_document :: "string \<Rightarrow> pyval" where
  "sample_document mid = sample_matrix mid [qualified_sample mid]"

lemma sample_document_accepted:
  assumes "sample_artifact_at mid (control_artifact mid)" and "fullmatch ID_RE mid"
    and "\<not> blank mid"
  shows "control_validate_document two_matrix_tree sample_root (sample_document mid)
     [''networking''] = Inr (count_list [''qualified''])"
proof -
  have "map status_of [qualified_sample mid] = [''qualified'']"
    by (simp add: qualified_sample_def sample_control_def status_of_def)
  with sample_matrix_accepted [OF assms(2,3), of two_matrix_tree sample_root "[''networking'']"
      "[qualified_sample mid]"] qualified_sample_ok [OF assms(1)]
  show ?thesis by (simp add: sample_document_def)
qed

lemma sample_desktop_accepted:
  "control_validate_document two_matrix_tree sample_root (sample_document ''desktop-services'')
     [''networking''] = Inr (count_list [''qualified''])"
  by (rule sample_document_accepted [OF sample_artifacts(1)]) code_simp+

lemma sample_security_accepted:
  "control_validate_document two_matrix_tree sample_root (sample_document ''security'')
     [''networking''] = Inr (count_list [''qualified''])"
  by (rule sample_document_accepted [OF sample_artifacts(2)]) code_simp+

lemma sample_document_fields [simp]:
  "list_of (field (sample_document mid) ''controls'') = [qualified_sample mid]"
  "field (sample_document mid) ''matrix'' = PStr mid"
  "status_of (qualified_sample mid) = ''qualified''"
  "evidence_of (qualified_sample mid) = [sample_control_entry (control_artifact mid)]"
  "texts (field (qualified_sample mid) ''required_evidence'') = [''test-report'']"
  "path_of (sample_control_entry path) = path"
  by (simp_all add: sample_document_def sample_matrix_def qualified_sample_def sample_control_def
      status_of_def evidence_of_def texts_def path_of_def sample_control_entry_def)

text \<open>A repository whose three matrices are all pending; a matrix file holds its own name.\<close>

definition sample_parser :: "string \<Rightarrow> pyval option" where
  "sample_parser text =
     map_option (\<lambda>ids. sample_matrix text (map pending_sample ids)) (map_of control_matrices text)"

definition matrix_dir :: "string list" where
  "matrix_dir = [''repo'', ''production'', ''control-matrices'']"

definition matrix_tree :: fs where
  "matrix_tree =
     map_of (map (\<lambda>x. (matrix_dir @ [fst x @ ''.json''], Regular (fst x) True)) control_matrices @
             dir_chain matrix_dir)"

definition matrix_names :: "string list" where
  "matrix_names = map (\<lambda>x. fst x @ ''.json'') control_matrices"

lemma matrix_tree_load:
  assumes "x \<in> set control_matrices"
  shows "control_load sample_parser matrix_tree
      (join (join sample_root matrix_root) (fst x @ ''.json'')) =
     Inr (sample_matrix (fst x) (map pending_sample (snd x)))"
proof -
  let ?path = "\<lambda>x. join (join sample_root matrix_root) (fst x @ ''.json'')"
  have "list_all (\<lambda>x. \<not> not_regular matrix_tree (?path x) \<and>
      read_text matrix_tree (?path x) = Inr (fst x)) control_matrices"
    by code_simp
  moreover have "sample_parser (fst x) = Some (sample_matrix (fst x) (map pending_sample (snd x)))"
    using assms by (auto simp: sample_parser_def control_matrices_def)
  ultimately show ?thesis
    using assms by (simp add: control_load_def list_all_iff sample_matrix_def)
qed

definition pending_counts :: "string list \<Rightarrow> string \<Rightarrow> nat" where
  "pending_counts ids = count_list (map status_of (map pending_sample ids))"

lemma matrix_tree_counts:
  assumes "x \<in> set control_matrices"
  shows "matrix_counts sample_parser matrix_tree sample_root x (fst x, pending_counts (snd x))"
proof -
  have "list_all (\<lambda>x. fullmatch ID_RE (fst x) \<and> \<not> blank (fst x) \<and>
      list_all (\<lambda>i. \<not> blank i) (snd x)) control_matrices"
    by code_simp
  with assms have x: "fullmatch ID_RE (fst x)" "\<not> blank (fst x)" "\<forall>i \<in> set (snd x). \<not> blank i"
    by (auto simp: list_all_iff)
  have "control_validate_document matrix_tree sample_root
      (sample_matrix (fst x) (map pending_sample (snd x))) (snd x) = Inr (pending_counts (snd x))"
    unfolding pending_counts_def
    by (rule sample_matrix_accepted [OF x(1,2)])
      (use x(3) in \<open>simp add: list_all2_map2 list_all2_same pending_sample_ok\<close>)
  moreover have "field (sample_matrix mid cs) ''matrix'' = PStr mid" for mid cs
    by (simp add: sample_matrix_def)
  ultimately show ?thesis
    using matrix_tree_load [OF assms] by (simp add: matrix_counts_def)
qed

lemma matrix_tree_audit:
  "control_audit sample_parser matrix_tree sample_root matrix_names =
     Inr (map (\<lambda>x. (fst x, pending_counts (snd x))) control_matrices)"
proof -
  have "matrix_files matrix_tree sample_root matrix_names =
      set [''desktop-services'', ''security'', ''release-operations'']"
    by code_simp
  then show ?thesis
    by (simp add: control_audit_def matrix_loop.collect_iff list_all2_map2 list_all2_same
        matrix_tree_counts)
qed

section \<open>Properties\<close>

text \<open>
  Validating a matrix raises nothing but its own diagnosis, on any document whatever and for
  any list of expected controls, as long as the regular files of the tree can be opened.
\<close>

theorem control_document_never_crashes:
  "readable_tree fs \<Longrightarrow> crash_free (control_validate_document fs root (PDict d) ids)"
  unfolding control_validate_document_def Let_def by (intro safe_intros control_step_safe)

theorem control_document_never_crashes_witness:
  "crash_free (control_validate_document (\<lambda>_. None) (abs_path []) (PDict []) [''networking''])"
  by (rule control_document_never_crashes) (simp add: readable_tree_def)

text \<open>
  C30. A control that an accepted matrix calls qualified is backed: no blocker is left, every kind
  of evidence and every environment it asks for occurs among its entries, and every entry binds
  an existing artifact by its digest to a revision that is not a placeholder.
\<close>

theorem control_qualified_is_backed:
  assumes "control_validate_document fs root document ids = Inr counts"
    and "control \<in> set (list_of (field document ''controls''))"
    and "status_of control = ''qualified''"
  shows "field control ''blockers'' = PList [] \<and>
    set (texts (field control ''required_evidence'')) \<subseteq> kinds_of (evidence_of control) \<and>
    set (texts (field control ''required_environments'')) \<subseteq>
      environments_of (evidence_of control) \<and>
    (\<forall>e \<in> set (evidence_of control). \<not> is_placeholder (revision_of e) \<and>
       (\<exists>content. read_bytes fs (join root (path_of e)) = Inr content \<and>
          field e ''sha256'' = PStr (sha256_hex content)))"
proof -
  from assms(1) obtain mid controls where
    "list_all2 (control_ok fs root mid) ids controls" "controls = list_of (field document ''controls'')"
    by (auto simp: control_validate_document_iff control_document_ok_def)
  with assms(2) obtain e where ok: "control_ok fs root mid e control"
    by (metis list_all2_member)
  then have "control_entry_ok fs root mid control x" if "x \<in> set (evidence_of control)" for x
    using that by (auto simp: control_ok_def control_entries_ok_def list_all_iff)
  note digest = control_entry_digest [OF this]
  from ok have "is_list (field control ''blockers'')"
    by (simp add: control_ok_def control_shape_ok_def text_list_def)
  with ok assms(3) show ?thesis
    by (auto simp: control_ok_def control_status_rule_def list_all_iff is_list_iff intro: digest)
qed

theorem control_qualified_is_backed_witness:
  "{''test-report''} \<subseteq> kinds_of (evidence_of (qualified_sample ''desktop-services''))"
  using control_qualified_is_backed [OF sample_desktop_accepted,
      of "qualified_sample ''desktop-services''"]
  by simp

text \<open>
  C31. The matrices keep their evidence apart: no artifact path can count for controls of two
  accepted matrices with different identifiers, since each lies in the directory of its own.
\<close>

theorem control_evidence_is_separate:
  assumes "control_validate_document fs root d1 ids1 = Inr c1"
    and "control_validate_document fs root d2 ids2 = Inr c2"
    and "k1 \<in> set (list_of (field d1 ''controls''))" and "x1 \<in> set (evidence_of k1)"
    and "k2 \<in> set (list_of (field d2 ''controls''))" and "x2 \<in> set (evidence_of k2)"
    and "field d1 ''matrix'' \<noteq> field d2 ''matrix''"
  shows "join root (path_of x1) \<noteq> join root (path_of x2)"
proof
  assume same: "join root (path_of x1) = join root (path_of x2)"
  note e1 = control_document_entry [OF assms(1,3,4)] and e2 = control_document_entry [OF assms(2,5,6)]
  from same have "str_of (field d1 ''matrix'') = str_of (field d2 ''matrix'')"
    using control_entry_place [OF e1] control_entry_place [OF e2] by auto
  moreover from assms(1,2) have "\<exists>a b. field d1 ''matrix'' = PStr a \<and> field d2 ''matrix'' = PStr b"
    by (auto simp: control_validate_document_iff control_document_ok_def)
  ultimately show False using assms(7) by auto
qed

theorem control_evidence_is_separate_witness:
  "join sample_root (control_artifact ''desktop-services'') \<noteq>
   join sample_root (control_artifact ''security'')"
  using control_evidence_is_separate [OF sample_desktop_accepted sample_security_accepted,
      of "qualified_sample ''desktop-services''"
         "sample_control_entry (control_artifact ''desktop-services'')"
         "qualified_sample ''security''" "sample_control_entry (control_artifact ''security'')"]
  by simp

text \<open>
  C32. An accepted set of matrices is complete: the audit reports the three canonical matrices in
  their order, and the four status counters of each add up to its canonical number of controls
  (fourteen, nine and seven).
\<close>

theorem control_audit_is_complete:
  assumes "control_audit json fs root names = Inr report"
  shows "map (\<lambda>(mid, counts). (mid, sum_list (map counts control_statuses))) report =
    [(''desktop-services'', 14), (''security'', 9), (''release-operations'', 7)]"
proof -
  from assms have all: "list_all2 (matrix_counts json fs root) control_matrices report"
    by (auto simp: control_audit_def matrix_loop.collect_iff result_simps)
  have total: "sum_list (map (snd y) control_statuses) = length (snd x) \<and> fst y = fst x"
    if xy: "matrix_counts json fs root x y" for x y
  proof -
    from xy obtain mid controls where "list_all2 (control_ok fs root mid) (snd x) controls"
        and "snd y = count_list (map status_of controls)"
      by (auto simp: matrix_counts_def control_validate_document_iff control_document_ok_def)
    with control_loop.total [of fs root mid "snd x" controls] xy show ?thesis
      by (simp add: matrix_counts_def)
  qed
  have "map (\<lambda>(mid, counts). (mid, sum_list (map counts control_statuses))) report =
      map (\<lambda>x. (fst x, length (snd x))) control_matrices"
    using all by (induction rule: list_all2_induct) (auto simp: case_prod_beta dest: total)
  then show ?thesis by (simp add: control_matrices_def)
qed

theorem control_audit_is_complete_witness:
  "sum_list (map (pending_counts (snd (hd control_matrices))) control_statuses) = 14"
  using control_audit_is_complete [OF matrix_tree_audit] by (simp add: control_matrices_def)

end
