(* ===== verification/Threats.thy ===== *)
theory Threats
  imports Ledger
begin

text \<open>
  \<^verbatim>\<open>scripts/verify_threat_model.py\<close>: the structured threat model. \<open>asset_step\<close>,
  \<open>boundary_step\<close> and \<open>threat_step\<close> are the rounds of the three loops of
  \<^verbatim>\<open>validate\<close>, \<open>threat_control_step\<close> the inner loop over control files,
  \<open>threat_evidence_step\<close> one round of \<^verbatim>\<open>validate_evidence\<close>. The lemmas characterise
  acceptance; the properties say what a mitigated threat guarantees, that references are closed,
  and that control files really lie inside the repository.
\<close>

section \<open>The code\<close>

definition threat_model_path :: string where
  "threat_model_path = ''production/threat-model.json''"

definition threat_evidence_root :: string where
  "threat_evidence_root = ''production/evidence/security''"

definition threat_ids :: "string list" where
  "threat_ids =
     [''T01'', ''T02'', ''T03'', ''T04'', ''T05'', ''T06'', ''T07'', ''T08'', ''T09'', ''T10'',
      ''T11'', ''T12'']"

definition threat_categories :: "string list" where
  "threat_categories =
     [''spoofing'', ''tampering'', ''repudiation'', ''information-disclosure'',
      ''denial-of-service'', ''elevation-of-privilege'']"

definition security_properties :: "string list" where
  "security_properties =
     [''authenticity'', ''availability'', ''bounded-lifetime'', ''confidentiality'',
      ''device-binding'', ''freshness'', ''integrity'', ''isolation'', ''recoverability'',
      ''reproducibility'', ''revocability'', ''revision-binding'', ''rollback-resistance'',
      ''traceability'']"

definition threat_evidence_kinds :: "string list" where
  "threat_evidence_kinds =
     [''attestation'', ''fuzz-report'', ''hardware-report'', ''hardening-report'', ''key-drill'',
      ''recovery-report'', ''release-report'', ''reproducibility-report'', ''sbom'',
      ''security-report'', ''soak-report'', ''test-report'', ''threat-model'',
      ''vulnerability-drill'']"

definition threat_environments :: "string list" where
  "threat_environments =
     [''continuous-integration'', ''design-review'', ''hardware-lab'', ''independent-builder'',
      ''physical-hardware'', ''qemu'', ''release-operations'']"

definition threat_statuses :: "string list" where
  "threat_statuses = [''open'', ''partially-mitigated'', ''mitigated'']"

definition threat_load ::
    "(string \<Rightarrow> pyval option) \<Rightarrow> fs \<Rightarrow> pure_path \<Rightarrow> pyval result" where
  "threat_load json fs root =
     (let path = join root threat_model_path in
      if not_regular fs path then Inl (Rejected ''threat model is not a regular file'')
      else case read_text fs path of
        Inl e \<Rightarrow> (if e = OSError then Inl (Rejected ''cannot load threat model'') else Inl e)
      | Inr text \<Rightarrow>
          (case json text of
             None \<Rightarrow> Inl (Rejected ''cannot load threat model'')
           | Some v \<Rightarrow>
               (if \<not> is_dict v then Inl (Rejected ''threat model root must be an object'')
                else Inr v)))"

definition threat_timestamp :: "string \<Rightarrow> string \<Rightarrow> timestamp result" where
  "threat_timestamp v path =
     utc_timestamp (path @ '' must use UTC Z form'') (path @ '' is not RFC 3339 compatible'') v"

definition threat_entry_fields :: "string list" where
  "threat_entry_fields =
     [''kind'', ''path'', ''sha256'', ''captured_at'', ''revision'', ''component'', ''environment'']"

type_synonym threat_acc = "string set \<times> string set"

text \<open>The accumulators are the kinds and the paths seen so far.\<close>

definition threat_evidence_step ::
    "fs \<Rightarrow> pure_path \<Rightarrow> string \<Rightarrow> nat \<Rightarrow> pyval \<Rightarrow> threat_acc \<Rightarrow> threat_acc result" where
  "threat_evidence_step fs root base index entry acc =
     (let item_base = item (base @ ''.evidence'') index;
          path_value = str_of (field entry ''path''); artifact = join root path_value
      in
      if \<not> has_fields threat_entry_fields entry
        then Inl (Rejected (item_base @ '' has unexpected or missing fields''))
      else if \<not> str_that (\<lambda>s. s \<in> set threat_evidence_kinds) (field entry ''kind'')
        then Inl (Rejected (item_base @ ''.kind is invalid''))
      else if \<not> str_that strict_safe_relative (field entry ''path'')
        then Inl (Rejected (item_base @ ''.path must be a safe relative path''))
      else if path_value \<in> snd acc
        then Inl (Rejected (item_base @ ''.path is duplicated''))
      else if relative_to artifact (join root threat_evidence_root) = None
        then Inl (Rejected (item_base @ ''.path must be beneath '' @ threat_evidence_root))
      else if not_regular fs artifact
        then Inl (Rejected (item_base @ ''.path is missing or not regular''))
      else if \<not> str_that (fullmatch SHA256_RE) (field entry ''sha256'')
        then Inl (Rejected (item_base @ ''.sha256 must be a lowercase SHA-256 digest''))
      else bindE (read_bytes fs artifact) (\<lambda>content.
        if \<not> py_eq (PStr (sha256_hex content)) (field entry ''sha256'')
          then Inl (Rejected (item_base @ ''.sha256 does not match the artifact''))
        else if \<not> str_that (fullmatch REVISION_RE) (field entry ''revision'')
          then Inl (Rejected (item_base @ ''.revision must be a full Git object ID''))
        else if \<not> str_that (\<lambda>s. True) (field entry ''captured_at'')
          then Inl (Rejected (item_base @ ''.captured_at must be a timestamp''))
        else bindE (threat_timestamp (str_of (field entry ''captured_at''))
                     (item_base @ ''.captured_at'')) (\<lambda>t.
          if \<not> is_text (field entry ''component'')
            then Inl (Rejected (item_base @ ''.component must be non-empty''))
          else if \<not> str_that (\<lambda>s. s \<in> set threat_environments) (field entry ''environment'')
            then Inl (Rejected (item_base @ ''.environment is invalid''))
          else Inr (insert (str_of (field entry ''kind'')) (fst acc),
                    insert path_value (snd acc)))))"

definition threat_validate_evidence ::
    "fs \<Rightarrow> pure_path \<Rightarrow> pyval \<Rightarrow> string \<Rightarrow> string set result" where
  "threat_validate_evidence fs root threat base =
     (if \<not> is_list (field threat ''evidence'')
        then Inl (Rejected (base @ ''.evidence must be an array''))
      else bindE (forE (threat_evidence_step fs root base) 0 (list_of (field threat ''evidence''))
                   ({}, {})) (\<lambda>acc. Inr (fst acc)))"

definition asset_step :: "nat \<Rightarrow> pyval \<Rightarrow> string set \<Rightarrow> string set result" where
  "asset_step index asset asset_ids =
     (let base = item ''assets'' index; identifier = str_of (field asset ''id'') in
      if \<not> has_fields [''id'', ''title'', ''owner'', ''security_properties''] asset
        then Inl (Rejected (base @ '' has invalid fields''))
      else if \<not> str_that (fullmatch ID_RE) (field asset ''id'') \<or> identifier \<in> asset_ids
        then Inl (Rejected (base @ ''.id is invalid or duplicated''))
      else if \<not> is_text (field asset ''title'')
        then Inl (Rejected (base @ ''.title is empty''))
      else if \<not> is_text (field asset ''owner'')
        then Inl (Rejected (base @ ''.owner is empty''))
      else if \<not> nonempty_unique_texts (field asset ''security_properties'')
        then Inl (Rejected (base @
          ''.security_properties must be a non-empty unique string array''))
      else if \<not> set (texts (field asset ''security_properties'')) \<subseteq> set security_properties
        then Inl (Rejected (base @ ''.security_properties contains an invalid value''))
      else Inr (insert identifier asset_ids))"

definition boundary_step :: "nat \<Rightarrow> pyval \<Rightarrow> string set \<Rightarrow> string set result" where
  "boundary_step index boundary boundary_ids =
     (let base = item ''boundaries'' index; identifier = str_of (field boundary ''id'') in
      if \<not> has_fields [''id'', ''from'', ''to'', ''channel''] boundary
        then Inl (Rejected (base @ '' has invalid fields''))
      else if \<not> str_that (fullmatch ID_RE) (field boundary ''id'') \<or> identifier \<in> boundary_ids
        then Inl (Rejected (base @ ''.id is invalid or duplicated''))
      else if \<not> is_text (field boundary ''from'')
        then Inl (Rejected (base @ ''.from is empty''))
      else if \<not> is_text (field boundary ''to'')
        then Inl (Rejected (base @ ''.to is empty''))
      else if \<not> is_text (field boundary ''channel'')
        then Inl (Rejected (base @ ''.channel is empty''))
      else Inr (insert identifier boundary_ids))"

text \<open>
  \<^verbatim>\<open>path.resolve()\<close>: the real position. It is asked of a path that has just passed
  \<^verbatim>\<open>is_file\<close>, and of the root above it, so both exist (\<open>resolve_file\<close>).
\<close>

definition resolve :: "fs \<Rightarrow> pure_path \<Rightarrow> pure_path option" where
  "resolve fs p = map_option abs_path (walk fs True max_links [] (tail p))"

definition resolves_below :: "fs \<Rightarrow> pure_path \<Rightarrow> pure_path \<Rightarrow> bool" where
  "resolves_below fs p root =
     (case (resolve fs p, resolve fs root) of
        (Some q, Some r) \<Rightarrow> relative_to q r \<noteq> None
      | _ \<Rightarrow> False)"

definition threat_control_step ::
    "fs \<Rightarrow> pure_path \<Rightarrow> string \<Rightarrow> nat \<Rightarrow> string \<Rightarrow> unit \<Rightarrow> unit result" where
  "threat_control_step fs root base index control u =
     (if \<not> strict_safe_relative control
        then Inl (Rejected (base @ ''.controls contains an unsafe path''))
      else if not_regular fs (join root control)
        then Inl (Rejected (base @ ''.controls is missing''))
      else if \<not> resolves_below fs (join root control) root
        then Inl (Rejected (base @ ''.controls escapes the repository''))
      else Inr ())"

definition threat_fields :: "string list" where
  "threat_fields =
     [''id'', ''title'', ''categories'', ''assets'', ''boundaries'', ''status'', ''controls'',
      ''required_evidence'', ''evidence'', ''residual_risk'', ''blockers'']"

definition threat_step ::
    "fs \<Rightarrow> pure_path \<Rightarrow> string set \<Rightarrow> string set \<Rightarrow> nat \<Rightarrow> string \<times> pyval \<Rightarrow>
     (string \<Rightarrow> nat) \<Rightarrow> (string \<Rightarrow> nat) result" where
  "threat_step fs root asset_ids boundary_ids index x counts =
     (let base = item ''threats'' index; threat = snd x;
          array = '' must be a non-empty unique string array'';
          status = str_of (field threat ''status''); blockers = field threat ''blockers'';
          residual = field threat ''residual_risk''
      in
      if \<not> has_fields threat_fields threat
        then Inl (Rejected (base @ '' has unexpected or missing fields''))
      else if \<not> py_eq (field threat ''id'') (PStr (fst x))
        then Inl (Rejected (base @ ''.id differs from canonical threat order''))
      else if \<not> is_text (field threat ''title'')
        then Inl (Rejected (base @ ''.title is empty''))
      else if \<not> nonempty_unique_texts (field threat ''categories'')
        then Inl (Rejected (base @ ''.categories'' @ array))
      else if \<not> set (texts (field threat ''categories'')) \<subseteq> set threat_categories
        then Inl (Rejected (base @ ''.categories contains an invalid value''))
      else if \<not> nonempty_unique_texts (field threat ''assets'')
        then Inl (Rejected (base @ ''.assets'' @ array))
      else if \<not> set (texts (field threat ''assets'')) \<subseteq> asset_ids
        then Inl (Rejected (base @ ''.assets references an unknown asset''))
      else if \<not> nonempty_unique_texts (field threat ''boundaries'')
        then Inl (Rejected (base @ ''.boundaries'' @ array))
      else if \<not> set (texts (field threat ''boundaries'')) \<subseteq> boundary_ids
        then Inl (Rejected (base @ ''.boundaries references an unknown boundary''))
      else if \<not> nonempty_unique_texts (field threat ''controls'')
        then Inl (Rejected (base @ ''.controls'' @ array))
      else bindE (forE (threat_control_step fs root base) 0 (texts (field threat ''controls'')) ())
        (\<lambda>u.
        if \<not> nonempty_unique_texts (field threat ''required_evidence'')
          then Inl (Rejected (base @ ''.required_evidence'' @ array))
        else if \<not> set (texts (field threat ''required_evidence'')) \<subseteq> set threat_evidence_kinds
          then Inl (Rejected (base @ ''.required_evidence contains an invalid value''))
        else if \<not> str_that (\<lambda>s. s \<in> set threat_statuses) (field threat ''status'')
          then Inl (Rejected (base @ ''.status is invalid''))
        else if \<not> text_list blockers
          then Inl (Rejected (base @ ''.blockers must contain non-empty strings''))
        else bindE (threat_validate_evidence fs root threat base) (\<lambda>kinds.
          if status = ''mitigated'' \<and> list_of blockers \<noteq> []
            then Inl (Rejected (base @ ''.blockers must be empty after mitigation''))
          else if status = ''mitigated'' \<and>
                  \<not> set (texts (field threat ''required_evidence'')) \<subseteq> kinds
            then Inl (Rejected (base @ ''.evidence lacks required kinds''))
          else if status = ''mitigated'' \<and> residual \<noteq> PNone
            then Inl (Rejected (base @ ''.residual_risk must be null after full mitigation''))
          else if status \<noteq> ''mitigated'' \<and> list_of blockers = []
            then Inl (Rejected (base @ '' requires at least one blocker''))
          else if status \<noteq> ''mitigated'' \<and> \<not> is_text residual
            then Inl (Rejected (base @ ''.residual_risk must be explicit''))
          else Inr (bump status counts))))"

definition threat_validate :: "fs \<Rightarrow> pure_path \<Rightarrow> pyval \<Rightarrow> (string \<Rightarrow> nat) result" where
  "threat_validate fs root model =
     (let assets = field model ''assets''; boundaries = field model ''boundaries'';
          threats = field model ''threats''
      in
      if \<not> has_fields [''format'', ''distribution'', ''method'', ''assets'', ''boundaries'',
                       ''threats''] model
        then Inl (Rejected ''threat model has unexpected or missing fields'')
      else if \<not> py_eq (field model ''format'') (PInt 1) \<or>
              \<not> py_eq (field model ''distribution'') (PStr ''ArachOS'')
        then Inl (Rejected ''threat model identity is invalid'')
      else if \<not> is_text (field model ''method'')
        then Inl (Rejected ''threat model method is empty'')
      else if \<not> is_list assets \<or> list_of assets = []
        then Inl (Rejected ''assets must be a non-empty array'')
      else bindE (forE asset_step 0 (list_of assets) {}) (\<lambda>asset_ids.
        if \<not> is_list boundaries \<or> list_of boundaries = []
          then Inl (Rejected ''boundaries must be a non-empty array'')
        else bindE (forE boundary_step 0 (list_of boundaries) {}) (\<lambda>boundary_ids.
          if \<not> is_list threats \<or> length (list_of threats) \<noteq> length threat_ids
            then Inl (Rejected ''threat model must contain twelve canonical threats'')
          else forE (threat_step fs root asset_ids boundary_ids) 0
            (zip threat_ids (list_of threats)) (\<lambda>_. 0))))"

section \<open>What is accepted\<close>

text \<open>An evidence entry that is acceptable on its own.\<close>

definition threat_entry_ok :: "fs \<Rightarrow> pure_path \<Rightarrow> pyval \<Rightarrow> bool" where
  "threat_entry_ok fs root x \<longleftrightarrow>
     has_fields threat_entry_fields x \<and>
     str_that (\<lambda>s. s \<in> set threat_evidence_kinds) (field x ''kind'') \<and>
     str_that (\<lambda>s. s \<in> set threat_environments) (field x ''environment'') \<and>
     is_text (field x ''component'') \<and>
     (\<exists>path content revision captured t.
        field x ''path'' = PStr path \<and> strict_safe_relative path \<and>
        relative_to (join root path) (join root threat_evidence_root) \<noteq> None \<and>
        \<not> not_regular fs (join root path) \<and> read_bytes fs (join root path) = Inr content \<and>
        field x ''sha256'' = PStr (sha256_hex content) \<and>
        field x ''revision'' = PStr revision \<and> fullmatch REVISION_RE revision \<and>
        field x ''captured_at'' = PStr captured \<and> is_utc captured t)"

definition threat_collect :: "pyval \<Rightarrow> threat_acc \<Rightarrow> threat_acc" where
  "threat_collect x acc =
     (insert (str_of (field x ''kind'')) (fst acc), insert (path_of x) (snd acc))"

lemma threat_evidence_step_iff:
  "threat_evidence_step fs root base i x acc = Inr acc' \<longleftrightarrow>
     threat_entry_ok fs root x \<and> path_of x \<notin> snd acc \<and> acc' = threat_collect x acc"
proof -
  have "threat_evidence_step fs root base i x acc = Inr acc' \<longleftrightarrow>
      has_fields threat_entry_fields x \<and>
      str_that (\<lambda>s. s \<in> set threat_evidence_kinds) (field x ''kind'') \<and>
      str_that strict_safe_relative (field x ''path'') \<and> path_of x \<notin> snd acc \<and>
      relative_to (join root (path_of x)) (join root threat_evidence_root) \<noteq> None \<and>
      \<not> not_regular fs (join root (path_of x)) \<and>
      str_that (fullmatch SHA256_RE) (field x ''sha256'') \<and>
      (\<exists>content. read_bytes fs (join root (path_of x)) = Inr content \<and>
         field x ''sha256'' = PStr (sha256_hex content)) \<and>
      str_that (fullmatch REVISION_RE) (field x ''revision'') \<and>
      str_that (\<lambda>s. True) (field x ''captured_at'') \<and>
      (\<exists>t. is_utc (str_of (field x ''captured_at'')) t) \<and> is_text (field x ''component'') \<and>
      str_that (\<lambda>s. s \<in> set threat_environments) (field x ''environment'') \<and>
      acc' = threat_collect x acc"
    unfolding threat_evidence_step_def threat_collect_def path_of_def threat_timestamp_def Let_def
    by (simp only: result_simps py_eq_str' not_not conj_assoc simp_thms) blast
  then show ?thesis
    by (auto simp: threat_entry_ok_def path_of_def)
qed

interpretation threat_entries: unique_loop
  "threat_evidence_step fs root base" "\<lambda>i. threat_entry_ok fs root" path_of snd threat_collect
  for fs root base
  by unfold_locales (simp_all add: threat_evidence_step_iff threat_collect_def)

lemma threat_fold:
  "fst (fold threat_collect xs acc) = kinds_of xs \<union> fst acc"
  by (induction xs arbitrary: acc) (auto simp: threat_collect_def kinds_of_def)

definition threat_entries_ok :: "fs \<Rightarrow> pure_path \<Rightarrow> pyval list \<Rightarrow> bool" where
  "threat_entries_ok fs root es \<longleftrightarrow>
     list_all (threat_entry_ok fs root) es \<and> distinct (map path_of es)"

lemma threat_validate_evidence_iff:
  "threat_validate_evidence fs root threat base = Inr ks \<longleftrightarrow>
     is_list (field threat ''evidence'') \<and> threat_entries_ok fs root (evidence_of threat) \<and>
     ks = kinds_of (evidence_of threat)"
  by (auto simp: threat_validate_evidence_def result_simps threat_entries.loop_iff threat_fold
      threat_entries_ok_def list_all_length evidence_of_def)

text \<open>Assets and boundaries: the loops return the identifiers, which are pairwise different.\<close>

definition id_of :: "pyval \<Rightarrow> string" where
  "id_of x = str_of (field x ''id'')"

definition asset_ok :: "pyval \<Rightarrow> bool" where
  "asset_ok x \<longleftrightarrow>
     has_fields [''id'', ''title'', ''owner'', ''security_properties''] x \<and>
     str_that (fullmatch ID_RE) (field x ''id'') \<and> is_text (field x ''title'') \<and>
     is_text (field x ''owner'') \<and> nonempty_unique_texts (field x ''security_properties'') \<and>
     set (texts (field x ''security_properties'')) \<subseteq> set security_properties"

definition boundary_ok :: "pyval \<Rightarrow> bool" where
  "boundary_ok x \<longleftrightarrow>
     has_fields [''id'', ''from'', ''to'', ''channel''] x \<and>
     str_that (fullmatch ID_RE) (field x ''id'') \<and> is_text (field x ''from'') \<and>
     is_text (field x ''to'') \<and> is_text (field x ''channel'')"

lemma asset_step_iff:
  "asset_step i x ids = Inr ids' \<longleftrightarrow> asset_ok x \<and> id_of x \<notin> ids \<and> ids' = insert (id_of x) ids"
  unfolding asset_step_def asset_ok_def Let_def id_of_def
  by (simp only: result_simps de_Morgan_disj not_not conj_assoc sum.inject) blast

lemma boundary_step_iff:
  "boundary_step i x ids = Inr ids' \<longleftrightarrow>
     boundary_ok x \<and> id_of x \<notin> ids \<and> ids' = insert (id_of x) ids"
  unfolding boundary_step_def boundary_ok_def Let_def id_of_def
  by (simp only: result_simps de_Morgan_disj not_not conj_assoc sum.inject) blast

interpretation assets: unique_loop
  asset_step "\<lambda>i. asset_ok" id_of "\<lambda>ids. ids" "\<lambda>x. insert (id_of x)"
  by unfold_locales (simp_all add: asset_step_iff)

interpretation boundaries: unique_loop
  boundary_step "\<lambda>i. boundary_ok" id_of "\<lambda>ids. ids" "\<lambda>x. insert (id_of x)"
  by unfold_locales (simp_all add: boundary_step_iff)

definition records_ok :: "(pyval \<Rightarrow> bool) \<Rightarrow> pyval list \<Rightarrow> bool" where
  "records_ok ok xs \<longleftrightarrow> list_all ok xs \<and> distinct (map id_of xs)"

lemma asset_loop_iff:
  "forE asset_step 0 xs {} = Inr ids \<longleftrightarrow> records_ok asset_ok xs \<and> ids = set (map id_of xs)"
  using assets.loop_seen [of xs "{}"]
  by (simp add: assets.loop_iff records_ok_def list_all_length)

lemma boundary_loop_iff:
  "forE boundary_step 0 xs {} = Inr ids \<longleftrightarrow> records_ok boundary_ok xs \<and> ids = set (map id_of xs)"
  using boundaries.loop_seen [of xs "{}"]
  by (simp add: boundaries.loop_iff records_ok_def list_all_length)

text \<open>A control file: an existing regular file whose real position is below the real root.\<close>

definition threat_control_ok :: "fs \<Rightarrow> pure_path \<Rightarrow> string \<Rightarrow> bool" where
  "threat_control_ok fs root control \<longleftrightarrow>
     strict_safe_relative control \<and> \<not> not_regular fs (join root control) \<and>
     resolves_below fs (join root control) root"

interpretation threat_controls: plain_loop
  "threat_control_step fs root base" "\<lambda>i. threat_control_ok fs root" "\<lambda>x u. u"
  for fs root base
  by unfold_locales (auto simp: threat_control_step_def threat_control_ok_def result_simps)

lemma threat_controls_iff:
  "forE (threat_control_step fs root base) 0 cs () = Inr u \<longleftrightarrow>
     list_all (threat_control_ok fs root) cs"
  by (simp add: threat_controls.loop_iff list_all_length)

text \<open>A threat record: its own shape, its references, and the rule for its status.\<close>

definition threat_shape_ok :: "string \<Rightarrow> pyval \<Rightarrow> bool" where
  "threat_shape_ok expected threat \<longleftrightarrow>
     has_fields threat_fields threat \<and> field threat ''id'' = PStr expected \<and>
     is_text (field threat ''title'') \<and>
     nonempty_unique_texts (field threat ''categories'') \<and>
     set (texts (field threat ''categories'')) \<subseteq> set threat_categories \<and>
     nonempty_unique_texts (field threat ''required_evidence'') \<and>
     set (texts (field threat ''required_evidence'')) \<subseteq> set threat_evidence_kinds \<and>
     str_that (\<lambda>s. s \<in> set threat_statuses) (field threat ''status'') \<and>
     text_list (field threat ''blockers'')"

definition threat_references_ok ::
    "fs \<Rightarrow> pure_path \<Rightarrow> string set \<Rightarrow> string set \<Rightarrow> pyval \<Rightarrow> bool" where
  "threat_references_ok fs root asset_ids boundary_ids threat \<longleftrightarrow>
     nonempty_unique_texts (field threat ''assets'') \<and>
     set (texts (field threat ''assets'')) \<subseteq> asset_ids \<and>
     nonempty_unique_texts (field threat ''boundaries'') \<and>
     set (texts (field threat ''boundaries'')) \<subseteq> boundary_ids \<and>
     nonempty_unique_texts (field threat ''controls'') \<and>
     list_all (threat_control_ok fs root) (texts (field threat ''controls''))"

definition threat_status_rule :: "pyval \<Rightarrow> bool" where
  "threat_status_rule threat \<longleftrightarrow>
     (if status_of threat = ''mitigated'' then
        list_of (field threat ''blockers'') = [] \<and>
        set (texts (field threat ''required_evidence'')) \<subseteq> kinds_of (evidence_of threat) \<and>
        field threat ''residual_risk'' = PNone
      else list_of (field threat ''blockers'') \<noteq> [] \<and> is_text (field threat ''residual_risk''))"

definition threat_ok ::
    "fs \<Rightarrow> pure_path \<Rightarrow> string set \<Rightarrow> string set \<Rightarrow> string \<Rightarrow> pyval \<Rightarrow> bool" where
  "threat_ok fs root asset_ids boundary_ids expected threat \<longleftrightarrow>
     threat_shape_ok expected threat \<and>
     threat_references_ok fs root asset_ids boundary_ids threat \<and>
     is_list (field threat ''evidence'') \<and> threat_entries_ok fs root (evidence_of threat) \<and>
     threat_status_rule threat"

lemma threat_step_iff:
  "threat_step fs root asset_ids boundary_ids i x c = Inr c' \<longleftrightarrow>
     threat_ok fs root asset_ids boundary_ids (fst x) (snd x) \<and> c' = bump (status_of (snd x)) c"
proof -
  have rule: "(\<not> (s \<and> b \<noteq> []) \<and> \<not> (s \<and> \<not> k) \<and> \<not> (s \<and> r \<noteq> PNone) \<and> \<not> (\<not> s \<and> b = []) \<and>
      \<not> (\<not> s \<and> \<not> t)) \<longleftrightarrow> (if s then b = [] \<and> k \<and> r = PNone else b \<noteq> [] \<and> t)"
    for s k t r and b :: "pyval list"
    by auto
  show ?thesis
    unfolding threat_step_def threat_ok_def threat_shape_ok_def threat_references_ok_def
      threat_status_rule_def rule [symmetric] Let_def status_of_def [symmetric]
    by (simp only: result_simps threat_validate_evidence_iff threat_controls_iff py_eq_str
        not_not conj_assoc simp_thms sum.inject) blast
qed

interpretation threat_loop: status_ledger
  "threat_step fs root asset_ids boundary_ids" "threat_ok fs root asset_ids boundary_ids"
  status_of threat_statuses
  for fs root asset_ids boundary_ids
proof
  show "distinct threat_statuses" by (simp add: threat_statuses_def)
next
  fix e x
  assume "threat_ok fs root asset_ids boundary_ids e x"
  then show "status_of x \<in> set threat_statuses"
    by (auto simp: threat_ok_def threat_shape_ok_def status_of_def)
qed (rule threat_step_iff)

definition threat_model_ok ::
    "fs \<Rightarrow> pure_path \<Rightarrow> pyval \<Rightarrow> pyval list \<Rightarrow> pyval list \<Rightarrow> pyval list \<Rightarrow> bool" where
  "threat_model_ok fs root model assets boundaries threats \<longleftrightarrow>
     has_fields [''format'', ''distribution'', ''method'', ''assets'', ''boundaries'',
       ''threats''] model \<and>
     py_eq (field model ''format'') (PInt 1) \<and> field model ''distribution'' = PStr ''ArachOS'' \<and>
     is_text (field model ''method'') \<and>
     field model ''assets'' = PList assets \<and> assets \<noteq> [] \<and> records_ok asset_ok assets \<and>
     field model ''boundaries'' = PList boundaries \<and> boundaries \<noteq> [] \<and>
     records_ok boundary_ok boundaries \<and> field model ''threats'' = PList threats \<and>
     list_all2 (threat_ok fs root (set (map id_of assets)) (set (map id_of boundaries)))
       threat_ids threats"

lemma list_field_iff: "is_list v \<and> list_of v = xs \<longleftrightarrow> v = PList xs"
  by (cases v) auto

lemma threat_validate_iff:
  "threat_validate fs root model = Inr counts \<longleftrightarrow>
     (\<exists>assets boundaries threats. threat_model_ok fs root model assets boundaries threats \<and>
        counts = count_list (map status_of threats))"
proof -
  have "threat_validate fs root model = Inr counts \<longleftrightarrow>
      is_list (field model ''assets'') \<and> is_list (field model ''boundaries'') \<and>
      is_list (field model ''threats'') \<and>
      threat_model_ok fs root model (list_of (field model ''assets''))
        (list_of (field model ''boundaries'')) (list_of (field model ''threats'')) \<and>
      counts = count_list (map status_of (list_of (field model ''threats'')))"
    unfolding threat_validate_def threat_model_ok_def Let_def
    by (auto simp: result_simps asset_loop_iff boundary_loop_iff threat_loop.canonical_iff
        list_field_iff [symmetric])
  then show ?thesis
    by (auto simp: threat_model_ok_def is_list_iff)
qed

section \<open>Consequences\<close>

lemma threat_evidence_step_safe:
  "readable_tree fs \<Longrightarrow> crash_free (threat_evidence_step fs root base i x acc)"
  unfolding threat_evidence_step_def Let_def threat_timestamp_def
  by (intro safe_intros) auto

lemma threat_validate_evidence_safe [safe_intros]:
  "readable_tree fs \<Longrightarrow> crash_free (threat_validate_evidence fs root threat base)"
  unfolding threat_validate_evidence_def by (intro safe_intros threat_evidence_step_safe)

lemma threat_control_step_safe [safe_intros]: "crash_free (threat_control_step fs root base i c u)"
  unfolding threat_control_step_def by (intro safe_intros)

lemma threat_step_safe:
  "readable_tree fs \<Longrightarrow> crash_free (threat_step fs root asset_ids boundary_ids i x c)"
  unfolding threat_step_def Let_def by (intro safe_intros)

lemma asset_step_safe [safe_intros]: "crash_free (asset_step i x ids)"
  unfolding asset_step_def Let_def by (intro safe_intros)

lemma boundary_step_safe [safe_intros]: "crash_free (boundary_step i x ids)"
  unfolding boundary_step_def Let_def by (intro safe_intros)

text \<open>The records of an accepted model, as a statement names them.\<close>

definition records :: "pyval \<Rightarrow> string \<Rightarrow> pyval list" where
  "records model name = list_of (field model name)"

lemma threat_records:
  assumes "threat_validate fs root model = Inr counts" and "t \<in> set (records model ''threats'')"
  shows "\<exists>e. threat_ok fs root (set (map id_of (records model ''assets'')))
      (set (map id_of (records model ''boundaries''))) e t"
    and "records_ok asset_ok (records model ''assets'')"
    and "records_ok boundary_ok (records model ''boundaries'')"
proof -
  from assms(1) obtain assets boundaries threats where
    "threat_model_ok fs root model assets boundaries threats"
    unfolding threat_validate_iff by blast
  then have all: "list_all2 (threat_ok fs root (set (map id_of (records model ''assets'')))
      (set (map id_of (records model ''boundaries'')))) threat_ids (records model ''threats'')"
    and as: "records_ok asset_ok (records model ''assets'')"
    and bs: "records_ok boundary_ok (records model ''boundaries'')"
    unfolding threat_model_ok_def records_def by simp_all
  show "records_ok asset_ok (records model ''assets'')" by (rule as)
  show "records_ok boundary_ok (records model ''boundaries'')" by (rule bs)
  show "\<exists>e. threat_ok fs root (set (map id_of (records model ''assets'')))
      (set (map id_of (records model ''boundaries''))) e t"
    by (rule list_all2_member [OF all assms(2)])
qed

lemma records_unique:
  "records_ok ok xs \<Longrightarrow> i \<in> set (map id_of xs) \<Longrightarrow> \<exists>!x. x \<in> set xs \<and> id_of x = i"
  unfolding records_ok_def by (auto simp: distinct_map dest: inj_onD)

lemma threat_entry_digest:
  assumes "threat_entry_ok fs root x"
  shows "\<exists>content. read_bytes fs (join root (path_of x)) = Inr content \<and>
     field x ''sha256'' = PStr (sha256_hex content)"
  using assms by (auto simp: threat_entry_ok_def path_of_def)

lemma regular_walk:
  assumes "\<not> not_regular fs p"
  shows "\<exists>q c r. walk fs True max_links [] (tail p) = Some q \<and> fs q = Some (Regular c r)"
proof -
  from assms obtain c r where "stat fs p = Some (Regular c r)"
    by (auto simp: not_regular_def is_file_def split: option.splits node.splits)
  then show ?thesis
    by (auto simp: stat_def node_at_def bind_eq_Some_conv split: if_splits)
qed

text \<open>At the point where the code resolves a control file, the file exists.\<close>

lemma resolve_file: "\<not> not_regular fs p \<Longrightarrow> \<exists>q. resolve fs p = Some q"
  using regular_walk [of fs p] by (auto simp: resolve_def)

section \<open>A concrete threat model\<close>

definition security_dir :: "string list" where
  "security_dir = [''production'', ''evidence'', ''security'']"

definition security_artifact :: string where
  "security_artifact = ''production/evidence/security/a.bin''"

definition sample_threat_entry :: pyval where
  "sample_threat_entry =
     PDict [(''kind'', PStr ''test-report''), (''path'', PStr security_artifact),
       (''sha256'', PStr sample_digest), (''captured_at'', PStr sample_time),
       (''revision'', PStr sample_revision), (''component'', PStr ''ArachOS''),
       (''environment'', PStr ''qemu'')]"

definition sample_threat ::
    "string \<Rightarrow> string \<Rightarrow> pyval list \<Rightarrow> pyval \<Rightarrow> pyval list \<Rightarrow> pyval" where
  "sample_threat ident status es residual blockers =
     PDict [(''id'', PStr ident), (''title'', PStr ''t''),
       (''categories'', PList [PStr ''spoofing'']), (''assets'', PList [PStr ''a'']),
       (''boundaries'', PList [PStr ''b'']), (''status'', PStr status),
       (''controls'', PList [PStr security_artifact]),
       (''required_evidence'', PList [PStr ''test-report'']), (''evidence'', PList es),
       (''residual_risk'', residual), (''blockers'', PList blockers)]"

definition mitigated_sample :: pyval where
  "mitigated_sample = sample_threat ''T01'' ''mitigated'' [sample_threat_entry] PNone []"

definition open_sample :: "string \<Rightarrow> pyval" where
  "open_sample ident = sample_threat ident ''open'' [] (PStr ''r'') [PStr ''o'']"

definition sample_threats :: "pyval list" where
  "sample_threats = mitigated_sample # map open_sample (List.tl threat_ids)"

definition sample_asset :: pyval where
  "sample_asset =
     PDict [(''id'', PStr ''a''), (''title'', PStr ''t''), (''owner'', PStr ''o''),
       (''security_properties'', PList [PStr ''integrity''])]"

definition sample_boundary :: pyval where
  "sample_boundary =
     PDict [(''id'', PStr ''b''), (''from'', PStr ''f''), (''to'', PStr ''t''),
       (''channel'', PStr ''c'')]"

definition sample_threat_model :: pyval where
  "sample_threat_model =
     PDict [(''format'', PInt 1), (''distribution'', PStr ''ArachOS''), (''method'', PStr ''m''),
       (''assets'', PList [sample_asset]), (''boundaries'', PList [sample_boundary]),
       (''threats'', PList sample_threats)]"

lemma security_artifact_file:
  "strict_safe_relative security_artifact"
  "relative_to (join sample_root security_artifact) (join sample_root threat_evidence_root) \<noteq> None"
  "\<not> not_regular (artifact_tree security_dir) (join sample_root security_artifact)"
  "read_bytes (artifact_tree security_dir) (join sample_root security_artifact) =
     Inr sample_artifact"
  "resolves_below (artifact_tree security_dir) (join sample_root security_artifact) sample_root"
  by code_simp+

lemma sample_threat_fields:
  "field (sample_threat i s es r bs) ''id'' = PStr i"
  "field (sample_threat i s es r bs) ''title'' = PStr ''t''"
  "field (sample_threat i s es r bs) ''categories'' = PList [PStr ''spoofing'']"
  "field (sample_threat i s es r bs) ''assets'' = PList [PStr ''a'']"
  "field (sample_threat i s es r bs) ''boundaries'' = PList [PStr ''b'']"
  "field (sample_threat i s es r bs) ''status'' = PStr s"
  "field (sample_threat i s es r bs) ''controls'' = PList [PStr security_artifact]"
  "field (sample_threat i s es r bs) ''required_evidence'' = PList [PStr ''test-report'']"
  "field (sample_threat i s es r bs) ''evidence'' = PList es"
  "field (sample_threat i s es r bs) ''residual_risk'' = r"
  "field (sample_threat i s es r bs) ''blockers'' = PList bs"
  "has_fields threat_fields (sample_threat i s es r bs)"
  "status_of (sample_threat i s es r bs) = s"
  "evidence_of (sample_threat i s es r bs) = es"
  by (simp_all add: sample_threat_def threat_fields_def status_of_def evidence_of_def)

lemma sample_words:
  "\<not> blank ''t''" "\<not> blank ''spoofing''" "\<not> blank ''test-report''" "\<not> blank ''a''" "\<not> blank ''b''"
  "\<not> blank ''r''" "\<not> blank ''o''" "\<not> blank security_artifact"
  "''spoofing'' \<in> set threat_categories" "''test-report'' \<in> set threat_evidence_kinds"
  by code_simp+

lemma sample_threat_parts:
  assumes "status \<in> set threat_statuses" and "list_all is_text blockers"
  shows "threat_shape_ok ident (sample_threat ident status es residual blockers)"
    and "threat_references_ok (artifact_tree security_dir) sample_root {''a''} {''b''}
      (sample_threat ident status es residual blockers)"
  unfolding threat_shape_ok_def threat_references_ok_def sample_threat_fields
  using assms sample_words security_artifact_file
  by (simp_all del: blank.simps add: sample_threat_fields nonempty_unique_texts_def text_list_def texts_def
      threat_control_ok_def)

lemma mitigated_sample_ok:
  "threat_ok (artifact_tree security_dir) sample_root {''a''} {''b''} ''T01'' mitigated_sample"
proof -
  have "threat_entry_ok (artifact_tree security_dir) sample_root sample_threat_entry"
    using security_artifact_file sample_revision_ok sample_time_utc
    by (auto simp: threat_entry_ok_def sample_threat_entry_def threat_entry_fields_def
        threat_evidence_kinds_def threat_environments_def sha256_sample space_chars_def)
  moreover have "kinds_of [sample_threat_entry] = {''test-report''}"
    by (simp add: kinds_of_def sample_threat_entry_def)
  ultimately show ?thesis
    unfolding threat_ok_def mitigated_sample_def
    by (intro conjI sample_threat_parts)
      (simp_all add: threat_statuses_def threat_entries_ok_def threat_status_rule_def
        sample_threat_fields texts_def)
qed

lemma open_sample_ok:
  "threat_ok (artifact_tree security_dir) sample_root {''a''} {''b''} ident (open_sample ident)"
  unfolding threat_ok_def open_sample_def
  by (intro conjI sample_threat_parts)
    (simp_all add: threat_statuses_def threat_entries_ok_def threat_status_rule_def
      sample_threat_fields sample_words del: blank.simps)

lemma sample_threat_model_accepted:
  "threat_validate (artifact_tree security_dir) sample_root sample_threat_model =
     Inr (count_list (map status_of sample_threats))"
proof -
  have "list_all2 (threat_ok (artifact_tree security_dir) sample_root {''a''} {''b''})
      (''T01'' # List.tl threat_ids) sample_threats"
    unfolding sample_threats_def
    by (simp add: mitigated_sample_ok open_sample_ok list_all2_map2 list_all2_same)
  moreover have "records_ok asset_ok [sample_asset]" "records_ok boundary_ok [sample_boundary]"
    by code_simp+
  moreover have "id_of sample_asset = ''a''" "id_of sample_boundary = ''b''"
    by code_simp+
  ultimately have "threat_model_ok (artifact_tree security_dir) sample_root sample_threat_model
      [sample_asset] [sample_boundary] sample_threats"
    by (simp add: threat_model_ok_def sample_threat_model_def space_chars_def threat_ids_def)
  then show ?thesis
    unfolding threat_validate_iff by blast
qed

lemma sample_records:
  "records sample_threat_model ''threats'' = sample_threats"
  "records sample_threat_model ''assets'' = [sample_asset]"
  "records sample_threat_model ''boundaries'' = [sample_boundary]"
  "mitigated_sample \<in> set (records sample_threat_model ''threats'')"
  "status_of mitigated_sample = ''mitigated''"
  by (simp_all add: records_def sample_threat_model_def sample_threats_def mitigated_sample_def
      sample_threat_fields)

section \<open>Properties\<close>

text \<open>
  Validating a threat model raises nothing but its own diagnosis, on any document whatever,
  as long as the regular files of the tree can be opened.
\<close>

theorem threat_validate_never_crashes:
  "readable_tree fs \<Longrightarrow> crash_free (threat_validate fs root (PDict d))"
  unfolding threat_validate_def Let_def by (intro safe_intros threat_step_safe)

theorem threat_validate_never_crashes_witness:
  "crash_free (threat_validate (\<lambda>_. None) (abs_path []) (PDict []))"
  by (rule threat_validate_never_crashes) (simp add: readable_tree_def)

text \<open>
  C33. A threat that an accepted model calls mitigated is closed: no blocker and no residual risk
  are left, every kind of evidence it asks for is among its entries, and the artifact of every
  entry exists and has the recorded digest.
\<close>

theorem threat_mitigated_is_backed:
  assumes "threat_validate fs root model = Inr counts"
    and "t \<in> set (records model ''threats'')" and "status_of t = ''mitigated''"
  shows "field t ''blockers'' = PList [] \<and> field t ''residual_risk'' = PNone \<and>
    set (texts (field t ''required_evidence'')) \<subseteq> kinds_of (evidence_of t) \<and>
    (\<forall>e \<in> set (evidence_of t). \<exists>content.
       read_bytes fs (join root (path_of e)) = Inr content \<and>
       field e ''sha256'' = PStr (sha256_hex content))"
proof -
  from threat_records(1) [OF assms(1,2)] obtain e where
    "threat_shape_ok e t" "threat_status_rule t" "threat_entries_ok fs root (evidence_of t)"
    unfolding threat_ok_def by blast
  with assms(3) show ?thesis
    unfolding threat_shape_ok_def threat_status_rule_def threat_entries_ok_def text_list_def
    by (simp add: list_all_iff threat_entry_digest list_field_iff [symmetric])
qed

theorem threat_mitigated_is_backed_witness:
  "''test-report'' \<in> kinds_of (evidence_of mitigated_sample)"
  using threat_mitigated_is_backed [OF sample_threat_model_accepted sample_records(4,5)]
  by (simp add: mitigated_sample_def sample_threat_fields texts_def)

text \<open>
  References are closed: every asset and every boundary that a threat of an accepted model
  names is the identifier of exactly one record of the model.
\<close>

theorem threat_references_resolve:
  assumes "threat_validate fs root model = Inr counts"
    and "t \<in> set (records model ''threats'')" and "name = ''assets'' \<or> name = ''boundaries''"
    and "i \<in> set (texts (field t name))"
  shows "\<exists>!x. x \<in> set (records model name) \<and> id_of x = i"
proof -
  from threat_records(1) [OF assms(1,2)] have
    "set (texts (field t ''assets'')) \<subseteq> set (map id_of (records model ''assets''))"
    "set (texts (field t ''boundaries'')) \<subseteq> set (map id_of (records model ''boundaries''))"
    unfolding threat_ok_def threat_references_ok_def by blast+
  with assms(3,4) have "i \<in> set (map id_of (records model name))" by blast
  then show ?thesis
    using assms(3) threat_records(2,3) [OF assms(1,2)] records_unique by blast
qed

theorem threat_references_resolve_witness:
  "\<exists>!x. x \<in> set [sample_asset] \<and> id_of x = ''a''"
  using threat_references_resolve [OF sample_threat_model_accepted sample_records(4),
      of "''assets''" "''a''"]
  by (simp add: sample_records mitigated_sample_def sample_threat_fields texts_def)

text \<open>
  C34. The control files of an accepted model are inside the repository physically, not only by
  name: after all links are followed, each is a regular file at a position below the real
  position of the root.
\<close>

theorem threat_controls_inside_repository:
  assumes "threat_validate fs root model = Inr counts"
    and "t \<in> set (records model ''threats'')" and "c \<in> set (texts (field t ''controls''))"
  shows "\<exists>r ys content readable. walk fs True max_links [] (tail root) = Some r \<and>
    walk fs True max_links [] (tail (join root c)) = Some (r @ ys) \<and>
    fs (r @ ys) = Some (Regular content readable)"
proof -
  from threat_records(1) [OF assms(1,2)] assms(3) have c: "threat_control_ok fs root c"
    unfolding threat_ok_def threat_references_ok_def by (auto simp: list_all_iff)
  then obtain q content readable where
    q: "walk fs True max_links [] (tail (join root c)) = Some q" "fs q = Some (Regular content readable)"
    using regular_walk by (metis threat_control_ok_def)
  with c obtain r ys where "walk fs True max_links [] (tail root) = Some r" "q = r @ ys"
    by (auto simp: threat_control_ok_def resolves_below_def resolve_def abs_path_def relative_to_iff
        split: option.splits)
  with q show ?thesis by blast
qed

theorem threat_controls_inside_repository_witness:
  "\<exists>r ys content readable.
     walk (artifact_tree security_dir) True max_links [] (tail sample_root) = Some r \<and>
     walk (artifact_tree security_dir) True max_links []
       (tail (join sample_root security_artifact)) = Some (r @ ys) \<and>
     artifact_tree security_dir (r @ ys) = Some (Regular content readable)"
  by (rule threat_controls_inside_repository
      [OF sample_threat_model_accepted sample_records(4)])
    (simp add: mitigated_sample_def sample_threat_fields texts_def)

text \<open>
  The reported totals add up: mitigated, partially mitigated and open threats together are
  the twelve canonical ones.
\<close>

theorem threat_counts_total:
  assumes "threat_validate fs root model = Inr counts"
  shows "counts ''open'' + counts ''partially-mitigated'' + counts ''mitigated'' = 12"
proof -
  from assms obtain assets boundaries threats where
    "list_all2 (threat_ok fs root (set (map id_of assets)) (set (map id_of boundaries)))
       threat_ids threats"
    "counts = count_list (map status_of threats)"
    unfolding threat_validate_iff threat_model_ok_def by blast
  with threat_loop.total [OF this(1)] show ?thesis
    by (simp add: threat_statuses_def threat_ids_def)
qed

theorem threat_counts_total_witness:
  "count_list (map status_of sample_threats) ''open'' +
   count_list (map status_of sample_threats) ''partially-mitigated'' +
   count_list (map status_of sample_threats) ''mitigated'' = 12"
  by (rule threat_counts_total [OF sample_threat_model_accepted])

end
