(* ===== verification/Cycles.thy ===== *)
theory Cycles
  imports Prelude
begin

text \<open>
  \<^verbatim>\<open>detect_cycles\<close> of \<^verbatim>\<open>scripts/verify_production_readiness.py\<close>: the
  depth-first search over the dependency graph with its two shared sets. \<open>visit\<close> threads
  \<^verbatim>\<open>visiting\<close> and \<^verbatim>\<open>visited\<close> as a state and takes fuel for the depth of
  the recursion; \<open>None\<close> means that the fuel ran out, which \<open>detect_cycles_total\<close> excludes for the
  fuel that \<open>detect_cycles\<close> gives (one more than the number of nodes: a node is never entered
  twice on one branch). The search succeeds exactly on acyclic graphs.
\<close>

section \<open>The code\<close>

type_synonym graph = "(string \<times> string list) list"
type_synonym dfs = "string set \<times> string set"

text \<open>
  The graph is the dictionary built from the gates, in insertion order; a key that is missing is a
  \<^verbatim>\<open>KeyError\<close>. Like a dictionary comprehension, a repeated key keeps its last value.
\<close>

definition edges :: "graph \<Rightarrow> string \<Rightarrow> string list option" where
  "edges g = map_of (rev g)"

fun visit :: "nat \<Rightarrow> graph \<Rightarrow> string \<Rightarrow> dfs \<Rightarrow> dfs result option"
  and visit_all :: "nat \<Rightarrow> graph \<Rightarrow> string list \<Rightarrow> dfs \<Rightarrow> dfs result option" where
  "visit 0 g node st = None"
| "visit (Suc n) g node st =
     (if node \<in> fst st then Some (Inl (Rejected ''gates.depends_on: dependency cycle''))
      else if node \<in> snd st then Some (Inr st)
      else case edges g node of
        None \<Rightarrow> Some (Inl KeyError)
      | Some deps \<Rightarrow>
          (case visit_all n g deps (insert node (fst st), snd st) of
             Some (Inr st') \<Rightarrow> Some (Inr (fst st' - {node}, insert node (snd st')))
           | r \<Rightarrow> r))"
| "visit_all n g [] st = Some (Inr st)"
| "visit_all n g (d # ds) st =
     (case visit n g d st of
        Some (Inr st') \<Rightarrow> visit_all n g ds st'
      | r \<Rightarrow> r)"

definition detect_cycles :: "graph \<Rightarrow> dfs result option" where
  "detect_cycles g = visit_all (Suc (length g)) g (map fst g) ({}, {})"

section \<open>The dependency relation\<close>

definition depends :: "graph \<Rightarrow> (string \<times> string) set" where
  "depends g = {(u, v). \<exists>ds. edges g u = Some ds \<and> v \<in> set ds}"

definition nodes :: "graph \<Rightarrow> string set" where
  "nodes g = fst ` set g"

definition closed_graph :: "graph \<Rightarrow> bool" where
  "closed_graph g \<longleftrightarrow> (\<forall>u v. (u, v) \<in> depends g \<longrightarrow> v \<in> nodes g)"

lemma edges_node: "u \<in> nodes g \<longleftrightarrow> (\<exists>ds. edges g u = Some ds)"
proof -
  have "edges g u = None \<longleftrightarrow> u \<notin> fst ` set g"
    unfolding edges_def by (simp add: map_of_eq_None_iff)
  then show ?thesis by (cases "edges g u") (auto simp: nodes_def)
qed

text \<open>The set \<open>V\<close> of finished nodes: closed under dependency and without a cycle.\<close>

definition finished :: "graph \<Rightarrow> string set \<Rightarrow> bool" where
  "finished g V \<longleftrightarrow>
     (\<forall>u v. u \<in> V \<longrightarrow> (u, v) \<in> depends g \<longrightarrow> v \<in> V) \<and> (\<forall>u \<in> V. (u, u) \<notin> (depends g)\<^sup>+)"

lemma finished_reach: "(u, v) \<in> (depends g)\<^sup>* \<Longrightarrow> finished g V \<Longrightarrow> u \<in> V \<Longrightarrow> v \<in> V"
  by (induction rule: rtrancl_induct) (auto simp: finished_def)

lemma finished_insert:
  assumes fin: "finished g V" and deps: "edges g u = Some ds" "set ds \<subseteq> V" and new: "u \<notin> V"
  shows "finished g (insert u V)"
  unfolding finished_def
proof (intro conjI allI impI ballI)
  fix x y
  assume "x \<in> insert u V" "(x, y) \<in> depends g"
  then show "y \<in> insert u V" using fin deps by (auto simp: finished_def depends_def)
next
  fix x
  assume x: "x \<in> insert u V"
  show "(x, x) \<notin> (depends g)\<^sup>+"
  proof (cases "x = u")
    case True
    show ?thesis
    proof
      assume "(x, x) \<in> (depends g)\<^sup>+"
      with True obtain d where "(u, d) \<in> depends g" "(d, u) \<in> (depends g)\<^sup>*"
        by (metis tranclD)
      then have "u \<in> V" using finished_reach [OF _ fin] deps by (auto simp: depends_def)
      with new show False by contradiction
    qed
  next
    case False
    with x fin show ?thesis by (auto simp: finished_def)
  qed
qed

section \<open>Correctness of the search\<close>

text \<open>What one call guarantees, from a state in which \<open>P\<close> is being visited and \<open>V\<close> is finished.\<close>

definition search_ok :: "graph \<Rightarrow> string set \<Rightarrow> string set \<Rightarrow> string set \<Rightarrow> dfs result option \<Rightarrow> bool" where
  "search_ok g targets P V r \<longleftrightarrow>
     (\<exists>V'. r = Some (Inr (P, V')) \<and> V \<union> targets \<subseteq> V' \<and> finished g V' \<and> P \<inter> V' = {}) \<or>
     (r = Some (Inl (Rejected ''gates.depends_on: dependency cycle'')) \<and>
      (\<exists>x. (x, x) \<in> (depends g)\<^sup>+))"

lemma search_step:
  assumes n: "card (nodes g - P) < Suc n" and P: "P \<subseteq> nodes g" and node: "node \<in> nodes g"
    and V: "finished g V" "P \<inter> V = {}" and reach: "\<forall>p \<in> P. (p, node) \<in> (depends g)\<^sup>+"
    and all: "\<And>ds P'. set ds \<subseteq> nodes g \<Longrightarrow> card (nodes g - P') < n \<Longrightarrow> P' \<subseteq> nodes g \<Longrightarrow>
      P' \<inter> V = {} \<Longrightarrow> \<forall>p \<in> P'. \<forall>d \<in> set ds. (p, d) \<in> (depends g)\<^sup>+ \<Longrightarrow>
      search_ok g (set ds) P' V (visit_all n g ds (P', V))"
    and closed: "closed_graph g"
  shows "search_ok g {node} P V (visit (Suc n) g node (P, V))"
proof (cases "node \<in> P \<or> node \<in> V")
  case True
  then show ?thesis using V reach by (auto simp: search_ok_def)
next
  case False
  from node obtain ds where ds: "edges g node = Some ds" by (auto simp: edges_node)
  have dep: "(node, d) \<in> depends g" if "d \<in> set ds" for d
    using that ds by (auto simp: depends_def)
  let ?P = "insert node P"
  have fewer: "card (nodes g - ?P) < n"
  proof -
    have "finite (nodes g - P)" by (simp add: nodes_def)
    moreover have "nodes g - ?P \<subset> nodes g - P" using node False by blast
    ultimately have "card (nodes g - ?P) < card (nodes g - P)" by (rule psubset_card_mono)
    with n show ?thesis by simp
  qed
  have "(p, d) \<in> (depends g)\<^sup>+" if p: "p \<in> ?P" and d: "d \<in> set ds" for p d
  proof (cases "p = node")
    case True
    with dep [OF d] show ?thesis by (simp add: r_into_trancl)
  next
    case False
    with p reach have "(p, node) \<in> (depends g)\<^sup>+" by blast
    then show ?thesis using dep [OF d] by (rule trancl_into_trancl)
  qed
  moreover have "set ds \<subseteq> nodes g" using dep closed unfolding closed_graph_def by blast
  ultimately have "search_ok g (set ds) ?P V (visit_all n g ds (?P, V))"
    using False P node V fewer by (intro all) blast+
  then consider (ok) V' where "visit_all n g ds (?P, V) = Some (Inr (?P, V'))"
      "V \<union> set ds \<subseteq> V'" "finished g V'" "?P \<inter> V' = {}"
    | (cycle) "visit_all n g ds (?P, V) =
        Some (Inl (Rejected ''gates.depends_on: dependency cycle''))"
        "\<exists>x. (x, x) \<in> (depends g)\<^sup>+"
    by (auto simp: search_ok_def)
  then show ?thesis
  proof cases
    case ok
    then have "finished g (insert node V')" by (intro finished_insert [OF _ ds]) auto
    with ok False ds show ?thesis by (auto simp: search_ok_def)
  next
    case cycle
    with False ds show ?thesis by (simp add: search_ok_def)
  qed
qed

lemma visit_all_ok:
  assumes closed: "closed_graph g"
  shows "set ds \<subseteq> nodes g \<Longrightarrow> card (nodes g - P) < n \<Longrightarrow> P \<subseteq> nodes g \<Longrightarrow> finished g V \<Longrightarrow>
    P \<inter> V = {} \<Longrightarrow> \<forall>p \<in> P. \<forall>d \<in> set ds. (p, d) \<in> (depends g)\<^sup>+ \<Longrightarrow>
    search_ok g (set ds) P V (visit_all n g ds (P, V))"
proof (induction n arbitrary: ds P V)
  case 0
  then show ?case by simp
next
  case (Suc n)
  note outer = Suc.IH
  from Suc.prems show ?case
  proof (induction ds arbitrary: V)
    case Nil
    then show ?case by (simp add: search_ok_def)
  next
    case (Cons d ds)
    have d: "search_ok g {d} P V (visit (Suc n) g d (P, V))"
      by (rule search_step [OF Cons.prems(2,3) _ Cons.prems(4,5) _ outer closed])
        (use Cons.prems in auto)
    then show ?case
    proof (cases "\<exists>V'. visit (Suc n) g d (P, V) = Some (Inr (P, V')) \<and> V \<union> {d} \<subseteq> V' \<and>
        finished g V' \<and> P \<inter> V' = {}")
      case True
      then obtain V' where v: "visit (Suc n) g d (P, V) = Some (Inr (P, V'))"
        and V': "V \<union> {d} \<subseteq> V'" "finished g V'" "P \<inter> V' = {}" by blast
      have "search_ok g (set ds) P V' (visit_all (Suc n) g ds (P, V'))"
        by (rule Cons.IH) (use Cons.prems V' in auto)
      with v V' show ?thesis by (fastforce simp: search_ok_def)
    next
      case False
      with d show ?thesis by (auto simp: search_ok_def)
    qed
  qed
qed

lemma detect_cycles_ok:
  assumes "closed_graph g"
  shows "search_ok g (nodes g) {} {} (detect_cycles g)"
proof -
  have "card (nodes g) < Suc (length g)"
    using card_image_le [of "set g" fst] card_length [of g] by (simp add: nodes_def)
  then have "search_ok g (set (map fst g)) {} {} (visit_all (Suc (length g)) g (map fst g) ({}, {}))"
    by (intro visit_all_ok [OF assms]) (auto simp: nodes_def finished_def)
  then show ?thesis by (simp add: detect_cycles_def nodes_def)
qed

lemma detect_cycles_total: "closed_graph g \<Longrightarrow> detect_cycles g \<noteq> None"
  using detect_cycles_ok by (auto simp: search_ok_def)

lemma detect_cycles_safe:
  "closed_graph g \<Longrightarrow> \<exists>r. detect_cycles g = Some r \<and> crash_free r"
  using detect_cycles_ok [of g] by (auto simp: search_ok_def)

text \<open>Only nodes of the graph lie on a cycle.\<close>

lemma cycle_node: "(x, y) \<in> (depends g)\<^sup>+ \<Longrightarrow> x \<in> nodes g"
  by (induction rule: converse_trancl_induct) (auto simp: depends_def edges_node)

lemma detect_cycles_iff:
  assumes "closed_graph g"
  shows "(\<exists>st. detect_cycles g = Some (Inr st)) \<longleftrightarrow> acyclic (depends g)"
proof
  assume "\<exists>st. detect_cycles g = Some (Inr st)"
  with detect_cycles_ok [OF assms] obtain V' where "nodes g \<subseteq> V'" "finished g V'"
    by (auto simp: search_ok_def)
  then show "acyclic (depends g)"
    unfolding acyclic_def finished_def by (blast dest: cycle_node)
next
  assume "acyclic (depends g)"
  with detect_cycles_ok [OF assms] show "\<exists>st. detect_cycles g = Some (Inr st)"
    by (auto simp: search_ok_def acyclic_def)
qed

end
