(* ===== verification/Readiness.thy ===== *)
theory Readiness
  imports Ledger Cycles
begin

text \<open>
  \<^verbatim>\<open>scripts/verify_production_readiness.py\<close>: the production-readiness ledger.
  \<open>readiness_evidence_step\<close> is one round of \<^verbatim>\<open>validate_evidence\<close>,
  \<open>gate_step\<close> one round of the gate loop of \<^verbatim>\<open>validate_manifest\<close> with
  \<open>qualify_gate\<close> its block for qualified gates, \<open>check_dependencies\<close>, \<open>detect_cycles\<close>
  (theory \<open>Cycles\<close>), \<open>check_qualified_dependencies\<close>, \<open>check_documents\<close> and
  \<open>check_tracker\<close> the phases after it, and \<open>readiness_run\<close> the \<^verbatim>\<open>main\<close> of the
  script up to printing.
\<close>

section \<open>The tables\<close>

definition readiness_manifest_path :: string where
  "readiness_manifest_path = ''production/readiness.json''"

definition tracker_path :: string where
  "tracker_path = ''docs/PRODUCTION_READINESS.md''"

definition readiness_statuses :: "string list" where
  "readiness_statuses = [''blocked'', ''in_progress'', ''qualified'']"

definition readiness_evidence_kinds :: "string list" where
  "readiness_evidence_kinds =
     [''attestation'', ''catalog'', ''hardware-report'', ''package-report'', ''recovery-report'',
      ''release-report'', ''reproducibility-report'', ''route-matrix'', ''sbom'',
      ''security-report'', ''serial-log'', ''test-report'', ''threat-model'']"

definition canonical_gates :: "(int \<times> string \<times> string \<times> string) list" where
  "canonical_gates =
    [(1, ''cosmic-lifecycle'', ''Full COSMIC lifecycle'', ''docs/COSMIC_LIFECYCLE_GATE.md''),
     (2, ''linux-posix-compatibility'', ''Complete Linux/POSIX compatibility'',
      ''docs/LINUX_COMPAT_GATE.md''),
     (3, ''hardware-driver-coverage'', ''Production hardware and driver coverage'',
      ''docs/HARDWARE_COVERAGE_GATE.md''),
     (4, ''corinth-repository-service'', ''Automatic Corinth repository service'',
      ''docs/CORINTH_AUTO_INDEXER_GATE.md''),
     (5, ''package-semantics'', ''Broader package semantics'', ''docs/PACKAGE_SEMANTICS_GATE.md''),
     (6, ''dynamic-compatibility-workers'', ''Dynamic compatibility workers'',
      ''docs/DYNAMIC_COMPATIBILITY_WORKERS_GATE.md''),
     (7, ''application-compatibility-tiers'', ''Linux application compatibility tiers'',
      ''docs/APPLICATION_COMPATIBILITY_GATE.md''),
     (8, ''package-repository'', ''Complete the package repository'',
      ''docs/REPO_COMPLETENESS_GATE.md''),
     (9, ''installer-recovery'', ''Installer and recovery certification'',
      ''docs/INSTALLER_RECOVERY_GATE.md''),
     (10, ''desktop-services'', ''Desktop services'', ''docs/DESKTOP_SERVICES_GATE.md''),
     (11, ''security-qualification'', ''Security qualification'', ''docs/SECURITY_GATE.md''),
     (12, ''hardware-lab-release'', ''Hardware lab and release operations'',
      ''docs/HARDWARE_LAB_GATE.md''),
     (13, ''universal-route'', ''Universal route statement'', ''docs/UNIVERSAL_ROUTE_GATE.md''),
     (14, ''release-integrity-promotion'', ''Release integrity and promotion'',
      ''docs/RELEASE_INTEGRITY_GATE.md'')]"

definition component_labels :: "(string \<times> string) list" where
  "component_labels =
    [(''Arach-Kernel'', ''arach-kernel''), (''Slope'', ''slope''), (''Push'', ''push''),
     (''Granite'', ''granite''), (''Corinth'', ''corinth''),
     (''Arach-Packages'', ''arach-packages''), (''Arach-HWD'', ''arach-hwd'')]"

definition known_components :: "string list" where
  "known_components = ''ArachOS'' # map fst component_labels"

definition routes :: "string list" where
  "routes = [''native'', ''rebuilt'', ''compatibility-runtime'', ''container'', ''managed-vm'']"

definition readiness_policy :: pyval where
  "readiness_policy =
     PDict [(''fail_closed'', PBool True), (''evidence_root'', PStr ''production/evidence''),
       (''qualified_status'', PStr ''qualified'')]"

section \<open>Reading and evidence\<close>

definition readiness_load ::
    "(string \<Rightarrow> pyval option) \<Rightarrow> fs \<Rightarrow> pure_path \<Rightarrow> pyval result" where
  "readiness_load json fs path =
     (case read_text fs path of
        Inl e \<Rightarrow> (if e = OSError then Inl (Rejected ''cannot read the ledger'') else Inl e)
      | Inr text \<Rightarrow>
          (case json text of
             None \<Rightarrow> Inl (Rejected ''invalid JSON'')
           | Some v \<Rightarrow> (if \<not> is_dict v then Inl (Rejected ''root must be an object'') else Inr v)))"

definition readiness_timestamp :: "string \<Rightarrow> string \<Rightarrow> timestamp result" where
  "readiness_timestamp v path =
     utc_timestamp (path @ '': timestamp must use UTC Z form'')
       (path @ '': timestamp must be RFC 3339 compatible'') v"

definition is_mock_evidence :: "string \<Rightarrow> bool" where
  "is_mock_evidence path = list_ex placeholder_part (path_parts (Path path))"

definition evidence_contains_placeholder :: "fs \<Rightarrow> pure_path \<Rightarrow> bool result" where
  "evidence_contains_placeholder fs path =
     bindE (read_bytes fs path) (\<lambda>content. Inr (placeholder_evidence content))"

definition require_regular_evidence ::
    "fs \<Rightarrow> pure_path \<Rightarrow> string \<Rightarrow> string \<Rightarrow> pure_path result" where
  "require_regular_evidence fs root value base =
     (let evidence_root = join (join root ''production'') ''evidence''; path = join root value in
      case relative_to path root of
        None \<Rightarrow> Inl (Rejected (base @ ''.path: must be beneath production/evidence''))
      | Some relative \<Rightarrow>
          (if relative_to path evidence_root = None
             then Inl (Rejected (base @ ''.path: must be beneath production/evidence''))
           else if traverses_symlink fs root relative
             then Inl (Rejected (base @ ''.path: cannot traverse a symlink''))
           else if \<not> is_file fs path
             then Inl (Rejected (base @ ''.path: evidence file is missing or not regular''))
           else Inr path))"

definition lock_step ::
    "nat \<Rightarrow> pyval \<Rightarrow> (string \<Rightarrow> string option) \<Rightarrow> (string \<Rightarrow> string option) result" where
  "lock_step index component revisions =
     (let base = item ''components.lock.toml.component'' index;
          name = str_of (field component ''name''); revision = field component ''revision''
      in
      if \<not> is_dict component then Inl (Rejected (base @ '': must be an object''))
      else if \<not> str_that (\<lambda>s. True) (field component ''name'') \<or>
              \<not> str_that (fullmatch REVISION_RE) revision
        then Inl (Rejected (base @ '': has an invalid immutable revision''))
      else if revisions name \<noteq> None
        then Inl (Rejected (base @ '': duplicates a component''))
      else Inr (revisions(name \<mapsto> str_of revision)))"

definition component_revisions ::
    "(string \<Rightarrow> pyval option) \<Rightarrow> fs \<Rightarrow> pure_path \<Rightarrow> (string \<Rightarrow> string option) result" where
  "component_revisions toml fs root =
     (let path = join root ''components.lock.toml'' in
      if not_regular fs path
        then Inl (Rejected
          ''components.lock.toml: qualified evidence requires a regular component lock'')
      else case read_text fs path of
        Inl e \<Rightarrow>
          (if e = OSError then Inl (Rejected ''components.lock.toml: cannot load component lock'')
           else Inl e)
      | Inr text \<Rightarrow>
          (case toml text of
             None \<Rightarrow> Inl (Rejected ''components.lock.toml: cannot load component lock'')
           | Some document \<Rightarrow>
               (if \<not> is_list (field document ''component'')
                then Inl (Rejected ''components.lock.toml: component lock has no component array'')
                else forE lock_step 0 (list_of (field document ''component'')) (\<lambda>_. None))))"

text \<open>
  \<^verbatim>\<open>COMPONENT_LABELS[component]\<close> is a \<^verbatim>\<open>KeyError\<close> on a missing label;
  \<^verbatim>\<open>revisions.get\<close> gives \<^verbatim>\<open>None\<close>, which differs from every revision.
\<close>

definition revision_step ::
    "(string \<Rightarrow> string option) \<Rightarrow> nat \<Rightarrow> nat \<Rightarrow> pyval \<Rightarrow> unit \<Rightarrow> unit result" where
  "revision_step revisions gate_index index x u =
     (let component = str_of (field x ''component'') in
      if component = ''ArachOS'' then Inr ()
      else case map_of component_labels component of
        None \<Rightarrow> Inl KeyError
      | Some locked \<Rightarrow>
          (if map_option PStr (revisions locked) \<noteq> Some (field x ''revision'')
           then Inl (Rejected (item (item ''gates'' gate_index @ ''.evidence'') index @
             ''.revision: must match the immutable component-lock revision''))
           else Inr ()))"

definition validate_qualified_evidence_revisions ::
    "(string \<Rightarrow> pyval option) \<Rightarrow> fs \<Rightarrow> pure_path \<Rightarrow> pyval \<Rightarrow> nat \<Rightarrow> unit result" where
  "validate_qualified_evidence_revisions toml fs root gate index =
     bindE (component_revisions toml fs root) (\<lambda>revisions.
       forE (revision_step revisions index) 0 (list_of (field gate ''evidence'')) ())"

definition readiness_entry_fields :: "string list" where
  "readiness_entry_fields =
     [''kind'', ''path'', ''sha256'', ''captured_at'', ''component'', ''revision'']"

text \<open>The accumulators are the kinds and the paths seen so far.\<close>

definition readiness_evidence_step ::
    "fs \<Rightarrow> pure_path \<Rightarrow> pyval \<Rightarrow> nat \<Rightarrow> nat \<Rightarrow> pyval \<Rightarrow> string set \<times> string set \<Rightarrow>
     (string set \<times> string set) result" where
  "readiness_evidence_step fs root gate gate_index index x acc =
     (let base = item (item ''gates'' gate_index @ ''.evidence'') index;
          path = str_of (field x ''path'')
      in
      if \<not> is_dict x then Inl (Rejected (base @ '': must be an object''))
      else if \<not> has_fields readiness_entry_fields x
        then Inl (Rejected (base @ '': fields must be exactly''))
      else if \<not> str_that (\<lambda>s. s \<in> set readiness_evidence_kinds) (field x ''kind'')
        then Inl (Rejected (base @ ''.kind: unknown evidence kind''))
      else if \<not> str_that safe_relative (field x ''path'')
        then Inl (Rejected (base @ ''.path: must be a safe relative path''))
      else bindE (require_regular_evidence fs root path base) (\<lambda>resolved.
        if path \<in> snd acc
          then Inl (Rejected (base @ ''.path: duplicate evidence path''))
        else if \<not> str_that (fullmatch SHA256_RE) (field x ''sha256'')
          then Inl (Rejected (base @ ''.sha256: must be a lowercase SHA-256 digest''))
        else if \<not> str_that (fullmatch REVISION_RE) (field x ''revision'')
          then Inl (Rejected (base @ ''.revision: must be a full lowercase Git object ID''))
        else if \<not> str_that (\<lambda>s. PStr s \<in> set (list_of (field gate ''components'')))
                  (field x ''component'')
          then Inl (Rejected (base @ ''.component: must name one of the gate components''))
        else if \<not> str_that (\<lambda>s. True) (field x ''captured_at'')
          then Inl (Rejected (base @ ''.captured_at: must be a timestamp''))
        else bindE (readiness_timestamp (str_of (field x ''captured_at''))
                     (base @ ''.captured_at'')) (\<lambda>t.
          bindE (read_bytes fs resolved) (\<lambda>content.
            if \<not> py_eq (PStr (sha256_hex content)) (field x ''sha256'')
              then Inl (Rejected (base @ ''.sha256: does not match the evidence file''))
            else Inr (insert (str_of (field x ''kind'')) (fst acc), insert path (snd acc))))))"

definition readiness_validate_evidence ::
    "fs \<Rightarrow> pure_path \<Rightarrow> pyval \<Rightarrow> nat \<Rightarrow> string set result" where
  "readiness_validate_evidence fs root gate index =
     (if \<not> is_list (field gate ''evidence'')
        then Inl (Rejected (item ''gates'' index @ ''.evidence: must be an array''))
      else bindE (forE (readiness_evidence_step fs root gate index) 0
                   (list_of (field gate ''evidence'')) ({}, {}))
        (\<lambda>acc. Inr (fst acc)))"

section \<open>One gate\<close>

definition captured_step ::
    "timestamp \<Rightarrow> nat \<Rightarrow> nat \<Rightarrow> pyval \<Rightarrow> unit \<Rightarrow> unit result" where
  "captured_step qualified_at gate_index index x u =
     (let base = item (item ''gates'' gate_index @ ''.evidence'') index @ ''.captured_at'' in
      bindE (readiness_timestamp (str_of (field x ''captured_at'')) base) (\<lambda>captured_at.
      bindE (timestamp_less qualified_at captured_at) (\<lambda>late.
        if late then Inl (Rejected (base @ '': cannot be later than gate qualification''))
        else Inr ())))"

text \<open>The block of the loop body that a gate of status \<^verbatim>\<open>qualified\<close> runs.\<close>

definition qualify_gate ::
    "(string \<Rightarrow> pyval option) \<Rightarrow> fs \<Rightarrow> pure_path \<Rightarrow> pyval \<Rightarrow> nat \<Rightarrow> string set \<Rightarrow> unit result" where
  "qualify_gate toml fs root gate index kinds =
     (let base = item ''gates'' index; evidence = list_of (field gate ''evidence'');
          revision = field gate ''qualified_revision''
      in
      if list_ex (\<lambda>x. is_placeholder (str_of (field x ''revision''))) evidence
        then Inl (Rejected (base @
          ''.evidence: contains a placeholder revision and cannot qualify''))
      else if list_ex (\<lambda>x. is_mock_evidence (str_of (field x ''path''))) evidence
        then Inl (Rejected (base @
          ''.evidence: contains placeholder artifact names and cannot qualify''))
      else bindE (anyE (\<lambda>x. evidence_contains_placeholder fs
                     (join root (str_of (field x ''path'')))) evidence) (\<lambda>mock.
        if mock
          then Inl (Rejected (base @
            ''.evidence: contains placeholder artifact content and cannot qualify''))
        else if list_of (field gate ''blockers'') \<noteq> []
          then Inl (Rejected (base @ ''.blockers: qualified gates cannot retain blockers''))
        else if \<not> set (texts (field gate ''required_evidence'')) \<subseteq> kinds
          then Inl (Rejected (base @ ''.evidence: missing required evidence kinds''))
        else if \<not> str_that (\<lambda>s. True) (field gate ''qualified_at'')
          then Inl (Rejected (base @ ''.qualified_at: qualified gate requires a timestamp''))
        else bindE (readiness_timestamp (str_of (field gate ''qualified_at''))
                     (base @ ''.qualified_at'')) (\<lambda>qualified_at.
          bindE (forE (captured_step qualified_at index) 0 evidence ()) (\<lambda>u.
          bindE (validate_qualified_evidence_revisions toml fs root gate index) (\<lambda>v.
            if \<not> str_that (fullmatch REVISION_RE) revision
              then Inl (Rejected (base @
                ''.qualified_revision: qualified gate requires a full Git object ID''))
            else if is_placeholder (str_of revision)
              then Inl (Rejected (base @
                ''.qualified_revision: placeholder revisions cannot qualify a gate''))
            else Inr ())))))"

definition gate_fields :: "string list" where
  "gate_fields =
     [''number'', ''id'', ''title'', ''status'', ''authority'', ''components'', ''document'',
      ''depends_on'', ''required_evidence'', ''evidence'', ''blockers'', ''qualified_at'',
      ''qualified_revision'']"

definition unique_strings :: "pyval \<Rightarrow> bool" where
  "unique_strings v \<longleftrightarrow>
     is_list v \<and> list_of v \<noteq> [] \<and> list_all (str_that (\<lambda>s. True)) (list_of v) \<and>
     distinct (list_of v)"

definition unique_nonempty_strings :: "pyval \<Rightarrow> bool" where
  "unique_nonempty_strings v \<longleftrightarrow>
     is_list v \<and> list_all (str_that (\<lambda>s. s \<noteq> [])) (list_of v) \<and> distinct (list_of v)"

record gate_acc =
  acc_ids :: "string set"
  acc_numbers :: "int set"
  acc_documents :: "string set"

definition gate_step ::
    "(string \<Rightarrow> pyval option) \<Rightarrow> fs \<Rightarrow> pure_path \<Rightarrow> nat \<Rightarrow> pyval \<Rightarrow> gate_acc \<Rightarrow> gate_acc result" where
  "gate_step toml fs root index gate acc =
     (let base = item ''gates'' index; number = int_of (field gate ''number'');
          gate_id = str_of (field gate ''id''); title = str_of (field gate ''title'');
          document = str_of (field gate ''document''); status = str_of (field gate ''status'')
      in
      if \<not> is_dict gate then Inl (Rejected (base @ '': must be an object''))
      else if \<not> has_fields gate_fields gate
        then Inl (Rejected (base @ '': fields must be exactly''))
      else if \<not> int_that (\<lambda>n. 1 \<le> n \<and> n \<le> int (length canonical_gates)) (field gate ''number'') \<or>
              number \<in> acc_numbers acc
        then Inl (Rejected (base @ ''.number: must be unique in the range''))
      else if \<not> str_that (fullmatch ID_RE) (field gate ''id'') \<or> gate_id \<in> acc_ids acc
        then Inl (Rejected (base @ ''.id: must be a unique lowercase kebab-case identifier''))
      else if \<not> is_text (field gate ''title'')
        then Inl (Rejected (base @ ''.title: must be non-empty''))
      else if \<not> is_text (field gate ''authority'')
        then Inl (Rejected (base @ ''.authority: must be non-empty''))
      else if \<not> py_eq (field gate ''authority'') (PStr ''ArachOS'')
        then Inl (Rejected (base @ ''.authority: ArachOS is the release authority''))
      else if \<not> str_that (\<lambda>s. s \<in> set readiness_statuses) (field gate ''status'')
        then Inl (Rejected (base @ ''.status: unknown status''))
      else if \<not> nonempty_unique_texts (field gate ''components'')
        then Inl (Rejected (base @ ''.components: must be a non-empty unique string array''))
      else if \<not> set (texts (field gate ''components'')) \<subseteq> set known_components
        then Inl (Rejected (base @ ''.components: contains an unknown release component''))
      else if \<not> str_that safe_relative (field gate ''document'') \<or> document \<in> acc_documents acc
        then Inl (Rejected (base @ ''.document: must be a unique safe relative path''))
      else if not_regular fs (join root document)
        then Inl (Rejected (base @ ''.document: gate document is missing or not regular''))
      else if (number, gate_id, title, document) \<noteq> canonical_gates ! index
        then Inl (Rejected (base @
          '': identity differs from the canonical source-of-truth gate''))
      else if \<not> unique_nonempty_strings (field gate ''depends_on'')
        then Inl (Rejected (base @ ''.depends_on: must be a unique string array''))
      else if \<not> unique_strings (field gate ''required_evidence'')
        then Inl (Rejected (base @
          ''.required_evidence: must be a non-empty unique string array''))
      else if \<not> set (texts (field gate ''required_evidence'')) \<subseteq> set readiness_evidence_kinds
        then Inl (Rejected (base @ ''.required_evidence: contains an unknown evidence kind''))
      else if \<not> text_list (field gate ''blockers'')
        then Inl (Rejected (base @ ''.blockers: must contain non-empty strings''))
      else bindE (readiness_validate_evidence fs root gate index) (\<lambda>kinds.
        bindE
          (if status = ''qualified'' then qualify_gate toml fs root gate index kinds
           else if list_of (field gate ''blockers'') = []
             then Inl (Rejected (base @
               ''.blockers: unqualified gates must state at least one blocker''))
           else if field gate ''qualified_at'' \<noteq> PNone \<or> field gate ''qualified_revision'' \<noteq> PNone
             then Inl (Rejected (base @
               '': unqualified gate cannot carry qualification metadata''))
           else Inr ())
          (\<lambda>u. Inr \<lparr> acc_ids = insert gate_id (acc_ids acc),
                    acc_numbers = insert number (acc_numbers acc),
                    acc_documents = insert document (acc_documents acc) \<rparr>)))"

definition no_gates :: gate_acc where
  "no_gates = \<lparr> acc_ids = {}, acc_numbers = {}, acc_documents = {} \<rparr>"

section \<open>The phases after the gate loop\<close>

definition gate_id :: "pyval \<Rightarrow> string" where
  "gate_id gate = str_of (field gate ''id'')"

definition gate_depends :: "pyval \<Rightarrow> string list" where
  "gate_depends gate = texts (field gate ''depends_on'')"

definition check_dependencies_step ::
    "string set \<Rightarrow> nat \<Rightarrow> pyval \<Rightarrow> unit \<Rightarrow> unit result" where
  "check_dependencies_step ids index gate u =
     (if list_ex (\<lambda>d. d = gate_id gate \<or> d \<notin> ids) (gate_depends gate)
      then Inl (Rejected (item ''gates'' index @ ''.depends_on: contains an invalid dependency''))
      else Inr ())"

definition gate_graph :: "pyval list \<Rightarrow> graph" where
  "gate_graph gates = map (\<lambda>g. (gate_id g, gate_depends g)) gates"

definition check_cycles :: "pyval list \<Rightarrow> unit result" where
  "check_cycles gates =
     (case detect_cycles (gate_graph gates) of
        None \<Rightarrow> Inl RecursionError
      | Some r \<Rightarrow> bindE r (\<lambda>st. Inr ()))"

text \<open>\<^verbatim>\<open>by_id[dep]\<close>, where the last of several gates with one id counts.\<close>

definition gate_by_id :: "pyval list \<Rightarrow> string \<Rightarrow> pyval result" where
  "gate_by_id gates d =
     (case map_of (rev (map (\<lambda>g. (gate_id g, g)) gates)) d of
        None \<Rightarrow> Inl KeyError
      | Some g \<Rightarrow> Inr g)"

definition unqualified_dependencies :: "pyval list \<Rightarrow> pyval \<Rightarrow> string list result" where
  "unqualified_dependencies gates gate =
     forE (\<lambda>i d acc. bindE (gate_by_id gates d) (\<lambda>g.
       Inr (if status_of g \<noteq> ''qualified'' then acc @ [d] else acc))) 0 (gate_depends gate) []"

definition qualified_dependencies_step ::
    "pyval list \<Rightarrow> nat \<Rightarrow> pyval \<Rightarrow> unit \<Rightarrow> unit result" where
  "qualified_dependencies_step gates index gate u =
     (if status_of gate = ''qualified'' then
        bindE (unqualified_dependencies gates gate) (\<lambda>unqualified.
          if unqualified \<noteq> []
          then Inl (Rejected (item ''gates'' index @
            ''.depends_on: qualified gate depends on unqualified gates''))
          else Inr ())
      else Inr ())"

definition quoted :: "string \<Rightarrow> string" where
  "quoted s = CHR 0x60 # s @ [CHR 0x60]"

definition check_document_step :: "fs \<Rightarrow> pure_path \<Rightarrow> nat \<Rightarrow> pyval \<Rightarrow> unit \<Rightarrow> unit result" where
  "check_document_step fs root index gate u =
     bindE (read_text fs (join root (str_of (field gate ''document'')))) (\<lambda>text.
       if \<not> contains (''## Current status'' @ [CHR 0x0A, CHR 0x0A] @ quoted (status_of gate)) text
       then Inl (Rejected (item ''gates'' index @
         ''.document: current status does not match the ledger''))
       else Inr ())"

definition gate_number :: "pyval \<Rightarrow> string" where
  "gate_number gate = show_nat (nat (int_of (field gate ''number'')))"

definition check_tracker_step :: "string \<Rightarrow> nat \<Rightarrow> pyval \<Rightarrow> unit \<Rightarrow> unit result" where
  "check_tracker_step tracker index gate u =
     (let title = str_of (field gate ''title'');
          name = path_name (Path (str_of (field gate ''document'')))
      in
      if \<not> contains (''## '' @ gate_number gate @ ''. '' @ title) tracker
        then Inl (Rejected (tracker_path @ '': missing gate heading''))
      else if \<not> contains (''['' @ quoted name @ '']'') tracker
        then Inl (Rejected (tracker_path @ '': missing link''))
      else if \<not> contains (''- Current status: '' @ quoted (status_of gate)) tracker
        then Inl (Rejected (tracker_path @ '': status does not match the ledger''))
      else Inr ())"

definition check_tracker :: "fs \<Rightarrow> pure_path \<Rightarrow> pyval list \<Rightarrow> unit result" where
  "check_tracker fs root gates =
     (let path = join root tracker_path in
      if not_regular fs path
        then Inl (Rejected (tracker_path @ '': tracker is missing or not regular''))
      else bindE (read_text fs path) (\<lambda>tracker. forE (check_tracker_step tracker) 0 gates ()))"

definition readiness_validate ::
    "(string \<Rightarrow> pyval option) \<Rightarrow> fs \<Rightarrow> pure_path \<Rightarrow> pyval \<Rightarrow> unit result" where
  "readiness_validate toml fs root manifest =
     (let gates = list_of (field manifest ''gates'') in
      if \<not> has_fields [''format'', ''distribution'', ''policy'', ''routes'', ''gates''] manifest
        then Inl (Rejected ''unexpected or missing top-level fields'')
      else if \<not> py_eq (field manifest ''format'') (PInt 1) \<or>
              \<not> py_eq (field manifest ''distribution'') (PStr ''ArachOS'')
        then Inl (Rejected
          ''format or distribution identity differs from the release contract'')
      else if \<not> py_eq (field manifest ''policy'') readiness_policy
        then Inl (Rejected ''policy: must retain the fail-closed evidence policy'')
      else if \<not> py_eq (field manifest ''routes'') (PList (map PStr routes))
        then Inl (Rejected
          ''routes: must enumerate the canonical workload routes in order'')
      else if \<not> is_list (field manifest ''gates'') \<or> length gates \<noteq> length canonical_gates
        then Inl (Rejected ''gates: must contain exactly 14 production gates'')
      else bindE (forE (gate_step toml fs root) 0 gates no_gates) (\<lambda>acc.
        if acc_numbers acc \<noteq> {1 .. int (length canonical_gates)}
          then Inl (Rejected ''gates: gate numbers must cover 1 through 14 exactly'')
        else bindE (forE (check_dependencies_step (acc_ids acc)) 0 gates ()) (\<lambda>u.
          bindE (check_cycles gates) (\<lambda>u.
          bindE (forE (qualified_dependencies_step gates) 0 gates ()) (\<lambda>u.
          bindE (forE (check_document_step fs root) 0 gates ()) (\<lambda>u.
            check_tracker fs root gates))))))"

section \<open>The commands\<close>

definition require_production_ready :: "pyval \<Rightarrow> unit result" where
  "require_production_ready manifest =
     (if filter (\<lambda>g. status_of g \<noteq> ''qualified'') (list_of (field manifest ''gates'')) \<noteq> []
      then Inl (Rejected ''gates: production release remains blocked'') else Inr ())"

definition readiness_run ::
    "(string \<Rightarrow> pyval option) \<Rightarrow> (string \<Rightarrow> pyval option) \<Rightarrow> fs \<Rightarrow> pure_path \<Rightarrow> bool \<Rightarrow>
     pyval result" where
  "readiness_run json toml fs root require =
     bindE (readiness_load json fs (join root readiness_manifest_path)) (\<lambda>manifest.
     bindE (readiness_validate toml fs root manifest) (\<lambda>u.
     bindE (if require then require_production_ready manifest else Inr ()) (\<lambda>u.
       Inr manifest)))"

text \<open>\<^verbatim>\<open>report\<close>, run on a validated manifest.\<close>

definition pad_left :: "nat \<Rightarrow> string \<Rightarrow> string" where
  "pad_left n s = replicate (n - length s) CHR '' '' @ s"

definition pad_right :: "nat \<Rightarrow> string \<Rightarrow> string" where
  "pad_right n s = s @ replicate (n - length s) CHR '' ''"

definition report_counts :: "pyval \<Rightarrow> string \<Rightarrow> nat" where
  "report_counts manifest =
     fold (\<lambda>gate. bump (status_of gate)) (list_of (field manifest ''gates'')) (\<lambda>_. 0)"

definition report_line :: "pyval \<Rightarrow> string" where
  "report_line gate =
     pad_left 2 (gate_number gate) @ ''. '' @ pad_right 11 (status_of gate) @ '' '' @
     str_of (field gate ''title'')"

definition join_lines :: "string list \<Rightarrow> string" where
  "join_lines ls = (case ls of [] \<Rightarrow> [] | l # rest \<Rightarrow> l @ concat (map (\<lambda>x. CHR 0x0A # x) rest))"

definition readiness_report :: "pyval \<Rightarrow> string" where
  "readiness_report manifest =
     (let counts = report_counts manifest in
      join_lines
        ((''ArachOS production readiness: '' @ show_nat (counts ''qualified'') @ ''/'' @
          show_nat (length canonical_gates) @ '' qualified, '' @
          show_nat (counts ''in_progress'') @ '' in progress, '' @
          show_nat (counts ''blocked'') @ '' blocked'') #
         map report_line (list_of (field manifest ''gates''))))"

end
