(* ===== verification/ReadinessSpec.thy ===== *)
theory ReadinessSpec
  imports Readiness
begin

text \<open>
  What the readiness ledger accepts. Each step of theory \<open>Readiness\<close> gets a declarative
  counterpart (\<open>readiness_entry_ok\<close>, \<open>qualification_ok\<close>, \<open>gate_ok\<close>,
  \<open>dependencies_ok\<close>, \<open>tracker_ok\<close>) and a lemma that it succeeds exactly there; the loops
  are interpretations of \<open>unique_loop\<close>, \<open>plain_loop\<close> and \<open>ranked_loop\<close>. They compose
  to \<open>readiness_validate_iff\<close>: the validator accepts exactly the manifests of
  \<open>readiness_manifest_ok\<close>, in which cycle freedom is \<open>acyclic\<close> of the dependency relation.
\<close>

section \<open>What is accepted: evidence\<close>

definition evidence_place_ok :: "fs \<Rightarrow> pure_path \<Rightarrow> string \<Rightarrow> bool" where
  "evidence_place_ok fs root value \<longleftrightarrow>
     (\<exists>relative. relative_to (join root value) root = Some relative \<and>
        \<not> traverses_symlink fs root relative) \<and>
     relative_to (join root value) (join (join root ''production'') ''evidence'') \<noteq> None \<and>
     is_file fs (join root value)"

lemma require_regular_evidence_iff [result_simps]:
  "require_regular_evidence fs root value base = Inr p \<longleftrightarrow>
     evidence_place_ok fs root value \<and> p = join root value"
  by (auto simp: require_regular_evidence_def evidence_place_ok_def Let_def
      split: option.splits)

lemma require_regular_evidence_safe [safe_intros]:
  "crash_free (require_regular_evidence fs root value base)"
  by (auto simp: require_regular_evidence_def Let_def split: option.splits)

definition readiness_entry_ok :: "fs \<Rightarrow> pure_path \<Rightarrow> pyval \<Rightarrow> pyval \<Rightarrow> bool" where
  "readiness_entry_ok fs root gate x \<longleftrightarrow>
     has_fields readiness_entry_fields x \<and>
     str_that (\<lambda>s. s \<in> set readiness_evidence_kinds) (field x ''kind'') \<and>
     str_that (\<lambda>s. PStr s \<in> set (list_of (field gate ''components''))) (field x ''component'') \<and>
     (\<exists>path content revision captured t.
        field x ''path'' = PStr path \<and> safe_relative path \<and> evidence_place_ok fs root path \<and>
        read_bytes fs (join root path) = Inr content \<and>
        field x ''sha256'' = PStr (sha256_hex content) \<and>
        field x ''revision'' = PStr revision \<and> fullmatch REVISION_RE revision \<and>
        field x ''captured_at'' = PStr captured \<and> is_utc captured t)"

definition readiness_collect :: "pyval \<Rightarrow> string set \<times> string set \<Rightarrow> string set \<times> string set" where
  "readiness_collect x acc =
     (insert (str_of (field x ''kind'')) (fst acc), insert (path_of x) (snd acc))"

lemma readiness_evidence_step_iff:
  "readiness_evidence_step fs root gate gi i x acc = Inr acc' \<longleftrightarrow>
     readiness_entry_ok fs root gate x \<and> path_of x \<notin> snd acc \<and> acc' = readiness_collect x acc"
proof -
  have "readiness_evidence_step fs root gate gi i x acc = Inr acc' \<longleftrightarrow>
      is_dict x \<and> has_fields readiness_entry_fields x \<and>
      str_that (\<lambda>s. s \<in> set readiness_evidence_kinds) (field x ''kind'') \<and>
      str_that safe_relative (field x ''path'') \<and> evidence_place_ok fs root (path_of x) \<and>
      path_of x \<notin> snd acc \<and> str_that (fullmatch SHA256_RE) (field x ''sha256'') \<and>
      str_that (fullmatch REVISION_RE) (field x ''revision'') \<and>
      str_that (\<lambda>s. PStr s \<in> set (list_of (field gate ''components''))) (field x ''component'') \<and>
      str_that (\<lambda>s. True) (field x ''captured_at'') \<and>
      (\<exists>t. is_utc (str_of (field x ''captured_at'')) t) \<and>
      (\<exists>content. read_bytes fs (join root (path_of x)) = Inr content \<and>
         field x ''sha256'' = PStr (sha256_hex content)) \<and>
      acc' = readiness_collect x acc"
    unfolding readiness_evidence_step_def readiness_collect_def path_of_def
      readiness_timestamp_def Let_def
    by (simp only: result_simps py_eq_str' not_not conj_assoc simp_thms) blast
  moreover have "has_fields ks x \<Longrightarrow> is_dict x" for ks by (cases x) auto
  ultimately show ?thesis
    by (auto simp: readiness_entry_ok_def path_of_def)
qed

interpretation readiness_entries: unique_loop
  "readiness_evidence_step fs root gate gi" "\<lambda>i. readiness_entry_ok fs root gate" path_of snd
  readiness_collect
  for fs root gate gi
  by unfold_locales (simp_all add: readiness_evidence_step_iff readiness_collect_def)

lemma readiness_fold: "fst (fold readiness_collect xs acc) = kinds_of xs \<union> fst acc"
  by (induction xs arbitrary: acc) (auto simp: readiness_collect_def kinds_of_def)

definition readiness_entries_ok :: "fs \<Rightarrow> pure_path \<Rightarrow> pyval \<Rightarrow> bool" where
  "readiness_entries_ok fs root gate \<longleftrightarrow>
     is_list (field gate ''evidence'') \<and>
     list_all (readiness_entry_ok fs root gate) (evidence_of gate) \<and>
     distinct (map path_of (evidence_of gate))"

lemma readiness_validate_evidence_iff [result_simps]:
  "readiness_validate_evidence fs root gate i = Inr ks \<longleftrightarrow>
     readiness_entries_ok fs root gate \<and> ks = kinds_of (evidence_of gate)"
  by (auto simp: readiness_validate_evidence_def result_simps readiness_entries.loop_iff
      readiness_fold readiness_entries_ok_def list_all_length evidence_of_def)

section \<open>What is accepted: the component lock\<close>

definition lock_entry_ok :: "pyval \<Rightarrow> bool" where
  "lock_entry_ok c \<longleftrightarrow>
     is_dict c \<and> str_that (\<lambda>s. True) (field c ''name'') \<and>
     str_that (fullmatch REVISION_RE) (field c ''revision'')"

definition name_of :: "pyval \<Rightarrow> string" where
  "name_of c = str_of (field c ''name'')"

interpretation lock_entries: unique_loop
  lock_step "\<lambda>i. lock_entry_ok" name_of dom "\<lambda>c m. m(name_of c \<mapsto> revision_of c)"
  by unfold_locales
    (auto simp: lock_step_def lock_entry_ok_def name_of_def revision_of_def Let_def result_simps
      domIff)

text \<open>The lock of a repository, as a table from component names to revisions.\<close>

definition lock_of ::
    "(string \<Rightarrow> pyval option) \<Rightarrow> fs \<Rightarrow> pure_path \<Rightarrow> (string \<Rightarrow> string option) \<Rightarrow> bool" where
  "lock_of toml fs root m \<longleftrightarrow> component_revisions toml fs root = Inr m"

text \<open>An entry that names a component other than ArachOS carries the locked revision.\<close>

definition revision_ok :: "(string \<Rightarrow> string option) \<Rightarrow> pyval \<Rightarrow> bool" where
  "revision_ok m x \<longleftrightarrow>
     (let component = str_of (field x ''component'') in
      component \<noteq> ''ArachOS'' \<longrightarrow>
      (\<exists>locked r. map_of component_labels component = Some locked \<and> m locked = Some r \<and>
         field x ''revision'' = PStr r))"

interpretation revision_loop: plain_loop
  "revision_step m gi" "\<lambda>i. revision_ok m" "\<lambda>x u. u"
  for m gi
  by unfold_locales
    (auto simp: revision_step_def revision_ok_def Let_def split: option.splits if_splits)

lemma validate_revisions_iff [result_simps]:
  "validate_qualified_evidence_revisions toml fs root gate i = Inr u \<longleftrightarrow>
     (\<exists>m. lock_of toml fs root m \<and> list_all (revision_ok m) (evidence_of gate))"
  by (auto simp: validate_qualified_evidence_revisions_def lock_of_def result_simps
      revision_loop.loop_iff list_all_length evidence_of_def)

section \<open>What is accepted: gates\<close>

text \<open>Captured no later than qualification; both timestamps are comparable.\<close>

definition captured_ok :: "timestamp \<Rightarrow> pyval \<Rightarrow> bool" where
  "captured_ok q x \<longleftrightarrow>
     (\<exists>t. is_utc (str_of (field x ''captured_at'')) t \<and> t \<le> q)"

interpretation captured_loop: plain_loop
  "captured_step q gi" "\<lambda>i. captured_ok q" "\<lambda>x u. u"
  for q gi
  by unfold_locales
    (auto simp: captured_step_def captured_ok_def Let_def result_simps ex_not_late readiness_timestamp_def)

lemma captured_loop_iff [result_simps]:
  "forE (captured_step q gi) 0 xs () = Inr u \<longleftrightarrow> list_all (captured_ok q) xs"
  by (simp add: captured_loop.loop_iff list_all_length)

text \<open>Evidence that is not a placeholder, by revision, by name and by content.\<close>

definition genuine :: "fs \<Rightarrow> pure_path \<Rightarrow> pyval \<Rightarrow> bool" where
  "genuine fs root x \<longleftrightarrow>
     \<not> is_placeholder (revision_of x) \<and> \<not> is_mock_evidence (path_of x) \<and>
     (\<exists>content. read_bytes fs (join root (path_of x)) = Inr content \<and>
        \<not> placeholder_evidence content)"

definition qualification_ok ::
    "(string \<Rightarrow> pyval option) \<Rightarrow> fs \<Rightarrow> pure_path \<Rightarrow> pyval \<Rightarrow> bool" where
  "qualification_ok toml fs root gate \<longleftrightarrow>
     list_all (genuine fs root) (evidence_of gate) \<and> list_of (field gate ''blockers'') = [] \<and>
     set (texts (field gate ''required_evidence'')) \<subseteq> kinds_of (evidence_of gate) \<and>
     (\<exists>at q. field gate ''qualified_at'' = PStr at \<and> is_utc at q \<and>
        list_all (captured_ok q) (evidence_of gate)) \<and>
     (\<exists>m. lock_of toml fs root m \<and> list_all (revision_ok m) (evidence_of gate)) \<and>
     (\<exists>r. field gate ''qualified_revision'' = PStr r \<and> fullmatch REVISION_RE r \<and>
        \<not> is_placeholder r)"

lemma evidence_contains_placeholder_iff:
  "evidence_contains_placeholder fs p = Inr b \<longleftrightarrow>
     (\<exists>content. read_bytes fs p = Inr content \<and> b = placeholder_evidence content)"
  by (auto simp: evidence_contains_placeholder_def result_simps)

lemma qualify_gate_iff:
  "qualify_gate toml fs root gate i (kinds_of (evidence_of gate)) = Inr () \<longleftrightarrow>
     qualification_ok toml fs root gate"
proof -
  have "qualify_gate toml fs root gate i (kinds_of (evidence_of gate)) = Inr () \<longleftrightarrow>
      \<not> list_ex (\<lambda>x. is_placeholder (revision_of x)) (evidence_of gate) \<and>
      \<not> list_ex (\<lambda>x. is_mock_evidence (path_of x)) (evidence_of gate) \<and>
      (\<forall>x \<in> set (evidence_of gate). \<exists>content.
         read_bytes fs (join root (path_of x)) = Inr content \<and>
         False = placeholder_evidence content) \<and>
      list_of (field gate ''blockers'') = [] \<and>
      set (texts (field gate ''required_evidence'')) \<subseteq> kinds_of (evidence_of gate) \<and>
      str_that (\<lambda>s. True) (field gate ''qualified_at'') \<and>
      (\<exists>q. is_utc (str_of (field gate ''qualified_at'')) q \<and>
         list_all (captured_ok q) (evidence_of gate)) \<and>
      (\<exists>m. lock_of toml fs root m \<and> list_all (revision_ok m) (evidence_of gate)) \<and>
      str_that (fullmatch REVISION_RE) (field gate ''qualified_revision'') \<and>
      \<not> is_placeholder (str_of (field gate ''qualified_revision''))"
    unfolding qualify_gate_def Let_def readiness_timestamp_def evidence_of_def [symmetric]
      path_of_def [symmetric] revision_of_def [symmetric]
    by (simp only: guard_Inr_iff ex_anyE evidence_contains_placeholder_iff not_not
        bindE_Inr_iff utc_timestamp_iff captured_loop_iff validate_revisions_iff ex_unit
        simp_thms) blast
  then show ?thesis
    by (auto simp: qualification_ok_def genuine_def list_all_iff list_ex_iff)
qed

definition gate_shape_ok :: "fs \<Rightarrow> pure_path \<Rightarrow> nat \<Rightarrow> pyval \<Rightarrow> bool" where
  "gate_shape_ok fs root i gate \<longleftrightarrow>
     has_fields gate_fields gate \<and>
     int_that (\<lambda>n. 1 \<le> n \<and> n \<le> int (length canonical_gates)) (field gate ''number'') \<and>
     str_that (fullmatch ID_RE) (field gate ''id'') \<and> is_text (field gate ''title'') \<and>
     str_that safe_relative (field gate ''document'') \<and>
     \<not> not_regular fs (join root (str_of (field gate ''document''))) \<and>
     (int_of (field gate ''number''), gate_id gate, str_of (field gate ''title''),
       str_of (field gate ''document'')) = canonical_gates ! i \<and>
     field gate ''authority'' = PStr ''ArachOS'' \<and>
     str_that (\<lambda>s. s \<in> set readiness_statuses) (field gate ''status'') \<and>
     nonempty_unique_texts (field gate ''components'') \<and>
     set (texts (field gate ''components'')) \<subseteq> set known_components \<and>
     unique_nonempty_strings (field gate ''depends_on'') \<and>
     unique_strings (field gate ''required_evidence'') \<and>
     set (texts (field gate ''required_evidence'')) \<subseteq> set readiness_evidence_kinds \<and>
     text_list (field gate ''blockers'')"

definition gate_status_rule ::
    "(string \<Rightarrow> pyval option) \<Rightarrow> fs \<Rightarrow> pure_path \<Rightarrow> pyval \<Rightarrow> bool" where
  "gate_status_rule toml fs root gate \<longleftrightarrow>
     (if status_of gate = ''qualified'' then qualification_ok toml fs root gate
      else list_of (field gate ''blockers'') \<noteq> [] \<and> field gate ''qualified_at'' = PNone \<and>
        field gate ''qualified_revision'' = PNone)"

definition gate_ok ::
    "(string \<Rightarrow> pyval option) \<Rightarrow> fs \<Rightarrow> pure_path \<Rightarrow> nat \<Rightarrow> pyval \<Rightarrow> bool" where
  "gate_ok toml fs root i gate \<longleftrightarrow>
     gate_shape_ok fs root i gate \<and> readiness_entries_ok fs root gate \<and>
     gate_status_rule toml fs root gate"

definition gate_keys :: "pyval \<Rightarrow> int \<times> string \<times> string" where
  "gate_keys gate =
     (int_of (field gate ''number''), gate_id gate, str_of (field gate ''document''))"

definition gate_fresh :: "pyval \<Rightarrow> gate_acc \<Rightarrow> bool" where
  "gate_fresh gate acc \<longleftrightarrow>
     (case gate_keys gate of (n, i, d) \<Rightarrow>
        n \<notin> acc_numbers acc \<and> i \<notin> acc_ids acc \<and> d \<notin> acc_documents acc)"

definition gate_collect :: "pyval \<Rightarrow> gate_acc \<Rightarrow> gate_acc" where
  "gate_collect gate acc =
     (case gate_keys gate of (n, i, d) \<Rightarrow>
        \<lparr> acc_ids = insert i (acc_ids acc), acc_numbers = insert n (acc_numbers acc),
          acc_documents = insert d (acc_documents acc) \<rparr>)"

lemma not_blank_ArachOS: "\<not> blank ''ArachOS''"
  by code_simp

lemma gate_step_iff:
  "gate_step toml fs root i gate acc = Inr acc' \<longleftrightarrow>
     gate_ok toml fs root i gate \<and> gate_fresh gate acc \<and> acc' = gate_collect gate acc"
proof -
  have rule: "(if s = ''qualified'' then q else if b = [] then Inl e else
      if x \<noteq> PNone \<or> y \<noteq> PNone then Inl e' else Inr ()) = Inr () \<longleftrightarrow>
      (if s = ''qualified'' then q = Inr () else b \<noteq> [] \<and> x = PNone \<and> y = PNone)"
    for s q and b :: "pyval list" and e e' :: exn and x y :: pyval
    by simp
  have one: "(\<exists>ks. a \<and> ks = k \<and> P ks) \<longleftrightarrow> a \<and> P k" for a k and P :: "string set \<Rightarrow> bool"
    by blast
  have dict: "is_dict gate \<and> has_fields ks gate \<and> P \<longleftrightarrow> has_fields ks gate \<and> P" for ks P
    by (cases gate) auto
  have auth: "is_text v \<and> v = PStr ''ArachOS'' \<and> P \<longleftrightarrow> v = PStr ''ArachOS'' \<and> P" for v P
    using not_blank_ArachOS by (auto simp del: blank.simps)
  show ?thesis
    unfolding gate_step_def gate_ok_def gate_shape_ok_def gate_status_rule_def gate_fresh_def
      gate_collect_def gate_keys_def prod.case Let_def gate_id_def [symmetric]
      status_of_def [symmetric]
    by (simp only: guard_Inr_iff bindE_Inr_iff readiness_validate_evidence_iff rule one
        qualify_gate_iff py_eq_str not_not de_Morgan_disj conj_assoc simp_thms sum.inject ex_unit
        dict auth) blast
qed

lemma nth_not_before:
  "distinct (map f xs) \<Longrightarrow> i < length xs \<Longrightarrow> f (xs ! i) \<notin> f ` set (take i xs)"
proof (induction xs arbitrary: i)
  case (Cons x xs)
  then show ?case by (cases i) (auto dest: sym)
qed simp

text \<open>After \<open>i\<close> gates the accumulators hold the first \<open>i\<close> canonical identities.\<close>

definition gates_seen :: "nat \<Rightarrow> gate_acc \<Rightarrow> bool" where
  "gates_seen i acc \<longleftrightarrow>
     acc_numbers acc = fst ` set (take i canonical_gates) \<and>
     acc_ids acc = (\<lambda>c. fst (snd c)) ` set (take i canonical_gates) \<and>
     acc_documents acc = (\<lambda>c. snd (snd (snd c))) ` set (take i canonical_gates)"

lemma canonical_distinct:
  "distinct (map fst canonical_gates)" "distinct (map (\<lambda>c. fst (snd c)) canonical_gates)"
  "distinct (map (\<lambda>c. snd (snd (snd c))) canonical_gates)"
  by code_simp+

lemma gate_ok_keys:
  "gate_ok toml fs root i gate \<Longrightarrow>
     gate_keys gate = (fst (canonical_gates ! i), fst (snd (canonical_gates ! i)),
       snd (snd (snd (canonical_gates ! i))))"
  unfolding gate_ok_def gate_shape_ok_def gate_keys_def
  by (elim conjE) (simp add: prod_eq_iff)

interpretation gate_loop: ranked_loop
  "gate_step toml fs root" "gate_ok toml fs root" gate_fresh gate_collect gates_seen
  "length canonical_gates"
  for toml fs root
proof
  fix i acc gate
  assume i: "i < length canonical_gates" and seen: "gates_seen i acc"
    and ok: "gate_ok toml fs root i gate"
  note keys = gate_ok_keys [OF ok]
  show "gate_fresh gate acc"
    using seen canonical_distinct [THEN nth_not_before, OF i]
    by (simp add: gate_fresh_def keys gates_seen_def)
  show "gates_seen (Suc i) (gate_collect gate acc)"
    using seen i by (simp add: gate_collect_def keys gates_seen_def take_Suc_conv_app_nth)
qed (rule gate_step_iff)

definition gates_ok ::
    "(string \<Rightarrow> pyval option) \<Rightarrow> fs \<Rightarrow> pure_path \<Rightarrow> pyval list \<Rightarrow> bool" where
  "gates_ok toml fs root gates \<longleftrightarrow>
     length gates = length canonical_gates \<and>
     (\<forall>i < length gates. gate_ok toml fs root i (gates ! i))"

definition canonical_ids :: "string list" where
  "canonical_ids = map (\<lambda>c. fst (snd c)) canonical_gates"

lemma gates_seen_none: "gates_seen 0 no_gates"
  by (simp add: gates_seen_def no_gates_def)

lemma gates_seen_fold:
  assumes "gates_ok toml fs root gates" and "i \<le> length gates"
  shows "gates_seen i (fold gate_collect (take i gates) no_gates)"
  using assms(2)
proof (induction i)
  case 0
  show ?case by (simp add: gates_seen_none)
next
  case (Suc i)
  then have "gates_seen (Suc i) (gate_collect (gates ! i) (fold gate_collect (take i gates) no_gates))"
    using assms(1) by (intro gate_loop.inv_upd [of _ _ toml fs root]) (auto simp: gates_ok_def)
  with Suc.prems show ?case by (simp add: take_Suc_conv_app_nth)
qed

lemma gate_loop_iff:
  assumes "length gates = length canonical_gates"
  shows "forE (gate_step toml fs root) 0 gates no_gates = Inr acc \<longleftrightarrow>
     gates_ok toml fs root gates \<and> acc = fold gate_collect gates no_gates"
  using gate_loop.ranked_iff [OF gates_seen_none, of gates toml fs root acc] assms
  by (simp add: gates_ok_def)

lemma gates_collected:
  assumes "gates_ok toml fs root gates"
  shows "acc_numbers (fold gate_collect gates no_gates) = {1 .. int (length canonical_gates)}"
    and "acc_ids (fold gate_collect gates no_gates) = set canonical_ids"
proof -
  have "gates_seen (length canonical_gates) (fold gate_collect gates no_gates)"
    using gates_seen_fold [OF assms le_refl] assms by (simp add: gates_ok_def)
  moreover have "fst ` set canonical_gates = {1 .. int (length canonical_gates)}"
    by code_simp
  ultimately show "acc_numbers (fold gate_collect gates no_gates) = {1 .. int (length canonical_gates)}"
    and "acc_ids (fold gate_collect gates no_gates) = set canonical_ids"
    by (simp_all add: gates_seen_def canonical_ids_def)
qed

lemma gates_ok_ids:
  assumes "gates_ok toml fs root gates"
  shows "map gate_id gates = canonical_ids"
proof (rule nth_equalityI)
  show "length (map gate_id gates) = length canonical_ids"
    using assms by (simp add: gates_ok_def canonical_ids_def)
next
  fix i
  assume i: "i < length (map gate_id gates)"
  with assms have "gate_ok toml fs root i (gates ! i)" by (simp add: gates_ok_def)
  from gate_ok_keys [OF this] i assms show "map gate_id gates ! i = canonical_ids ! i"
    by (simp add: gate_keys_def gates_ok_def canonical_ids_def)
qed

lemma gates_distinct: "gates_ok toml fs root gates \<Longrightarrow> distinct (map gate_id gates)"
  by (simp only: gates_ok_ids canonical_ids_def canonical_distinct)

section \<open>What is accepted: the ledger\<close>

definition dependencies_ok :: "string set \<Rightarrow> pyval \<Rightarrow> bool" where
  "dependencies_ok ids gate \<longleftrightarrow> (\<forall>d \<in> set (gate_depends gate). d \<noteq> gate_id gate \<and> d \<in> ids)"

interpretation dependency_loop: plain_loop
  "check_dependencies_step ids" "\<lambda>i. dependencies_ok ids" "\<lambda>x u. u"
  for ids
  by unfold_locales (auto simp: check_dependencies_step_def dependencies_ok_def list_ex_iff)

lemma dependency_loop_iff:
  "forE (check_dependencies_step ids) 0 gates () = Inr () \<longleftrightarrow>
     (\<forall>g \<in> set gates. dependencies_ok ids g)"
  by (simp add: dependency_loop.loop_iff all_set_conv_all_nth)

lemma gate_graph_nodes: "nodes (gate_graph gates) = gate_id ` set gates"
  by (force simp: nodes_def gate_graph_def)

lemma gate_graph_closed:
  assumes "\<forall>g \<in> set gates. dependencies_ok (gate_id ` set gates) g"
  shows "closed_graph (gate_graph gates)"
  unfolding closed_graph_def gate_graph_nodes
proof (intro allI impI)
  fix u v
  assume "(u, v) \<in> depends (gate_graph gates)"
  then obtain ds where "map_of (rev (gate_graph gates)) u = Some ds" "v \<in> set ds"
    by (auto simp: depends_def edges_def)
  then have "(u, ds) \<in> set (gate_graph gates)" by (auto dest: map_of_SomeD)
  with assms \<open>v \<in> set ds\<close> show "v \<in> gate_id ` set gates"
    by (auto simp: gate_graph_def dependencies_ok_def)
qed

lemma check_cycles_iff:
  assumes "\<forall>g \<in> set gates. dependencies_ok (gate_id ` set gates) g"
  shows "check_cycles gates = Inr () \<longleftrightarrow> acyclic (depends (gate_graph gates))"
  using detect_cycles_iff [OF gate_graph_closed [OF assms]]
    detect_cycles_total [OF gate_graph_closed [OF assms]]
  by (auto simp: check_cycles_def result_simps split: option.splits)

lemma check_cycles_safe:
  assumes "\<forall>g \<in> set gates. dependencies_ok (gate_id ` set gates) g"
  shows "crash_free (check_cycles gates)"
proof -
  obtain r where "detect_cycles (gate_graph gates) = Some r" "crash_free r"
    using detect_cycles_safe [OF gate_graph_closed [OF assms]] by blast
  then show ?thesis by (auto simp: check_cycles_def intro!: safe_intros)
qed

lemma gate_by_id_member:
  assumes "distinct (map gate_id gates)" and "g \<in> set gates"
  shows "gate_by_id gates (gate_id g) = Inr g"
proof -
  have "map fst (rev (map (\<lambda>g. (gate_id g, g)) gates)) = rev (map gate_id gates)"
    by (simp add: rev_map comp_def)
  with assms have "map_of (rev (map (\<lambda>g. (gate_id g, g)) gates)) (gate_id g) = Some g"
    by (intro map_of_is_SomeI) auto
  then show ?thesis by (simp add: gate_by_id_def)
qed

lemma unqualified_collect:
  assumes dist: "distinct (map gate_id gates)" and deps: "set ds \<subseteq> gate_id ` set gates"
  shows "\<exists>zs. forE (\<lambda>i d acc. bindE (gate_by_id gates d) (\<lambda>g.
       Inr (if status_of g \<noteq> ''qualified'' then acc @ [d] else acc))) i ds acc = Inr (acc @ zs) \<and>
     (zs = [] \<longleftrightarrow> (\<forall>g \<in> set gates. gate_id g \<in> set ds \<longrightarrow> status_of g = ''qualified''))"
  using deps
proof (induction ds arbitrary: i acc)
  case Nil
  then show ?case by auto
next
  case (Cons d ds)
  then obtain g where g: "g \<in> set gates" "gate_id g = d" by auto
  have get: "gate_by_id gates d = Inr g"
    using gate_by_id_member [OF dist g(1)] g(2) by simp
  have only: "h = g" if "h \<in> set gates" "gate_id h = d" for h
    using dist g that by (auto simp: distinct_map dest: inj_onD)
  let ?z = "if status_of g \<noteq> ''qualified'' then [d] else []"
  from Cons.prems have "set ds \<subseteq> gate_id ` set gates" by simp
  from Cons.IH [OF this, of "Suc i" "acc @ ?z"] obtain zs where
    rest: "forE (\<lambda>i d acc. bindE (gate_by_id gates d) (\<lambda>g.
       Inr (if status_of g \<noteq> ''qualified'' then acc @ [d] else acc))) (Suc i) ds (acc @ ?z) =
       Inr ((acc @ ?z) @ zs)"
    and zs: "zs = [] \<longleftrightarrow> (\<forall>g \<in> set gates. gate_id g \<in> set ds \<longrightarrow> status_of g = ''qualified'')"
    by blast
  have "(\<forall>h \<in> set gates. gate_id h \<in> set (d # ds) \<longrightarrow> status_of h = ''qualified'') \<longleftrightarrow>
      status_of g = ''qualified'' \<and> zs = []"
    unfolding zs using only g by (metis set_ConsD list.set_intros)
  with rest show ?case
    by (intro exI [of _ "?z @ zs"]) (cases "status_of g = ''qualified''"; simp add: get)
qed

definition qualified_dependencies_ok :: "pyval list \<Rightarrow> pyval \<Rightarrow> bool" where
  "qualified_dependencies_ok gates gate \<longleftrightarrow>
     (status_of gate = ''qualified'' \<longrightarrow>
      (\<forall>g \<in> set gates. gate_id g \<in> set (gate_depends gate) \<longrightarrow> status_of g = ''qualified''))"

lemma qualified_dependencies_step_iff:
  assumes "distinct (map gate_id gates)" and "dependencies_ok (gate_id ` set gates) gate"
  shows "qualified_dependencies_step gates i gate () = Inr () \<longleftrightarrow> qualified_dependencies_ok gates gate"
    and "crash_free (qualified_dependencies_step gates i gate ())"
proof -
  from assms(2) have "set (gate_depends gate) \<subseteq> gate_id ` set gates"
    by (auto simp: dependencies_ok_def)
  from unqualified_collect [OF assms(1) this, of 0 "[]"] obtain zs where
    z: "unqualified_dependencies gates gate = Inr zs"
    "zs = [] \<longleftrightarrow> (\<forall>g \<in> set gates. gate_id g \<in> set (gate_depends gate) \<longrightarrow>
       status_of g = ''qualified'')"
    unfolding unqualified_dependencies_def by auto
  then show "qualified_dependencies_step gates i gate () = Inr () \<longleftrightarrow>
      qualified_dependencies_ok gates gate"
    by (auto simp: qualified_dependencies_step_def qualified_dependencies_ok_def)
  show "crash_free (qualified_dependencies_step gates i gate ())"
    by (auto simp: qualified_dependencies_step_def z(1))
qed

definition document_ok :: "fs \<Rightarrow> pure_path \<Rightarrow> pyval \<Rightarrow> bool" where
  "document_ok fs root gate \<longleftrightarrow>
     (\<exists>text. read_text fs (join root (str_of (field gate ''document''))) = Inr text \<and>
        contains (''## Current status'' @ [CHR 0x0A, CHR 0x0A] @ quoted (status_of gate)) text)"

lemma document_step_iff:
  "check_document_step fs root i gate () = Inr () \<longleftrightarrow> document_ok fs root gate"
  unfolding check_document_step_def document_ok_def
  by (simp only: result_simps not_not simp_thms)

lemma document_loop_iff:
  "forE (check_document_step fs root) 0 gates () = Inr () \<longleftrightarrow>
     (\<forall>g \<in> set gates. document_ok fs root g)"
  by (rule forE_unit_iff) (rule document_step_iff)

definition tracked :: "string \<Rightarrow> pyval \<Rightarrow> bool" where
  "tracked tracker gate \<longleftrightarrow>
     contains (''## '' @ gate_number gate @ ''. '' @ str_of (field gate ''title'')) tracker \<and>
     contains (''['' @ quoted (path_name (Path (str_of (field gate ''document'')))) @ '']'')
       tracker \<and>
     contains (''- Current status: '' @ quoted (status_of gate)) tracker"

lemma tracker_step_iff: "check_tracker_step tracker i gate () = Inr () \<longleftrightarrow> tracked tracker gate"
  unfolding check_tracker_step_def tracked_def Let_def
  by (simp only: result_simps not_not simp_thms)

lemma tracker_loop_iff:
  "forE (check_tracker_step tracker) 0 gates () = Inr () \<longleftrightarrow> (\<forall>g \<in> set gates. tracked tracker g)"
  by (rule forE_unit_iff) (rule tracker_step_iff)

definition tracker_ok :: "fs \<Rightarrow> pure_path \<Rightarrow> pyval list \<Rightarrow> bool" where
  "tracker_ok fs root gates \<longleftrightarrow>
     \<not> not_regular fs (join root tracker_path) \<and>
     (\<exists>tracker. read_text fs (join root tracker_path) = Inr tracker \<and>
        list_all (tracked tracker) gates)"

lemma check_tracker_iff: "check_tracker fs root gates = Inr () \<longleftrightarrow> tracker_ok fs root gates"
  unfolding check_tracker_def tracker_ok_def Let_def list_all_iff
  by (simp only: result_simps not_not simp_thms tracker_loop_iff)

definition readiness_manifest_ok ::
    "(string \<Rightarrow> pyval option) \<Rightarrow> fs \<Rightarrow> pure_path \<Rightarrow> pyval \<Rightarrow> pyval list \<Rightarrow> bool" where
  "readiness_manifest_ok toml fs root manifest gates \<longleftrightarrow>
     has_fields [''format'', ''distribution'', ''policy'', ''routes'', ''gates''] manifest \<and>
     py_eq (field manifest ''format'') (PInt 1) \<and>
     field manifest ''distribution'' = PStr ''ArachOS'' \<and>
     py_eq (field manifest ''policy'') readiness_policy \<and>
     field manifest ''routes'' = PList (map PStr routes) \<and>
     field manifest ''gates'' = PList gates \<and> gates_ok toml fs root gates \<and>
     (\<forall>g \<in> set gates. dependencies_ok (gate_id ` set gates) g) \<and>
     acyclic (depends (gate_graph gates)) \<and>
     (\<forall>g \<in> set gates. qualified_dependencies_ok gates g) \<and>
     (\<forall>g \<in> set gates. document_ok fs root g) \<and> tracker_ok fs root gates"

lemma readiness_validate_iff:
  "readiness_validate toml fs root manifest = Inr () \<longleftrightarrow>
     (\<exists>gates. readiness_manifest_ok toml fs root manifest gates)"
proof (cases "is_list (field manifest ''gates'') \<and>
    gates_ok toml fs root (list_of (field manifest ''gates'')) \<and>
    (\<forall>g \<in> set (list_of (field manifest ''gates'')).
       dependencies_ok (gate_id ` set (list_of (field manifest ''gates''))) g)")
  case True
  define gates where "gates = list_of (field manifest ''gates'')"
  from True have gates: "field manifest ''gates'' = PList gates"
    and ok: "gates_ok toml fs root gates"
    and deps: "\<forall>g \<in> set gates. dependencies_ok (gate_id ` set gates) g"
    by (auto simp: gates_def is_list_iff)
  from ok have len: "length gates = length canonical_gates" by (simp add: gates_ok_def)
  have ids: "set canonical_ids = gate_id ` set gates"
    by (simp add: gates_ok_ids [OF ok, symmetric])
  have quals: "forE (qualified_dependencies_step gates) 0 gates () = Inr () \<longleftrightarrow>
      (\<forall>g \<in> set gates. qualified_dependencies_ok gates g)"
    by (rule forE_unit_iff)
      (use deps in \<open>simp add: qualified_dependencies_step_iff [OF gates_distinct [OF ok]]\<close>)
  show ?thesis
    unfolding readiness_validate_def readiness_manifest_ok_def Let_def gates list_of.simps
    using len ok deps
    by (simp add: bindE_Inr_iff gate_loop_iff gates_collected [OF ok] ids dependency_loop_iff
        check_cycles_iff quals document_loop_iff check_tracker_iff ex_unit
        py_eq_strs) blast
next
  case False
  have "gates_ok toml fs root (list_of (field manifest ''gates'')) \<and>
      (\<forall>g \<in> set (list_of (field manifest ''gates'')).
         dependencies_ok (gate_id ` set (list_of (field manifest ''gates''))) g) \<and>
      is_list (field manifest ''gates'')"
    if acc: "readiness_validate toml fs root manifest = Inr ()"
  proof -
    let ?gates = "list_of (field manifest ''gates'')"
    from acc obtain acc' where l: "is_list (field manifest ''gates'')"
      "length ?gates = length canonical_gates"
      "forE (gate_step toml fs root) 0 ?gates no_gates = Inr acc'"
      "forE (check_dependencies_step (acc_ids acc')) 0 ?gates () = Inr ()"
      unfolding readiness_validate_def Let_def
      by (auto simp: bindE_Inr_iff split: if_splits)
    then have ok: "gates_ok toml fs root ?gates"
      and "acc' = fold gate_collect ?gates no_gates"
      by (simp_all add: gate_loop_iff)
    with l(4) have "\<forall>g \<in> set ?gates. dependencies_ok (gate_id ` set ?gates) g"
      by (simp add: dependency_loop_iff gates_collected [OF ok]
          gates_ok_ids [OF ok, symmetric])
    with ok l(1) show ?thesis by blast
  qed
  with False show ?thesis by (auto simp: readiness_manifest_ok_def)
qed

end
