(* ===== verification/ReadinessSample.thy ===== *)
theory ReadinessSample
  imports ReadinessSpec
begin

text \<open>
  The ledger of a small concrete repository, accepted by the validator
  (\<open>sample_ledger_accepted\<close>): two gates qualified by one measured artifact, the second depending
  on the first, and twelve blocked. It is the input of the witnesses of theory
  \<open>ReadinessProps\<close>.
\<close>

definition ledger_artifact :: string where
  "ledger_artifact = ''production/evidence/a.bin''"

definition ledger_entry :: pyval where
  "ledger_entry =
     PDict [(''kind'', PStr ''test-report''), (''path'', PStr ledger_artifact),
       (''sha256'', PStr sample_digest), (''captured_at'', PStr sample_time),
       (''component'', PStr ''ArachOS''), (''revision'', PStr sample_revision)]"

fun ledger_gate :: "(int \<times> string \<times> string \<times> string) \<times> bool \<Rightarrow> pyval" where
  "ledger_gate ((n, ident, title, document), qualified) =
     PDict [(''number'', PInt n), (''id'', PStr ident), (''title'', PStr title),
       (''status'', PStr (if qualified then ''qualified'' else ''blocked'')),
       (''authority'', PStr ''ArachOS''), (''components'', PList [PStr ''ArachOS'']),
       (''document'', PStr document),
       (''depends_on'', PList (if n = 2 then [PStr ''cosmic-lifecycle''] else [])),
       (''required_evidence'', PList [PStr ''test-report'']),
       (''evidence'', PList (if qualified then [ledger_entry] else [])),
       (''blockers'', PList (if qualified then [] else [PStr ''open''])),
       (''qualified_at'', if qualified then PStr sample_time else PNone),
       (''qualified_revision'', if qualified then PStr sample_revision else PNone)]"

definition ledger_rows :: "((int \<times> string \<times> string \<times> string) \<times> bool) list" where
  "ledger_rows = zip canonical_gates ([True, True] @ replicate 12 False)"

definition sample_gates :: "pyval list" where
  "sample_gates = map ledger_gate ledger_rows"

definition sample_ledger :: pyval where
  "sample_ledger =
     PDict [(''format'', PInt 1), (''distribution'', PStr ''ArachOS''),
       (''policy'', readiness_policy), (''routes'', PList (map PStr routes)),
       (''gates'', PList sample_gates)]"

definition status_heading :: "pyval \<Rightarrow> string" where
  "status_heading gate =
     ''## Current status'' @ [CHR 0x0A, CHR 0x0A] @ quoted (status_of gate)"

definition tracker_section :: "pyval \<Rightarrow> string" where
  "tracker_section gate =
     ''## '' @ gate_number gate @ ''. '' @ str_of (field gate ''title'') @
     ''['' @ quoted (path_name (Path (str_of (field gate ''document'')))) @ '']'' @
     ''- Current status: '' @ quoted (status_of gate)"

definition sample_tracker :: string where
  "sample_tracker = concat (map tracker_section sample_gates)"

text \<open>The documents, and beside them the artifact and the component lock.\<close>

definition document_position :: "pyval \<Rightarrow> string list" where
  "document_position gate = ''repo'' # tail (Path (str_of (field gate ''document'')))"

definition document_nodes :: "(string list \<times> node) list" where
  "document_nodes =
     ([''repo'', ''docs''], Directory) #
     ([''repo'', ''docs'', ''PRODUCTION_READINESS.md''], Regular sample_tracker True) #
     map (\<lambda>g. (document_position g, Regular (status_heading g) True)) sample_gates"

text \<open>
  The files of the release sample stand in the same tree: the manifest itself, an advisory, and
  the release report with its component lock below the evidence root of the releases.
\<close>

definition release_dir :: "string list" where
  "release_dir = [''repo'', ''production'', ''evidence'', ''release-operations'']"

definition ledger_nodes :: "(string list \<times> node) list" where
  "ledger_nodes =
     ([''repo'', ''components.lock.toml''], Regular [] True) #
     ([''repo'', ''production'', ''evidence'', ''a.bin''], Regular sample_artifact True) #
     ([''repo'', ''production'', ''readiness.json''], Regular ''ledger'' True) #
     ([''repo'', ''production'', ''advisory.md''], Regular ''advisory'' True) #
     (release_dir @ [''report.json''], Regular sample_artifact True) #
     (release_dir @ [''lock.toml''], Regular sample_artifact True) # dir_chain release_dir"

definition ledger_tree :: fs where
  "ledger_tree q =
     (case map_of ledger_nodes q of
        Some nd \<Rightarrow> Some nd
      | None \<Rightarrow> map_of document_nodes q)"

text \<open>
  The lock of the repository is empty, so that no component but ArachOS can have evidence; the
  lock retained with the release has one component.
\<close>

definition release_lock :: pyval where
  "release_lock =
     PDict [(''format'', PInt 1), (''distribution'', PStr ''ArachOS''),
       (''component'', PList [PDict [(''name'', PStr ''arach''),
          (''repository'', PStr ''https://example.org/arach''),
          (''revision'', PStr sample_revision), (''role'', PStr ''kernel'')]])]"

definition sample_toml :: "string \<Rightarrow> pyval option" where
  "sample_toml content =
     Some (if content = sample_artifact then release_lock else PDict [(''component'', PList [])])"

lemma ledger_tree_artifact:
  "evidence_place_ok ledger_tree sample_root ledger_artifact"
  "read_bytes ledger_tree (join sample_root ledger_artifact) = Inr sample_artifact"
  "safe_relative ledger_artifact" "\<not> is_mock_evidence ledger_artifact"
  "\<not> placeholder_evidence sample_artifact"
proof -
  have "relative_to (join sample_root ledger_artifact) sample_root =
      Some [''production'', ''evidence'', ''a.bin'']"
    by code_simp
  moreover have "\<not> traverses_symlink ledger_tree sample_root [''production'', ''evidence'', ''a.bin''] \<and>
      relative_to (join sample_root ledger_artifact)
        (join (join sample_root ''production'') ''evidence'') \<noteq> None \<and>
      is_file ledger_tree (join sample_root ledger_artifact)"
    by code_simp
  ultimately show "evidence_place_ok ledger_tree sample_root ledger_artifact"
    by (simp add: evidence_place_ok_def)
qed code_simp+

text \<open>A regular file in a plain directory is found at its own position.\<close>

lemma stat_plain_file:
  assumes "plain_dirs fs r" and "c \<noteq> ''..''" and "fs (r @ [c]) = Some (Regular t b)"
  shows "stat fs (abs_path (r @ [c])) = Some (Regular t b)"
    and "\<not> not_regular fs (abs_path (r @ [c]))"
proof -
  have "walk fs follow max_links [] (r @ [c]) = Some (r @ [c])" for follow
    using walk_plain_dirs [of fs "[]" r follow max_links "[c]"] assms by simp
  then show "stat fs (abs_path (r @ [c])) = Some (Regular t b)"
    using assms(3) by (simp add: stat_def abs_path_def node_at_def)
  then show "\<not> not_regular fs (abs_path (r @ [c]))"
    using is_symlink_below [OF assms(1,2)] assms(3)
    by (simp add: not_regular_def is_file_def)
qed

lemma docs_plain: "plain_dirs ledger_tree [''repo'', ''docs'']"
proof -
  have "list_all (\<lambda>k. ledger_tree (take k [''repo'', ''docs'']) = Some Directory) [1, 2]"
    by (simp add: ledger_tree_def ledger_nodes_def release_dir_def dir_chain_def document_nodes_def)
  then show ?thesis by (auto simp: plain_dirs_def le_Suc_eq numeral_2_eq_2)
qed

lemma document_positions:
  "distinct (map document_position sample_gates)"
  "list_all (\<lambda>g. butlast (document_position g) = [''repo'', ''docs''] \<and>
      last (document_position g) \<notin> {''..'', ''PRODUCTION_READINESS.md''} \<and>
      join sample_root (str_of (field g ''document'')) = abs_path (document_position g))
    sample_gates"
  by code_simp+

lemma document_split:
  assumes "g \<in> set sample_gates"
  shows "document_position g = [''repo'', ''docs''] @ [last (document_position g)]"
    and "last (document_position g) \<noteq> ''..''"
    and "last (document_position g) \<noteq> ''PRODUCTION_READINESS.md''"
    and "join sample_root (str_of (field g ''document'')) = abs_path (document_position g)"
proof -
  from assms document_positions(2) have
    "butlast (document_position g) = [''repo'', ''docs'']"
    and rest: "last (document_position g) \<notin> {''..'', ''PRODUCTION_READINESS.md''}"
      "join sample_root (str_of (field g ''document'')) = abs_path (document_position g)"
    by (simp_all add: list_all_iff)
  then show "document_position g = [''repo'', ''docs''] @ [last (document_position g)]"
    by (metis append_butlast_last_id document_position_def list.distinct(1))
  from rest show "last (document_position g) \<noteq> ''..''"
    "last (document_position g) \<noteq> ''PRODUCTION_READINESS.md''"
    "join sample_root (str_of (field g ''document'')) = abs_path (document_position g)"
    by simp_all
qed

lemma ledger_tree_docs:
  "ledger_tree [''repo'', ''docs'', name] = map_of document_nodes [''repo'', ''docs'', name]"
  by (simp add: ledger_tree_def ledger_nodes_def release_dir_def dir_chain_def)

lemma ledger_tree_document:
  assumes g: "g \<in> set sample_gates"
  shows "ledger_tree (document_position g) = Some (Regular (status_heading g) True)"
proof -
  note split = document_split [OF g]
  let ?nodes = "map (\<lambda>g. (document_position g, Regular (status_heading g) True)) sample_gates"
  have "distinct (map fst ?nodes)"
    using document_positions(1) by (simp add: comp_def)
  moreover have "(document_position g, Regular (status_heading g) True) \<in> set ?nodes"
    using g by auto
  ultimately have "map_of ?nodes (document_position g) = Some (Regular (status_heading g) True)"
    by (rule map_of_is_SomeI)
  then show ?thesis
    using split(1,3) ledger_tree_docs [of "last (document_position g)"]
    by (auto simp: document_nodes_def)
qed

lemma ledger_tree_tracker:
  "ledger_tree [''repo'', ''docs'', ''PRODUCTION_READINESS.md''] = Some (Regular sample_tracker True)"
  unfolding ledger_tree_docs document_nodes_def by simp

text \<open>ASCII text is read as it is.\<close>

lemma no_carriage_return: "CHR 0x0D \<notin> set s \<Longrightarrow> universal_newlines s = s"
  by (induction s rule: universal_newlines.induct) auto

definition ascii_text :: "string \<Rightarrow> bool" where
  "ascii_text s \<longleftrightarrow> list_all (\<lambda>c. \<not> digit7 c \<and> c \<noteq> CHR 0x0D) s"

lemma ascii_code: "\<not> digit7 c \<Longrightarrow> (of_char c :: nat) < 128"
  by (cases c) (simp add: of_char_def)

lemma decode_ascii:
  assumes "ascii_text s"
  shows "decode_text s = Inr s"
proof -
  have "utf8_codes (map of_char s)"
    using assms by (intro utf8_ascii) (simp add: ascii_text_def list_all_iff ascii_code)
  moreover have "universal_newlines s = s"
    using assms by (intro no_carriage_return) (auto simp: ascii_text_def list_all_iff)
  ultimately show ?thesis by (simp add: decode_text_def utf8_valid_def)
qed

lemma ascii_append [simp]: "ascii_text (s @ t) \<longleftrightarrow> ascii_text s \<and> ascii_text t"
  by (simp add: ascii_text_def)

fun row_ascii :: "int \<times> string \<times> string \<times> string \<Rightarrow> bool" where
  "row_ascii (n, i, t, d) \<longleftrightarrow>
     ascii_text (show_nat (nat n)) \<and> ascii_text t \<and> ascii_text (path_name (Path d))"

lemma canonical_ascii: "list_all row_ascii canonical_gates"
  by code_simp

lemma ledger_gate_fields:
  "status_of (ledger_gate ((n, i, t, d), q)) = (if q then ''qualified'' else ''blocked'')"
  "gate_number (ledger_gate ((n, i, t, d), q)) = show_nat (nat n)"
  "field (ledger_gate ((n, i, t, d), q)) ''title'' = PStr t"
  "field (ledger_gate ((n, i, t, d), q)) ''document'' = PStr d"
  by (simp_all add: status_of_def gate_number_def)

lemma ledger_gate_ascii:
  assumes "row_ascii c"
  shows "ascii_text (status_heading (ledger_gate (c, q)))"
    and "ascii_text (tracker_section (ledger_gate (c, q)))"
proof -
  obtain n i t d where c: "c = (n, i, t, d)" by (cases c)
  have "ascii_text (''## Current status'' @ [CHR 0x0A, CHR 0x0A])" "ascii_text ''- Current status: ''"
    "ascii_text (quoted ''qualified'')" "ascii_text (quoted ''blocked'')" "ascii_text ''## ''"
    "ascii_text ''. ''" "ascii_text ''[''" "ascii_text '']''"
    by code_simp+
  moreover have "ascii_text (quoted s) \<longleftrightarrow> ascii_text s" for s
    by (simp add: quoted_def ascii_text_def)
  ultimately show "ascii_text (status_heading (ledger_gate (c, q)))"
    "ascii_text (tracker_section (ledger_gate (c, q)))"
    using assms unfolding c status_heading_def tracker_section_def ledger_gate_fields
    by (simp_all del: append.simps)
qed

lemma ledger_documents_ascii:
  "list_all (\<lambda>g. ascii_text (status_heading g) \<and> ascii_text (tracker_section g)) sample_gates"
proof -
  have "row_ascii c" if "(c, q) \<in> set ledger_rows" for c q
    using that canonical_ascii by (auto simp: ledger_rows_def list_all_iff dest: in_set_zipE)
  then show ?thesis
    using ledger_gate_ascii by (auto simp: sample_gates_def list_all_iff simp del: ledger_gate.simps)
qed

lemma ledger_document_text:
  assumes g: "g \<in> set sample_gates"
  shows "read_text ledger_tree (join sample_root (str_of (field g ''document''))) =
      Inr (status_heading g)"
    and "\<not> not_regular ledger_tree (join sample_root (str_of (field g ''document'')))"
proof -
  note split = document_split [OF g]
  have node: "ledger_tree ([''repo'', ''docs''] @ [last (document_position g)]) =
      Some (Regular (status_heading g) True)"
    using ledger_tree_document [OF g] split(1) by simp
  note found = stat_plain_file [OF docs_plain split(2) node]
  have "decode_text (status_heading g) = Inr (status_heading g)"
    using ledger_documents_ascii g by (intro decode_ascii) (simp add: list_all_iff)
  with found(1) show "read_text ledger_tree (join sample_root (str_of (field g ''document''))) =
      Inr (status_heading g)"
    by (simp only: split(4)) (subst split(1), simp add: read_text_def read_bytes_def)
  from found(2) show "\<not> not_regular ledger_tree (join sample_root (str_of (field g ''document'')))"
    by (simp only: split(4)) (subst split(1), simp)
qed

lemma tracker_text:
  "read_text ledger_tree (join sample_root tracker_path) = Inr sample_tracker"
  "\<not> not_regular ledger_tree (join sample_root tracker_path)"
proof -
  have path: "join sample_root tracker_path =
      abs_path ([''repo'', ''docs''] @ [''PRODUCTION_READINESS.md''])"
    by code_simp
  note found = stat_plain_file [OF docs_plain, of "''PRODUCTION_READINESS.md''" sample_tracker True]
  have "decode_text sample_tracker = Inr sample_tracker"
    using ledger_documents_ascii
    by (intro decode_ascii) (auto simp: sample_tracker_def list_all_iff ascii_text_def)
  with found ledger_tree_tracker show
    "read_text ledger_tree (join sample_root tracker_path) = Inr sample_tracker"
    "\<not> not_regular ledger_tree (join sample_root tracker_path)"
    by (simp_all add: path read_text_def read_bytes_def)
qed

section \<open>The sample is accepted\<close>

fun row_sound :: "int \<times> string \<times> string \<times> string \<Rightarrow> bool" where
  "row_sound (n, i, t, d) \<longleftrightarrow>
     1 \<le> n \<and> n \<le> int (length canonical_gates) \<and> fullmatch ID_RE i \<and> \<not> blank t \<and> safe_relative d"

lemma canonical_sound: "list_all row_sound canonical_gates"
  by code_simp

lemma ledger_gate_more:
  "has_fields gate_fields (ledger_gate ((n, i, t, d), q))"
  "field (ledger_gate ((n, i, t, d), q)) ''number'' = PInt n"
  "field (ledger_gate ((n, i, t, d), q)) ''id'' = PStr i"
  "field (ledger_gate ((n, i, t, d), q)) ''status'' = PStr (if q then ''qualified'' else ''blocked'')"
  "field (ledger_gate ((n, i, t, d), q)) ''authority'' = PStr ''ArachOS''"
  "field (ledger_gate ((n, i, t, d), q)) ''components'' = PList [PStr ''ArachOS'']"
  "field (ledger_gate ((n, i, t, d), q)) ''depends_on'' =
     PList (if n = 2 then [PStr ''cosmic-lifecycle''] else [])"
  "field (ledger_gate ((n, i, t, d), q)) ''required_evidence'' = PList [PStr ''test-report'']"
  "field (ledger_gate ((n, i, t, d), q)) ''evidence'' = PList (if q then [ledger_entry] else [])"
  "field (ledger_gate ((n, i, t, d), q)) ''blockers'' = PList (if q then [] else [PStr ''open''])"
  "field (ledger_gate ((n, i, t, d), q)) ''qualified_at'' = (if q then PStr sample_time else PNone)"
  "field (ledger_gate ((n, i, t, d), q)) ''qualified_revision'' =
     (if q then PStr sample_revision else PNone)"
  by (simp_all add: gate_fields_def)

lemma ledger_gate_evidence:
  "evidence_of (ledger_gate (c, q)) = (if q then [ledger_entry] else [])"
  by (cases c) (simp add: evidence_of_def ledger_gate_more del: ledger_gate.simps)

lemma ledger_entry_fields:
  "has_fields readiness_entry_fields ledger_entry"
  "field ledger_entry ''kind'' = PStr ''test-report''"
  "field ledger_entry ''path'' = PStr ledger_artifact"
  "field ledger_entry ''sha256'' = PStr sample_digest"
  "field ledger_entry ''captured_at'' = PStr sample_time"
  "field ledger_entry ''component'' = PStr ''ArachOS''"
  "field ledger_entry ''revision'' = PStr sample_revision"
  by (simp_all add: ledger_entry_def readiness_entry_fields_def)

lemma ledger_words:
  "\<not> blank ''open''" "\<not> blank ''ArachOS''" "''test-report'' \<in> set readiness_evidence_kinds"
  "''ArachOS'' \<in> set known_components" "''qualified'' \<in> set readiness_statuses"
  "''blocked'' \<in> set readiness_statuses"
  by code_simp+

lemma ledger_entries_ok: "readiness_entries_ok ledger_tree sample_root (ledger_gate (c, q))"
proof -
  obtain n i t d where c: "c = (n, i, t, d)" by (cases c)
  have "readiness_entry_ok ledger_tree sample_root (ledger_gate (c, q)) ledger_entry"
    unfolding readiness_entry_ok_def c ledger_gate_more ledger_entry_fields
    using ledger_tree_artifact(1-3) sample_revision_ok sample_time_utc ledger_words(3)
    by (auto simp: sha256_sample ledger_entry_fields)
  then show ?thesis
    unfolding readiness_entries_ok_def ledger_gate_evidence
    by (cases q) (simp_all add: c ledger_gate_more del: ledger_gate.simps)
qed

lemma ledger_lock: "lock_of sample_toml ledger_tree sample_root (\<lambda>_. None)"
proof -
  have "\<not> not_regular ledger_tree (join sample_root ''components.lock.toml'')"
    "read_text ledger_tree (join sample_root ''components.lock.toml'') = Inr []"
    by code_simp+
  then show ?thesis
    by (simp add: lock_of_def component_revisions_def sample_toml_def sample_artifact_def)
qed

lemma ledger_qualified:
  "qualification_ok sample_toml ledger_tree sample_root (ledger_gate (c, True))"
proof -
  obtain n i t d where c: "c = (n, i, t, d)" by (cases c)
  have "genuine ledger_tree sample_root ledger_entry"
    using ledger_tree_artifact(2,4,5)
    by (simp add: genuine_def revision_of_def path_of_def ledger_entry_fields sample_revision_real)
  moreover have "captured_ok sample_stamp ledger_entry"
    using sample_time_utc
    by (auto simp: captured_ok_def ledger_entry_fields sample_stamp_def)
  moreover have "revision_ok (\<lambda>_. None) ledger_entry"
    by (simp add: revision_ok_def ledger_entry_fields)
  ultimately show ?thesis
    unfolding qualification_ok_def c ledger_gate_more ledger_gate_evidence
    using ledger_lock sample_time_utc sample_revision_ok sample_revision_real
    by (auto simp: kinds_of_def ledger_entry_fields texts_def)
qed

lemma ledger_gate_ok:
  assumes "i < length canonical_gates" and "ledger_gate (canonical_gates ! i, q) \<in> set sample_gates"
  shows "gate_ok sample_toml ledger_tree sample_root i (ledger_gate (canonical_gates ! i, q))"
proof -
  obtain n ident t d where c: "canonical_gates ! i = (n, ident, t, d)"
    by (cases "canonical_gates ! i")
  have "row_sound (n, ident, t, d)"
    using canonical_sound assms(1) by (simp add: list_all_length c [symmetric])
  moreover have "\<not> not_regular ledger_tree (join sample_root d)"
    using ledger_document_text(2) [OF assms(2)]
    by (simp add: c ledger_gate_fields del: ledger_gate.simps)
  ultimately have "gate_shape_ok ledger_tree sample_root i (ledger_gate ((n, ident, t, d), q))"
    unfolding gate_shape_ok_def ledger_gate_more ledger_gate_fields gate_id_def c
    using ledger_words ledger_gate_more(1)
    by (simp add: nonempty_unique_texts_def text_list_def unique_strings_def
        unique_nonempty_strings_def texts_def del: blank.simps ledger_gate.simps)
  moreover have "gate_status_rule sample_toml ledger_tree sample_root
      (ledger_gate ((n, ident, t, d), q))"
    using ledger_qualified [of "(n, ident, t, d)"]
    by (simp add: gate_status_rule_def ledger_gate_fields ledger_gate_more del: ledger_gate.simps)
  ultimately show ?thesis
    using ledger_entries_ok by (simp add: gate_ok_def c del: ledger_gate.simps)
qed

lemma sample_gates_nth:
  "i < length canonical_gates \<Longrightarrow> sample_gates ! i = ledger_gate (canonical_gates ! i, i < 2)"
proof -
  assume i: "i < length canonical_gates"
  have len: "length ([True, True] @ replicate 12 False) = length canonical_gates"
    by code_simp
  have "([True, True] @ replicate 12 False) ! i = (i < 2)"
    using i len by (auto simp: nth_Cons nth_append split: nat.splits)
  then show ?thesis
    using i len by (simp add: sample_gates_def ledger_rows_def)
qed

lemma sample_gates_length: "length sample_gates = length canonical_gates"
  by (simp add: sample_gates_def ledger_rows_def canonical_gates_def)

lemma sample_gates_ok: "gates_ok sample_toml ledger_tree sample_root sample_gates"
  unfolding gates_ok_def
proof (intro conjI allI impI)
  fix i
  assume "i < length sample_gates"
  then have i: "i < length canonical_gates" by (simp add: sample_gates_length)
  have "sample_gates ! i \<in> set sample_gates"
    using \<open>i < length sample_gates\<close> by simp
  with ledger_gate_ok [OF i] show
    "gate_ok sample_toml ledger_tree sample_root i (sample_gates ! i)"
    by (simp only: sample_gates_nth [OF i])
qed (rule sample_gates_length)

lemma sample_dependencies:
  "list_all (dependencies_ok (set canonical_ids)) sample_gates"
  "list_all (qualified_dependencies_ok sample_gates) sample_gates"
  "\<exists>st. detect_cycles (gate_graph sample_gates) = Some (Inr st)"
proof -
  show "list_all (dependencies_ok (set canonical_ids)) sample_gates"
    by code_simp
  show "list_all (qualified_dependencies_ok sample_gates) sample_gates"
    by code_simp
  have "(case detect_cycles (gate_graph sample_gates) of Some (Inr st) \<Rightarrow> True | _ \<Rightarrow> False)"
    by code_simp
  then show "\<exists>st. detect_cycles (gate_graph sample_gates) = Some (Inr st)"
    by (auto split: option.splits sum.splits)
qed

lemma concat_part: "x \<in> set xs \<Longrightarrow> \<exists>a b. concat xs = a @ x @ b"
proof -
  assume "x \<in> set xs"
  then obtain as bs where "xs = as @ x # bs" by (auto dest: split_list)
  then have "concat xs = concat as @ x @ concat bs" by simp
  then show ?thesis by blast
qed

lemma contains_trans: "contains n x \<Longrightarrow> s = a @ x @ b \<Longrightarrow> contains n s"
  unfolding contains_iff by (metis append.assoc)

lemma contains_here: "contains n (a @ n @ b)" "contains n (n @ b)" "contains n (a @ n)"
  unfolding contains_iff by (metis append_Nil append_Nil2)+

lemma sample_tracked: "g \<in> set sample_gates \<Longrightarrow> tracked sample_tracker g"
proof -
  assume "g \<in> set sample_gates"
  then have "tracker_section g \<in> set (map tracker_section sample_gates)" by simp
  then obtain a b where s: "sample_tracker = a @ tracker_section g @ b"
    unfolding sample_tracker_def using concat_part by blast
  let ?h = "''## '' @ gate_number g @ ''. '' @ str_of (field g ''title'')"
  let ?l = "''['' @ quoted (path_name (Path (str_of (field g ''document'')))) @ '']''"
  let ?t = "''- Current status: '' @ quoted (status_of g)"
  have sec: "tracker_section g = ?h @ ?l @ ?t"
    by (simp add: tracker_section_def)
  have "contains ?h (tracker_section g)" "contains ?l (tracker_section g)"
    "contains ?t (tracker_section g)"
    unfolding sec by (rule contains_here, rule contains_here, metis append.assoc contains_here(3))
  then show ?thesis
    unfolding tracked_def using contains_trans [OF _ s] by blast
qed

theorem sample_ledger_accepted:
  "readiness_validate sample_toml ledger_tree sample_root sample_ledger = Inr ()"
proof -
  have ids: "set canonical_ids = gate_id ` set sample_gates"
    by (simp add: gates_ok_ids [OF sample_gates_ok, symmetric])
  have deps: "\<forall>g \<in> set sample_gates. dependencies_ok (gate_id ` set sample_gates) g"
    using sample_dependencies(1) by (simp add: list_all_iff ids)
  have acyclic: "acyclic (depends (gate_graph sample_gates))"
    using detect_cycles_iff [OF gate_graph_closed [OF deps]] sample_dependencies(3) by simp
  have docs: "document_ok ledger_tree sample_root g" if "g \<in> set sample_gates" for g
    unfolding document_ok_def
    using ledger_document_text(1) [OF that] contains_here(3) [of _ "[]"]
    by (simp add: status_heading_def)
  have tracker: "tracker_ok ledger_tree sample_root sample_gates"
    using tracker_text sample_tracked by (auto simp: tracker_ok_def list_all_iff)
  have policy: "py_eq readiness_policy readiness_policy"
    by code_simp
  have "readiness_manifest_ok sample_toml ledger_tree sample_root sample_ledger sample_gates"
    unfolding readiness_manifest_ok_def
    using sample_gates_ok deps acyclic docs tracker policy sample_dependencies(2)
    by (simp add: sample_ledger_def list_all_iff)
  then show ?thesis
    unfolding readiness_validate_iff by blast
qed

end
