(* ===== verification/ReadinessProps.thy ===== *)
theory ReadinessProps
  imports ReadinessSample
begin

text \<open>
  The properties of the readiness ledger, with the ledger of a small concrete repository as their
  witness: two gates qualified, the second depending on the first, and twelve blocked.
\<close>

section \<open>Crash freedom\<close>

text \<open>
  The ledger is read as text in four places, and compares timestamps: the tree must be readable
  text (\<open>text_tree\<close>), and the timestamps of the gates must carry a time zone.
\<close>

definition aware_gate :: "pyval \<Rightarrow> bool" where
  "aware_gate gate \<longleftrightarrow>
     aware_time (field gate ''qualified_at'') \<and>
     (\<forall>x \<in> set (evidence_of gate). aware_time (field x ''captured_at''))"

lemma readiness_evidence_step_safe:
  "text_tree fs \<Longrightarrow> crash_free (readiness_evidence_step fs root gate gi i x acc)"
  unfolding readiness_evidence_step_def Let_def readiness_timestamp_def
  by (intro safe_intros read_bytes_file_safe)
    (auto simp: require_regular_evidence_iff evidence_place_ok_def)

lemma lock_step_safe [safe_intros]: "crash_free (lock_step i c m)"
  unfolding lock_step_def Let_def by (intro safe_intros)

lemma component_revisions_safe [safe_intros]:
  assumes "text_tree fs"
  shows "crash_free (component_revisions toml fs root)"
proof (cases "not_regular fs (join root ''components.lock.toml'')")
  case False
  then obtain lock where "read_text fs (join root ''components.lock.toml'') = Inr lock"
    using text_tree_read [OF assms] is_file_not_regular by blast
  with False show ?thesis
    by (auto simp: component_revisions_def split: option.splits intro!: safe_intros)
qed (simp add: component_revisions_def)

lemma known_label:
  "c \<in> set known_components \<Longrightarrow> c \<noteq> ''ArachOS'' \<Longrightarrow>
     \<exists>label. map_of component_labels c = Some label"
  by (auto simp: known_components_def component_labels_def)

lemma revision_step_safe:
  "str_of (field x ''component'') \<in> set known_components \<Longrightarrow>
     crash_free (revision_step m gi i x u)"
  using known_label by (fastforce simp: revision_step_def Let_def split: option.splits)

lemma timestamp_less_safe:
  "timestamp_less (Aware a) (Aware b) = Inr (a < b)"
  by simp

lemma captured_step_safe:
  assumes "aware_time (field x ''captured_at'')"
  shows "crash_free (captured_step (Aware q) gi i x u)"
proof -
  have "crash_free (timestamp_less (Aware q) t)" if "is_utc (str_of (field x ''captured_at'')) t" for t
    using assms that by (fastforce simp: aware_time_def)
  then show ?thesis
    unfolding captured_step_def Let_def readiness_timestamp_def
    by (intro safe_intros) (simp add: utc_timestamp_iff)
qed

lemma qualify_gate_safe:
  assumes tree: "text_tree fs" and aware: "aware_gate gate"
    and entries: "readiness_entries_ok fs root gate"
    and known: "\<forall>c \<in> set (texts (field gate ''components'')). c \<in> set known_components"
  shows "crash_free (qualify_gate toml fs root gate i kinds)"
proof -
  have entry: "readiness_entry_ok fs root gate x" if "x \<in> set (evidence_of gate)" for x
    using entries that by (auto simp: readiness_entries_ok_def list_all_iff)
  have bytes: "crash_free (read_bytes fs (join root (str_of (field x ''path''))))"
    if "x \<in> set (evidence_of gate)" for x
    using entry [OF that] by (auto simp: readiness_entry_ok_def)
  have comp: "str_of (field x ''component'') \<in> set known_components"
    if "x \<in> set (evidence_of gate)" for x
    using entry [OF that] known by (force simp: readiness_entry_ok_def texts_def)
  have revs: "crash_free (validate_qualified_evidence_revisions toml fs root gate i)"
    unfolding validate_qualified_evidence_revisions_def evidence_of_def [symmetric]
    by (intro safe_intros tree crash_free_forE_nth revision_step_safe comp)
  have times: "crash_free (forE (captured_step q i) 0 (evidence_of gate) ())"
    if "is_utc (str_of (field gate ''qualified_at'')) q" for q
    using aware that unfolding aware_gate_def
    by (auto simp: aware_time_def [of "field gate ''qualified_at''"]
        intro!: crash_free_forE_nth captured_step_safe)
  show ?thesis
    unfolding qualify_gate_def Let_def readiness_timestamp_def evidence_contains_placeholder_def
      evidence_of_def [symmetric]
    by (intro safe_intros bytes revs times) (simp_all add: utc_timestamp_iff)
qed

lemma readiness_validate_evidence_safe [safe_intros]:
  "text_tree fs \<Longrightarrow> crash_free (readiness_validate_evidence fs root gate i)"
  unfolding readiness_validate_evidence_def
  by (intro safe_intros readiness_evidence_step_safe)

lemma gate_step_safe:
  assumes tree: "text_tree fs" and aware: "aware_gate gate"
  shows "crash_free (gate_step toml fs root i gate acc)"
  unfolding gate_step_def Let_def
  by (intro safe_intros tree) (auto intro!: qualify_gate_safe [OF tree aware]
      simp: readiness_validate_evidence_iff)

lemma check_dependencies_step_safe [safe_intros]: "crash_free (check_dependencies_step ids i g u)"
  unfolding check_dependencies_step_def by simp

lemma check_tracker_step_safe [safe_intros]: "crash_free (check_tracker_step tr i g u)"
  unfolding check_tracker_step_def Let_def by (intro safe_intros)

lemma check_tracker_safe [safe_intros]:
  "text_tree fs \<Longrightarrow> crash_free (check_tracker fs root gates)"
  unfolding check_tracker_def Let_def
  by (intro safe_intros) (simp_all add: is_file_not_regular)

lemma check_document_step_safe:
  "text_tree fs \<Longrightarrow> gate_ok toml fs root k gate \<Longrightarrow> crash_free (check_document_step fs root i gate u)"
  unfolding check_document_step_def
  by (intro safe_intros) (simp_all add: is_file_not_regular gate_ok_def gate_shape_ok_def)

lemma readiness_validate_safe:
  assumes tree: "text_tree fs"
    and aware: "\<forall>g \<in> set (list_of (field manifest ''gates'')). aware_gate g"
  shows "crash_free (readiness_validate toml fs root manifest)"
proof -
  let ?gates = "list_of (field manifest ''gates'')"
  have loop: "crash_free (forE (gate_step toml fs root) 0 ?gates no_gates)"
    by (rule crash_free_forE_nth) (use aware in \<open>auto intro!: gate_step_safe [OF tree]\<close>)
  have after: "crash_free (bindE (forE (check_dependencies_step (acc_ids acc)) 0 ?gates ()) (\<lambda>u.
      bindE (check_cycles ?gates) (\<lambda>u.
      bindE (forE (qualified_dependencies_step ?gates) 0 ?gates ()) (\<lambda>u.
      bindE (forE (check_document_step fs root) 0 ?gates ()) (\<lambda>u.
        check_tracker fs root ?gates)))))"
    if len: "length ?gates = length canonical_gates"
      and acc: "forE (gate_step toml fs root) 0 ?gates no_gates = Inr acc" for acc
  proof -
    from acc have ok: "gates_ok toml fs root ?gates" and acc': "acc = fold gate_collect ?gates no_gates"
      by (simp_all add: gate_loop_iff [OF len])
    have ids: "acc_ids acc = gate_id ` set ?gates"
      by (simp add: acc' gates_collected [OF ok] gates_ok_ids [OF ok, symmetric])
    have doc: "crash_free (forE (check_document_step fs root) 0 ?gates ())"
    proof (rule crash_free_forE_nth)
      fix j x t
      assume "x \<in> set ?gates"
      then obtain k where "k < length ?gates" "x = ?gates ! k" by (auto simp: in_set_conv_nth)
      with ok have "gate_ok toml fs root k x" by (simp add: gates_ok_def)
      then show "crash_free (check_document_step fs root j x t)"
        by (rule check_document_step_safe [OF tree])
    qed
    show ?thesis
    proof (intro crash_free_bindE check_tracker_safe tree doc)
      show "crash_free (forE (check_dependencies_step (acc_ids acc)) 0 ?gates ())"
        by (intro safe_intros)
    next
      fix u
      assume "forE (check_dependencies_step (acc_ids acc)) 0 ?gates () = Inr u"
      then have deps: "\<forall>g \<in> set ?gates. dependencies_ok (gate_id ` set ?gates) g"
        by (simp add: ids dependency_loop_iff)
      show "crash_free (check_cycles ?gates)"
        by (rule check_cycles_safe [OF deps])
      show "crash_free (forE (qualified_dependencies_step ?gates) 0 ?gates ())"
        by (rule crash_free_forE_nth)
          (use deps in \<open>simp add: qualified_dependencies_step_iff(2) [OF gates_distinct [OF ok]]\<close>)
    qed
  qed
  show ?thesis
    unfolding readiness_validate_def Let_def
    by (intro crash_free_guard crash_free_bindE loop after) auto
qed

section \<open>Accepted ledgers\<close>

definition gates_of :: "pyval \<Rightarrow> pyval list" where
  "gates_of manifest = list_of (field manifest ''gates'')"

lemma accepted_ledger:
  assumes "readiness_validate toml fs root manifest = Inr ()"
  shows "readiness_manifest_ok toml fs root manifest (gates_of manifest)"
proof -
  from assms obtain gates where ok: "readiness_manifest_ok toml fs root manifest gates"
    unfolding readiness_validate_iff by blast
  then have "field manifest ''gates'' = PList gates"
    by (simp only: readiness_manifest_ok_def)
  with ok show ?thesis by (simp add: gates_of_def)
qed

lemma accepted_gate:
  assumes "readiness_validate toml fs root manifest = Inr ()" and "g \<in> set (gates_of manifest)"
  shows "\<exists>i. gate_ok toml fs root i g"
proof -
  from accepted_ledger [OF assms(1)] have "gates_ok toml fs root (gates_of manifest)"
    unfolding readiness_manifest_ok_def by blast
  with assms(2) show ?thesis by (auto simp: gates_ok_def in_set_conv_nth)
qed

lemma accepted_entry:
  assumes "readiness_validate toml fs root manifest = Inr ()" and "g \<in> set (gates_of manifest)"
    and "e \<in> set (evidence_of g)"
  shows "readiness_entry_ok fs root g e"
  using accepted_gate [OF assms(1,2)] assms(3)
  by (auto simp: gate_ok_def readiness_entries_ok_def list_all_iff)

lemma readiness_entry_digest:
  "readiness_entry_ok fs root g e \<Longrightarrow> \<exists>content. read_bytes fs (join root (path_of e)) = Inr content \<and>
     field e ''sha256'' = PStr (sha256_hex content)"
  by (auto simp: readiness_entry_ok_def path_of_def)

lemma accepted_qualified:
  assumes "readiness_validate toml fs root manifest = Inr ()" and "g \<in> set (gates_of manifest)"
    and "status_of g = ''qualified''"
  shows "qualification_ok toml fs root g" and "is_list (field g ''blockers'')"
  using accepted_gate [OF assms(1,2)] assms(3)
  by (auto simp: gate_ok_def gate_status_rule_def gate_shape_ok_def text_list_def)

lemma sample_ledger_gates: "gates_of sample_ledger = sample_gates"
  by (simp add: gates_of_def sample_ledger_def)

definition first_gate :: pyval where
  "first_gate = ledger_gate (canonical_gates ! 0, True)"

definition second_gate :: pyval where
  "second_gate = ledger_gate (canonical_gates ! 1, True)"

lemma sample_qualified:
  "first_gate \<in> set (gates_of sample_ledger)" "second_gate \<in> set (gates_of sample_ledger)"
  "status_of first_gate = ''qualified''" "status_of second_gate = ''qualified''"
proof -
  have len: "0 < length canonical_gates" "1 < length canonical_gates"
    by (simp_all add: canonical_gates_def)
  have "sample_gates ! 0 \<in> set sample_gates" "sample_gates ! 1 \<in> set sample_gates"
    using len by (simp_all add: sample_gates_length)
  then show "first_gate \<in> set (gates_of sample_ledger)" "second_gate \<in> set (gates_of sample_ledger)"
    unfolding sample_ledger_gates first_gate_def second_gate_def
    by (simp_all add: sample_gates_nth [OF len(1)] sample_gates_nth [OF len(2), simplified]
        del: ledger_gate.simps)
  show "status_of first_gate = ''qualified''" "status_of second_gate = ''qualified''"
    by (simp_all add: first_gate_def second_gate_def canonical_gates_def ledger_gate_fields
        del: ledger_gate.simps)
qed

lemma ledger_tree_texts: "text_tree ledger_tree"
proof -
  have "utf8_valid c \<and> r" if "ledger_tree q = Some (Regular c r)" for q c r
  proof -
    have utf8: "utf8_valid t" if "ascii_text t" for t
      using that unfolding utf8_valid_def
      by (intro utf8_ascii) (simp add: ascii_text_def list_all_iff ascii_code)
    have "ascii_text sample_tracker"
      using ledger_documents_ascii
      by (auto simp: sample_tracker_def list_all_iff ascii_text_def)
    moreover have "\<forall>g \<in> set sample_gates. ascii_text (status_heading g)"
      using ledger_documents_ascii by (simp add: list_all_iff)
    moreover have "ascii_text sample_artifact" "ascii_text []" "ascii_text ''ledger''" "ascii_text ''advisory''"
      by code_simp+
    ultimately have "ascii_text c \<and> r"
      using that
      by (auto simp: ledger_tree_def ledger_nodes_def release_dir_def document_nodes_def dir_chain_def
          split: option.splits if_splits dest!: map_of_SomeD)
    with utf8 show ?thesis by blast
  qed
  then show ?thesis by (auto simp: text_tree_def readable_tree_def)
qed

lemma sample_aware: "\<forall>g \<in> set (list_of (field sample_ledger ''gates'')). aware_gate g"
proof -
  have "aware_time (PStr sample_time)" "aware_time PNone"
    using sample_time_utc is_utc_unique
    by (auto simp: aware_time_def sample_stamp_def is_utc_def)
  then have "aware_gate (ledger_gate (c, q))" for c q
    by (cases c) (simp add: aware_gate_def ledger_gate_more ledger_gate_evidence
        ledger_entry_fields del: ledger_gate.simps)
  then show ?thesis
    by (auto simp: sample_ledger_def sample_gates_def simp del: ledger_gate.simps)
qed

section \<open>Properties\<close>



text \<open>
  C24. A qualified gate of an accepted ledger is backed by genuine evidence: no blocker is left,
  every required kind occurs, and every entry names an artifact that exists with the recorded
  digest, is no placeholder by revision, name or content, and was captured no later than the
  gate's qualification.
\<close>

theorem readiness_qualified_is_backed:
  assumes "readiness_validate toml fs root manifest = Inr ()" and "g \<in> set (gates_of manifest)"
    and "status_of g = ''qualified''"
  shows "field g ''blockers'' = PList [] \<and>
    set (texts (field g ''required_evidence'')) \<subseteq> kinds_of (evidence_of g) \<and>
    (\<exists>at. is_utc (str_of (field g ''qualified_at'')) at \<and>
       (\<forall>e \<in> set (evidence_of g). genuine fs root e \<and>
          (\<exists>t. is_utc (str_of (field e ''captured_at'')) t \<and> t \<le> at) \<and>
          (\<exists>content. read_bytes fs (join root (path_of e)) = Inr content \<and>
             field e ''sha256'' = PStr (sha256_hex content))))"
proof -
  note q = accepted_qualified [OF assms]
  have "\<exists>content. read_bytes fs (join root (path_of e)) = Inr content \<and>
      field e ''sha256'' = PStr (sha256_hex content)" if "e \<in> set (evidence_of g)" for e
    by (rule readiness_entry_digest [OF accepted_entry [OF assms(1,2) that]])
  with q show ?thesis
    unfolding qualification_ok_def captured_ok_def
    by (auto simp: list_all_iff is_list_iff)
qed

theorem readiness_qualified_is_backed_witness:
  "{''test-report''} \<subseteq> kinds_of (evidence_of first_gate)"
  using readiness_qualified_is_backed [OF sample_ledger_accepted sample_qualified(1,3)]
  by (simp add: first_gate_def canonical_gates_def ledger_gate_more texts_def
      del: ledger_gate.simps)

text \<open>
  C29. The evidence of a qualified gate is bound to the component lock: an entry about a component
  other than ArachOS itself carries exactly the revision that the lock of the repository records
  for that component.
\<close>

theorem readiness_revisions_are_locked:
  assumes "readiness_validate toml fs root manifest = Inr ()" and "g \<in> set (gates_of manifest)"
    and "status_of g = ''qualified''"
  shows "\<exists>lock. component_revisions toml fs root = Inr lock \<and>
    (\<forall>e \<in> set (evidence_of g). str_of (field e ''component'') = ''ArachOS'' \<or>
       (\<exists>name r. map_of component_labels (str_of (field e ''component'')) = Some name \<and>
          lock name = Some r \<and> field e ''revision'' = PStr r))"
  using accepted_qualified(1) [OF assms]
  by (auto simp: qualification_ok_def lock_of_def revision_ok_def list_all_iff Let_def)

theorem readiness_revisions_are_locked_witness:
  "\<exists>lock. component_revisions sample_toml ledger_tree sample_root = Inr lock"
  using readiness_revisions_are_locked [OF sample_ledger_accepted sample_qualified(1,3)] by blast

text \<open>
  C25. Evidence never leaves the evidence directory: for a root reached without links, the
  artifact of every entry of an accepted ledger is the regular file stored below
  \<^verbatim>\<open>production/evidence\<close> at the very position its path spells, not a file that a link
  points to, and its digest is the recorded one.
\<close>

theorem readiness_evidence_stays_inside:
  assumes "readiness_validate toml fs (abs_path r) manifest = Inr ()" and "plain_dirs fs r"
    and "g \<in> set (gates_of manifest)" and "e \<in> set (evidence_of g)"
  shows "\<exists>below content.
    fs (r @ [''production'', ''evidence''] @ below) = Some (Regular content True) \<and>
    tail (Path (path_of e)) = [''production'', ''evidence''] @ below \<and>
    field e ''sha256'' = PStr (sha256_hex content)"
proof -
  let ?p = "path_of e" and ?root = "abs_path r"
  from accepted_entry [OF assms(1,3,4)] obtain content where
    safe: "safe_relative ?p" and place: "evidence_place_ok fs ?root ?p"
    and content: "read_bytes fs (join ?root ?p) = Inr content"
      "field e ''sha256'' = PStr (sha256_hex content)"
    by (auto simp: readiness_entry_ok_def path_of_def)
  have path: "join ?root ?p = abs_path (r @ tail (Path ?p))"
    using plain.join_tail [OF safe] plain.join_anchor [OF safe] by (simp add: abs_path_def)
  have links: "\<not> traverses_symlink fs ?root (tail (Path ?p))"
    using place plain.join_below [OF safe] by (auto simp: evidence_place_ok_def)
  have "join (join ?root ''production'') ''evidence'' = abs_path (r @ [''production'', ''evidence''])"
    by (simp add: join_def Path_def is_absolute_def abs_path_def)
  with place path obtain below where
    below: "tail (Path ?p) = [''production'', ''evidence''] @ below"
    by (auto simp: evidence_place_ok_def relative_to_iff abs_path_def)
  have "stat fs (abs_path (r @ tail (Path ?p))) = Some (Regular content True)"
    using content(1) by (simp add: read_bytes_iff path)
  from stat_no_links [OF assms(2) plain.guard_no_climb [OF safe] subset_refl links this]
  have "fs (r @ tail (Path ?p)) = Some (Regular content True)"
    by (simp add: node_at_def below)
  with content(2) below show ?thesis by auto
qed

theorem readiness_evidence_stays_inside_witness:
  "\<exists>below content.
     ledger_tree ([''repo''] @ [''production'', ''evidence''] @ below) =
       Some (Regular content True) \<and>
     tail (Path ledger_artifact) = [''production'', ''evidence''] @ below"
proof -
  have "plain_dirs ledger_tree [''repo'']"
    using plain_dirs_prefix [of ledger_tree "[''repo'']" "[''docs'']"] docs_plain by simp
  moreover have "ledger_entry \<in> set (evidence_of first_gate)"
    by (simp add: first_gate_def ledger_gate_evidence del: ledger_gate.simps)
  moreover have "path_of ledger_entry = ledger_artifact"
    by (simp add: path_of_def ledger_entry_fields)
  ultimately show ?thesis
    using readiness_evidence_stays_inside [OF sample_ledger_accepted [unfolded sample_root_def]
        _ sample_qualified(1)]
    by metis
qed

text \<open>
  C26. The cycle search is total and exact: on a dependency graph whose edges stay inside it, the
  recursion ends within the fuel of one more than the number of nodes, raises at most the
  diagnosis of a cycle, and succeeds if and only if the dependency relation is acyclic.
\<close>

theorem detect_cycles_decides:
  assumes "closed_graph g"
  shows "(\<exists>r. detect_cycles g = Some r \<and> crash_free r) \<and>
    ((\<exists>st. detect_cycles g = Some (Inr st)) = acyclic (depends g))"
  using detect_cycles_safe [OF assms] detect_cycles_iff [OF assms] by blast

theorem detect_cycles_decides_witness:
  "\<not> acyclic (depends [(''a'', [''b'']), (''b'', [''a''])])"
proof -
  let ?g = "[(''a'', [''b'']), (''b'', [''a''])]"
  have "closed_graph ?g"
    by (auto simp: closed_graph_def depends_def edges_def nodes_def split: if_splits)
  moreover have "detect_cycles ?g = Some (Inl (Rejected ''gates.depends_on: dependency cycle''))"
    by code_simp
  ultimately show ?thesis using detect_cycles_decides by fastforce
qed

lemma qualification_closed:
  assumes "readiness_validate toml fs root manifest = Inr ()"
    and "g \<in> set (gates_of manifest)" and "status_of g = ''qualified''"
    and "h \<in> set (gates_of manifest)"
    and "(gate_id g, gate_id h) \<in> (depends (gate_graph (gates_of manifest)))\<^sup>+"
  shows "status_of h = ''qualified'' \<and> gate_id g \<noteq> gate_id h"
proof -
  let ?gates = "gates_of manifest"
  from accepted_ledger [OF assms(1)] have ok: "gates_ok toml fs root ?gates"
    and quals: "\<forall>g \<in> set ?gates. qualified_dependencies_ok ?gates g"
    and acyclic: "acyclic (depends (gate_graph ?gates))"
    and deps: "\<forall>g \<in> set ?gates. dependencies_ok (gate_id ` set ?gates) g"
    unfolding readiness_manifest_ok_def by blast+
  have same: "x = y" if "x \<in> set ?gates" "y \<in> set ?gates" "gate_id x = gate_id y" for x y
    using gates_distinct [OF ok] that by (auto simp: distinct_map dest: inj_onD)
  have edge: "\<exists>y \<in> set ?gates. gate_id y = v \<and> status_of y = ''qualified''"
    if "(u, v) \<in> depends (gate_graph ?gates)" "x \<in> set ?gates" "gate_id x = u"
      "status_of x = ''qualified''" for u v x
  proof -
    from that(1) obtain ds where ds: "edges (gate_graph ?gates) u = Some ds" "v \<in> set ds"
      by (auto simp: depends_def)
    then have "(u, ds) \<in> set (gate_graph ?gates)" by (auto simp: edges_def dest: map_of_SomeD)
    then obtain z where "z \<in> set ?gates" "u = gate_id z" "ds = gate_depends z"
      by (auto simp: gate_graph_def)
    with same [of z x] that(2,3) have "ds = gate_depends x" by simp
    with ds(2) deps that(2) have "v \<in> gate_id ` set ?gates"
      unfolding dependencies_ok_def by blast
    then obtain y where "y \<in> set ?gates" "gate_id y = v" by blast
    with quals that(2,4) ds(2) \<open>ds = gate_depends x\<close> show ?thesis
      unfolding qualified_dependencies_ok_def by blast
  qed
  from assms(5) have "\<exists>y \<in> set ?gates. gate_id y = gate_id h \<and> status_of y = ''qualified''"
  proof (induction rule: trancl_induct)
    case (base v)
    with edge assms(2,3) show ?case by blast
  next
    case (step v w)
    with edge show ?case by blast
  qed
  with same assms(4) have "status_of h = ''qualified''" by blast
  moreover have "gate_id g \<noteq> gate_id h"
    using assms(5) acyclic by (auto simp: acyclic_def)
  ultimately show ?thesis by blast
qed

text \<open>
  C23. Qualification is closed under dependency: in an accepted ledger the dependencies form no
  cycle, and every gate that a qualified gate depends on, directly or through other gates, is
  qualified as well.
\<close>

theorem readiness_qualification_is_transitive:
  assumes "readiness_validate toml fs root manifest = Inr ()"
    and "g \<in> set (gates_of manifest)" and "status_of g = ''qualified''"
    and "h \<in> set (gates_of manifest)"
    and "(gate_id g, gate_id h) \<in> (depends (gate_graph (gates_of manifest)))\<^sup>+"
  shows "status_of h = ''qualified'' \<and> gate_id g \<noteq> gate_id h"
  using assms by (rule qualification_closed)

theorem readiness_qualification_is_transitive_witness:
  "gate_id second_gate \<noteq> gate_id first_gate"
proof -
  have "(''linux-posix-compatibility'', ''cosmic-lifecycle'') \<in> depends (gate_graph sample_gates)"
  proof -
    have "edges (gate_graph sample_gates) ''linux-posix-compatibility'' = Some [''cosmic-lifecycle'']"
      by code_simp
    then show ?thesis by (simp add: depends_def)
  qed
  moreover have "gate_id second_gate = ''linux-posix-compatibility''"
    "gate_id first_gate = ''cosmic-lifecycle''"
    by code_simp+
  ultimately have "(gate_id second_gate, gate_id first_gate) \<in>
      (depends (gate_graph (gates_of sample_ledger)))\<^sup>+"
    by (simp add: sample_ledger_gates r_into_trancl)
  from readiness_qualification_is_transitive [OF sample_ledger_accepted sample_qualified(2,4,1) this]
  show ?thesis by blast
qed

text \<open>
  C28. The ledger cannot be reordered or renamed: an accepted ledger lists exactly the fourteen
  canonical gates, in canonical order, with their canonical numbers, identifiers and documents.
\<close>

theorem readiness_gates_are_canonical:
  assumes "readiness_validate toml fs root manifest = Inr ()"
  shows "map gate_keys (gates_of manifest) =
    map (\<lambda>(number, ident, title, document). (number, ident, document)) canonical_gates"
proof (rule nth_equalityI)
  from accepted_ledger [OF assms] have ok: "gates_ok toml fs root (gates_of manifest)"
    unfolding readiness_manifest_ok_def by blast
  then show "length (map gate_keys (gates_of manifest)) =
      length (map (\<lambda>(number, ident, title, document). (number, ident, document)) canonical_gates)"
    by (simp add: gates_ok_def)
  fix i
  assume "i < length (map gate_keys (gates_of manifest))"
  with ok have i: "i < length canonical_gates"
    and "gate_ok toml fs root i (gates_of manifest ! i)"
    by (simp_all add: gates_ok_def)
  from gate_ok_keys [OF this(2)] i ok show "map gate_keys (gates_of manifest) ! i =
      map (\<lambda>(number, ident, title, document). (number, ident, document)) canonical_gates ! i"
    by (simp add: gates_ok_def case_prod_beta)
qed

theorem readiness_gates_are_canonical_witness:
  "gate_keys first_gate = (1, ''cosmic-lifecycle'', ''docs/COSMIC_LIFECYCLE_GATE.md'')"
proof -
  have "gate_keys (sample_gates ! 0) =
      map (\<lambda>(number, ident, title, document). (number, ident, document)) canonical_gates ! 0"
    using readiness_gates_are_canonical [OF sample_ledger_accepted]
    by (metis sample_ledger_gates nth_map sample_gates_length length_map length_greater_0_conv
        sample_qualified(1) list.set(1) empty_iff)
  moreover have "sample_gates ! 0 = first_gate"
    using sample_gates_nth [of 0] by (simp add: first_gate_def canonical_gates_def)
  ultimately show ?thesis by (simp add: canonical_gates_def)
qed

text \<open>
  The release switch is exact: with \<^verbatim>\<open>--require-production-ready\<close> the run succeeds
  if and only if it succeeds without the switch and every gate of the ledger is qualified.
\<close>

theorem readiness_release_switch_is_exact:
  "readiness_run json toml fs root True = Inr manifest \<longleftrightarrow>
     readiness_run json toml fs root False = Inr manifest \<and>
     list_all (\<lambda>g. status_of g = ''qualified'') (gates_of manifest)"
  by (auto simp: readiness_run_def bindE_Inr_iff require_production_ready_def gates_of_def
      list_all_iff filter_empty_conv)

text \<open>
  The report adds up: for an accepted ledger the qualified, in-progress and blocked gates it
  counts are together the fourteen canonical ones.
\<close>

theorem readiness_report_adds_up:
  assumes "readiness_validate toml fs root manifest = Inr ()"
  shows "report_counts manifest ''qualified'' + report_counts manifest ''in_progress'' +
    report_counts manifest ''blocked'' = 14"
proof -
  have counts: "report_counts manifest = count_list (map status_of (gates_of manifest))"
    by (simp add: report_counts_def gates_of_def fold_bump_zero)
  have "length (gates_of manifest) = 14"
    using accepted_ledger [OF assms]
    by (simp add: readiness_manifest_ok_def gates_ok_def canonical_gates_def)
  moreover have "set (map status_of (gates_of manifest)) \<subseteq> set readiness_statuses"
    using accepted_gate [OF assms]
    by (fastforce simp: gate_ok_def gate_shape_ok_def status_of_def)
  ultimately have "sum (report_counts manifest) (set readiness_statuses) = 14"
    unfolding counts by (subst sum_count_list) simp_all
  then show ?thesis by (simp add: readiness_statuses_def)
qed

theorem readiness_report_adds_up_witness:
  "report_counts sample_ledger ''qualified'' + report_counts sample_ledger ''in_progress'' +
   report_counts sample_ledger ''blocked'' = 14"
  by (rule readiness_report_adds_up [OF sample_ledger_accepted])

text \<open>
  The tracker check does not tie a status to its gate: it looks for each status line anywhere
  in the tracker, so a tracker that says blocked under gate 1 and qualified under gate 2 passes
  for a ledger in which gate 1 is qualified and gate 2 blocked.
\<close>

theorem readiness_tracker_can_swap_statuses:
  "forE (check_tracker_step
      (tracker_section (ledger_gate (canonical_gates ! 0, False)) @
       tracker_section (ledger_gate (canonical_gates ! 1, True)))) 0
     [ledger_gate (canonical_gates ! 0, True), ledger_gate (canonical_gates ! 1, False)] () =
   Inr ()"
  by code_simp

definition naive_entry :: pyval where
  "naive_entry =
     PDict [(''kind'', PStr ''test-report''), (''path'', PStr ledger_artifact),
       (''sha256'', PStr sample_digest), (''captured_at'', PStr ''2024-01-01Z''),
       (''component'', PStr ''ArachOS''), (''revision'', PStr sample_revision)]"

definition naive_gate :: pyval where
  "naive_gate =
     PDict [(''components'', PList [PStr ''ArachOS'']),
       (''required_evidence'', PList [PStr ''test-report'']),
       (''evidence'', PList [naive_entry]), (''blockers'', PList []),
       (''qualified_at'', PStr sample_time), (''qualified_revision'', PStr sample_revision)]"

lemma naive_fields:
  "field naive_entry ''path'' = PStr ledger_artifact"
  "field naive_entry ''captured_at'' = PStr ''2024-01-01Z''"
  "field naive_entry ''sha256'' = PStr sample_digest"
  "evidence_of naive_gate = [naive_entry]" "kinds_of [naive_entry] = {''test-report''}"
  "is_list (field naive_gate ''evidence'')"
  by (simp_all add: naive_entry_def naive_gate_def evidence_of_def kinds_of_def)

lemma naive_stamp: "is_utc ''2024-01-01Z'' (Naive 63839664000000000)"
  by code_simp

text \<open>
  A date without a time passes the timestamp check but has no time zone, and comparing it
  with a full timestamp is a \<^verbatim>\<open>TypeError\<close> that nothing catches: the evidence of the gate
  below is accepted, and the qualification block crashes on it.
\<close>

theorem readiness_naive_timestamp_crashes:
  "readiness_validate_evidence ledger_tree sample_root naive_gate 0 = Inr {''test-report''} \<and>
   qualify_gate sample_toml ledger_tree sample_root naive_gate 0 {''test-report''} = Inl TypeError"
proof
  have "readiness_entry_ok ledger_tree sample_root naive_gate naive_entry"
    unfolding readiness_entry_ok_def
    using ledger_tree_artifact(1-3) sample_revision_ok naive_stamp ledger_words(3)
    by (auto simp: naive_fields sha256_sample naive_entry_def naive_gate_def
        readiness_entry_fields_def)
  then show "readiness_validate_evidence ledger_tree sample_root naive_gate 0 =
      Inr {''test-report''}"
    by (simp add: readiness_validate_evidence_iff readiness_entries_ok_def naive_fields)
  have times: "readiness_timestamp sample_time b = Inr sample_stamp"
    "readiness_timestamp ''2024-01-01Z'' b = Inr (Naive 63839664000000000)" for b
    using sample_time_utc naive_stamp by (simp_all add: readiness_timestamp_def utc_timestamp_iff)
  have late: "captured_step sample_stamp 0 0 naive_entry () = Inl TypeError"
    by (simp add: captured_step_def naive_fields times sample_stamp_def)
  have list: "list_of (field naive_gate ''evidence'') = [naive_entry]"
    using naive_fields(4) by (simp add: evidence_of_def)
  have fields: "is_placeholder (str_of (field naive_entry ''revision'')) = False"
    "str_of (field naive_entry ''path'') = ledger_artifact"
    "list_of (field naive_gate ''blockers'') = []"
    "texts (field naive_gate ''required_evidence'') = [''test-report'']"
    "field naive_gate ''qualified_at'' = PStr sample_time"
    by (simp_all add: naive_entry_def naive_gate_def sample_revision_real texts_def)
  show "qualify_gate sample_toml ledger_tree sample_root naive_gate 0 {''test-report''} =
      Inl TypeError"
    unfolding qualify_gate_def Let_def list fields
    by (simp add: ledger_tree_artifact(2,4,5) evidence_contains_placeholder_def times late fields)
qed

end
