(* ===== verification/Releases.thy ===== *)
theory Releases
  imports Ledger
begin

text \<open>
  \<^verbatim>\<open>scripts/verify_release_channels.py\<close>: the release channel policy and the active
  release records. \<open>channel_step\<close> and \<open>release_step\<close> are the rounds of the two main loops of
  \<^verbatim>\<open>validate\<close>, \<open>release_evidence_step\<close> one round of \<^verbatim>\<open>validate_evidence\<close>,
  \<open>validate_release_report\<close> the check of the retained report and component lock,
  \<open>check_channel_step\<close> and \<open>promotion_step\<close> the phases over the collected records.
\<close>

section \<open>The tables\<close>

definition release_policy_path :: string where
  "release_policy_path = ''production/release-channels.json''"

definition release_readiness_path :: string where
  "release_readiness_path = ''production/readiness.json''"

definition release_evidence_root :: string where
  "release_evidence_root = ''production/evidence/release-operations''"

definition channels :: "string list" where
  "channels = [''development'', ''testing'', ''stable'']"

definition release_evidence_kinds :: "string list" where
  "release_evidence_kinds =
     [''attestation'', ''hardware-report'', ''recovery-report'', ''release-report'',
      ''reproducibility-report'', ''sbom'', ''security-report'', ''test-report'']"

definition release_environments :: "string list" where
  "release_environments =
     [''continuous-integration'', ''hardware-lab'', ''independent-builder'',
      ''release-operations'']"

definition immutable_promotion_fields :: "string list" where
  "immutable_promotion_fields =
     [''revision'', ''components_lock_sha256'', ''package_generation_sha256'', ''image_sha256'',
      ''signature_sha256'']"

definition release_report_fields :: "string list" where
  "release_report_fields =
     [''format'', ''distribution'', ''revision'', ''components_lock'', ''components_lock_sha256'',
      ''package_generation_sha256'', ''image_sha256'', ''signature_sha256'']"

definition mirror_policy :: pyval where
  "mirror_policy =
     PDict [(''minimum_quorum'', PInt 2), (''maximum_staleness_seconds'', PInt 900),
       (''require_signed_root'', PBool True), (''require_consistent_snapshot'', PBool True),
       (''reject_sequence_downgrade'', PBool True)]"

definition promotion_policy :: pyval where
  "promotion_policy =
     PDict [(''require_previous_channel'', PBool True),
       (''require_exact_component_lock'', PBool True),
       (''require_exact_package_generation'', PBool True),
       (''require_reproducible_image'', PBool True), (''require_signed_artifacts'', PBool True),
       (''require_evidence_retention'', PBool True), (''require_rollback_drill'', PBool True),
       (''require_advisory'', PBool True)]"

section \<open>Reading\<close>

definition release_load ::
    "(string \<Rightarrow> pyval option) \<Rightarrow> fs \<Rightarrow> pure_path \<Rightarrow> pyval result" where
  "release_load json fs path =
     (if not_regular fs path then Inl (Rejected ''file is not regular'')
      else case read_text fs path of
        Inl e \<Rightarrow> (if e = OSError then Inl (Rejected ''cannot load'') else Inl e)
      | Inr text \<Rightarrow>
          (case json text of
             None \<Rightarrow> Inl (Rejected ''cannot load'')
           | Some v \<Rightarrow> (if \<not> is_dict v then Inl (Rejected ''root must be an object'') else Inr v)))"

definition release_timestamp :: "string \<Rightarrow> string \<Rightarrow> timestamp result" where
  "release_timestamp v path =
     utc_timestamp (path @ '' must use UTC Z form'') (path @ '' is not RFC 3339 compatible'') v"

definition is_placeholder_evidence :: "string \<Rightarrow> string \<Rightarrow> bool" where
  "is_placeholder_evidence path content \<longleftrightarrow>
     list_ex placeholder_part (path_parts (Path path)) \<or> placeholder_evidence content"

definition retained_file :: "fs \<Rightarrow> pure_path \<Rightarrow> string \<Rightarrow> string \<Rightarrow> pure_path result" where
  "retained_file fs root value base =
     (let path = join root value; boundary = join root release_evidence_root in
      case relative_to path root of
        None \<Rightarrow> Inl (Rejected (base @ ''.path must be beneath '' @ release_evidence_root))
      | Some relative \<Rightarrow>
          (if relative_to path boundary = None
             then Inl (Rejected (base @ ''.path must be beneath '' @ release_evidence_root))
           else if traverses_symlink fs root relative
             then Inl (Rejected (base @ ''.path cannot traverse a symlink''))
           else if \<not> is_file fs path
             then Inl (Rejected (base @ ''.path is missing or not regular''))
           else Inr path))"

definition release_strings :: "pyval \<Rightarrow> string \<Rightarrow> bool \<Rightarrow> string list result" where
  "release_strings v path allow_empty =
     (if \<not> is_list v then Inl (Rejected (path @ '' must be an array''))
      else if \<not> allow_empty \<and> list_of v = []
        then Inl (Rejected (path @ '' must not be empty''))
      else if \<not> list_all is_text (list_of v)
        then Inl (Rejected (path @ '' must contain non-empty strings''))
      else if \<not> distinct (list_of v)
        then Inl (Rejected (path @ '' must not contain duplicates''))
      else Inr (texts v))"

type_synonym statuses = "string \<Rightarrow> string option"

definition readiness_status_step :: "nat \<Rightarrow> pyval \<Rightarrow> statuses \<Rightarrow> statuses result" where
  "readiness_status_step index gate result =
     (let base = item ''readiness.gates'' index; gate_id = str_of (field gate ''id'') in
      if \<not> is_dict gate then Inl (Rejected (base @ '' must be an object''))
      else if \<not> str_that (\<lambda>s. True) (field gate ''id'') \<or>
              \<not> str_that (\<lambda>s. True) (field gate ''status'')
        then Inl (Rejected (base @ '' has invalid identity''))
      else if result gate_id \<noteq> None then Inl (Rejected ''readiness gate is duplicated'')
      else Inr (result(gate_id \<mapsto> str_of (field gate ''status''))))"

definition readiness_status ::
    "(string \<Rightarrow> pyval option) \<Rightarrow> fs \<Rightarrow> pure_path \<Rightarrow> statuses result" where
  "readiness_status json fs root =
     bindE (release_load json fs (join root release_readiness_path)) (\<lambda>document.
       if \<not> is_list (field document ''gates'')
         then Inl (Rejected ''readiness gate array is missing'')
       else forE readiness_status_step 0 (list_of (field document ''gates'')) (\<lambda>_. None))"

section \<open>Evidence and the release report\<close>

definition release_entry_fields :: "string list" where
  "release_entry_fields =
     [''kind'', ''path'', ''sha256'', ''captured_at'', ''revision'', ''environment'']"

record release_evidence =
  ev_kinds :: "string set"
  ev_times :: "timestamp list"
  ev_paths :: "string set"

definition release_evidence_step ::
    "fs \<Rightarrow> pure_path \<Rightarrow> pyval \<Rightarrow> string \<Rightarrow> nat \<Rightarrow> pyval \<Rightarrow> release_evidence \<Rightarrow>
     release_evidence result" where
  "release_evidence_step fs root release base index entry acc =
     (let item_base = item (base @ ''.evidence'') index;
          path_value = str_of (field entry ''path''); revision = field entry ''revision''
      in
      if \<not> has_fields release_entry_fields entry
        then Inl (Rejected (item_base @ '' has unexpected or missing fields''))
      else if \<not> str_that (\<lambda>s. s \<in> set release_evidence_kinds) (field entry ''kind'')
        then Inl (Rejected (item_base @ ''.kind is invalid''))
      else if \<not> str_that strict_safe_relative (field entry ''path'')
        then Inl (Rejected (item_base @ ''.path must be a safe relative path''))
      else if path_value \<in> ev_paths acc
        then Inl (Rejected (item_base @ ''.path is duplicated''))
      else bindE (retained_file fs root path_value item_base) (\<lambda>artifact.
        if \<not> str_that (fullmatch SHA256_RE) (field entry ''sha256'')
          then Inl (Rejected (item_base @ ''.sha256 must be a lowercase SHA-256 digest''))
        else bindE (read_bytes fs artifact) (\<lambda>content.
          if \<not> py_eq (PStr (sha256_hex content)) (field entry ''sha256'')
            then Inl (Rejected (item_base @ ''.sha256 does not match the artifact''))
          else if is_placeholder_evidence path_value content
            then Inl (Rejected (item_base @ ''.path is placeholder evidence''))
          else if \<not> str_that (\<lambda>s. True) (field entry ''captured_at'')
            then Inl (Rejected (item_base @ ''.captured_at must be a timestamp''))
          else bindE (release_timestamp (str_of (field entry ''captured_at''))
                       (item_base @ ''.captured_at'')) (\<lambda>t.
            if \<not> str_that (fullmatch REVISION_RE) revision
              then Inl (Rejected (item_base @ ''.revision must be a full Git object ID''))
            else if is_placeholder (str_of revision)
              then Inl (Rejected (item_base @ ''.revision cannot be a placeholder''))
            else if \<not> py_eq revision (field release ''revision'')
              then Inl (Rejected (item_base @ ''.revision must match the release revision''))
            else bindE (in_str_set (field entry ''environment'') release_environments)
              (\<lambda>known.
                if \<not> known then Inl (Rejected (item_base @ ''.environment is invalid''))
                else Inr \<lparr> ev_kinds = insert (str_of (field entry ''kind'')) (ev_kinds acc),
                          ev_times = ev_times acc @ [t],
                          ev_paths = insert path_value (ev_paths acc) \<rparr>)))))"

definition no_release_evidence :: release_evidence where
  "no_release_evidence = \<lparr> ev_kinds = {}, ev_times = [], ev_paths = {} \<rparr>"

definition release_validate_evidence ::
    "fs \<Rightarrow> pure_path \<Rightarrow> pyval \<Rightarrow> string \<Rightarrow> (string set \<times> timestamp list) result" where
  "release_validate_evidence fs root release base =
     (if \<not> is_list (field release ''evidence'')
        then Inl (Rejected (base @ ''.evidence must be an array''))
      else bindE (forE (release_evidence_step fs root release base) 0
                   (list_of (field release ''evidence'')) no_release_evidence)
        (\<lambda>acc. Inr (ev_kinds acc, ev_times acc)))"

definition report_field_step ::
    "pyval \<Rightarrow> pyval \<Rightarrow> string \<Rightarrow> nat \<Rightarrow> string \<Rightarrow> unit \<Rightarrow> unit result" where
  "report_field_step report release base i name u =
     (if \<not> py_eq (field report name) (field release name)
      then Inl (Rejected (base @ ''.release-report.'' @ name @
        '' differs from the release record''))
      else Inr ())"

definition report_component_step :: "string \<Rightarrow> nat \<Rightarrow> pyval \<Rightarrow> string set \<Rightarrow> string set result" where
  "report_component_step base index component names =
     (let item_base = item (base @ ''.release-report.components'') index;
          name = str_of (field component ''name''); revision = field component ''revision''
      in
      if \<not> has_fields [''name'', ''repository'', ''revision'', ''role''] component
        then Inl (Rejected (item_base @ '' has unexpected or missing fields''))
      else if \<not> str_that (\<lambda>s. s \<noteq> []) (field component ''name'') \<or> name \<in> names
        then Inl (Rejected (item_base @ ''.name is invalid''))
      else if \<not> str_that (fullmatch REVISION_RE) revision \<or> is_placeholder (str_of revision)
        then Inl (Rejected (item_base @ ''.revision is invalid''))
      else Inr (insert name names))"

definition check_report_lock ::
    "(string \<Rightarrow> pyval option) \<Rightarrow> string \<Rightarrow> string \<Rightarrow> unit result" where
  "check_report_lock toml content base =
     (if \<not> utf8_valid content
        then Inl (Rejected (base @ ''.release-report component lock is invalid''))
      else case toml content of
        None \<Rightarrow> Inl (Rejected (base @ ''.release-report component lock is invalid''))
      | Some lock \<Rightarrow>
          (let components = field lock ''component'' in
           if \<not> has_fields [''format'', ''distribution'', ''component''] lock \<or>
              \<not> py_eq (field lock ''format'') (PInt 1) \<or>
              \<not> py_eq (field lock ''distribution'') (PStr ''ArachOS'')
             then Inl (Rejected (base @ ''.release-report component lock identity is invalid''))
           else if \<not> is_list components \<or> list_of components = []
             then Inl (Rejected (base @ ''.release-report component lock has no components''))
           else bindE (forE (report_component_step base) 0 (list_of components) {})
             (\<lambda>names. Inr ())))"

definition validate_release_report ::
    "(string \<Rightarrow> pyval option) \<Rightarrow> (string \<Rightarrow> pyval option) \<Rightarrow> fs \<Rightarrow> pure_path \<Rightarrow> pyval \<Rightarrow>
     string \<Rightarrow> unit result" where
  "validate_release_report json toml fs root release base =
     (let reports = filter (\<lambda>e. py_eq (field e ''kind'') (PStr ''release-report''))
            (list_of (field release ''evidence''));
          report_path = join root (str_of (field (hd reports) ''path''))
      in
      if length reports \<noteq> 1
        then Inl (Rejected (base @ ''.evidence must retain exactly one release-report''))
      else bindE (release_load json fs report_path) (\<lambda>report.
        if \<not> has_fields release_report_fields report
          then Inl (Rejected (base @ ''.release-report has unexpected or missing fields''))
        else if \<not> py_eq (field report ''format'') (PInt 1) \<or>
                \<not> py_eq (field report ''distribution'') (PStr ''ArachOS'')
          then Inl (Rejected (base @ ''.release-report has an invalid identity''))
        else bindE (forE (report_field_step report release base) 0 immutable_promotion_fields ())
          (\<lambda>u.
          if \<not> str_that strict_safe_relative (field report ''components_lock'')
            then Inl (Rejected (base @
              ''.release-report.components_lock must be a safe relative path''))
          else bindE (retained_file fs root (str_of (field report ''components_lock''))
                       (base @ ''.release-report.components_lock'')) (\<lambda>lock_path.
            if lock_path = report_path
              then Inl (Rejected (base @
                ''.release-report.components_lock is missing or not regular''))
            else bindE (read_bytes fs lock_path) (\<lambda>content.
              if \<not> py_eq (PStr (sha256_hex content)) (field release ''components_lock_sha256'')
                then Inl (Rejected (base @
                  ''.release-report component lock digest differs from the release record''))
              else check_report_lock toml content base)))))"

section \<open>The channels\<close>

definition channel_fields :: "string list" where
  "channel_fields =
     [''name'', ''rank'', ''retained_generations'', ''minimum_soak_seconds'',
      ''required_readiness_gates'', ''required_evidence'', ''allow_direct_publish'',
      ''rollback_generations'']"

definition natural_field_step :: "pyval \<Rightarrow> string \<Rightarrow> nat \<Rightarrow> string \<Rightarrow> unit \<Rightarrow> unit result" where
  "natural_field_step channel base i name u =
     (if \<not> int_that (\<lambda>n. 0 \<le> n) (field channel name)
      then Inl (Rejected (base @ ''.'' @ name @ '' must be a non-negative integer''))
      else Inr ())"

text \<open>\<^verbatim>\<open>by_name\<close>, the dictionary of the channels, is the accumulator.\<close>

type_synonym channel_table = "string \<Rightarrow> pyval option"

definition channel_step ::
    "statuses \<Rightarrow> nat \<Rightarrow> string \<times> pyval \<Rightarrow> channel_table \<Rightarrow> channel_table result" where
  "channel_step readiness index x by_name =
     (let base = item ''channels'' index; expected = fst x; channel = snd x;
          retained = int_of (field channel ''retained_generations'');
          rollback = int_of (field channel ''rollback_generations'')
      in
      if \<not> has_fields channel_fields channel
        then Inl (Rejected (base @ '' has unexpected or missing fields''))
      else if \<not> py_eq (field channel ''name'') (PStr expected) \<or>
              \<not> py_eq (field channel ''rank'') (PInt (int index))
        then Inl (Rejected (base @ '' differs from canonical channel order''))
      else bindE (forE (natural_field_step channel base) 0
          [''retained_generations'', ''minimum_soak_seconds'', ''rollback_generations''] ())
        (\<lambda>u.
        if retained < 2
          then Inl (Rejected (base @ ''.retained_generations must retain rollback history''))
        else if \<not> (1 \<le> rollback \<and> rollback < retained)
          then Inl (Rejected (base @ ''.rollback_generations is invalid''))
        else bindE (release_strings (field channel ''required_readiness_gates'')
            (base @ ''.required_readiness_gates'') (expected = ''development'')) (\<lambda>gates.
          if \<not> list_all (\<lambda>g. readiness g \<noteq> None) gates
            then Inl (Rejected (base @ '' references unknown readiness gates''))
          else bindE (release_strings (field channel ''required_evidence'')
              (base @ ''.required_evidence'') False) (\<lambda>evidence.
            if \<not> set evidence \<subseteq> set release_evidence_kinds
              then Inl (Rejected (base @ ''.required_evidence contains an invalid kind''))
            else if \<not> is_bool (field channel ''allow_direct_publish'')
              then Inl (Rejected (base @ ''.allow_direct_publish must be boolean''))
            else if field channel ''allow_direct_publish'' \<noteq> PBool (expected = ''development'')
              then Inl (Rejected (base @ ''.allow_direct_publish violates promotion policy''))
            else Inr (by_name(expected \<mapsto> channel))))))"

section \<open>The active releases\<close>

definition release_fields :: "string list" where
  "release_fields =
     [''channel'', ''sequence'', ''version'', ''published_at'', ''revision'',
      ''components_lock_sha256'', ''package_generation_sha256'', ''image_sha256'',
      ''signature_sha256'', ''promoted_from_sequence'', ''soak_seconds'', ''mirror_count'',
      ''rollback_tested'', ''advisory'', ''evidence'']"

definition digest_field_step :: "pyval \<Rightarrow> string \<Rightarrow> nat \<Rightarrow> string \<Rightarrow> unit \<Rightarrow> unit result" where
  "digest_field_step release base i name u =
     (if \<not> str_that (fullmatch SHA256_RE) (field release name)
        then Inl (Rejected (base @ ''.'' @ name @ '' must be a SHA-256 digest''))
      else if is_placeholder (str_of (field release name))
        then Inl (Rejected (base @ ''.'' @ name @ '' cannot be a placeholder''))
      else Inr ())"

text \<open>
  \<^verbatim>\<open>[gate for gate in required if readiness[gate] != "qualified"]\<close>, with the
  \<^verbatim>\<open>KeyError\<close> of a missing gate.
\<close>

fun missing_gates :: "statuses \<Rightarrow> string list \<Rightarrow> string list result" where
  "missing_gates readiness [] = Inr []"
| "missing_gates readiness (g # gs) =
     (case readiness g of
        None \<Rightarrow> Inl KeyError
      | Some status \<Rightarrow> bindE (missing_gates readiness gs) (\<lambda>rest.
          Inr (if status \<noteq> ''qualified'' then g # rest else rest)))"

text \<open>
  \<^verbatim>\<open>by_channel\<close> is a dictionary of lists in insertion order; the counter is its list lengths
  as well, and is kept apart like in the code.
\<close>

type_synonym channel_records = "(string \<times> pyval list) list"

fun add_record :: "string \<Rightarrow> pyval \<Rightarrow> channel_records \<Rightarrow> channel_records" where
  "add_record c r [] = [(c, [r])]"
| "add_record c r ((d, rs) # rest) =
     (if c = d then (d, rs @ [r]) # rest else (d, rs) # add_record c r rest)"

record releases_acc =
  seen_versions :: "(string \<times> string) set"
  by_channel :: channel_records
  channel_counts :: "string \<Rightarrow> nat"

definition release_step ::
    "(string \<Rightarrow> pyval option) \<Rightarrow> (string \<Rightarrow> pyval option) \<Rightarrow> fs \<Rightarrow> pure_path \<Rightarrow> pyval \<Rightarrow>
     statuses \<Rightarrow> channel_table \<Rightarrow> nat \<Rightarrow> pyval \<Rightarrow> releases_acc \<Rightarrow> releases_acc result" where
  "release_step json toml fs root mirrors readiness by_name index release acc =
     (let base = item ''active_releases'' index;
          channel_name = str_of (field release ''channel'');
          channel = (case by_name channel_name of Some c \<Rightarrow> c | None \<Rightarrow> PNone);
          version = str_of (field release ''version''); revision = field release ''revision'';
          advisory = str_of (field release ''advisory'');
          required = texts (field channel ''required_readiness_gates'')
      in
      if \<not> has_fields release_fields release
        then Inl (Rejected (base @ '' has unexpected or missing fields''))
      else if \<not> str_that (\<lambda>s. by_name s \<noteq> None) (field release ''channel'')
        then Inl (Rejected (base @ ''.channel is invalid''))
      else if \<not> int_that (\<lambda>n. 0 < n) (field release ''sequence'')
        then Inl (Rejected (base @ ''.sequence must be positive''))
      else if \<not> str_that (fullmatch VERSION_RE) (field release ''version'')
        then Inl (Rejected (base @ ''.version is invalid''))
      else if (channel_name, version) \<in> seen_versions acc
        then Inl (Rejected (base @ ''.version is duplicated in the channel''))
      else if \<not> str_that (\<lambda>s. True) (field release ''published_at'')
        then Inl (Rejected (base @ ''.published_at must be a timestamp''))
      else bindE (release_timestamp (str_of (field release ''published_at''))
                   (base @ ''.published_at'')) (\<lambda>published.
        if \<not> str_that (fullmatch REVISION_RE) revision
          then Inl (Rejected (base @ ''.revision must be a full Git object ID''))
        else if is_placeholder (str_of revision)
          then Inl (Rejected (base @ ''.revision cannot be a placeholder''))
        else bindE (forE (digest_field_step release base) 0
            [''components_lock_sha256'', ''package_generation_sha256'', ''image_sha256'',
             ''signature_sha256''] ()) (\<lambda>u.
          if \<not> int_that (\<lambda>n. int_of (field channel ''minimum_soak_seconds'') \<le> n)
                (field release ''soak_seconds'')
            then Inl (Rejected (base @ ''.soak_seconds is below the channel minimum''))
          else if \<not> int_that (\<lambda>n. True) (field release ''mirror_count'')
            then Inl (Rejected (base @ ''.mirror_count is below quorum''))
          else bindE (int_less (int_of (field release ''mirror_count''))
                       (field mirrors ''minimum_quorum'')) (\<lambda>below.
            if below then Inl (Rejected (base @ ''.mirror_count is below quorum''))
            else if field release ''rollback_tested'' \<noteq> PBool True
              then Inl (Rejected (base @ ''.rollback_tested must be true''))
            else if \<not> str_that strict_safe_relative (field release ''advisory'')
              then Inl (Rejected (base @ ''.advisory must be a safe relative path''))
            else if not_regular fs (join root advisory)
              then Inl (Rejected (base @ ''.advisory is missing or not regular''))
            else bindE (missing_gates readiness required) (\<lambda>missing.
              if missing \<noteq> []
                then Inl (Rejected (base @ '' requires unqualified readiness gates''))
              else bindE (release_validate_evidence fs root release base) (\<lambda>(kinds, stamps).
                if \<not> set (texts (field channel ''required_evidence'')) \<subseteq> kinds
                  then Inl (Rejected (base @ '' lacks evidence kinds''))
                else bindE (anyE (\<lambda>t. timestamp_less published t) stamps) (\<lambda>late.
                  if late
                    then Inl (Rejected (base @
                      ''.evidence cannot be captured after publication''))
                  else bindE (validate_release_report json toml fs root release base) (\<lambda>v.
                    if channel_name = ''development'' \<and>
                       field release ''promoted_from_sequence'' \<noteq> PNone
                      then Inl (Rejected (base @ ''.promoted_from_sequence must be null''))
                    else if channel_name \<noteq> ''development'' \<and>
                       \<not> int_that (\<lambda>n. 0 < n) (field release ''promoted_from_sequence'')
                      then Inl (Rejected (base @
                        ''.promoted_from_sequence must name a prior release''))
                    else Inr \<lparr> seen_versions =
                                  insert (channel_name, version) (seen_versions acc),
                               by_channel = add_record channel_name release (by_channel acc),
                               channel_counts =
                                  bump channel_name (channel_counts acc) \<rparr>))))))))"

definition no_releases :: releases_acc where
  "no_releases = \<lparr> seen_versions = {}, by_channel = [], channel_counts = (\<lambda>_. 0) \<rparr>"

section \<open>Sequences and promotion\<close>

definition sequence_of :: "pyval \<Rightarrow> int" where
  "sequence_of r = int_of (field r ''sequence'')"

text \<open>One round sorts the records of a channel in place; the result collects the sorted lists.\<close>

definition check_channel_step ::
    "channel_table \<Rightarrow> nat \<Rightarrow> string \<times> pyval list \<Rightarrow> channel_records \<Rightarrow>
     channel_records result" where
  "check_channel_step by_name i x acc =
     (let channel_name = fst x; records = sort_key sequence_of (snd x);
          sequences = map sequence_of records;
          channel = (case by_name channel_name of Some c \<Rightarrow> c | None \<Rightarrow> PNone)
      in
      if \<not> distinct sequences
        then Inl (Rejected (channel_name @ '' contains duplicate sequences''))
      else if list_ex (\<lambda>(left, right). right \<le> left) (zip sequences (List.tl sequences))
        then Inl (Rejected (channel_name @ '' sequences are not monotonic''))
      else if int_of (field channel ''retained_generations'') < int (length records)
        then Inl (Rejected (channel_name @ '' exceeds retained generation policy''))
      else Inr (acc @ [(channel_name, records)]))"

definition records_in :: "channel_records \<Rightarrow> string \<Rightarrow> pyval list" where
  "records_in rs c = (case map_of rs c of Some xs \<Rightarrow> xs | None \<Rightarrow> [])"

text \<open>\<^verbatim>\<open>previous_records.get(release["promoted_from_sequence"])\<close>\<close>

definition promotion_source :: "pyval list \<Rightarrow> pyval \<Rightarrow> pyval option" where
  "promotion_source previous release =
     map_of (rev (map (\<lambda>r. (sequence_of r, r)) previous))
       (int_of (field release ''promoted_from_sequence''))"

definition promoted_field_step ::
    "string \<Rightarrow> string \<Rightarrow> pyval \<Rightarrow> pyval \<Rightarrow> nat \<Rightarrow> string \<Rightarrow> unit \<Rightarrow> unit result" where
  "promoted_field_step channel_name previous_name release source i name u =
     (if \<not> py_eq (field release name) (field source name)
      then Inl (Rejected (channel_name @ '' release must retain immutable '' @ name @
        '' from '' @ previous_name))
      else Inr ())"

definition promotion_step ::
    "string \<Rightarrow> string \<Rightarrow> pyval list \<Rightarrow> nat \<Rightarrow> pyval \<Rightarrow> unit \<Rightarrow> unit result" where
  "promotion_step channel_name previous_name previous i release u =
     (case promotion_source previous release of
        None \<Rightarrow> Inl (Rejected (channel_name @ '' release is not promoted from retained evidence''))
      | Some source \<Rightarrow>
          bindE (forE (promoted_field_step channel_name previous_name release source) 0
              immutable_promotion_fields ()) (\<lambda>v.
          bindE (release_timestamp (str_of (field release ''published_at''))
              (channel_name @ ''.published_at'')) (\<lambda>at.
          bindE (release_timestamp (str_of (field source ''published_at''))
              (previous_name @ ''.published_at'')) (\<lambda>source_at.
          bindE (timestamp_less at source_at) (\<lambda>early.
            if early
            then Inl (Rejected (channel_name @
              '' release cannot be published before its promotion source''))
            else Inr ())))))"

text \<open>\<^verbatim>\<open>CHANNELS[CHANNELS.index(channel_name) - 1]\<close>, for a channel after the first.\<close>

definition previous_channel :: "string \<Rightarrow> string" where
  "previous_channel c = channels ! (length (takeWhile (\<lambda>d. d \<noteq> c) channels) - 1)"

definition channel_promotion_step ::
    "channel_records \<Rightarrow> nat \<Rightarrow> string \<Rightarrow> unit \<Rightarrow> unit result" where
  "channel_promotion_step records i channel_name u =
     (let previous_name = previous_channel channel_name in
      forE (promotion_step channel_name previous_name (records_in records previous_name)) 0
        (records_in records channel_name) ())"

section \<open>The policy\<close>

definition release_validate ::
    "(string \<Rightarrow> pyval option) \<Rightarrow> (string \<Rightarrow> pyval option) \<Rightarrow> fs \<Rightarrow> pure_path \<Rightarrow> pyval \<Rightarrow>
     (string \<Rightarrow> nat) result" where
  "release_validate json toml fs root policy =
     (let entries = field policy ''channels''; mirrors = field policy ''mirrors'';
          releases = field policy ''active_releases''
      in
      if \<not> has_fields [''format'', ''distribution'', ''channels'', ''mirrors'', ''promotion'',
                       ''active_releases''] policy
        then Inl (Rejected ''release channel policy has invalid top-level fields'')
      else if \<not> int_that (\<lambda>n. n = 1) (field policy ''format'') \<or>
              \<not> py_eq (field policy ''distribution'') (PStr ''ArachOS'')
        then Inl (Rejected ''release channel policy identity is invalid'')
      else if \<not> is_list entries \<or> length (list_of entries) \<noteq> length channels
        then Inl (Rejected ''release channel policy must define three channels'')
      else bindE (readiness_status json fs root) (\<lambda>readiness.
        bindE (forE (channel_step readiness) 0 (zip channels (list_of entries)) (\<lambda>_. None))
          (\<lambda>by_name.
          if \<not> py_eq mirrors mirror_policy
            then Inl (Rejected ''mirror policy must remain fail-closed'')
          else if \<not> py_eq (field policy ''promotion'') promotion_policy
            then Inl (Rejected ''promotion policy must retain all production safeguards'')
          else if \<not> is_list releases
            then Inl (Rejected ''active_releases must be an array'')
          else bindE (forE (release_step json toml fs root mirrors readiness by_name) 0
              (list_of releases) no_releases) (\<lambda>acc.
            bindE (forE (check_channel_step by_name) 0 (by_channel acc) []) (\<lambda>records.
            bindE (forE (channel_promotion_step records) 0 [''testing'', ''stable''] ()) (\<lambda>u.
              Inr (channel_counts acc)))))))"

end
