(* ===== verification/ReleasesSpec.thy ===== *)
theory ReleasesSpec
  imports Releases
begin

text \<open>
  What the release channel policy accepts. Each step of theory \<open>Releases\<close> gets a declarative
  counterpart and a lemma that it succeeds exactly there; the loops are interpretations of
  \<open>unique_loop\<close>, \<open>plain_loop\<close> and \<open>collect_loop\<close>, and the records that the release loop
  collects per channel are shown to be the releases of that channel
  (\<open>records_collected\<close>). They compose to \<open>release_validate_iff\<close>.
\<close>

section \<open>Evidence\<close>

definition retained_ok :: "fs \<Rightarrow> pure_path \<Rightarrow> string \<Rightarrow> bool" where
  "retained_ok fs root value \<longleftrightarrow>
     (\<exists>relative. relative_to (join root value) root = Some relative \<and>
        \<not> traverses_symlink fs root relative) \<and>
     relative_to (join root value) (join root release_evidence_root) \<noteq> None \<and>
     is_file fs (join root value)"

lemma retained_file_iff [result_simps]:
  "retained_file fs root value base = Inr p \<longleftrightarrow> retained_ok fs root value \<and> p = join root value"
  by (auto simp: retained_file_def retained_ok_def Let_def split: option.splits)

lemma retained_file_safe [safe_intros]: "crash_free (retained_file fs root value base)"
  by (auto simp: retained_file_def Let_def split: option.splits)

lemma in_str_set_iff:
  "in_str_set v ss = Inr True \<longleftrightarrow> str_that (\<lambda>s. s \<in> set ss) v"
  by (cases v) (auto simp: in_str_set_def)

text \<open>The time an entry was captured, where its timestamp is well formed.\<close>

definition time_of :: "pyval \<Rightarrow> timestamp" where
  "time_of v =
     (case fromisoformat (butlast (str_of v) @ ''+00:00'') of Some t \<Rightarrow> t | None \<Rightarrow> Naive 0)"

lemma time_of_utc: "is_utc (str_of v) t \<longleftrightarrow> is_utc (str_of v) (time_of v) \<and> t = time_of v"
  by (auto simp: is_utc_def time_of_def)

definition release_entry_ok :: "fs \<Rightarrow> pure_path \<Rightarrow> pyval \<Rightarrow> pyval \<Rightarrow> bool" where
  "release_entry_ok fs root release x \<longleftrightarrow>
     has_fields release_entry_fields x \<and>
     str_that (\<lambda>s. s \<in> set release_evidence_kinds) (field x ''kind'') \<and>
     str_that strict_safe_relative (field x ''path'') \<and> retained_ok fs root (path_of x) \<and>
     (\<exists>content. read_bytes fs (join root (path_of x)) = Inr content \<and>
        field x ''sha256'' = PStr (sha256_hex content) \<and>
        \<not> is_placeholder_evidence (path_of x) content) \<and>
     str_that (\<lambda>s. True) (field x ''captured_at'') \<and>
     is_utc (str_of (field x ''captured_at'')) (time_of (field x ''captured_at'')) \<and>
     str_that (fullmatch REVISION_RE) (field x ''revision'') \<and>
     \<not> is_placeholder (revision_of x) \<and> py_eq (field x ''revision'') (field release ''revision'') \<and>
     str_that (\<lambda>s. s \<in> set release_environments) (field x ''environment'')"

definition release_collect_evidence :: "pyval \<Rightarrow> release_evidence \<Rightarrow> release_evidence" where
  "release_collect_evidence x acc =
     \<lparr> ev_kinds = insert (str_of (field x ''kind'')) (ev_kinds acc),
       ev_times = ev_times acc @ [time_of (field x ''captured_at'')],
       ev_paths = insert (path_of x) (ev_paths acc) \<rparr>"

lemma release_evidence_step_iff:
  "release_evidence_step fs root release base i x acc = Inr acc' \<longleftrightarrow>
     release_entry_ok fs root release x \<and> path_of x \<notin> ev_paths acc \<and>
     acc' = release_collect_evidence x acc"
proof -
  have one: "(\<exists>t. is_utc (str_of v) t \<and> P t) \<longleftrightarrow>
      is_utc (str_of v) (time_of v) \<and> P (time_of v)" for v P
    by (metis time_of_utc)
  have known: "(\<exists>b. r = Inr b \<and> b \<and> P) \<longleftrightarrow> r = Inr True \<and> P" for r :: "bool result" and P
    by (metis (full_types))
  have "release_evidence_step fs root release base i x acc = Inr acc' \<longleftrightarrow>
      has_fields release_entry_fields x \<and>
      str_that (\<lambda>s. s \<in> set release_evidence_kinds) (field x ''kind'') \<and>
      str_that strict_safe_relative (field x ''path'') \<and> path_of x \<notin> ev_paths acc \<and>
      retained_ok fs root (path_of x) \<and>
      str_that (fullmatch SHA256_RE) (field x ''sha256'') \<and>
      (\<exists>content. read_bytes fs (join root (path_of x)) = Inr content \<and>
         field x ''sha256'' = PStr (sha256_hex content) \<and>
         \<not> is_placeholder_evidence (path_of x) content) \<and>
      str_that (\<lambda>s. True) (field x ''captured_at'') \<and>
      is_utc (str_of (field x ''captured_at'')) (time_of (field x ''captured_at'')) \<and>
      str_that (fullmatch REVISION_RE) (field x ''revision'') \<and>
      \<not> is_placeholder (revision_of x) \<and>
      py_eq (field x ''revision'') (field release ''revision'') \<and>
      in_str_set (field x ''environment'') release_environments = Inr True \<and>
      acc' = release_collect_evidence x acc"
    unfolding release_evidence_step_def release_collect_evidence_def path_of_def revision_of_def
      release_timestamp_def Let_def
    by (simp only: guard_Inr_iff bindE_Inr_iff retained_file_iff utc_timestamp_iff one known py_eq_str'
        not_not conj_assoc simp_thms sum.inject) blast
  then show ?thesis
    by (auto simp: release_entry_ok_def in_str_set_iff simp del: str_that_iff)
qed

interpretation release_entries: unique_loop
  "release_evidence_step fs root release base" "\<lambda>i. release_entry_ok fs root release" path_of
  ev_paths release_collect_evidence
  for fs root release base
  by unfold_locales (simp_all add: release_evidence_step_iff release_collect_evidence_def)

lemma release_evidence_fold:
  "ev_kinds (fold release_collect_evidence xs acc) = kinds_of xs \<union> ev_kinds acc"
  "ev_times (fold release_collect_evidence xs acc) =
     ev_times acc @ map (\<lambda>x. time_of (field x ''captured_at'')) xs"
  by (induction xs arbitrary: acc) (auto simp: release_collect_evidence_def kinds_of_def)

definition release_entries_ok :: "fs \<Rightarrow> pure_path \<Rightarrow> pyval \<Rightarrow> bool" where
  "release_entries_ok fs root release \<longleftrightarrow>
     is_list (field release ''evidence'') \<and>
     list_all (release_entry_ok fs root release) (evidence_of release) \<and>
     distinct (map path_of (evidence_of release))"

definition times_of :: "pyval list \<Rightarrow> timestamp list" where
  "times_of es = map (\<lambda>x. time_of (field x ''captured_at'')) es"

lemma release_validate_evidence_iff:
  "release_validate_evidence fs root release base = Inr (kinds, stamps) \<longleftrightarrow>
     release_entries_ok fs root release \<and> kinds = kinds_of (evidence_of release) \<and>
     stamps = times_of (evidence_of release)"
  by (auto simp: release_validate_evidence_def result_simps release_entries.loop_iff
      release_evidence_fold release_entries_ok_def list_all_length evidence_of_def
      no_release_evidence_def times_of_def)

section \<open>The release report and its component lock\<close>

interpretation report_fields: plain_loop
  "report_field_step report release base"
  "\<lambda>i name. py_eq (field report name) (field release name)" "\<lambda>x u. u"
  for report release base
  by unfold_locales (auto simp: report_field_step_def)

definition report_component_ok :: "pyval \<Rightarrow> bool" where
  "report_component_ok c \<longleftrightarrow>
     has_fields [''name'', ''repository'', ''revision'', ''role''] c \<and>
     str_that (\<lambda>s. s \<noteq> []) (field c ''name'') \<and>
     str_that (\<lambda>s. fullmatch REVISION_RE s \<and> \<not> is_placeholder s) (field c ''revision'')"

definition component_name :: "pyval \<Rightarrow> string" where
  "component_name c = str_of (field c ''name'')"

interpretation report_components: unique_loop
  "report_component_step base" "\<lambda>i. report_component_ok" component_name "\<lambda>names. names"
  "\<lambda>c. insert (component_name c)"
  for base
  by unfold_locales
    (auto simp: report_component_step_def report_component_ok_def component_name_def Let_def
      result_simps)

definition report_lock_ok :: "(string \<Rightarrow> pyval option) \<Rightarrow> string \<Rightarrow> bool" where
  "report_lock_ok toml content \<longleftrightarrow>
     utf8_valid content \<and>
     (\<exists>lock components. toml content = Some lock \<and>
        has_fields [''format'', ''distribution'', ''component''] lock \<and>
        py_eq (field lock ''format'') (PInt 1) \<and>
        field lock ''distribution'' = PStr ''ArachOS'' \<and>
        field lock ''component'' = PList components \<and> components \<noteq> [] \<and>
        list_all report_component_ok components \<and> distinct (map component_name components))"

lemma check_report_lock_iff:
  "check_report_lock toml content base = Inr u \<longleftrightarrow> report_lock_ok toml content"
  by (auto simp: check_report_lock_def report_lock_ok_def Let_def result_simps is_list_iff
      report_components.loop_iff list_all_length split: option.splits)

definition report_entries :: "pyval \<Rightarrow> pyval list" where
  "report_entries release =
     filter (\<lambda>e. py_eq (field e ''kind'') (PStr ''release-report'')) (evidence_of release)"

definition report_ok ::
    "(string \<Rightarrow> pyval option) \<Rightarrow> (string \<Rightarrow> pyval option) \<Rightarrow> fs \<Rightarrow> pure_path \<Rightarrow> pyval \<Rightarrow> bool" where
  "report_ok json toml fs root release \<longleftrightarrow>
     length (report_entries release) = 1 \<and>
     (\<exists>report. release_load json fs (join root (path_of (hd (report_entries release)))) =
          Inr report \<and>
        has_fields release_report_fields report \<and> py_eq (field report ''format'') (PInt 1) \<and>
        field report ''distribution'' = PStr ''ArachOS'' \<and>
        list_all (\<lambda>name. py_eq (field report name) (field release name))
          immutable_promotion_fields \<and>
        str_that strict_safe_relative (field report ''components_lock'') \<and>
        retained_ok fs root (str_of (field report ''components_lock'')) \<and>
        join root (str_of (field report ''components_lock'')) \<noteq>
          join root (path_of (hd (report_entries release))) \<and>
        (\<exists>content. read_bytes fs (join root (str_of (field report ''components_lock''))) =
             Inr content \<and>
           field release ''components_lock_sha256'' = PStr (sha256_hex content) \<and>
           report_lock_ok toml content))"

lemma report_fields_iff:
  "forE (report_field_step report release base) 0 names () = Inr u \<longleftrightarrow>
     list_all (\<lambda>name. py_eq (field report name) (field release name)) names"
  by (simp add: report_fields.loop_iff list_all_length)

lemma validate_release_report_iff:
  "validate_release_report json toml fs root release base = Inr () \<longleftrightarrow>
     report_ok json toml fs root release"
  unfolding validate_release_report_def report_ok_def Let_def evidence_of_def [symmetric]
    report_entries_def [symmetric] path_of_def [symmetric]
  by (simp only: guard_Inr_iff bindE_Inr_iff report_fields_iff retained_file_iff
      check_report_lock_iff py_eq_str py_eq_str' not_not de_Morgan_disj conj_assoc simp_thms) blast

section \<open>Channels\<close>

interpretation status_entries: unique_loop
  readiness_status_step
  "\<lambda>i g. is_dict g \<and> str_that (\<lambda>s. True) (field g ''id'') \<and>
     str_that (\<lambda>s. True) (field g ''status'')"
  "\<lambda>g. str_of (field g ''id'')" dom
  "\<lambda>g m. m(str_of (field g ''id'') \<mapsto> status_of g)"
  by unfold_locales
    (auto simp: readiness_status_step_def status_of_def Let_def result_simps domIff)

definition release_texts_ok :: "bool \<Rightarrow> pyval \<Rightarrow> bool" where
  "release_texts_ok allow_empty v \<longleftrightarrow>
     is_list v \<and> (allow_empty \<or> list_of v \<noteq> []) \<and> list_all is_text (list_of v) \<and>
     distinct (list_of v)"

lemma release_strings_iff:
  "release_strings v path allow_empty = Inr ss \<longleftrightarrow> release_texts_ok allow_empty v \<and> ss = texts v"
  by (auto simp: release_strings_def release_texts_ok_def)

interpretation natural_fields: plain_loop
  "natural_field_step channel base" "\<lambda>i name. int_that (\<lambda>n. 0 \<le> n) (field channel name)" "\<lambda>x u. u"
  for channel base
  by unfold_locales (auto simp: natural_field_step_def)

lemma natural_fields_iff:
  "forE (natural_field_step channel base) 0 names () = Inr u \<longleftrightarrow>
     list_all (\<lambda>name. int_that (\<lambda>n. 0 \<le> n) (field channel name)) names"
  by (simp add: natural_fields.loop_iff list_all_length)

definition retained_of :: "pyval \<Rightarrow> int" where
  "retained_of channel = int_of (field channel ''retained_generations'')"

definition channel_ok :: "statuses \<Rightarrow> nat \<Rightarrow> string \<Rightarrow> pyval \<Rightarrow> bool" where
  "channel_ok readiness i expected channel \<longleftrightarrow>
     has_fields channel_fields channel \<and> field channel ''name'' = PStr expected \<and>
     py_eq (field channel ''rank'') (PInt (int i)) \<and>
     list_all (\<lambda>name. int_that (\<lambda>n. 0 \<le> n) (field channel name))
       [''retained_generations'', ''minimum_soak_seconds'', ''rollback_generations''] \<and>
     2 \<le> retained_of channel \<and> 1 \<le> int_of (field channel ''rollback_generations'') \<and>
     int_of (field channel ''rollback_generations'') < retained_of channel \<and>
     release_texts_ok (expected = ''development'') (field channel ''required_readiness_gates'') \<and>
     list_all (\<lambda>g. readiness g \<noteq> None) (texts (field channel ''required_readiness_gates'')) \<and>
     release_texts_ok False (field channel ''required_evidence'') \<and>
     set (texts (field channel ''required_evidence'')) \<subseteq> set release_evidence_kinds \<and>
     field channel ''allow_direct_publish'' = PBool (expected = ''development'')"

lemma channel_step_iff:
  "channel_step readiness i x by_name = Inr by_name' \<longleftrightarrow>
     channel_ok readiness i (fst x) (snd x) \<and> by_name' = by_name(fst x \<mapsto> snd x)"
proof -
  have bool: "is_bool v \<and> v = PBool b \<and> P \<longleftrightarrow> v = PBool b \<and> P" for v b P
    by auto
  have one: "(\<exists>ss. (a \<and> ss = k) \<and> P ss) \<longleftrightarrow> a \<and> P k" for a k and P :: "string list \<Rightarrow> bool"
    by blast
  show ?thesis
    unfolding channel_step_def channel_ok_def Let_def retained_of_def
    by (simp only: guard_Inr_iff bindE_Inr_iff natural_fields_iff release_strings_iff one ex_unit
        py_eq_str not_not not_less de_Morgan_disj conj_assoc simp_thms bool sum.inject) blast
qed

interpretation channel_loop: plain_loop
  "channel_step readiness" "\<lambda>i x. channel_ok readiness i (fst x) (snd x)"
  "\<lambda>x m. m(fst x \<mapsto> snd x)"
  for readiness
  by unfold_locales (rule channel_step_iff)

text \<open>The table of the channels: the three canonical names, each with its own record.\<close>

definition channels_ok :: "statuses \<Rightarrow> pyval list \<Rightarrow> channel_table \<Rightarrow> bool" where
  "channels_ok readiness entries by_name \<longleftrightarrow>
     length entries = length channels \<and>
     (\<forall>i < length channels. channel_ok readiness i (channels ! i) (entries ! i) \<and>
        by_name (channels ! i) = Some (entries ! i)) \<and>
     dom by_name = set channels"

lemma three_channels: "length entries = length channels \<Longrightarrow> \<exists>a b c. entries = [a, b, c]"
  by (auto simp: channels_def length_Suc_conv)

lemma channel_loop_iff:
  assumes "length entries = length channels"
  shows "forE (channel_step readiness) 0 (zip channels entries) (\<lambda>_. None) = Inr by_name \<longleftrightarrow>
     channels_ok readiness entries by_name"
proof -
  obtain a b c where e: "entries = [a, b, c]" using three_channels [OF assms] by blast
  have dom: "m = [''development'' \<mapsto> a, ''testing'' \<mapsto> b, ''stable'' \<mapsto> c] \<longleftrightarrow>
      m ''development'' = Some a \<and> m ''testing'' = Some b \<and> m ''stable'' = Some c \<and>
      dom m = {''development'', ''testing'', ''stable''}" for m :: channel_table
  proof
    assume r: "m ''development'' = Some a \<and> m ''testing'' = Some b \<and> m ''stable'' = Some c \<and>
      dom m = {''development'', ''testing'', ''stable''}"
    show "m = [''development'' \<mapsto> a, ''testing'' \<mapsto> b, ''stable'' \<mapsto> c]"
    proof
      fix x
      from r have "x \<notin> {''development'', ''testing'', ''stable''} \<Longrightarrow> m x = None" by blast
      with r show "m x = [''development'' \<mapsto> a, ''testing'' \<mapsto> b, ''stable'' \<mapsto> c] x"
        by (cases "x \<in> {''development'', ''testing'', ''stable''}") auto
    qed
  qed auto
  show ?thesis
    unfolding channel_loop.loop_iff channels_ok_def e channels_def
    by (auto simp: dom less_Suc_eq nth_Cons split: nat.splits)
qed

section \<open>Active releases\<close>

interpretation digest_fields: plain_loop
  "digest_field_step release base"
  "\<lambda>i name. str_that (\<lambda>s. fullmatch SHA256_RE s \<and> \<not> is_placeholder s) (field release name)"
  "\<lambda>x u. u"
  for release base
  by unfold_locales (auto simp: digest_field_step_def)

lemma digest_fields_iff:
  "forE (digest_field_step release base) 0 names () = Inr u \<longleftrightarrow>
     list_all (\<lambda>name. str_that (\<lambda>s. fullmatch SHA256_RE s \<and> \<not> is_placeholder s)
       (field release name)) names"
  by (simp add: digest_fields.loop_iff list_all_length del: str_that_iff)

lemma missing_gates_iff:
  "missing_gates readiness gs = Inr [] \<longleftrightarrow> (\<forall>g \<in> set gs. readiness g = Some ''qualified'')"
  by (induction gs) (auto simp: bindE_Inr_iff split: option.splits)

definition channel_name_of :: "pyval \<Rightarrow> string" where
  "channel_name_of release = str_of (field release ''channel'')"

definition version_of :: "pyval \<Rightarrow> string" where
  "version_of release = str_of (field release ''version'')"

definition published_of :: "pyval \<Rightarrow> timestamp" where
  "published_of release = time_of (field release ''published_at'')"

text \<open>The channel record of a release, where its channel exists.\<close>

definition channel_of :: "channel_table \<Rightarrow> pyval \<Rightarrow> pyval" where
  "channel_of by_name release =
     (case by_name (channel_name_of release) of Some c \<Rightarrow> c | None \<Rightarrow> PNone)"

definition digest_fields_of :: "string list" where
  "digest_fields_of =
     [''components_lock_sha256'', ''package_generation_sha256'', ''image_sha256'',
      ''signature_sha256'']"

definition release_shape_ok :: "channel_table \<Rightarrow> pyval \<Rightarrow> bool" where
  "release_shape_ok by_name release \<longleftrightarrow>
     has_fields release_fields release \<and>
     str_that (\<lambda>s. by_name s \<noteq> None) (field release ''channel'') \<and>
     int_that (\<lambda>n. 0 < n) (field release ''sequence'') \<and>
     str_that (fullmatch VERSION_RE) (field release ''version'') \<and>
     str_that (\<lambda>s. True) (field release ''published_at'') \<and>
     is_utc (str_of (field release ''published_at'')) (published_of release) \<and>
     str_that (fullmatch REVISION_RE) (field release ''revision'') \<and>
     \<not> is_placeholder (revision_of release) \<and>
     list_all (\<lambda>name. str_that (\<lambda>s. fullmatch SHA256_RE s \<and> \<not> is_placeholder s)
       (field release name)) digest_fields_of"

definition release_safeguards_ok ::
    "fs \<Rightarrow> pure_path \<Rightarrow> pyval \<Rightarrow> statuses \<Rightarrow> pyval \<Rightarrow> pyval \<Rightarrow> bool" where
  "release_safeguards_ok fs root mirrors readiness channel release \<longleftrightarrow>
     int_that (\<lambda>n. int_of (field channel ''minimum_soak_seconds'') \<le> n)
       (field release ''soak_seconds'') \<and>
     int_that (\<lambda>n. True) (field release ''mirror_count'') \<and>
     int_less (int_of (field release ''mirror_count'')) (field mirrors ''minimum_quorum'') =
       Inr False \<and>
     field release ''rollback_tested'' = PBool True \<and>
     str_that strict_safe_relative (field release ''advisory'') \<and>
     \<not> not_regular fs (join root (str_of (field release ''advisory''))) \<and>
     (\<forall>g \<in> set (texts (field channel ''required_readiness_gates'')).
        readiness g = Some ''qualified'')"

definition release_backing_ok ::
    "(string \<Rightarrow> pyval option) \<Rightarrow> (string \<Rightarrow> pyval option) \<Rightarrow> fs \<Rightarrow> pure_path \<Rightarrow> pyval \<Rightarrow>
     pyval \<Rightarrow> bool" where
  "release_backing_ok json toml fs root channel release \<longleftrightarrow>
     release_entries_ok fs root release \<and>
     set (texts (field channel ''required_evidence'')) \<subseteq> kinds_of (evidence_of release) \<and>
     (\<forall>t \<in> set (times_of (evidence_of release)).
        t \<le> published_of release) \<and>
     report_ok json toml fs root release"

definition promoted_rule :: "pyval \<Rightarrow> bool" where
  "promoted_rule release \<longleftrightarrow>
     (if channel_name_of release = ''development''
      then field release ''promoted_from_sequence'' = PNone
      else int_that (\<lambda>n. 0 < n) (field release ''promoted_from_sequence''))"

definition release_ok ::
    "(string \<Rightarrow> pyval option) \<Rightarrow> (string \<Rightarrow> pyval option) \<Rightarrow> fs \<Rightarrow> pure_path \<Rightarrow> pyval \<Rightarrow>
     statuses \<Rightarrow> channel_table \<Rightarrow> pyval \<Rightarrow> bool" where
  "release_ok json toml fs root mirrors readiness by_name release \<longleftrightarrow>
     release_shape_ok by_name release \<and>
     release_safeguards_ok fs root mirrors readiness (channel_of by_name release) release \<and>
     release_backing_ok json toml fs root (channel_of by_name release) release \<and>
     promoted_rule release"

definition release_key :: "pyval \<Rightarrow> string \<times> string" where
  "release_key release = (channel_name_of release, version_of release)"

definition release_collect :: "pyval \<Rightarrow> releases_acc \<Rightarrow> releases_acc" where
  "release_collect release acc =
     \<lparr> seen_versions = insert (release_key release) (seen_versions acc),
       by_channel = add_record (channel_name_of release) release (by_channel acc),
       channel_counts = bump (channel_name_of release) (channel_counts acc) \<rparr>"

lemma release_step_iff:
  "release_step json toml fs root mirrors readiness by_name i release acc = Inr acc' \<longleftrightarrow>
     release_ok json toml fs root mirrors readiness by_name release \<and>
     release_key release \<notin> seen_versions acc \<and> acc' = release_collect release acc"
proof -
  have time: "(\<exists>t. is_utc (str_of v) t \<and> P t) \<longleftrightarrow>
      is_utc (str_of v) (time_of v) \<and> P (time_of v)" for v P
    by (metis time_of_utc)
  have no: "(\<exists>b. r = Inr b \<and> \<not> b \<and> P) \<longleftrightarrow> r = Inr False \<and> P" for r :: "bool result" and P
    by (metis (full_types))
  have none: "(\<exists>xs. r = Inr xs \<and> xs = [] \<and> P) \<longleftrightarrow> r = Inr [] \<and> P"
    for r :: "string list result" and P
    by blast
  have ev: "(\<exists>a b. (c \<and> a = k \<and> b = l) \<and> P a b) \<longleftrightarrow> c \<and> P k l"
    for c and k :: "string set" and l :: "timestamp list" and P
    by blast
  have rule: "\<not> (d \<and> v \<noteq> PNone) \<and> \<not> (\<not> d \<and> \<not> p) \<and> Q \<longleftrightarrow>
      (if d then v = PNone else p) \<and> Q" for d p Q and v :: pyval
    by auto
  show ?thesis
    unfolding release_step_def release_ok_def release_shape_ok_def release_safeguards_ok_def
      release_backing_ok_def promoted_rule_def release_collect_def release_key_def Let_def
      channel_name_of_def [symmetric] version_of_def [symmetric] channel_of_def [symmetric]
      revision_of_def [symmetric] digest_fields_of_def [symmetric] release_timestamp_def
      published_of_def case_prod_beta
    by (simp only: guard_Inr_iff bindE_Inr_iff utc_timestamp_iff time digest_fields_iff no none
        missing_gates_iff split_paired_Ex fst_conv snd_conv release_validate_evidence_iff ev
        ex_anyE anyE_False_iff timestamp_less_False validate_release_report_iff ex_unit rule not_not conj_assoc
        simp_thms sum.inject) blast
qed

interpretation release_loop: unique_loop
  "release_step json toml fs root mirrors readiness by_name"
  "\<lambda>i. release_ok json toml fs root mirrors readiness by_name" release_key seen_versions
  release_collect
  for json toml fs root mirrors readiness by_name
  by unfold_locales (simp_all add: release_step_iff release_collect_def)

section \<open>The records per channel\<close>

lemma add_record_in:
  "records_in (add_record c r rs) d = (if d = c then records_in rs d @ [r] else records_in rs d)"
  by (induction c r rs rule: add_record.induct) (auto simp: records_in_def)

lemma add_record_keys: "fst ` set (add_record c r rs) = insert c (fst ` set rs)"
  by (induction c r rs rule: add_record.induct) auto

lemma add_record_distinct: "distinct (map fst rs) \<Longrightarrow> distinct (map fst (add_record c r rs))"
proof (induction c r rs rule: add_record.induct)
  case (2 c r d rs rest)
  have "fst ` set (add_record c r rest) = insert c (fst ` set rest)" by (rule add_record_keys)
  with 2 show ?case by auto
qed simp

lemma records_collected:
  "records_in (by_channel (fold release_collect releases acc)) c =
     records_in (by_channel acc) c @ filter (\<lambda>r. channel_name_of r = c) releases"
  by (induction releases arbitrary: acc) (auto simp: release_collect_def add_record_in)

lemma channels_collected:
  "distinct (map fst (by_channel acc)) \<Longrightarrow>
     distinct (map fst (by_channel (fold release_collect releases acc))) \<and>
     fst ` set (by_channel (fold release_collect releases acc)) =
       fst ` set (by_channel acc) \<union> channel_name_of ` set releases"
proof (induction releases arbitrary: acc)
  case (Cons r rs)
  have step: "by_channel (release_collect r acc) = add_record (channel_name_of r) r (by_channel acc)"
    by (simp add: release_collect_def)
  have "distinct (map fst (by_channel (release_collect r acc)))"
    using add_record_distinct [OF Cons.prems] by (simp only: step)
  from Cons.IH [OF this] show ?case
    by (simp add: step add_record_keys)
qed simp

lemma counts_collected:
  "channel_counts (fold release_collect releases acc) c =
     channel_counts acc c + count_list (map channel_name_of releases) c"
  by (induction releases arbitrary: acc) (auto simp: release_collect_def bump_def)

text \<open>One channel after sorting: no sequence twice, and no more records than retained.\<close>

definition sorted_records :: "channel_table \<Rightarrow> string \<times> pyval list \<Rightarrow> string \<times> pyval list \<Rightarrow> bool" where
  "sorted_records by_name x y \<longleftrightarrow>
     fst y = fst x \<and> snd y = sort_key sequence_of (snd x) \<and>
     distinct (map sequence_of (snd x)) \<and>
     int (length (snd x)) \<le>
       retained_of (case by_name (fst x) of Some c \<Rightarrow> c | None \<Rightarrow> PNone)"

text \<open>
  After the test for duplicates, the test for monotonicity can no longer fail: it is asked of a
  sorted list without repetition.
\<close>

lemma sorted_increasing:
  "sorted xs \<Longrightarrow> distinct xs \<Longrightarrow> \<not> list_ex (\<lambda>(l, r). r \<le> l) (zip xs (List.tl xs))" for xs :: "int list"
proof (induction xs rule: induct_list012)
  case (3 x y zs)
  then show ?case by auto
qed simp_all

interpretation sequence_loop: collect_loop "check_channel_step by_name" "sorted_records by_name"
  for by_name
proof
  fix i :: nat and x :: "string \<times> pyval list" and acc acc' :: channel_records
  let ?sorted = "sort_key sequence_of (snd x)"
  let ?seqs = "map sequence_of ?sorted"
  have dist: "distinct ?seqs \<longleftrightarrow> distinct (map sequence_of (snd x))"
    by (simp add: distinct_map)
  have "distinct ?seqs \<Longrightarrow> \<not> list_ex (\<lambda>(l, r). r \<le> l) (zip ?seqs (List.tl ?seqs))"
    by (rule sorted_increasing) simp_all
  then show "check_channel_step by_name i x acc = Inr acc' \<longleftrightarrow>
      (\<exists>y. sorted_records by_name x y \<and> acc' = acc @ [y])"
    unfolding check_channel_step_def sorted_records_def Let_def retained_of_def
    by (auto simp: result_simps dist not_less)
qed

end
