(* ===== verification/ReleasesPolicy.thy ===== *)
theory ReleasesPolicy
  imports ReleasesSpec
begin

text \<open>
  The last two phases of \<^verbatim>\<open>validate\<close> in \<^verbatim>\<open>scripts/verify_release_channels.py\<close>,
  the records of each channel and the promotions, and the declarative form of the whole policy:
  \<open>release_validate_iff\<close> says that the validator succeeds exactly on the policies that satisfy
  \<open>release_policy_ok\<close>, and what counters it then returns.
\<close>

section \<open>Promotions\<close>

interpretation promoted_fields: plain_loop
  "promoted_field_step channel_name previous_name release source"
  "\<lambda>i name. py_eq (field release name) (field source name)" "\<lambda>x u. u"
  for channel_name previous_name release source
  by unfold_locales (auto simp: promoted_field_step_def)

definition same_artifacts :: "pyval \<Rightarrow> pyval \<Rightarrow> bool" where
  "same_artifacts release source \<longleftrightarrow>
     list_all (\<lambda>name. py_eq (field release name) (field source name)) immutable_promotion_fields"

lemma promoted_fields_iff:
  "forE (promoted_field_step channel_name previous_name release source) 0
     immutable_promotion_fields () = Inr u \<longleftrightarrow> same_artifacts release source"
  by (simp add: promoted_fields.loop_iff list_all_length same_artifacts_def)

definition published_ok :: "pyval \<Rightarrow> bool" where
  "published_ok release \<longleftrightarrow> is_utc (str_of (field release ''published_at'')) (published_of release)"

definition promotion_ok :: "pyval list \<Rightarrow> pyval \<Rightarrow> bool" where
  "promotion_ok previous release \<longleftrightarrow>
     (\<exists>source. promotion_source previous release = Some source \<and> same_artifacts release source \<and>
        published_ok release \<and> published_ok source \<and>
        published_of source \<le> published_of release)"

lemma promotion_step_iff:
  "promotion_step channel_name previous_name previous i release () = Inr () \<longleftrightarrow>
     promotion_ok previous release"
proof -
  have time: "(\<exists>t. is_utc (str_of v) t \<and> P t) \<longleftrightarrow>
      is_utc (str_of v) (time_of v) \<and> P (time_of v)" for v P
    by (metis time_of_utc)
  show ?thesis
  proof (cases "promotion_source previous release")
    case None
    then show ?thesis by (simp add: promotion_step_def promotion_ok_def)
  next
    case (Some source)
    then show ?thesis
      unfolding promotion_step_def promotion_ok_def published_ok_def published_of_def
        release_timestamp_def
      by (simp only: option.case bindE_Inr_iff promoted_fields_iff utc_timestamp_iff time
          guard_Inr_iff ex_not_late timestamp_less_False ex_unit simp_thms option.inject conj_assoc ex_simps)
  qed
qed

lemma channel_promotion_step_iff:
  "channel_promotion_step records i c () = Inr () \<longleftrightarrow>
     (\<forall>r \<in> set (records_in records c). promotion_ok (records_in records (previous_channel c)) r)"
  unfolding channel_promotion_step_def Let_def by (rule forE_unit_iff) (rule promotion_step_iff)

lemma promotion_loop_iff:
  "forE (channel_promotion_step records) 0 cs () = Inr () \<longleftrightarrow>
     (\<forall>c \<in> set cs. \<forall>r \<in> set (records_in records c).
        promotion_ok (records_in records (previous_channel c)) r)"
  by (rule forE_unit_iff) (rule channel_promotion_step_iff)

lemma previous_channels [simp]:
  "previous_channel ''testing'' = ''development''" "previous_channel ''stable'' = ''testing''"
  by (simp_all add: previous_channel_def channels_def)

section \<open>The records of a channel\<close>

definition releases_of :: "pyval \<Rightarrow> pyval list" where
  "releases_of policy = list_of (field policy ''active_releases'')"

definition in_channel :: "pyval list \<Rightarrow> string \<Rightarrow> pyval list" where
  "in_channel releases c = filter (\<lambda>r. channel_name_of r = c) releases"

definition entry_of :: "channel_table \<Rightarrow> string \<Rightarrow> pyval" where
  "entry_of by_name c = (case by_name c of Some e \<Rightarrow> e | None \<Rightarrow> PNone)"

definition retention_ok :: "channel_table \<Rightarrow> pyval list \<Rightarrow> string \<Rightarrow> bool" where
  "retention_ok by_name releases c \<longleftrightarrow>
     distinct (map sequence_of (in_channel releases c)) \<and>
     int (length (in_channel releases c)) \<le> retained_of (entry_of by_name c)"

lemma sorted_records_in:
  "list_all2 (sorted_records by_name) xs ys \<Longrightarrow>
     records_in ys c = sort_key sequence_of (records_in xs c)"
proof (induction rule: list_all2_induct)
  case (Cons x xs y ys)
  then show ?case by (cases x; cases y) (auto simp: records_in_def sorted_records_def)
qed (simp add: records_in_def)

lemma sorted_records_exist:
  "(\<exists>ys. list_all2 (sorted_records by_name) xs ys) \<longleftrightarrow>
     (\<forall>x \<in> set xs. distinct (map sequence_of (snd x)) \<and>
        int (length (snd x)) \<le> retained_of (entry_of by_name (fst x)))"
proof (induction xs)
  case (Cons x xs)
  have "(\<exists>y. sorted_records by_name x y) \<longleftrightarrow> distinct (map sequence_of (snd x)) \<and>
        int (length (snd x)) \<le> retained_of (entry_of by_name (fst x))"
    by (auto simp: sorted_records_def entry_of_def)
  with Cons.IH show ?case by (auto simp: list_all2_Cons1)
qed auto

lemma records_in_key: "distinct (map fst rs) \<Longrightarrow> (c, xs) \<in> set rs \<Longrightarrow> records_in rs c = xs"
  by (simp add: records_in_def)

lemma records_all:
  assumes "distinct (map fst rs)"
  shows "(\<forall>x \<in> set rs. P (fst x) (snd x)) \<longleftrightarrow> (\<forall>c \<in> fst ` set rs. P c (records_in rs c))"
  using records_in_key [OF assms] by (auto simp del: split_paired_All)

definition collected :: "pyval list \<Rightarrow> channel_records" where
  "collected releases = by_channel (fold release_collect releases no_releases)"

lemma collected_records: "records_in (collected releases) c = in_channel releases c"
  by (simp add: collected_def records_collected in_channel_def) (simp add: no_releases_def records_in_def)

lemma collected_channels:
  "distinct (map fst (collected releases))"
  "fst ` set (collected releases) = channel_name_of ` set releases"
  using channels_collected [of no_releases releases] by (simp_all add: collected_def no_releases_def)

lemma sequence_phase_iff:
  "forE (check_channel_step by_name) 0 (collected releases) [] = Inr records \<longleftrightarrow>
     list_all2 (sorted_records by_name) (collected releases) records"
  by (simp add: sequence_loop.collect_iff)

lemma retention_exists:
  "(\<exists>records. list_all2 (sorted_records by_name) (collected releases) records) \<longleftrightarrow>
     (\<forall>c \<in> channel_name_of ` set releases. retention_ok by_name releases c)"
  unfolding sorted_records_exist retention_ok_def
  by (subst records_all [where P = "\<lambda>c rs. distinct (map sequence_of rs) \<and>
      int (length rs) \<le> retained_of (entry_of by_name c)", OF collected_channels(1)])
    (simp only: collected_channels(2) collected_records)

section \<open>The policy\<close>

definition promotions_ok :: "pyval list \<Rightarrow> bool" where
  "promotions_ok releases \<longleftrightarrow>
     (\<forall>c \<in> {''testing'', ''stable''}. \<forall>r \<in> set (in_channel releases c).
        promotion_ok (sort_key sequence_of (in_channel releases (previous_channel c))) r)"

lemma phases_iff:
  "(\<exists>records. forE (check_channel_step by_name) 0 (collected releases) [] = Inr records \<and>
      forE (channel_promotion_step records) 0 [''testing'', ''stable''] () = Inr ()) \<longleftrightarrow>
     (\<forall>c \<in> channel_name_of ` set releases. retention_ok by_name releases c) \<and>
     promotions_ok releases"
  unfolding sequence_phase_iff promotion_loop_iff retention_exists [symmetric] promotions_ok_def
  by (auto simp: sorted_records_in collected_records)

definition release_policy_ok ::
    "(string \<Rightarrow> pyval option) \<Rightarrow> (string \<Rightarrow> pyval option) \<Rightarrow> fs \<Rightarrow> pure_path \<Rightarrow>
     statuses \<Rightarrow> channel_table \<Rightarrow> pyval \<Rightarrow> bool" where
  "release_policy_ok json toml fs root readiness by_name policy \<longleftrightarrow>
     has_fields [''format'', ''distribution'', ''channels'', ''mirrors'', ''promotion'',
       ''active_releases''] policy \<and>
     field policy ''format'' = PInt 1 \<and> field policy ''distribution'' = PStr ''ArachOS'' \<and>
     is_list (field policy ''channels'') \<and>
     channels_ok readiness (list_of (field policy ''channels'')) by_name \<and>
     py_eq (field policy ''mirrors'') mirror_policy \<and>
     py_eq (field policy ''promotion'') promotion_policy \<and>
     is_list (field policy ''active_releases'') \<and>
     (\<forall>r \<in> set (releases_of policy).
        release_ok json toml fs root (field policy ''mirrors'') readiness by_name r) \<and>
     distinct (map release_key (releases_of policy)) \<and>
     (\<forall>c \<in> channel_name_of ` set (releases_of policy).
        retention_ok by_name (releases_of policy) c) \<and>
     promotions_ok (releases_of policy)"

lemma release_loop_all:
  "forE (release_step json toml fs root mirrors readiness by_name) 0 releases no_releases =
     Inr acc \<longleftrightarrow>
     (\<forall>r \<in> set releases. release_ok json toml fs root mirrors readiness by_name r) \<and>
     distinct (map release_key releases) \<and> acc = fold release_collect releases no_releases"
  by (simp add: release_loop.loop_iff no_releases_def all_set_conv_all_nth)

lemma channels_length:
  "length entries = length channels \<and>
     forE (channel_step readiness) 0 (zip channels entries) (\<lambda>_. None) = Inr by_name \<longleftrightarrow>
     channels_ok readiness entries by_name"
  by (metis channel_loop_iff channels_ok_def)

lemma release_counts:
  "channel_counts (fold release_collect releases no_releases) =
     count_list (map channel_name_of releases)"
  by (rule ext) (simp add: counts_collected, simp add: no_releases_def)

theorem release_validate_iff:
  "release_validate json toml fs root policy = Inr counts \<longleftrightarrow>
     (\<exists>readiness by_name. readiness_status json fs root = Inr readiness \<and>
        release_policy_ok json toml fs root readiness by_name policy) \<and>
     counts = count_list (map channel_name_of (releases_of policy))"
proof -
  let ?entries = "list_of (field policy ''channels'')"
  have phases: "(\<exists>records. forE (check_channel_step by_name) 0
        (by_channel (fold release_collect releases no_releases)) [] = Inr records \<and>
      forE (channel_promotion_step records) 0 [''testing'', ''stable''] () = Inr () \<and> Q) \<longleftrightarrow>
     (\<forall>c \<in> channel_name_of ` set releases. retention_ok by_name releases c) \<and>
     promotions_ok releases \<and> Q" for by_name releases Q
    using phases_iff [of by_name releases] unfolding collected_def by blast
  have one: "(\<exists>acc. a \<and> d \<and> acc = k \<and> P acc) \<longleftrightarrow> a \<and> d \<and> P k"
    for a d and k :: releases_acc and P
    by blast
  have table: "\<And>P. (length ?entries = length channels \<and> (\<exists>readiness. readiness_status json fs root =
        Inr readiness \<and> (\<exists>by_name. forE (channel_step readiness) 0 (zip channels ?entries)
        (\<lambda>_. None) = Inr by_name \<and> P readiness by_name))) \<longleftrightarrow>
      (\<exists>readiness. readiness_status json fs root = Inr readiness \<and>
        (\<exists>by_name. channels_ok readiness ?entries by_name \<and> P readiness by_name))"
    using channels_length [of ?entries] by blast
  have form: "int_that (\<lambda>n. n = 1) v \<longleftrightarrow> v = PInt 1" for v by auto
  show ?thesis
    unfolding release_validate_def release_policy_ok_def Let_def releases_of_def [symmetric]
    by (simp only: guard_Inr_iff bindE_Inr_iff release_loop_all one phases release_counts form
        ex_unit table py_eq_str not_not de_Morgan_disj conj_assoc sum.inject) blast
qed

end
