(* ===== verification/ReleasesSample.thy ===== *)
theory ReleasesSample
  imports ReleasesPolicy ReadinessSample
begin

text \<open>
  A release policy for the repository of theory \<open>ReadinessSample\<close>, accepted by the validator
  (\<open>sample_policy_accepted\<close>): one release promoted from development through testing to stable,
  each record backed by the same retained release report. It is the input of the witnesses of
  theory \<open>ReleasesProps\<close>.
\<close>

definition report_path :: string where
  "report_path = ''production/evidence/release-operations/report.json''"

definition lock_path :: string where
  "lock_path = ''production/evidence/release-operations/lock.toml''"

definition sample_report :: pyval where
  "sample_report =
     PDict [(''format'', PInt 1), (''distribution'', PStr ''ArachOS''),
       (''revision'', PStr sample_revision), (''components_lock'', PStr lock_path),
       (''components_lock_sha256'', PStr sample_digest),
       (''package_generation_sha256'', PStr sample_digest), (''image_sha256'', PStr sample_digest),
       (''signature_sha256'', PStr sample_digest)]"

definition sample_json :: "string \<Rightarrow> pyval option" where
  "sample_json text = Some (if text = ''ledger'' then sample_ledger else sample_report)"

definition release_entry :: pyval where
  "release_entry =
     PDict [(''kind'', PStr ''release-report''), (''path'', PStr report_path),
       (''sha256'', PStr sample_digest), (''captured_at'', PStr sample_time),
       (''revision'', PStr sample_revision), (''environment'', PStr ''hardware-lab'')]"

definition sample_release :: "string \<Rightarrow> pyval \<Rightarrow> pyval" where
  "sample_release c promoted =
     PDict [(''channel'', PStr c), (''sequence'', PInt 1), (''version'', PStr ''1.0.0''),
       (''published_at'', PStr sample_time), (''revision'', PStr sample_revision),
       (''components_lock_sha256'', PStr sample_digest),
       (''package_generation_sha256'', PStr sample_digest), (''image_sha256'', PStr sample_digest),
       (''signature_sha256'', PStr sample_digest), (''promoted_from_sequence'', promoted),
       (''soak_seconds'', PInt 0), (''mirror_count'', PInt 2), (''rollback_tested'', PBool True),
       (''advisory'', PStr ''production/advisory.md''), (''evidence'', PList [release_entry])]"

definition sample_channel :: "nat \<Rightarrow> string \<Rightarrow> pyval" where
  "sample_channel i c =
     PDict [(''name'', PStr c), (''rank'', PInt (int i)), (''retained_generations'', PInt 2),
       (''minimum_soak_seconds'', PInt 0),
       (''required_readiness_gates'', PList [PStr ''linux-posix-compatibility'']),
       (''required_evidence'', PList [PStr ''release-report'']),
       (''allow_direct_publish'', PBool (c = ''development'')), (''rollback_generations'', PInt 1)]"

definition sample_entries :: "pyval list" where
  "sample_entries =
     [sample_channel 0 ''development'', sample_channel 1 ''testing'', sample_channel 2 ''stable'']"

definition sample_releases :: "pyval list" where
  "sample_releases =
     [sample_release ''development'' PNone, sample_release ''testing'' (PInt 1),
      sample_release ''stable'' (PInt 1)]"

definition sample_policy :: pyval where
  "sample_policy =
     PDict [(''format'', PInt 1), (''distribution'', PStr ''ArachOS''),
       (''channels'', PList sample_entries), (''mirrors'', mirror_policy),
       (''promotion'', promotion_policy), (''active_releases'', PList sample_releases)]"

section \<open>Statuses and channels\<close>

definition sample_statuses :: statuses where
  "sample_statuses = fold (\<lambda>g m. m(str_of (field g ''id'') \<mapsto> status_of g)) sample_gates (\<lambda>_. None)"

lemma ledger_file:
  "release_load sample_json ledger_tree (join sample_root release_readiness_path) =
     Inr sample_ledger"
proof -
  have "\<not> not_regular ledger_tree (join sample_root release_readiness_path)"
    "read_text ledger_tree (join sample_root release_readiness_path) = Inr ''ledger''"
    by code_simp+
  then show ?thesis by (simp add: release_load_def sample_json_def sample_ledger_def)
qed

lemma sample_gate_identity:
  "list_all (\<lambda>g. is_dict g \<and> str_that (\<lambda>s. True) (field g ''id'') \<and>
     str_that (\<lambda>s. True) (field g ''status'')) (map ledger_gate rows)"
proof (induction rows)
  case (Cons r rows)
  then show ?case by (cases r; cases "fst r") simp
qed simp

lemma sample_statuses_read:
  "readiness_status sample_json ledger_tree sample_root = Inr sample_statuses"
proof -
  have ids: "distinct (map (\<lambda>g. str_of (field g ''id'')) sample_gates)"
    using gates_distinct [OF sample_gates_ok] by (simp add: gate_id_def [abs_def])
  have ok: "\<forall>j < length sample_gates. is_dict (sample_gates ! j) \<and>
      str_that (\<lambda>s. True) (field (sample_gates ! j) ''id'') \<and>
      str_that (\<lambda>s. True) (field (sample_gates ! j) ''status'')"
    using sample_gate_identity [of ledger_rows] by (simp add: sample_gates_def list_all_length)
  show ?thesis
    using ids ok
    by (simp add: readiness_status_def ledger_file sample_ledger_def status_entries.loop_iff
        sample_statuses_def)
qed

lemma sample_required: "sample_statuses ''linux-posix-compatibility'' = Some ''qualified''"
  unfolding sample_statuses_def sample_gates_def status_of_def by code_simp

definition sample_table :: channel_table where
  "sample_table = map_of (zip channels sample_entries)"

lemma sample_channel_fields:
  "has_fields channel_fields (sample_channel i c)"
  "field (sample_channel i c) ''name'' = PStr c"
  "field (sample_channel i c) ''rank'' = PInt (int i)"
  "field (sample_channel i c) ''retained_generations'' = PInt 2"
  "field (sample_channel i c) ''minimum_soak_seconds'' = PInt 0"
  "field (sample_channel i c) ''rollback_generations'' = PInt 1"
  "field (sample_channel i c) ''required_readiness_gates'' =
     PList [PStr ''linux-posix-compatibility'']"
  "field (sample_channel i c) ''required_evidence'' = PList [PStr ''release-report'']"
  "field (sample_channel i c) ''allow_direct_publish'' = PBool (c = ''development'')"
  by (auto simp: sample_channel_def channel_fields_def)

lemma release_words: "\<not> blank ''linux-posix-compatibility''" "\<not> blank ''release-report''"
  by code_simp+

lemma sample_channel_ok: "channel_ok sample_statuses i c (sample_channel i c)"
  unfolding channel_ok_def retained_of_def release_texts_ok_def sample_channel_fields texts_def
  using sample_required release_words
  by (simp add: sample_channel_fields release_evidence_kinds_def)

lemma sample_channels_ok: "channels_ok sample_statuses sample_entries sample_table"
  using sample_channel_ok [of 0] sample_channel_ok [of 1] sample_channel_ok [of 2]
  by (auto simp: channels_ok_def sample_entries_def channels_def less_Suc_eq sample_table_def
      numeral_2_eq_2)

section \<open>Evidence and the release report\<close>

lemma release_entry_fields_of:
  "has_fields release_entry_fields release_entry"
  "field release_entry ''kind'' = PStr ''release-report''"
  "field release_entry ''path'' = PStr report_path"
  "field release_entry ''sha256'' = PStr sample_digest"
  "field release_entry ''captured_at'' = PStr sample_time"
  "field release_entry ''revision'' = PStr sample_revision"
  "field release_entry ''environment'' = PStr ''hardware-lab''"
  "path_of release_entry = report_path" "revision_of release_entry = sample_revision"
  by (auto simp: release_entry_def release_entry_fields_def path_of_def revision_of_def)

lemma sample_release_fields:
  "has_fields release_fields (sample_release c p)"
  "field (sample_release c p) ''channel'' = PStr c"
  "field (sample_release c p) ''sequence'' = PInt 1"
  "field (sample_release c p) ''version'' = PStr ''1.0.0''"
  "field (sample_release c p) ''published_at'' = PStr sample_time"
  "field (sample_release c p) ''revision'' = PStr sample_revision"
  "field (sample_release c p) ''components_lock_sha256'' = PStr sample_digest"
  "field (sample_release c p) ''package_generation_sha256'' = PStr sample_digest"
  "field (sample_release c p) ''image_sha256'' = PStr sample_digest"
  "field (sample_release c p) ''signature_sha256'' = PStr sample_digest"
  "field (sample_release c p) ''promoted_from_sequence'' = p"
  "field (sample_release c p) ''soak_seconds'' = PInt 0"
  "field (sample_release c p) ''mirror_count'' = PInt 2"
  "field (sample_release c p) ''rollback_tested'' = PBool True"
  "field (sample_release c p) ''advisory'' = PStr ''production/advisory.md''"
  "field (sample_release c p) ''evidence'' = PList [release_entry]"
  "evidence_of (sample_release c p) = [release_entry]"
  by (auto simp: sample_release_def release_fields_def evidence_of_def)

lemma retained_sample:
  "retained_ok ledger_tree sample_root report_path" "retained_ok ledger_tree sample_root lock_path"
  "read_bytes ledger_tree (join sample_root report_path) = Inr sample_artifact"
  "read_bytes ledger_tree (join sample_root lock_path) = Inr sample_artifact"
  "strict_safe_relative report_path" "strict_safe_relative lock_path"
  "\<not> is_placeholder_evidence report_path sample_artifact"
  "join sample_root lock_path \<noteq> join sample_root report_path"
proof -
  have "relative_to (join sample_root report_path) sample_root =
      Some [''production'', ''evidence'', ''release-operations'', ''report.json'']"
    "relative_to (join sample_root lock_path) sample_root =
      Some [''production'', ''evidence'', ''release-operations'', ''lock.toml'']"
    by code_simp+
  moreover have "\<not> traverses_symlink ledger_tree sample_root
        [''production'', ''evidence'', ''release-operations'', ''report.json'']"
    "\<not> traverses_symlink ledger_tree sample_root
        [''production'', ''evidence'', ''release-operations'', ''lock.toml'']"
    "relative_to (join sample_root report_path) (join sample_root release_evidence_root) \<noteq> None"
    "relative_to (join sample_root lock_path) (join sample_root release_evidence_root) \<noteq> None"
    "is_file ledger_tree (join sample_root report_path)"
    "is_file ledger_tree (join sample_root lock_path)"
    by code_simp+
  ultimately show "retained_ok ledger_tree sample_root report_path"
    "retained_ok ledger_tree sample_root lock_path"
    by (simp_all add: retained_ok_def)
qed code_simp+

lemma sample_stamp_of:
  "time_of (PStr sample_time) = sample_stamp" "is_utc sample_time (time_of (PStr sample_time))"
  using sample_time_utc by (auto simp: time_of_def is_utc_def)

lemma release_entry_accepted:
  "release_entry_ok ledger_tree sample_root (sample_release c p) release_entry"
  unfolding release_entry_ok_def
  using retained_sample(1,3,5,7) sample_revision_ok sample_revision_real sample_stamp_of
  by (simp add: release_entry_fields_of sample_release_fields sha256_sample
      release_evidence_kinds_def release_environments_def)

lemma release_entries_accepted:
  "release_entries_ok ledger_tree sample_root (sample_release c p)"
  using release_entry_accepted
  by (simp add: release_entries_ok_def sample_release_fields release_entry_fields_of)

lemma sample_report_fields:
  "has_fields release_report_fields sample_report"
  "field sample_report ''format'' = PInt 1" "field sample_report ''distribution'' = PStr ''ArachOS''"
  "field sample_report ''revision'' = PStr sample_revision"
  "field sample_report ''components_lock'' = PStr lock_path"
  "field sample_report ''components_lock_sha256'' = PStr sample_digest"
  "field sample_report ''package_generation_sha256'' = PStr sample_digest"
  "field sample_report ''image_sha256'' = PStr sample_digest"
  "field sample_report ''signature_sha256'' = PStr sample_digest"
  by (auto simp: sample_report_def release_report_fields_def)

lemma sample_report_loaded:
  "release_load sample_json ledger_tree (join sample_root report_path) = Inr sample_report"
proof -
  have "\<not> not_regular ledger_tree (join sample_root report_path)"
    "read_text ledger_tree (join sample_root report_path) = Inr sample_artifact"
    "sample_artifact \<noteq> ''ledger''"
    by code_simp+
  then show ?thesis by (simp add: release_load_def sample_json_def sample_report_def)
qed

lemma release_lock_accepted: "report_lock_ok sample_toml sample_artifact"
proof -
  have "utf8_valid sample_artifact" by code_simp
  moreover have "report_component_ok (PDict [(''name'', PStr ''arach''),
      (''repository'', PStr ''https://example.org/arach''), (''revision'', PStr sample_revision),
      (''role'', PStr ''kernel'')])"
    using sample_revision_ok sample_revision_real by (auto simp: report_component_ok_def)
  ultimately show ?thesis
    by (auto simp: report_lock_ok_def sample_toml_def release_lock_def)
qed

lemma sample_report_ok:
  "report_ok sample_json sample_toml ledger_tree sample_root (sample_release c p)"
proof -
  have "report_entries (sample_release c p) = [release_entry]"
    by (simp add: report_entries_def sample_release_fields release_entry_fields_of)
  then show ?thesis
    using retained_sample release_lock_accepted
    by (simp add: report_ok_def release_entry_fields_of sample_report_loaded sample_report_fields
        sample_release_fields immutable_promotion_fields_def sha256_sample)
qed

section \<open>The releases and the policy\<close>

lemma sample_release_readers:
  "channel_name_of (sample_release c p) = c" "sequence_of (sample_release c p) = 1"
  "release_key (sample_release c p) = (c, ''1.0.0'')"
  "published_of (sample_release c p) = sample_stamp"
  "revision_of (sample_release c p) = sample_revision"
  by (simp_all add: channel_name_of_def sequence_of_def release_key_def version_of_def
      published_of_def revision_of_def sample_release_fields sample_stamp_of)

lemma sample_release_ok:
  assumes "sample_table c = Some (sample_channel i c)"
    and "if c = ''development'' then p = PNone else p = PInt 1"
  shows "release_ok sample_json sample_toml ledger_tree sample_root mirror_policy sample_statuses
    sample_table (sample_release c p)"
proof -
  have version: "fullmatch VERSION_RE ''1.0.0''" by code_simp
  have mirrors: "int_less 2 (field mirror_policy ''minimum_quorum'') = Inr False" by code_simp
  have advisory: "strict_safe_relative ''production/advisory.md''"
    "\<not> not_regular ledger_tree (join sample_root ''production/advisory.md'')"
    by code_simp+
  have channel: "channel_of sample_table (sample_release c p) = sample_channel i c"
    using assms(1) by (simp add: channel_of_def sample_release_readers)
  have "release_shape_ok sample_table (sample_release c p)"
    using assms(1) version sample_revision_ok sample_revision_real sample_digest_real sample_time_utc
    by (simp add: release_shape_ok_def sample_release_fields sample_release_readers
        digest_fields_of_def)
  moreover have "release_safeguards_ok ledger_tree sample_root mirror_policy sample_statuses
      (sample_channel i c) (sample_release c p)"
    using mirrors advisory sample_required
    by (simp add: release_safeguards_ok_def sample_release_fields sample_channel_fields texts_def)
  moreover have "release_backing_ok sample_json sample_toml ledger_tree sample_root
      (sample_channel i c) (sample_release c p)"
    using release_entries_accepted sample_report_ok
    by (simp add: release_backing_ok_def sample_release_fields sample_channel_fields texts_def
        kinds_of_def release_entry_fields_of times_of_def sample_release_readers sample_stamp_of
        sample_stamp_def)
  moreover have "promoted_rule (sample_release c p)"
    using assms(2) by (auto simp: promoted_rule_def sample_release_readers sample_release_fields)
  ultimately show ?thesis by (simp add: release_ok_def channel)
qed

lemma sample_table_entries:
  "sample_table ''development'' = Some (sample_channel 0 ''development'')"
  "sample_table ''testing'' = Some (sample_channel 1 ''testing'')"
  "sample_table ''stable'' = Some (sample_channel 2 ''stable'')"
  by (simp_all add: sample_table_def sample_entries_def channels_def)

lemma sample_releases_ok:
  "\<forall>r \<in> set sample_releases. release_ok sample_json sample_toml ledger_tree sample_root
     mirror_policy sample_statuses sample_table r"
  using sample_table_entries [THEN sample_release_ok] by (simp add: sample_releases_def)

lemma sample_in_channel:
  "in_channel sample_releases ''development'' = [sample_release ''development'' PNone]"
  "in_channel sample_releases ''testing'' = [sample_release ''testing'' (PInt 1)]"
  "in_channel sample_releases ''stable'' = [sample_release ''stable'' (PInt 1)]"
  by (simp_all add: in_channel_def sample_releases_def sample_release_readers)

lemma sample_promotion_ok: "promotion_ok [sample_release c p] (sample_release d (PInt 1))"
  by (simp add: promotion_ok_def promotion_source_def sample_release_fields sample_release_readers
      same_artifacts_def immutable_promotion_fields_def published_ok_def sample_time_utc
      sample_stamp_def [symmetric])

lemma sample_policy_ok:
  "release_policy_ok sample_json sample_toml ledger_tree sample_root sample_statuses sample_table
     sample_policy"
proof -
  have policies: "py_eq mirror_policy mirror_policy" "py_eq promotion_policy promotion_policy"
    by code_simp+
  have fields: "has_fields [''format'', ''distribution'', ''channels'', ''mirrors'', ''promotion'',
       ''active_releases''] sample_policy"
    "field sample_policy ''format'' = PInt 1" "field sample_policy ''distribution'' = PStr ''ArachOS''"
    "field sample_policy ''channels'' = PList sample_entries"
    "field sample_policy ''mirrors'' = mirror_policy"
    "field sample_policy ''promotion'' = promotion_policy"
    "field sample_policy ''active_releases'' = PList sample_releases"
    by (auto simp: sample_policy_def)
  have releases: "releases_of sample_policy = sample_releases"
    by (simp add: releases_of_def fields)
  have names: "channel_name_of ` set sample_releases = {''development'', ''testing'', ''stable''}"
    by (simp add: sample_releases_def sample_release_readers)
  have retention: "\<forall>c \<in> {''development'', ''testing'', ''stable''}.
      retention_ok sample_table sample_releases c"
    by (simp add: retention_ok_def sample_in_channel sample_release_readers entry_of_def
        sample_table_entries retained_of_def sample_channel_fields)
  have promotions: "promotions_ok sample_releases"
    by (simp add: promotions_ok_def sample_in_channel sample_promotion_ok)
  have keys: "distinct (map release_key sample_releases)"
    by (simp add: sample_releases_def sample_release_readers)
  show ?thesis
    unfolding release_policy_ok_def releases names
    using fields policies sample_channels_ok sample_releases_ok retention promotions keys by simp
qed

theorem sample_policy_accepted:
  "\<exists>counts. release_validate sample_json sample_toml ledger_tree sample_root sample_policy = Inr counts"
  unfolding release_validate_iff using sample_statuses_read sample_policy_ok by blast

end
