(* ===== verification/ReleasesProps.thy ===== *)
theory ReleasesProps
  imports ReleasesSample
begin

text \<open>
  The properties of the release channel policy: what an accepted policy says of its active
  releases, their promotions and their channels.
\<close>

section \<open>Accepted policies\<close>

definition channels_of :: "pyval \<Rightarrow> pyval list" where
  "channels_of policy = list_of (field policy ''channels'')"

definition promoted_from :: "pyval \<Rightarrow> int" where
  "promoted_from release = int_of (field release ''promoted_from_sequence'')"

lemma accepted_policy:
  assumes "release_validate json toml fs root policy = Inr counts"
  obtains readiness by_name where "readiness_status json fs root = Inr readiness"
    and "release_policy_ok json toml fs root readiness by_name policy"
    and "counts = count_list (map channel_name_of (releases_of policy))"
  using assms unfolding release_validate_iff by blast

lemma accepted_release:
  assumes "release_policy_ok json toml fs root readiness by_name policy"
    and "r \<in> set (releases_of policy)"
  shows "release_ok json toml fs root (field policy ''mirrors'') readiness by_name r"
  using assms by (simp add: release_policy_ok_def)

lemma accepted_channel:
  assumes "release_policy_ok json toml fs root readiness by_name policy"
    and "r \<in> set (releases_of policy)"
  shows "\<exists>i < 3. channel_name_of r = channels ! i \<and> channel_of by_name r = channels_of policy ! i \<and>
    channel_ok readiness i (channels ! i) (channels_of policy ! i)"
proof -
  have "by_name (channel_name_of r) \<noteq> None"
    using accepted_release [OF assms]
    by (auto simp: release_ok_def release_shape_ok_def channel_name_of_def)
  moreover have table: "channels_ok readiness (channels_of policy) by_name"
    using assms(1) by (simp add: release_policy_ok_def channels_of_def)
  ultimately have "channel_name_of r \<in> set channels"
    by (auto simp: channels_ok_def)
  then obtain i where "i < length channels" "channel_name_of r = channels ! i"
    by (metis in_set_conv_nth)
  with table show ?thesis
    by (intro exI [of _ i]) (auto simp: channels_ok_def channel_of_def channels_def)
qed

section \<open>Promotion\<close>

lemma promotion_source_member:
  "promotion_source previous r = Some s \<Longrightarrow> s \<in> set previous \<and> sequence_of s = promoted_from r"
  by (auto simp: promotion_source_def promoted_from_def dest!: map_of_SomeD)

lemma same_artifacts_eq:
  assumes "release_shape_ok by_name s" and "same_artifacts r s"
    and "name \<in> set immutable_promotion_fields"
  shows "field r name = field s name"
  using assms
  by (auto simp: release_shape_ok_def same_artifacts_def immutable_promotion_fields_def
      digest_fields_of_def)

text \<open>A release of a channel after the first and the release it was promoted from.\<close>

definition promoted_by :: "pyval list \<Rightarrow> pyval \<Rightarrow> pyval \<Rightarrow> bool" where
  "promoted_by releases r s \<longleftrightarrow>
     s \<in> set releases \<and> sequence_of s = promoted_from r \<and>
     (\<forall>name \<in> set immutable_promotion_fields. field r name = field s name) \<and>
     published_of s \<le> published_of r"

lemma promoted_exists:
  assumes ok: "release_policy_ok json toml fs root readiness by_name policy"
    and r: "r \<in> set (releases_of policy)" "channel_name_of r \<in> {''testing'', ''stable''}"
  shows "\<exists>s. promoted_by (releases_of policy) r s \<and>
    channel_name_of s = previous_channel (channel_name_of r)"
proof -
  let ?c = "channel_name_of r"
  have "r \<in> set (in_channel (releases_of policy) ?c)"
    using r(1) by (simp add: in_channel_def)
  with ok r(2) have
    "promotion_ok (sort_key sequence_of (in_channel (releases_of policy) (previous_channel ?c))) r"
    unfolding release_policy_ok_def promotions_ok_def by blast
  then obtain s where s: "s \<in> set (in_channel (releases_of policy) (previous_channel ?c))"
      "sequence_of s = promoted_from r" "same_artifacts r s"
      "published_of s \<le> published_of r"
    unfolding promotion_ok_def by (metis promotion_source_member set_sort)
  then have member: "s \<in> set (releases_of policy)" "channel_name_of s = previous_channel ?c"
    by (simp_all add: in_channel_def)
  have "release_shape_ok by_name s"
    using accepted_release [OF ok member(1)] by (simp add: release_ok_def)
  with s member show ?thesis
    unfolding promoted_by_def using same_artifacts_eq by blast
qed

text \<open>
  C21. What reaches stable was built once: every stable release of an accepted policy has a testing
  release that it names as its source, which has a development release that it names as its
  source, and revision, component lock, package generation, image and signature of the three
  are the same. None is published before its source, so stable is not published before
  development.
\<close>

theorem release_stable_is_promoted_unchanged:
  assumes "release_validate json toml fs root policy = Inr counts"
    and "r \<in> set (releases_of policy)" and "channel_name_of r = ''stable''"
  shows "\<exists>t d. promoted_by (releases_of policy) r t \<and> channel_name_of t = ''testing'' \<and>
    promoted_by (releases_of policy) t d \<and> channel_name_of d = ''development'' \<and>
    (\<forall>name \<in> set immutable_promotion_fields. field r name = field d name) \<and>
    published_of d \<le> published_of r"
proof -
  obtain readiness by_name where ok: "release_policy_ok json toml fs root readiness by_name policy"
    using assms(1) by (rule accepted_policy)
  obtain t where t: "promoted_by (releases_of policy) r t" "channel_name_of t = ''testing''"
    using promoted_exists [OF ok assms(2)] assms(3) by auto
  moreover obtain d where d: "promoted_by (releases_of policy) t d"
      "channel_name_of d = ''development''"
    using promoted_exists [OF ok, of t] t by (auto simp: promoted_by_def)
  moreover have "published_of d \<le> published_of r"
    using t(1) d(1) by (auto simp: promoted_by_def)
  ultimately show ?thesis by (auto simp: promoted_by_def)
qed

lemma sample_counts:
  obtains counts where
    "release_validate sample_json sample_toml ledger_tree sample_root sample_policy = Inr counts"
  using sample_policy_accepted by blast

lemma sample_releases_of: "releases_of sample_policy = sample_releases"
  by (simp add: releases_of_def sample_policy_def)

theorem release_stable_is_promoted_unchanged_witness:
  "\<exists>t. promoted_by sample_releases (sample_release ''stable'' (PInt 1)) t \<and>
     channel_name_of t = ''testing''"
proof -
  obtain counts where "release_validate sample_json sample_toml ledger_tree sample_root
      sample_policy = Inr counts" by (rule sample_counts)
  from release_stable_is_promoted_unchanged [OF this, unfolded sample_releases_of,
      of "sample_release ''stable'' (PInt 1)"]
  show ?thesis by (auto simp: sample_releases_def sample_release_readers)
qed

text \<open>
  C36. Retention is bounded: an accepted policy has at most as many active releases in a channel as
  the channel retains, they have pairwise different positive sequence numbers and pairwise
  different versions, and the counter that the run reports for a channel is their number.
\<close>

theorem release_channels_are_bounded:
  assumes "release_validate json toml fs root policy = Inr counts" and "i < 3"
  shows "counts (channels ! i) = length (in_channel (releases_of policy) (channels ! i)) \<and>
    int (counts (channels ! i)) \<le> retained_of (channels_of policy ! i) \<and>
    distinct (map sequence_of (in_channel (releases_of policy) (channels ! i))) \<and>
    distinct (map version_of (in_channel (releases_of policy) (channels ! i))) \<and>
    (\<forall>r \<in> set (releases_of policy). 0 < sequence_of r)"
proof -
  let ?c = "channels ! i" and ?rs = "releases_of policy"
  obtain readiness by_name where ok: "release_policy_ok json toml fs root readiness by_name policy"
    and counts: "counts = count_list (map channel_name_of ?rs)"
    using assms(1) by (rule accepted_policy)
  have number: "count_list (map channel_name_of rs) c = length (in_channel rs c)" for rs c
    by (induction rs) (auto simp: in_channel_def)
  have entry: "entry_of by_name ?c = channels_of policy ! i"
    and channel: "channel_ok readiness i ?c (channels_of policy ! i)"
    using ok assms(2)
    by (auto simp: release_policy_ok_def channels_ok_def entry_of_def channels_of_def channels_def)
  have kept: "retention_ok by_name ?rs ?c"
  proof (cases "?c \<in> channel_name_of ` set ?rs")
    case True
    with ok show ?thesis by (auto simp: release_policy_ok_def)
  next
    case False
    then have "in_channel ?rs ?c = []" by (auto simp: in_channel_def filter_empty_conv image_iff)
    with channel show ?thesis by (simp add: retention_ok_def entry channel_ok_def)
  qed
  have "distinct (map release_key ?rs)" using ok by (simp add: release_policy_ok_def)
  then have "distinct (map release_key (in_channel ?rs ?c))"
    by (simp add: in_channel_def distinct_map_filter)
  moreover have "map release_key (in_channel ?rs ?c) =
      map (Pair ?c) (map version_of (in_channel ?rs ?c))"
    by (auto simp: in_channel_def release_key_def)
  ultimately have versions: "distinct (map version_of (in_channel ?rs ?c))"
    by (metis distinct_map)
  have "0 < sequence_of r" if "r \<in> set ?rs" for r
    using accepted_release [OF ok that]
    by (auto simp: release_ok_def release_shape_ok_def sequence_of_def)
  with kept versions show ?thesis
    by (auto simp: counts number retention_ok_def entry)
qed

theorem release_channels_are_bounded_witness:
  "\<exists>counts. release_validate sample_json sample_toml ledger_tree sample_root sample_policy =
     Inr counts \<and> int (counts ''stable'') \<le> 2"
proof -
  obtain counts where ok: "release_validate sample_json sample_toml ledger_tree sample_root
      sample_policy = Inr counts" by (rule sample_counts)
  have "retained_of (channels_of sample_policy ! 2) = 2"
    by (simp add: channels_of_def sample_policy_def sample_entries_def retained_of_def
        sample_channel_fields)
  with release_channels_are_bounded [OF ok, of 2] ok show ?thesis
    by (auto simp: channels_def)
qed

section \<open>Backing\<close>

lemma retained_ok_place:
  assumes root: "plain_dirs fs r" and safe: "strict_safe_relative p"
    and kept: "retained_ok fs (abs_path r) p"
    and content: "read_bytes fs (join (abs_path r) p) = Inr content"
  shows "\<exists>below. tail (Path p) = [''production'', ''evidence'', ''release-operations''] @ below \<and>
    fs (r @ tail (Path p)) = Some (Regular content True)"
proof -
  let ?root = "abs_path r"
  have path: "join ?root p = abs_path (r @ tail (Path p))"
    using strict.join_tail [OF safe] strict.join_anchor [OF safe] by (simp add: abs_path_def)
  have links: "\<not> traverses_symlink fs ?root (tail (Path p))"
    using kept strict.join_below [OF safe] by (auto simp: retained_ok_def)
  have "join ?root release_evidence_root =
      abs_path (r @ [''production'', ''evidence'', ''release-operations''])"
    by (simp add: release_evidence_root_def join_def Path_def is_absolute_def abs_path_def)
  with kept path obtain below where
    below: "tail (Path p) = [''production'', ''evidence'', ''release-operations''] @ below"
    by (auto simp: retained_ok_def relative_to_iff abs_path_def)
  have "stat fs (abs_path (r @ tail (Path p))) = Some (Regular content True)"
    using content by (simp add: read_bytes_iff path)
  from stat_no_links [OF root strict.guard_no_climb [OF safe] subset_refl links this]
  have "fs (r @ tail (Path p)) = Some (Regular content True)"
    by (simp add: node_at_def below)
  with below show ?thesis by blast
qed

text \<open>
  C22. An active release of an accepted policy is backed: all gates its channel requires are
  qualified in the readiness ledger, all evidence kinds its channel requires are present, and, for
  a repository reached without links, every entry is the regular file stored at its own position
  below \<^verbatim>\<open>production/evidence/release-operations\<close>, has the recorded digest, is no
  placeholder, names the revision of the release, and was not captured after publication.
\<close>

theorem release_active_is_backed:
  assumes "release_validate json toml fs (abs_path root) policy = Inr counts"
    and "plain_dirs fs root" and "r \<in> set (releases_of policy)"
  shows "\<exists>i < 3. channel_name_of r = channels ! i \<and>
    (\<exists>readiness. readiness_status json fs (abs_path root) = Inr readiness \<and>
       (\<forall>g \<in> set (texts (field (channels_of policy ! i) ''required_readiness_gates'')).
          readiness g = Some ''qualified'')) \<and>
    set (texts (field (channels_of policy ! i) ''required_evidence'')) \<subseteq> kinds_of (evidence_of r) \<and>
    (\<forall>e \<in> set (evidence_of r). \<exists>below content.
       tail (Path (path_of e)) = [''production'', ''evidence'', ''release-operations''] @ below \<and>
       fs (root @ tail (Path (path_of e))) = Some (Regular content True) \<and>
       field e ''sha256'' = PStr (sha256_hex content) \<and>
       \<not> is_placeholder_evidence (path_of e) content \<and>
       field e ''revision'' = field r ''revision'' \<and>
       time_of (field e ''captured_at'') \<le> published_of r)"
proof -
  obtain readiness by_name where read: "readiness_status json fs (abs_path root) = Inr readiness"
    and ok: "release_policy_ok json toml fs (abs_path root) readiness by_name policy"
    using assms(1) by (rule accepted_policy)
  note release = accepted_release [OF ok assms(3)]
  obtain i where i: "i < 3" "channel_name_of r = channels ! i"
      "channel_of by_name r = channels_of policy ! i"
    using accepted_channel [OF ok assms(3)] by blast
  have entry: "release_entry_ok fs (abs_path root) r e" if "e \<in> set (evidence_of r)" for e
    using release that
    by (auto simp: release_ok_def release_backing_ok_def release_entries_ok_def list_all_iff)
  have revision: "str_that (fullmatch REVISION_RE) (field r ''revision'')"
    using release by (simp add: release_ok_def release_shape_ok_def)
  have "\<exists>below content.
       tail (Path (path_of e)) = [''production'', ''evidence'', ''release-operations''] @ below \<and>
       fs (root @ tail (Path (path_of e))) = Some (Regular content True) \<and>
       field e ''sha256'' = PStr (sha256_hex content) \<and>
       \<not> is_placeholder_evidence (path_of e) content \<and>
       field e ''revision'' = field r ''revision'' \<and>
       time_of (field e ''captured_at'') \<le> published_of r"
    if e: "e \<in> set (evidence_of r)" for e
  proof -
    obtain content where content: "read_bytes fs (join (abs_path root) (path_of e)) = Inr content"
        "field e ''sha256'' = PStr (sha256_hex content)"
        "\<not> is_placeholder_evidence (path_of e) content"
      using entry [OF e] by (auto simp: release_entry_ok_def)
    have place: "strict_safe_relative (path_of e)" "retained_ok fs (abs_path root) (path_of e)"
      and same: "field e ''revision'' = field r ''revision''"
      using entry [OF e] revision by (auto simp: release_entry_ok_def path_of_def)
    have "time_of (field e ''captured_at'') \<le> published_of r"
      using release e by (auto simp: release_ok_def release_backing_ok_def times_of_def)
    with content same retained_ok_place [OF assms(2) place content(1)] show ?thesis by blast
  qed
  with read i release show ?thesis
    by (auto simp: release_ok_def release_safeguards_ok_def release_backing_ok_def)
qed

theorem release_active_is_backed_witness:
  "\<exists>below content.
     tail (Path report_path) = [''production'', ''evidence'', ''release-operations''] @ below \<and>
     ledger_tree (''repo'' # tail (Path report_path)) = Some (Regular content True)"
proof -
  obtain counts where "release_validate sample_json sample_toml ledger_tree (abs_path [''repo''])
      sample_policy = Inr counts"
    using sample_counts by (auto simp: sample_root_def)
  moreover have "plain_dirs ledger_tree [''repo'']"
    using plain_dirs_prefix [of ledger_tree "[''repo'']" "[''docs'']"] docs_plain by simp
  moreover have "sample_release ''stable'' (PInt 1) \<in> set (releases_of sample_policy)"
    by (simp add: sample_releases_of sample_releases_def)
  ultimately show ?thesis
    using release_active_is_backed [of sample_json sample_toml ledger_tree "[''repo'']"
        sample_policy counts "sample_release ''stable'' (PInt 1)"]
    by (auto simp: sample_release_fields release_entry_fields_of)
qed

section \<open>Crashes\<close>

text \<open>
  The environment of an evidence entry is looked up in a set without a test of its type: an
  entry that is right in every other respect but has a list there crashes the run with a
  \<^verbatim>\<open>TypeError\<close>.
\<close>

theorem release_environment_crashes:
  "release_evidence_step ledger_tree sample_root (sample_release c p) base i
     (PDict [(''kind'', PStr ''release-report''), (''path'', PStr report_path),
       (''sha256'', PStr sample_digest), (''captured_at'', PStr sample_time),
       (''revision'', PStr sample_revision), (''environment'', PList [])]) no_release_evidence =
   Inl TypeError"
proof -
  have fields: "has_fields release_entry_fields (PDict [(''kind'', PStr ''release-report''),
      (''path'', PStr report_path), (''sha256'', PStr sample_digest),
      (''captured_at'', PStr sample_time), (''revision'', PStr sample_revision),
      (''environment'', PList [])])"
    by (auto simp: release_entry_fields_def)
  have kept: "retained_file ledger_tree sample_root report_path b = Inr (join sample_root report_path)"
    for b
    using retained_sample(1) by (simp add: retained_file_iff)
  have time: "release_timestamp sample_time b = Inr sample_stamp" for b
    using sample_time_utc by (simp add: release_timestamp_def utc_timestamp_iff)
  show ?thesis
    unfolding release_evidence_step_def Let_def
    using fields retained_sample(3,5,7) sample_revision_ok sample_revision_real
    by (simp add: kept time no_release_evidence_def release_evidence_kinds_def sha256_sample
        sample_release_fields in_str_set_def del: has_fields.simps)
qed

end
