(* ===== verification/Jobs.thy ===== *)
theory Jobs
  imports FileSystem
begin

text \<open>
  The world of the installer jobs of \<^verbatim>\<open>installer/calamares/modules/\<close>: a file tree
  with permission bits, the global storage of Calamares, and a log of what was read and which
  commands were started. A job is a function from the world to a result and the next world: the
  effects made before an exception persist.

  Between any two system calls other processes may change the tree (\<open>interfere\<close>), and every
  system call may fail (\<open>faulty\<close>, which covers permissions, a full disk and the like); a write
  that fails leaves a prefix of its text. Commands, the random names and the answers of the
  operating system are the parameters collected in \<open>os\<close>, all indexed by the number of the call.
  A relative path is taken from \<^verbatim>\<open>/\<close>, and a path that cannot be resolved counts
  as not found. The closing section is the Hoare logic in which the jobs are verified.
\<close>

section \<open>The world\<close>

text \<open>\<open>Ran cmd t ok\<close>: the command was started on the tree \<open>t\<close> and succeeded iff \<open>ok\<close>.\<close>

datatype event =
    Fetched pure_path string
  | Ran "string list" fs bool

record world =
  tree :: fs
  modes :: "string list \<Rightarrow> nat"
  storage :: "string \<Rightarrow> pyval option"
  clock :: nat
  trace :: "event list"

text \<open>\<open>spawned\<close> answers \<open>None\<close> when the command cannot be started, and otherwise its exit status,
  whether it ended in time, and whether its output is UTF-8.\<close>

record os =
  interfere :: "nat \<Rightarrow> fs \<Rightarrow> fs"
  faulty :: "nat \<Rightarrow> bool"
  spawned :: "string list \<Rightarrow> nat \<Rightarrow> (int \<times> bool \<times> bool) option"
  fresh :: "nat \<Rightarrow> string"
  cut :: "nat \<Rightarrow> nat"

type_synonym 'a job = "world \<Rightarrow> 'a result \<times> world"

definition returnM :: "'a \<Rightarrow> 'a job" where
  "returnM x w = (Inr x, w)"

definition raiseM :: "exn \<Rightarrow> 'a job" where
  "raiseM e w = (Inl e, w)"

definition bindM :: "'a job \<Rightarrow> ('a \<Rightarrow> 'b job) \<Rightarrow> 'b job" where
  "bindM m f w = (case m w of (Inl e, w') \<Rightarrow> (Inl e, w') | (Inr x, w') \<Rightarrow> f x w')"

definition catchM :: "'a job \<Rightarrow> (exn \<Rightarrow> 'a job) \<Rightarrow> 'a job" where
  "catchM m h w = (case m w of (Inl e, w') \<Rightarrow> h e w' | (Inr x, w') \<Rightarrow> (Inr x, w'))"

text \<open>\<^verbatim>\<open>except OSError as error: raise ... from error\<close>\<close>

definition os_error :: "exn \<Rightarrow> bool" where
  "os_error e \<longleftrightarrow> e \<in> {OSError, NotFound}"

definition reportM :: "string \<Rightarrow> 'a job \<Rightarrow> 'a job" where
  "reportM m j = catchM j (\<lambda>e. raiseM (if os_error e then Rejected m else e))"

definition liftM :: "'a result \<Rightarrow> 'a job" where
  "liftM r w = (r, w)"

fun mapM :: "('x \<Rightarrow> 'y job) \<Rightarrow> 'x list \<Rightarrow> 'y list job" where
  "mapM f [] = returnM []"
| "mapM f (x # xs) = bindM (f x) (\<lambda>y. bindM (mapM f xs) (\<lambda>ys. returnM (y # ys)))"

fun eachM :: "('x \<Rightarrow> unit job) \<Rightarrow> 'x list \<Rightarrow> unit job" where
  "eachM f [] = returnM ()"
| "eachM f (x # xs) = bindM (f x) (\<lambda>u. eachM f xs)"

section \<open>Storage\<close>

definition value_of :: "string \<Rightarrow> pyval job" where
  "value_of k w = (Inr (case storage w k of Some v \<Rightarrow> v | None \<Rightarrow> PNone), w)"

definition insert_value :: "string \<Rightarrow> pyval \<Rightarrow> unit job" where
  "insert_value k v w = (Inr (), w\<lparr>storage := (storage w)(k \<mapsto> v)\<rparr>)"

section \<open>System calls\<close>

definition sys :: "os \<Rightarrow> (nat \<Rightarrow> 'a job) \<Rightarrow> 'a job" where
  "sys os f w =
     (let n = clock w; w1 = w\<lparr>tree := interfere os n (tree w), clock := Suc n\<rparr>
      in if faulty os n then (Inl OSError, w1) else f n w1)"

text \<open>The position of the directory entry that a path names, and of the node it leads to.\<close>

definition place :: "fs \<Rightarrow> pure_path \<Rightarrow> string list option" where
  "place t p =
     (if tail p = [] then None
      else Option.bind (walk t True max_links [] (butlast (tail p))) (\<lambda>d.
        if node_at t d = Some Directory then Some (d @ [last (tail p)]) else None))"

definition locate :: "fs \<Rightarrow> pure_path \<Rightarrow> string list option" where
  "locate t p = walk t True max_links [] (tail p)"

definition lstat_call :: "os \<Rightarrow> pure_path \<Rightarrow> node job" where
  "lstat_call os p =
     sys os (\<lambda>n w. (case lstat (tree w) p of None \<Rightarrow> Inl NotFound | Some nd \<Rightarrow> Inr nd, w))"

definition stat_call :: "os \<Rightarrow> pure_path \<Rightarrow> node job" where
  "stat_call os p =
     sys os (\<lambda>n w. (case stat (tree w) p of None \<Rightarrow> Inl NotFound | Some nd \<Rightarrow> Inr nd, w))"

definition mode_call :: "os \<Rightarrow> pure_path \<Rightarrow> nat job" where
  "mode_call os p =
     sys os (\<lambda>n w. (case locate (tree w) p of
         None \<Rightarrow> Inl NotFound
       | Some q \<Rightarrow> (if node_at (tree w) q = None then Inl NotFound else Inr (modes w q)), w))"

definition chmod_call :: "os \<Rightarrow> pure_path \<Rightarrow> nat \<Rightarrow> unit job" where
  "chmod_call os p mode =
     sys os (\<lambda>n w. case locate (tree w) p of
         None \<Rightarrow> (Inl NotFound, w)
       | Some q \<Rightarrow> (Inr (), w\<lparr>modes := (modes w)(q := mode)\<rparr>))"

definition mkdir_call :: "os \<Rightarrow> pure_path \<Rightarrow> nat \<Rightarrow> unit job" where
  "mkdir_call os p mode =
     sys os (\<lambda>n w. case place (tree w) p of
         None \<Rightarrow> (Inl NotFound, w)
       | Some q \<Rightarrow>
           (if tree w q \<noteq> None then (Inl OSError, w)
            else (Inr (), w\<lparr>tree := (tree w)(q \<mapsto> Directory), modes := (modes w)(q := mode)\<rparr>)))"

text \<open>
  \<^verbatim>\<open>Path.is_dir\<close>, \<^verbatim>\<open>is_file\<close> and \<^verbatim>\<open>is_symlink\<close>: a path
  that leads nowhere is answered with \<^verbatim>\<open>False\<close>, other errors are raised.
\<close>

definition absent_is_false :: "bool job \<Rightarrow> bool job" where
  "absent_is_false m = catchM m (\<lambda>e. if e = NotFound then returnM False else raiseM e)"

definition is_dir_call :: "os \<Rightarrow> pure_path \<Rightarrow> bool job" where
  "is_dir_call os p =
     absent_is_false (bindM (stat_call os p) (\<lambda>nd. returnM (nd = Directory)))"

fun regular_node :: "node \<Rightarrow> bool" where
  "regular_node (Regular c r) = True"
| "regular_node nd = False"

fun link_node :: "node \<Rightarrow> bool" where
  "link_node (Link t) = True"
| "link_node nd = False"

definition exists_call :: "os \<Rightarrow> pure_path \<Rightarrow> bool job" where
  "exists_call os p = absent_is_false (bindM (stat_call os p) (\<lambda>nd. returnM True))"

definition is_file_call :: "os \<Rightarrow> pure_path \<Rightarrow> bool job" where
  "is_file_call os p =
     absent_is_false (bindM (stat_call os p) (\<lambda>nd. returnM (regular_node nd)))"

definition is_symlink_call :: "os \<Rightarrow> pure_path \<Rightarrow> bool job" where
  "is_symlink_call os p =
     absent_is_false (bindM (lstat_call os p) (\<lambda>nd. returnM (link_node nd)))"

text \<open>
  \<^verbatim>\<open>Path.mkdir(mode, parents=True, exist_ok=True)\<close>: the ancestors that are missing are
  created with the default mode; an existing directory is accepted.
\<close>

definition mkdir_exist_ok :: "os \<Rightarrow> pure_path \<Rightarrow> nat \<Rightarrow> unit job" where
  "mkdir_exist_ok os p mode =
     catchM (mkdir_call os p mode) (\<lambda>e. bindM (is_dir_call os p) (\<lambda>b.
       if b then returnM () else raiseM e))"

fun mkdir_parents :: "os \<Rightarrow> string \<Rightarrow> string list \<Rightarrow> nat \<Rightarrow> unit job" where
  "mkdir_parents os a [] mode = mkdir_exist_ok os \<lparr>anchor = a, tail = []\<rparr> mode"
| "mkdir_parents os a (c # cs) mode =
     (let p = \<lparr>anchor = a, tail = rev (c # cs)\<rparr> in
      catchM (mkdir_call os p mode) (\<lambda>e.
        if e = NotFound
        then bindM (mkdir_parents os a cs 511) (\<lambda>u. mkdir_exist_ok os p mode)
        else bindM (is_dir_call os p) (\<lambda>b. if b then returnM () else raiseM e)))"

definition mkdirs :: "os \<Rightarrow> pure_path \<Rightarrow> nat \<Rightarrow> unit job" where
  "mkdirs os p mode = mkdir_parents os (anchor p) (rev (tail p)) mode"

text \<open>\<^verbatim>\<open>O_CREAT | O_EXCL\<close>, with mode \<^verbatim>\<open>0o600\<close>; the new entry's position.\<close>

definition create_call :: "os \<Rightarrow> pure_path \<Rightarrow> string list job" where
  "create_call os p =
     sys os (\<lambda>n w. case place (tree w) p of
         None \<Rightarrow> (Inl NotFound, w)
       | Some q \<Rightarrow>
           (if tree w q \<noteq> None then (Inl OSError, w)
            else (Inr q, w\<lparr>tree := (tree w)(q \<mapsto> Regular [] True),
                           modes := (modes w)(q := 384)\<rparr>)))"

text \<open>
  \<^verbatim>\<open>tempfile.mkstemp\<close>: the name it settles on is prefix and random part; when even that
  name is taken, there is no usable one. \<^verbatim>\<open>os.path.abspath\<close> drops the dots of the
  directory textually.
\<close>

definition abspath :: "pure_path \<Rightarrow> pure_path" where
  "abspath p =
     \<lparr>anchor = (if anchor p = [] then ''/'' else anchor p),
      tail = fold (\<lambda>c cs. if c = ''..'' then butlast cs else cs @ [c]) (tail p) []\<rparr>"

definition mkstemp_call :: "os \<Rightarrow> string \<Rightarrow> pure_path \<Rightarrow> (string list \<times> pure_path) job" where
  "mkstemp_call os pre dir w =
     (let p = join (abspath dir) (pre @ fresh os (clock w))
      in bindM (create_call os p) (\<lambda>q. returnM (q, p)) w)"

text \<open>\<^verbatim>\<open>os.open(path, O_RDONLY | O_DIRECTORY)\<close>\<close>

definition open_directory_call :: "os \<Rightarrow> pure_path \<Rightarrow> unit job" where
  "open_directory_call os p =
     bindM (stat_call os p) (\<lambda>nd. if nd = Directory then returnM () else raiseM OSError)"

text \<open>Writing at the end of an open file; when the entry is gone, nothing is seen in the tree.\<close>

definition appended :: "string list \<Rightarrow> string \<Rightarrow> fs \<Rightarrow> fs" where
  "appended q s t = (case t q of Some (Regular c r) \<Rightarrow> t(q \<mapsto> Regular (c @ s) r) | _ \<Rightarrow> t)"

definition append_call :: "os \<Rightarrow> string list \<Rightarrow> string \<Rightarrow> unit job" where
  "append_call os q s w =
     (let n = clock w; t = interfere os n (tree w); w1 = w\<lparr>clock := Suc n\<rparr>
      in if faulty os n then (Inl OSError, w1\<lparr>tree := appended q (take (cut os n) s) t\<rparr>)
         else (Inr (), w1\<lparr>tree := appended q s t\<rparr>))"

definition sync_call :: "os \<Rightarrow> unit job" where
  "sync_call os = sys os (\<lambda>n w. (Inr (), w))"

definition fchmod_call :: "os \<Rightarrow> string list \<Rightarrow> nat \<Rightarrow> unit job" where
  "fchmod_call os q mode = sys os (\<lambda>n w. (Inr (), w\<lparr>modes := (modes w)(q := mode)\<rparr>))"

definition unlink_call :: "os \<Rightarrow> pure_path \<Rightarrow> unit job" where
  "unlink_call os p =
     sys os (\<lambda>n w. case place (tree w) p of
         None \<Rightarrow> (Inl NotFound, w)
       | Some q \<Rightarrow>
           (case tree w q of
              None \<Rightarrow> (Inl NotFound, w)
            | Some Directory \<Rightarrow> (Inl OSError, w)
            | Some nd \<Rightarrow> (Inr (), w\<lparr>tree := (tree w)(q := None)\<rparr>)))"

definition replace_call :: "os \<Rightarrow> pure_path \<Rightarrow> pure_path \<Rightarrow> unit job" where
  "replace_call os p p' =
     sys os (\<lambda>n w. case place (tree w) p of
         None \<Rightarrow> (Inl NotFound, w)
       | Some q \<Rightarrow>
           (case tree w q of
              None \<Rightarrow> (Inl NotFound, w)
            | Some nd \<Rightarrow>
                (case place (tree w) p' of
                   None \<Rightarrow> (Inl NotFound, w)
                 | Some q' \<Rightarrow>
                     (if nd = Directory \<or> tree w q' = Some Directory then (Inl OSError, w)
                      else (Inr (), w\<lparr>tree := (tree w)(q := None, q' \<mapsto> nd),
                                     modes := (modes w)(q' := modes w q)\<rparr>)))))"

text \<open>
  \<^verbatim>\<open>os.open(path, O_RDONLY | O_NOFOLLOW)\<close> and \<^verbatim>\<open>fdopen\<close>: a link, an
  unreadable file and a directory are errors. The answer is the open file's position and the node
  that \<^verbatim>\<open>fstat\<close> sees.
\<close>

definition open_call :: "os \<Rightarrow> pure_path \<Rightarrow> (string list \<times> node) job" where
  "open_call os p =
     sys os (\<lambda>n w. (case walk (tree w) False max_links [] (tail p) of
         None \<Rightarrow> Inl NotFound
       | Some q \<Rightarrow>
           (case node_at (tree w) q of
              None \<Rightarrow> Inl NotFound
            | Some (Regular c True) \<Rightarrow> Inr (q, Regular c True)
            | Some Special \<Rightarrow> Inr (q, Special)
            | Some nd \<Rightarrow> Inl OSError), w))"

text \<open>
  Up to \<open>k\<close> bytes of the open file from an offset: what the file holds now, or, when another file
  has taken its place, what it held when it was opened.
\<close>

definition read_call :: "os \<Rightarrow> string list \<times> node \<Rightarrow> nat \<Rightarrow> nat \<Rightarrow> string job" where
  "read_call os f off k =
     sys os (\<lambda>n w. (Inr (take k (drop off (case tree w (fst f) of
         Some (Regular c r) \<Rightarrow> c
       | _ \<Rightarrow> (case snd f of Regular c r \<Rightarrow> c | _ \<Rightarrow> [])))), w))"

text \<open>\<^verbatim>\<open>Path.read_bytes\<close>: links are followed, the whole file is read.\<close>

definition read_file_call :: "os \<Rightarrow> pure_path \<Rightarrow> string job" where
  "read_file_call os p =
     bindM (sys os (\<lambda>n w. (case locate (tree w) p of
         None \<Rightarrow> Inl NotFound
       | Some q \<Rightarrow>
           (case node_at (tree w) q of
              None \<Rightarrow> Inl NotFound
            | Some (Regular c True) \<Rightarrow> Inr (q, c)
            | Some Special \<Rightarrow> Inr (q, [])
            | Some nd \<Rightarrow> Inl OSError), w))) (\<lambda>(q, opened).
     sys os (\<lambda>n w. (Inr (case tree w q of Some (Regular c r) \<Rightarrow> c | _ \<Rightarrow> opened), w)))"

text \<open>\<^verbatim>\<open>subprocess.run\<close>: the exit status, and for captured text the decoding error.\<close>

definition spawn_call :: "os \<Rightarrow> bool \<Rightarrow> string list \<Rightarrow> int job" where
  "spawn_call os captured cmd w =
     (let n = clock w; t = interfere os n (tree w); w1 = w\<lparr>tree := t, clock := Suc n\<rparr>
      in case spawned os cmd n of
           None \<Rightarrow> (Inl OSError, w1\<lparr>trace := trace w @ [Ran cmd t False]\<rparr>)
         | Some (status, timely, text_ok) \<Rightarrow>
             (if captured \<and> \<not> timely then Inl ProcessError
              else if captured \<and> \<not> text_ok then Inl UnicodeDecodeError
              else Inr status,
              w1\<lparr>trace := trace w @ [Ran cmd t (status = 0 \<and> (captured \<longrightarrow> timely \<and> text_ok))]\<rparr>))"

text \<open>A note in the log: the content a job goes on to rely on.\<close>

definition log_fetched :: "pure_path \<Rightarrow> string \<Rightarrow> unit job" where
  "log_fetched p content w = (Inr (), w\<lparr>trace := trace w @ [Fetched p content]\<rparr>)"

text \<open>\<^verbatim>\<open>check=True\<close>\<close>

definition checked_call :: "os \<Rightarrow> bool \<Rightarrow> string list \<Rightarrow> unit job" where
  "checked_call os captured cmd =
     bindM (spawn_call os captured cmd) (\<lambda>status.
       if status = 0 then returnM () else raiseM ProcessError)"

section \<open>Printing paths\<close>

fun slashed :: "string list \<Rightarrow> string" where
  "slashed [] = []"
| "slashed [c] = c"
| "slashed (c # cs) = c @ ''/'' @ slashed cs"

definition path_str :: "pure_path \<Rightarrow> string" where
  "path_str p = (if anchor p = [] \<and> tail p = [] then ''.'' else anchor p @ slashed (tail p))"

section \<open>Hoare triples\<close>

text \<open>
  \<open>valid P m Q E\<close>: started in \<open>P\<close>, the job ends in \<open>Q x\<close> with an answer \<open>x\<close>, or in \<open>E e\<close>
  with an exception \<open>e\<close>.
\<close>

named_theorems job_rules \<open>Hoare rules of the system calls\<close>

definition valid ::
    "(world \<Rightarrow> bool) \<Rightarrow> 'a job \<Rightarrow> ('a \<Rightarrow> world \<Rightarrow> bool) \<Rightarrow> (exn \<Rightarrow> world \<Rightarrow> bool) \<Rightarrow> bool" where
  "valid P m Q E \<longleftrightarrow>
     (\<forall>w. P w \<longrightarrow> (case m w of (Inl e, w') \<Rightarrow> E e w' | (Inr x, w') \<Rightarrow> Q x w'))"

lemma valid_return: "(\<And>w. P w \<Longrightarrow> Q x w) \<Longrightarrow> valid P (returnM x) Q E"
  by (simp add: valid_def returnM_def)

lemma valid_raise: "(\<And>w. P w \<Longrightarrow> E e w) \<Longrightarrow> valid P (raiseM e) Q E"
  by (simp add: valid_def raiseM_def)

lemma valid_lift:
  "(\<And>x w. r = Inr x \<Longrightarrow> P w \<Longrightarrow> Q x w) \<Longrightarrow> (\<And>e w. r = Inl e \<Longrightarrow> P w \<Longrightarrow> E e w) \<Longrightarrow>
     valid P (liftM r) Q E"
  by (cases r) (auto simp: valid_def liftM_def)

lemma valid_bind:
  "valid P m R E \<Longrightarrow> (\<And>x. valid (R x) (f x) Q E) \<Longrightarrow> valid P (bindM m f) Q E"
  by (fastforce simp: valid_def bindM_def split: prod.splits sum.splits)

lemma valid_catch:
  "valid P m Q R \<Longrightarrow> (\<And>e. valid (R e) (h e) Q E) \<Longrightarrow> valid P (catchM m h) Q E"
  by (fastforce simp: valid_def catchM_def split: prod.splits sum.splits)

lemma valid_report:
  "valid P m Q (\<lambda>e. R) \<Longrightarrow> (\<And>e w. R w \<Longrightarrow> E e w) \<Longrightarrow> valid P (reportM s m) Q E"
  unfolding reportM_def by (rule valid_catch, assumption) (rule valid_raise, simp)

lemma valid_if:
  "(c \<Longrightarrow> valid P m Q E) \<Longrightarrow> (\<not> c \<Longrightarrow> valid P m' Q E) \<Longrightarrow> valid P (if c then m else m') Q E"
  by simp

lemma valid_conseq:
  "valid P' m Q' E' \<Longrightarrow> (\<And>w. P w \<Longrightarrow> P' w) \<Longrightarrow> (\<And>x w. Q' x w \<Longrightarrow> Q x w) \<Longrightarrow>
     (\<And>e w. E' e w \<Longrightarrow> E e w) \<Longrightarrow> valid P m Q E"
  by (fastforce simp: valid_def split: prod.splits sum.splits)

lemma valid_pre: "valid P' m Q E \<Longrightarrow> (\<And>w. P w \<Longrightarrow> P' w) \<Longrightarrow> valid P m Q E"
  by (simp add: valid_def)

lemma valid_fact: "(A \<Longrightarrow> valid P m Q E) \<Longrightarrow> valid (\<lambda>w. A \<and> P w) m Q E"
  by (simp add: valid_def)

lemma valid_ex: "(\<And>x. valid (P x) m Q E) \<Longrightarrow> valid (\<lambda>w. \<exists>x. P x w) m Q E"
  unfolding valid_def by (intro allI impI, elim exE) simp

text \<open>A predicate that the job keeps, whatever its outcome.\<close>

definition keeps :: "(world \<Rightarrow> bool) \<Rightarrow> 'a job \<Rightarrow> bool" where
  "keeps I m \<longleftrightarrow> valid I m (\<lambda>x. I) (\<lambda>e. I)"

named_theorems keeps_rules \<open>composition of jobs that keep a predicate\<close>

lemma keeps_bind [keeps_rules]: "keeps I m \<Longrightarrow> (\<And>x. keeps I (f x)) \<Longrightarrow> keeps I (bindM m f)"
  by (auto simp: keeps_def intro: valid_bind)

lemma keeps_catch [keeps_rules]: "keeps I m \<Longrightarrow> (\<And>e. keeps I (h e)) \<Longrightarrow> keeps I (catchM m h)"
  by (auto simp: keeps_def intro: valid_catch)

lemma keeps_if [keeps_rules]: "keeps I m \<Longrightarrow> keeps I m' \<Longrightarrow> keeps I (if c then m else m')"
  by simp

lemma keeps_basic [keeps_rules]: "keeps I (returnM x)" "keeps I (raiseM e)" "keeps I (liftM r)"
  by (simp_all add: keeps_def valid_def returnM_def raiseM_def liftM_def split: sum.split)

lemma keepsD: "keeps I m \<Longrightarrow> m w = (r, w') \<Longrightarrow> I w \<Longrightarrow> I w'"
  by (cases r) (force simp: keeps_def valid_def)+

lemma keeps_sys:
  assumes "\<And>w t n. I w \<Longrightarrow> I (w\<lparr>tree := t, clock := n\<rparr>)" and "\<And>n. keeps I (f n)"
  shows "keeps I (sys os f)"
proof -
  have "I w'" if "I w" "sys os f w = (r, w')" for w r w'
  proof (cases "faulty os (clock w)")
    case True
    with that(2) have "w' = w\<lparr>tree := interfere os (clock w) (tree w), clock := Suc (clock w)\<rparr>"
      by (simp add: sys_def Let_def)
    with assms(1) [OF that(1)] show ?thesis by simp
  next
    case False
    with that(2) have "f (clock w) (w\<lparr>tree := interfere os (clock w) (tree w), clock := Suc (clock w)\<rparr>) =
        (r, w')" by (simp add: sys_def Let_def)
    from keepsD [OF assms(2) this assms(1) [OF that(1)]] show ?thesis .
  qed
  then show ?thesis by (auto simp: keeps_def valid_def split: prod.split sum.split)
qed

section \<open>Successful runs\<close>

named_theorems job_simps \<open>what a successful run of a job consists of\<close>

lemma success_bind [job_simps]:
  "bindM m f w = (Inr y, w') \<longleftrightarrow> (\<exists>x w1. m w = (Inr x, w1) \<and> f x w1 = (Inr y, w'))"
  by (auto simp: bindM_def split: prod.splits sum.splits)

lemma success_basic [job_simps]:
  "returnM x w = (Inr y, w') \<longleftrightarrow> y = x \<and> w' = w"
  "\<not> raiseM e w = (Inr y, w')"
  "liftM r w = (Inr y, w') \<longleftrightarrow> r = Inr y \<and> w' = w"
  by (auto simp: returnM_def raiseM_def liftM_def)

lemma success_catch [job_simps]:
  "catchM m h w = (Inr y, w') \<longleftrightarrow> m w = (Inr y, w') \<or>
     (\<exists>e w1. m w = (Inl e, w1) \<and> h e w1 = (Inr y, w'))"
  by (auto simp: catchM_def split: prod.splits sum.splits)

lemma success_if [job_simps]:
  "(if c then m else m') w = (Inr y, w') \<longleftrightarrow>
     (c \<and> m w = (Inr y, w')) \<or> (\<not> c \<and> m' w = (Inr y, w'))"
  by simp

lemma success_report [job_simps]: "reportM s m w = (Inr y, w') \<longleftrightarrow> m w = (Inr y, w')"
  by (simp add: reportM_def job_simps)

end
