(* ===== verification/PrivateArea.thy ===== *)
theory PrivateArea
  imports Jobs "HOL-Library.Sublist"
begin

text \<open>
  Reasoning about a directory of its own. Other processes may change the tree between any two
  system calls, but not at, above or below the position \<open>P\<close> of the job's private directory
  (\<open>undisturbed\<close>). Under that reliance the job knows the exact contents of its area: \<open>known\<close>
  describes them by a tree \<open>F\<close>, together with events that the log contains and a predicate of
  events that have not happened. There is one rule per system call, for paths outside the area
  and inside it.
\<close>

section \<open>The area\<close>

definition near :: "string list \<Rightarrow> string list \<Rightarrow> bool" where
  "near P q \<longleftrightarrow> prefix q P \<or> prefix P q"

definition undisturbed :: "os \<Rightarrow> string list \<Rightarrow> bool" where
  "undisturbed os P \<longleftrightarrow> (\<forall>n t q. near P q \<longrightarrow> interfere os n t q = t q)"

definition same_area :: "string list \<Rightarrow> fs \<Rightarrow> fs \<Rightarrow> bool" where
  "same_area P F t \<longleftrightarrow> (\<forall>q. near P q \<longrightarrow> t q = F q)"

definition silent :: "(event \<Rightarrow> bool) \<Rightarrow> world \<Rightarrow> bool" where
  "silent B w \<longleftrightarrow> (\<forall>e \<in> set (trace w). \<not> B e)"

definition known ::
    "(event \<Rightarrow> bool) \<Rightarrow> string list \<Rightarrow> fs \<Rightarrow> event set \<Rightarrow> world \<Rightarrow> bool" where
  "known B P F L w \<longleftrightarrow> same_area P F (tree w) \<and> L \<subseteq> set (trace w) \<and> silent B w"

lemma same_area_interfere:
  "undisturbed os P \<Longrightarrow> same_area P F t \<Longrightarrow> same_area P F (interfere os n t)"
  by (simp add: undisturbed_def same_area_def)

lemma same_area_plain:
  assumes "same_area P F t" and "near P r" and "plain_dirs F r"
  shows "plain_dirs t r"
proof -
  have "near P (take k r)" for k
  proof -
    from assms(2) have "prefix r P \<or> prefix P r" by (simp add: near_def)
    then show ?thesis
      unfolding near_def
      by (meson prefix_order.trans prefix_same_cases take_is_prefix)
  qed
  with assms(1,3) show ?thesis by (auto simp: plain_dirs_def same_area_def)
qed

lemma walk_entry:
  assumes "plain_dirs t r" and "c \<noteq> ''..''" and "t (r @ [c]) \<noteq> None"
    and "\<And>l. t (r @ [c]) \<noteq> Some (Link l)"
  shows "walk t follow max_links [] (r @ [c]) = Some (r @ [c])"
proof -
  have "walk t follow max_links [] (r @ [c]) = walk t follow max_links r [c]"
    using walk_plain_dirs [of t "[]" r follow max_links "[c]"] assms(1) by simp
  with assms(2-4) show ?thesis by (auto split: node.splits)
qed

lemma walk_missing:
  assumes "plain_dirs t r" and "c \<noteq> ''..''" and "t (r @ [c]) = None"
  shows "walk t follow max_links [] (r @ [c]) = None"
  using walk_plain_dirs [of t "[]" r follow max_links "[c]"] assms by simp

lemma place_entry:
  assumes "plain_dirs t r"
  shows "place t (abs_path (r @ [c])) = Some (r @ [c])"
proof -
  have "walk t True max_links [] r = Some r"
    using walk_plain_dirs [of t "[]" r True max_links "[]"] assms by simp
  moreover have "node_at t r = Some Directory"
    using assms by (cases "r = []") (auto simp: node_at_def plain_dirs_def)
  ultimately show ?thesis by (simp add: place_def abs_path_def)
qed

lemma lstat_entry:
  assumes "plain_dirs t r" and "c \<noteq> ''..''"
  shows "lstat t (abs_path (r @ [c])) = t (r @ [c])"
proof -
  have "walk t False max_links [] (r @ [c]) = walk t False max_links r [c]"
    using walk_plain_dirs [of t "[]" r False max_links "[c]"] assms by simp
  with assms(2) show ?thesis
    by (auto simp: lstat_def abs_path_def node_at_def split: option.splits node.splits)
qed

section \<open>Rules\<close>

definition broken :: "(event \<Rightarrow> bool) \<Rightarrow> exn \<Rightarrow> world \<Rightarrow> bool" where
  "broken B e w \<longleftrightarrow> silent B w"

lemma known_silent: "known B P F L w \<Longrightarrow> silent B w"
  by (simp add: known_def)

lemma silent_unfold [simp]:
  "silent B (w\<lparr>tree := t\<rparr>) = silent B w" "silent B (w\<lparr>clock := n\<rparr>) = silent B w"
  "silent B (w\<lparr>modes := m\<rparr>) = silent B w" "silent B (w\<lparr>storage := s\<rparr>) = silent B w"
  by (simp_all add: silent_def)

lemma valid_sys:
  assumes "undisturbed os P"
    and "\<And>n w. known B P F L w \<Longrightarrow> case f n w of (Inl e, w') \<Rightarrow> E e w' | (Inr x, w') \<Rightarrow> Q x w'"
    and "\<And>w. silent B w \<Longrightarrow> E OSError w"
  shows "valid (known B P F L) (sys os f) Q E"
proof -
  have "known B P F L (w\<lparr>tree := interfere os n (tree w), clock := m\<rparr>)"
    if "known B P F L w" for w n m
    using that same_area_interfere [OF assms(1)] by (simp add: known_def)
  with assms(2,3) show ?thesis
    unfolding valid_def sys_def Let_def using known_silent by (auto split: if_splits)
qed

text \<open>Calls that only look.\<close>

lemma known_lstat [job_rules]:
  "undisturbed os P \<Longrightarrow>
     valid (known B P F L) (lstat_call os p) (\<lambda>nd. known B P F L) (broken B)"
  unfolding lstat_call_def
  by (rule valid_sys) (auto simp: broken_def known_silent split: option.splits)

lemma known_lstat_inside:
  assumes "undisturbed os P" and "near P r" and "plain_dirs F r" and "c \<noteq> ''..''"
    and "near P (r @ [c])"
  shows "valid (known B P F L) (lstat_call os (abs_path (r @ [c])))
    (\<lambda>nd w. F (r @ [c]) = Some nd \<and> known B P F L w) (broken B)"
  unfolding lstat_call_def
proof (rule valid_sys [OF assms(1)])
  fix n w
  assume w: "known B P F L w"
  then have "lstat (tree w) (abs_path (r @ [c])) = F (r @ [c])"
    using lstat_entry [OF same_area_plain [OF _ assms(2,3)] assms(4)] assms(5)
    by (auto simp: known_def same_area_def)
  with w show "case (case lstat (tree w) (abs_path (r @ [c])) of None \<Rightarrow> Inl NotFound
      | Some nd \<Rightarrow> Inr nd, w) of (Inl e, w') \<Rightarrow> broken B e w'
      | (Inr nd, w') \<Rightarrow> F (r @ [c]) = Some nd \<and> known B P F L w'"
    by (auto simp: broken_def known_silent split: option.splits)
qed (simp add: broken_def)

lemma known_mode [job_rules]:
  "undisturbed os P \<Longrightarrow>
     valid (known B P F L) (mode_call os p) (\<lambda>m. known B P F L) (broken B)"
  unfolding mode_call_def
  by (rule valid_sys) (auto simp: broken_def known_silent split: option.splits)

lemma known_sync [job_rules]:
  "undisturbed os P \<Longrightarrow>
     valid (known B P F L) (sync_call os) (\<lambda>u. known B P F L) (broken B)"
  unfolding sync_call_def by (rule valid_sys) (auto simp: broken_def)

lemma known_open [job_rules]:
  "undisturbed os P \<Longrightarrow>
     valid (known B P F L) (open_call os p) (\<lambda>f. known B P F L) (broken B)"
  unfolding open_call_def
  by (rule valid_sys)
    (auto simp: broken_def known_silent split: option.splits node.splits bool.splits)

lemma known_open_inside:
  assumes "undisturbed os P" and "near P r" and "plain_dirs F r" and "c \<noteq> ''..''"
    and "near P (r @ [c])" and "F (r @ [c]) = Some (Regular text True)"
  shows "valid (known B P F L) (open_call os (abs_path (r @ [c])))
    (\<lambda>f w. f = (r @ [c], Regular text True) \<and> known B P F L w) (broken B)"
  unfolding open_call_def
proof (rule valid_sys [OF assms(1)])
  fix n w
  assume w: "known B P F L w"
  then have node: "tree w (r @ [c]) = Some (Regular text True)"
    using assms(5,6) by (auto simp: known_def same_area_def)
  with w have "walk (tree w) False max_links [] (r @ [c]) = Some (r @ [c])"
    using walk_entry [OF same_area_plain [OF _ assms(2,3)] assms(4)] by (auto simp: known_def)
  with w node show "case (case walk (tree w) False max_links [] (tail (abs_path (r @ [c]))) of
        None \<Rightarrow> Inl NotFound
      | Some q \<Rightarrow> (case node_at (tree w) q of None \<Rightarrow> Inl NotFound
          | Some (Regular c True) \<Rightarrow> Inr (q, Regular c True)
          | Some Special \<Rightarrow> Inr (q, Special) | Some nd \<Rightarrow> Inl OSError), w)
      of (Inl e, w') \<Rightarrow> broken B e w'
      | (Inr f, w') \<Rightarrow> f = (r @ [c], Regular text True) \<and> known B P F L w'"
    by (simp add: abs_path_def node_at_def)
qed (simp add: broken_def)

lemma known_read [job_rules]:
  "undisturbed os P \<Longrightarrow>
     valid (known B P F L) (read_call os f off k) (\<lambda>s. known B P F L) (broken B)"
  unfolding read_call_def by (rule valid_sys) (auto simp: broken_def)

lemma known_read_inside:
  assumes "undisturbed os P" and "near P q" and "F q = Some (Regular text True)"
  shows "valid (known B P F L) (read_call os (q, nd) off k)
    (\<lambda>s w. s = take k (drop off text) \<and> known B P F L w) (broken B)"
  unfolding read_call_def
  by (rule valid_sys [OF assms(1)])
    (use assms(2,3) in \<open>auto simp: broken_def known_def same_area_def\<close>)

text \<open>Calls that change the area.\<close>

lemma same_area_update: "same_area P F t \<Longrightarrow> same_area P (F(q := x)) (t(q := x))"
  by (simp add: same_area_def)

lemma known_mkdir_inside:
  assumes "undisturbed os P" and "near P r" and "plain_dirs F r" and "near P (r @ [c])"
  shows "valid (known B P F L) (mkdir_call os (abs_path (r @ [c])) mode)
    (\<lambda>u w. F (r @ [c]) = None \<and> known B P (F(r @ [c] \<mapsto> Directory)) L w) (broken B)"
  unfolding mkdir_call_def
proof (rule valid_sys [OF assms(1)])
  fix n w
  assume w: "known B P F L w"
  then have "place (tree w) (abs_path (r @ [c])) = Some (r @ [c])"
    using place_entry [OF same_area_plain [OF _ assms(2,3)]] by (auto simp: known_def)
  moreover have "tree w (r @ [c]) = F (r @ [c])"
    using w assms(4) by (auto simp: known_def same_area_def)
  ultimately show "case (case place (tree w) (abs_path (r @ [c])) of None \<Rightarrow> (Inl NotFound, w)
      | Some q \<Rightarrow> if tree w q \<noteq> None then (Inl OSError, w)
          else (Inr (), w\<lparr>tree := (tree w)(q \<mapsto> Directory), modes := (modes w)(q := mode)\<rparr>))
      of (Inl e, w') \<Rightarrow> broken B e w'
      | (Inr u, w') \<Rightarrow> F (r @ [c]) = None \<and> known B P (F(r @ [c] \<mapsto> Directory)) L w'"
    using w same_area_update by (auto simp: broken_def known_def)
qed (simp add: broken_def)

lemma known_create_inside:
  assumes "undisturbed os P" and "near P r" and "plain_dirs F r" and "near P (r @ [c])"
  shows "valid (known B P F L) (create_call os (abs_path (r @ [c])))
    (\<lambda>q w. (q = r @ [c] \<and> F (r @ [c]) = None) \<and>
       known B P (F(r @ [c] \<mapsto> Regular [] True)) L w) (broken B)"
  unfolding create_call_def
proof (rule valid_sys [OF assms(1)])
  fix n w
  assume w: "known B P F L w"
  then have "place (tree w) (abs_path (r @ [c])) = Some (r @ [c])"
    using place_entry [OF same_area_plain [OF _ assms(2,3)]] by (auto simp: known_def)
  moreover have "tree w (r @ [c]) = F (r @ [c])"
    using w assms(4) by (auto simp: known_def same_area_def)
  ultimately show "case (case place (tree w) (abs_path (r @ [c])) of None \<Rightarrow> (Inl NotFound, w)
      | Some q \<Rightarrow> if tree w q \<noteq> None then (Inl OSError, w)
          else (Inr q, w\<lparr>tree := (tree w)(q \<mapsto> Regular [] True), modes := (modes w)(q := 384)\<rparr>))
      of (Inl e, w') \<Rightarrow> broken B e w'
      | (Inr q, w') \<Rightarrow> (q = r @ [c] \<and> F (r @ [c]) = None) \<and>
          known B P (F(r @ [c] \<mapsto> Regular [] True)) L w'"
    using w same_area_update by (auto simp: broken_def known_def)
qed (simp add: broken_def)

lemma known_append_inside:
  assumes "undisturbed os P" and "near P q" and "F q = Some (Regular text True)"
  shows "valid (known B P F L) (append_call os q s)
    (\<lambda>u. known B P (F(q \<mapsto> Regular (text @ s) True)) L) (broken B)"
proof -
  have "known B P (F(q \<mapsto> Regular (text @ s) True)) L
      (w\<lparr>clock := n, tree := appended q s (interfere os m (tree w))\<rparr>)"
    if "known B P F L w" for w n m
  proof -
    have area: "same_area P F (interfere os m (tree w))"
      using that same_area_interfere [OF assms(1)] by (simp add: known_def)
    then have "interfere os m (tree w) q = Some (Regular text True)"
      using assms(2,3) by (simp add: same_area_def)
    with area that show ?thesis
      by (simp add: appended_def known_def same_area_update)
  qed
  then show ?thesis
    unfolding valid_def append_call_def Let_def using known_silent
    by (auto simp: broken_def)
qed

text \<open>Commands and notes.\<close>

lemma known_log [job_rules]:
  assumes "\<not> B (Fetched p s)"
  shows "valid (known B P F L) (log_fetched p s) (\<lambda>u. known B P F (insert (Fetched p s) L)) E"
  using assms by (auto simp: valid_def log_fetched_def known_def silent_def)

lemma known_checked:
  assumes "undisturbed os P" and "\<And>t ok. \<not> B (Ran cmd t ok)"
  shows "valid (known B P F L) (checked_call os captured cmd)
    (\<lambda>u w. \<exists>t. same_area P F t \<and> known B P F (insert (Ran cmd t True) L) w) (broken B)"
proof -
  have "known B P F (insert (Ran cmd (interfere os n (tree w)) ok) L)
      (w\<lparr>tree := interfere os n (tree w), clock := m,
         trace := trace w @ [Ran cmd (interfere os n (tree w)) ok]\<rparr>)"
    "same_area P F (interfere os n (tree w))"
    if "known B P F L w" for w n m ok
    using that same_area_interfere [OF assms(1)] assms(2) by (auto simp: known_def silent_def)
  then show ?thesis
    unfolding valid_def checked_call_def spawn_call_def bindM_def returnM_def raiseM_def Let_def
      broken_def
    using known_silent by (fastforce split: option.splits prod.splits if_splits)
qed

end
