(* ===== verification/Json.thy ===== *)
theory Json
  imports PyValue "HOL-Library.List_Lexorder" "HOL-Library.Char_ord"
begin

text \<open>
  \<^verbatim>\<open>json.dumps(value, sort_keys=True, separators=(",", ":"))\<close>, the compact form in
  which the installer jobs exchange documents and which the package adapter demands of the
  verification receipt: keys sorted, non-ASCII characters escaped. Strings are given by their
  UTF-8 bytes, whose order is the order of the code points. The form of a float
  (\<^verbatim>\<open>float.__repr__\<close>) is a parameter; a date is not serialisable.
\<close>

section \<open>Code points\<close>

fun utf8_points :: "nat list \<Rightarrow> nat list" where
  "utf8_points [] = []"
| "utf8_points (b # bs) =
     (let low = (\<lambda>k. hd (drop k bs @ [128]) - 128) in
      if b < 128 then b # utf8_points bs
      else if b < 224 then ((b - 192) * 64 + low 0) # utf8_points (drop 1 bs)
      else if b < 240 then
        ((b - 224) * 4096 + low 0 * 64 + low 1) # utf8_points (drop 2 bs)
      else
        ((b - 240) * 262144 + low 0 * 4096 + low 1 * 64 + low 2) # utf8_points (drop 3 bs))"

definition hex4 :: "nat \<Rightarrow> string" where
  "hex4 n =
     map (\<lambda>i. (let d = n div 16 ^ i mod 16
               in char_of (if d < 10 then 48 + d else 87 + d))) [3, 2, 1, 0]"

definition unicode_escape :: "nat \<Rightarrow> string" where
  "unicode_escape n = CHR 0x5C # ''u'' @ hex4 n"

fun escape_point :: "nat \<Rightarrow> string" where
  "escape_point n =
     (if n = 34 then [CHR 0x5C, CHR 0x22]
      else if n = 92 then [CHR 0x5C, CHR 0x5C]
      else if n = 10 then [CHR 0x5C, CHR ''n'']
      else if n = 13 then [CHR 0x5C, CHR ''r'']
      else if n = 9 then [CHR 0x5C, CHR ''t'']
      else if n = 12 then [CHR 0x5C, CHR ''f'']
      else if n = 8 then [CHR 0x5C, CHR ''b'']
      else if 32 \<le> n \<and> n < 127 then [char_of n]
      else if n < 65536 then unicode_escape n
      else unicode_escape (55296 + (n - 65536) div 1024) @
           unicode_escape (56320 + (n - 65536) mod 1024))"

definition json_string :: "string \<Rightarrow> string" where
  "json_string s =
     CHR 0x22 # concat (map escape_point (utf8_points (map of_char s))) @ [CHR 0x22]"

section \<open>Documents\<close>

fun joined :: "string list \<Rightarrow> string" where
  "joined [] = []"
| "joined [x] = x"
| "joined (x # xs) = x @ '','' @ joined xs"

fun digits_of :: "nat \<Rightarrow> nat \<Rightarrow> string" where
  "digits_of 0 n = []"
| "digits_of (Suc k) n =
     (if n < 10 then [char_of (48 + n)] else digits_of k (n div 10) @ [char_of (48 + n mod 10)])"

definition int_str :: "int \<Rightarrow> string" where
  "int_str i = (if i < 0 then ''-'' else []) @ digits_of (Suc (nat \<bar>i\<bar>)) (nat \<bar>i\<bar>)"

fun json_dumps :: "(pyfloat \<Rightarrow> string) \<Rightarrow> pyval \<Rightarrow> string result" where
  "json_dumps fr PNone = Inr ''null''"
| "json_dumps fr (PBool b) = Inr (if b then ''true'' else ''false'')"
| "json_dumps fr (PInt i) = Inr (int_str i)"
| "json_dumps fr (PFloat x) = Inr (fr x)"
| "json_dumps fr (PStr s) = Inr (json_string s)"
| "json_dumps fr (PTime t) = Inl TypeError"
| "json_dumps fr (PList xs) =
     (case those (map (\<lambda>x. case json_dumps fr x of Inr s \<Rightarrow> Some s | Inl e \<Rightarrow> None) xs) of
        None \<Rightarrow> Inl TypeError
      | Some ss \<Rightarrow> Inr (''['' @ joined ss @ '']''))"
| "json_dumps fr (PDict d) =
     (case those (map (\<lambda>kv. case json_dumps fr (snd kv) of
          Inr s \<Rightarrow> Some (fst kv, s) | Inl e \<Rightarrow> None) d) of
        None \<Rightarrow> Inl TypeError
      | Some kvs \<Rightarrow>
          Inr (''{'' @ joined (map (\<lambda>(k, s). json_string k @ '':'' @ s) (sort_key fst kvs)) @ ''}''))"

end
