(* ===== verification/AtomicWrite.thy ===== *)
theory AtomicWrite
  imports PrivateArea Json
begin

text \<open>
  Replacing a file as a whole, the way both installer jobs write their JSON documents: the text
  goes to a temporary file beside the destination, is synced, and renamed over it; on any
  exception the temporary file is removed. \<open>write_document_atomic\<close> is the guarantee: whatever
  fails on the way, the destination holds its old content or the whole new text.
\<close>

section \<open>The operations\<close>

definition parent :: "pure_path \<Rightarrow> pure_path" where
  "parent p = p\<lparr>tail := butlast (tail p)\<rparr>"

definition discard_temporary :: "os \<Rightarrow> pure_path \<Rightarrow> exn \<Rightarrow> unit job" where
  "discard_temporary os temporary e =
     bindM (catchM (unlink_call os temporary)
         (\<lambda>e'. if e' = NotFound then returnM () else raiseM e')) (\<lambda>u. raiseM e)"

definition write_document ::
    "os \<Rightarrow> (pyfloat \<Rightarrow> string) \<Rightarrow> pure_path \<Rightarrow> pyval \<Rightarrow> string list \<Rightarrow> pure_path \<Rightarrow> unit job" where
  "write_document os fr path v q temporary =
     bindM (liftM (json_dumps fr v)) (\<lambda>text.
     bindM (append_call os q (text @ [CHR 0x0A])) (\<lambda>u.
     bindM (sync_call os) (\<lambda>u.
     bindM (replace_call os temporary path) (\<lambda>u.
     bindM (open_directory_call os (parent path)) (\<lambda>u.
     sync_call os)))))"

section \<open>A directory nobody else changes\<close>

definition area :: "string list \<Rightarrow> fs \<Rightarrow> world \<Rightarrow> bool" where
  "area d F w \<longleftrightarrow> same_area d F (tree w)"

definition calm_in :: "string list \<Rightarrow> 'a job \<Rightarrow> bool" where
  "calm_in d m \<longleftrightarrow> (\<forall>F. valid (area d F) m (\<lambda>x. area d F) (\<lambda>e. area d F))"

lemma area_sys:
  assumes "undisturbed os d"
    and "\<And>n w. area d F w \<Longrightarrow> case f n w of (Inl e, w') \<Rightarrow> E e w' | (Inr x, w') \<Rightarrow> Q x w'"
    and "\<And>w. area d F w \<Longrightarrow> E OSError w"
  shows "valid (area d F) (sys os f) Q E"
proof -
  have "area d F (w\<lparr>tree := interfere os n (tree w), clock := m\<rparr>)" if "area d F w" for w n m
    using that same_area_interfere [OF assms(1)] by (simp add: area_def)
  with assms(2,3) show ?thesis
    unfolding valid_def sys_def Let_def by (auto split: if_splits)
qed

lemma calm_sys:
  assumes "undisturbed os d" and "\<And>n w. tree (snd (f n w)) = tree w"
  shows "calm_in d (sys os f)"
  unfolding calm_in_def
  by (intro allI area_sys [OF assms(1)])
    (use assms(2) in \<open>auto simp: area_def split: prod.split sum.split\<close>,
      (metis snd_conv)+)

named_theorems calm_rules \<open>jobs that leave the area alone\<close>

lemma calm_calls [calm_rules]:
  assumes "undisturbed os d"
  shows "calm_in d (stat_call os p)" "calm_in d (lstat_call os p)" "calm_in d (chmod_call os p n)"
    "calm_in d (fchmod_call os q n)" "calm_in d (sync_call os)"
  unfolding stat_call_def lstat_call_def chmod_call_def fchmod_call_def sync_call_def
  by (rule calm_sys [OF assms], simp split: option.split)+

lemma calm_basic [calm_rules]:
  "calm_in d (returnM x)" "calm_in d (raiseM e)" "calm_in d (liftM r)"
  by (auto simp: calm_in_def valid_return valid_raise valid_lift)

lemma calm_bind [calm_rules]:
  "calm_in d m \<Longrightarrow> (\<And>x. calm_in d (f x)) \<Longrightarrow> calm_in d (bindM m f)"
  unfolding calm_in_def by (blast intro: valid_bind)

lemma calm_catch [calm_rules]:
  "calm_in d m \<Longrightarrow> (\<And>e. calm_in d (h e)) \<Longrightarrow> calm_in d (catchM m h)"
  unfolding calm_in_def by (blast intro: valid_catch)

lemma calm_if [calm_rules]: "calm_in d m \<Longrightarrow> calm_in d m' \<Longrightarrow> calm_in d (if c then m else m')"
  by simp

lemma calm_open_directory [calm_rules]: "undisturbed os d \<Longrightarrow> calm_in d (open_directory_call os p)"
  unfolding open_directory_call_def by (intro calm_rules)

lemma calm_existence [calm_rules]:
  assumes "undisturbed os d"
  shows "calm_in d (is_dir_call os p)" "calm_in d (is_file_call os p)" "calm_in d (exists_call os p)"
    "calm_in d (is_symlink_call os p)"
  unfolding is_dir_call_def is_file_call_def exists_call_def is_symlink_call_def absent_is_false_def
  by (intro calm_rules assms)+

lemma calm_valid: "calm_in d m \<Longrightarrow> valid (area d F) m (\<lambda>x. area d F) (\<lambda>e. area d F)"
  by (simp add: calm_in_def)

text \<open>The calls that change the area.\<close>

lemma area_place:
  assumes "area d F w" and "plain_dirs F d"
  shows "place (tree w) (abs_path (d @ [c])) = Some (d @ [c])"
  using assms place_entry [OF same_area_plain [OF _ _ assms(2)]]
  by (simp add: area_def near_def)

lemma area_at: "area d F w \<Longrightarrow> tree w (d @ cs) = F (d @ cs)"
  by (simp add: area_def same_area_def near_def)

lemma area_update: "area d F w \<Longrightarrow> area d (F(q := x)) (w\<lparr>tree := (tree w)(q := x)\<rparr>)"
  by (simp add: area_def same_area_update)

lemma area_other [simp]: "area d F (w\<lparr>modes := m\<rparr>) = area d F w" "area d F (w\<lparr>clock := n\<rparr>) = area d F w"
  by (simp_all add: area_def)

text \<open>Making a directory that is there already changes nothing.\<close>

lemma mkdirs_existing_in:
  assumes rely: "undisturbed os P" and plain: "plain_dirs F d" and "d \<noteq> []" and near: "near P d"
  shows "valid (area P F) (mkdirs os (abs_path d) n) (\<lambda>u. area P F) (\<lambda>e. area P F)"
proof -
  obtain d0 x where d: "d = d0 @ [x]" using assms(3) by (metis rev_exhaust)
  have plain0: "plain_dirs F d0" using plain plain_dirs_prefix d by blast
  have near0: "near P d0"
    using near d unfolding near_def by (metis prefixI prefix_order.trans prefix_same_cases)
  have node: "F d = Some Directory"
    using plain assms(3) unfolding plain_dirs_def by (auto dest: spec [of _ "length d"])
  have place: "place (tree w) (abs_path d) = Some d" "tree w d = Some Directory" if "area P F w" for w
  proof -
    have "plain_dirs (tree w) d0"
      by (rule same_area_plain [OF _ near0 plain0]) (use that in \<open>simp add: area_def\<close>)
    from place_entry [OF this] show "place (tree w) (abs_path d) = Some d" by (simp add: d)
    show "tree w d = Some Directory" using that near node by (simp add: area_def same_area_def)
  qed
  have made: "valid (area P F) (mkdir_call os (abs_path d) n) (\<lambda>u. area P F)
      (\<lambda>e w. e \<noteq> NotFound \<and> area P F w)"
    unfolding mkdir_call_def by (rule area_sys [OF rely]) (auto simp: place)
  have check: "valid (\<lambda>w. e \<noteq> NotFound \<and> area P F w)
      (if e = NotFound
       then bindM (mkdir_parents os ''/'' (rev d0) 511) (\<lambda>u. mkdir_exist_ok os (abs_path d) n)
       else bindM (is_dir_call os (abs_path d)) (\<lambda>b. if b then returnM () else raiseM e))
      (\<lambda>u. area P F) (\<lambda>e. area P F)" for e
  proof (rule valid_fact)
    assume "e \<noteq> NotFound"
    moreover have "calm_in P (bindM (is_dir_call os (abs_path d)) (\<lambda>b. if b then returnM () else raiseM e))"
      by (intro calm_rules rely)
    ultimately show "valid (area P F)
        (if e = NotFound
         then bindM (mkdir_parents os ''/'' (rev d0) 511) (\<lambda>u. mkdir_exist_ok os (abs_path d) n)
         else bindM (is_dir_call os (abs_path d)) (\<lambda>b. if b then returnM () else raiseM e))
        (\<lambda>u. area P F) (\<lambda>e. area P F)"
      by (simp add: calm_valid)
  qed
  have "mkdirs os (abs_path d) n = catchM (mkdir_call os (abs_path d) n) (\<lambda>e.
      if e = NotFound
      then bindM (mkdir_parents os ''/'' (rev d0) 511) (\<lambda>u. mkdir_exist_ok os (abs_path d) n)
      else bindM (is_dir_call os (abs_path d)) (\<lambda>b. if b then returnM () else raiseM e))"
    unfolding d mkdirs_def abs_path_def by (simp add: Let_def)
  then show ?thesis using valid_catch [OF made check] by simp
qed

lemma mkdirs_existing:
  "undisturbed os d \<Longrightarrow> plain_dirs F d \<Longrightarrow> d \<noteq> [] \<Longrightarrow>
     valid (area d F) (mkdirs os (abs_path d) n) (\<lambda>u. area d F) (\<lambda>e. area d F)"
  by (rule mkdirs_existing_in) (simp_all add: near_def)

lemma area_create:
  assumes "undisturbed os d" and "plain_dirs F d"
  shows "valid (area d F) (create_call os (abs_path (d @ [c])))
    (\<lambda>q w. (q = d @ [c] \<and> F (d @ [c]) = None) \<and> area d (F(d @ [c] \<mapsto> Regular [] True)) w)
    (\<lambda>e. area d F)"
  unfolding create_call_def
  by (rule area_sys [OF assms(1)])
    (auto simp: area_place [OF _ assms(2)] area_at area_def same_area_update)

lemma area_append:
  assumes "undisturbed os d" and "F (d @ [c]) = Some (Regular text True)"
  shows "valid (area d F) (append_call os (d @ [c]) s)
    (\<lambda>u. area d (F(d @ [c] \<mapsto> Regular (text @ s) True)))
    (\<lambda>e w. \<exists>k. area d (F(d @ [c] \<mapsto> Regular (text @ take k s) True)) w)"
proof -
  have "area d (F(d @ [c] \<mapsto> Regular (text @ s') True))
      (w\<lparr>clock := m, tree := appended (d @ [c]) s' (interfere os n (tree w))\<rparr>)"
    if "area d F w" for w n m s'
  proof -
    have same: "same_area d F (interfere os n (tree w))"
      using that same_area_interfere [OF assms(1)] by (simp add: area_def)
    then have "interfere os n (tree w) (d @ [c]) = Some (Regular text True)"
      using assms(2) by (simp add: same_area_def near_def)
    with same show ?thesis by (simp add: appended_def area_def same_area_update)
  qed
  then show ?thesis
    unfolding valid_def append_call_def Let_def
    by (auto split: if_splits intro!: exI [of _ "cut os _"])
qed

lemma area_replace:
  assumes "undisturbed os d" and "plain_dirs F d" and "F (d @ [t]) = Some (Regular text True)"
  shows "valid (area d F) (replace_call os (abs_path (d @ [t])) (abs_path (d @ [c])))
    (\<lambda>u. area d (F(d @ [t] := None, d @ [c] \<mapsto> Regular text True))) (\<lambda>e. area d F)"
  unfolding replace_call_def
  by (rule area_sys [OF assms(1)])
    (auto simp: area_place [OF _ assms(2)] area_at assms(3) area_def same_area_update
      split: option.split if_split)

lemma area_unlink:
  assumes "undisturbed os d" and "plain_dirs F d"
    and "F (d @ [t]) = None \<or> F (d @ [t]) = Some (Regular text True)"
  shows "valid (area d F) (unlink_call os (abs_path (d @ [t])))
    (\<lambda>u. area d (F(d @ [t] := None))) (\<lambda>e. area d F)"
  unfolding unlink_call_def
  by (rule area_sys [OF assms(1)])
    (use assms(3) in \<open>auto simp: area_place [OF _ assms(2)] area_at area_def same_area_update
      split: option.split if_split\<close>)


lemma plain_dirs_below [simp]: "plain_dirs (F(d @ [t] := x)) d = plain_dirs F d"
proof -
  have "take k d \<noteq> d @ [t]" for k
    by (metis append_take_drop_id length_append_singleton length_take lessI min.cobounded1 not_le)
  then show ?thesis by (simp add: plain_dirs_def)
qed

section \<open>The guarantee\<close>

definition half_written :: "string list \<Rightarrow> string \<Rightarrow> fs \<Rightarrow> fs \<Rightarrow> bool" where
  "half_written d t F G \<longleftrightarrow> G = F \<or> (\<exists>s. G = F(d @ [t] \<mapsto> Regular s True))"

definition written ::
    "(pyfloat \<Rightarrow> string) \<Rightarrow> pyval \<Rightarrow> string list \<Rightarrow> string \<Rightarrow> fs \<Rightarrow> fs \<Rightarrow> bool" where
  "written fr v d c F G \<longleftrightarrow>
     (\<exists>text. json_dumps fr v = Inr text \<and> G = F(d @ [c] \<mapsto> Regular (text @ [CHR 0x0A]) True))"

text \<open>After an exception the temporary file may remain, but the destination is whole.\<close>

definition whole ::
    "(pyfloat \<Rightarrow> string) \<Rightarrow> pyval \<Rightarrow> string list \<Rightarrow> string \<Rightarrow> string \<Rightarrow> fs \<Rightarrow> world \<Rightarrow> bool" where
  "whole fr v d c t F w \<longleftrightarrow>
     (\<exists>G. area d G w \<and> (half_written d t F G \<or> written fr v d c F G))"

lemma parent_abs [simp]: "parent (abs_path (d @ [c])) = abs_path d"
  by (simp add: parent_def abs_path_def)

lemma write_document_written:
  assumes rely: "undisturbed os d" and plain: "plain_dirs F d" and fresh: "F (d @ [t]) = None"
    and differ: "t \<noteq> c"
  shows "valid (area d (F(d @ [t] \<mapsto> Regular [] True)))
    (write_document os fr (abs_path (d @ [c])) v (d @ [t]) (abs_path (d @ [t])))
    (\<lambda>u w. \<exists>G. written fr v d c F G \<and> area d G w) (\<lambda>e. whole fr v d c t F)"
proof -
  let ?F = "\<lambda>s. F(d @ [t] \<mapsto> Regular s True)"
  have plain': "plain_dirs (?F s) d" for s
    using plain by simp
  have half: "area d (?F s) w \<Longrightarrow> whole fr v d c t F w" for s w
    unfolding whole_def half_written_def by blast
  have finished: "whole fr v d c t F w" if "written fr v d c F G" "area d G w" for G w
    using that unfolding whole_def by blast
  have rest: "valid (area d G) (bindM (open_directory_call os (abs_path d)) (\<lambda>u. sync_call os))
      (\<lambda>u w. \<exists>G. written fr v d c F G \<and> area d G w) (\<lambda>e. whole fr v d c t F)"
    if "written fr v d c F G" for G
  proof (rule valid_conseq)
    show "valid (area d G) (bindM (open_directory_call os (abs_path d)) (\<lambda>u. sync_call os))
        (\<lambda>u. area d G) (\<lambda>e. area d G)"
      by (intro calm_valid calm_rules rely)
  qed (use that finished in blast)+
  have rest_of: "valid (area d (?F []))
      (bindM (append_call os (d @ [t]) (body @ [CHR 0x0A])) (\<lambda>u.
       bindM (sync_call os) (\<lambda>u.
       bindM (replace_call os (abs_path (d @ [t])) (abs_path (d @ [c]))) (\<lambda>u.
       bindM (open_directory_call os (abs_path d)) (\<lambda>u. sync_call os)))))
      (\<lambda>u w. \<exists>G. written fr v d c F G \<and> area d G w) (\<lambda>e. whole fr v d c t F)"
    if dumped: "json_dumps fr v = Inr body" for body
  proof -
    let ?s = "body @ [CHR 0x0A]"
    have moved: "(?F ?s)(d @ [t] := None, d @ [c] \<mapsto> Regular ?s True) =
        F(d @ [c] \<mapsto> Regular ?s True)"
      using fresh by (auto simp: fun_eq_iff)
    have append: "valid (area d (?F [])) (append_call os (d @ [t]) ?s) (\<lambda>u. area d (?F ?s))
        (\<lambda>e. whole fr v d c t F)"
      by (rule valid_conseq, rule area_append [OF rely, of "?F []" t "[]"]) (use half in auto)
    have sync: "valid (area d (?F ?s)) (sync_call os) (\<lambda>u. area d (?F ?s)) (\<lambda>e. whole fr v d c t F)"
      by (rule valid_conseq [OF calm_valid [OF calm_calls(5) [OF rely]]]) (use half in auto)
    have replace: "valid (area d (?F ?s)) (replace_call os (abs_path (d @ [t])) (abs_path (d @ [c])))
        (\<lambda>u. area d (F(d @ [c] \<mapsto> Regular ?s True))) (\<lambda>e. whole fr v d c t F)"
    proof (rule valid_conseq)
      show "valid (area d (?F ?s)) (replace_call os (abs_path (d @ [t])) (abs_path (d @ [c])))
          (\<lambda>u. area d ((?F ?s)(d @ [t] := None, d @ [c] \<mapsto> Regular ?s True)))
          (\<lambda>e. area d (?F ?s))"
        by (rule area_replace [OF rely plain']) simp
    qed (use half moved in auto)
    have "written fr v d c F (F(d @ [c] \<mapsto> Regular ?s True))"
      using dumped by (simp add: written_def)
    then show ?thesis
      by (intro valid_bind [OF append] valid_bind [OF sync] valid_bind [OF replace] rest)
  qed
  show ?thesis
    unfolding write_document_def parent_abs
    by (rule valid_bind [where R = "\<lambda>text w. json_dumps fr v = Inr text \<and> area d (?F []) w"],
        rule valid_lift, simp, rule half, assumption) (rule valid_fact, rule rest_of)
qed

lemma discard_area:
  assumes "undisturbed os d" and "plain_dirs G d"
    and "G (d @ [t]) = None \<or> G (d @ [t]) = Some (Regular text True)"
  shows "valid (area d G) (discard_temporary os (abs_path (d @ [t])) e) Q
    (\<lambda>e w. area d G w \<or> area d (G(d @ [t] := None)) w)"
proof -
  let ?either = "\<lambda>w. area d G w \<or> area d (G(d @ [t] := None)) w"
  have handler: "valid (area d G) (if e' = NotFound then returnM () else raiseM e') (\<lambda>u. ?either)
      (\<lambda>e. ?either)" for e'
    by (intro valid_if valid_return valid_raise) simp_all
  have unlink: "valid (area d G) (unlink_call os (abs_path (d @ [t]))) (\<lambda>u. ?either) (\<lambda>e. area d G)"
    by (rule valid_conseq, rule area_unlink [OF assms]) auto
  have raised: "valid ?either (raiseM e) Q (\<lambda>e. ?either)"
    by (rule valid_raise)
  show ?thesis
    unfolding discard_temporary_def
    by (rule valid_bind, rule valid_catch, rule unlink, rule handler, rule raised)
qed

lemma discard_whole:
  assumes rely: "undisturbed os d" and plain: "plain_dirs F d" and fresh: "F (d @ [t]) = None"
    and differ: "t \<noteq> c"
  shows "valid (whole fr v d c t F) (discard_temporary os (abs_path (d @ [t])) e) Q
    (\<lambda>e. whole fr v d c t F)"
proof -
  have keep: "valid (area d G) (discard_temporary os (abs_path (d @ [t])) e) Q
      (\<lambda>e. whole fr v d c t F)"
    if G: "half_written d t F G \<or> written fr v d c F G" for G
  proof -
    have "plain_dirs G d"
      using G plain by (auto simp: half_written_def written_def)
    moreover have "\<exists>text. G (d @ [t]) = None \<or> G (d @ [t]) = Some (Regular text True)"
      using G fresh differ by (auto simp: half_written_def written_def)
    moreover have "half_written d t F (G(d @ [t] := None)) \<or> written fr v d c F (G(d @ [t] := None))"
      using G fresh differ by (auto simp: half_written_def written_def fun_eq_iff)
    ultimately show ?thesis
      using G by (elim exE) (rule valid_conseq, rule discard_area [OF rely], auto simp: whole_def)
  qed
  have "valid (\<lambda>w. \<exists>G. (half_written d t F G \<or> written fr v d c F G) \<and> area d G w)
      (discard_temporary os (abs_path (d @ [t])) e) Q (\<lambda>e. whole fr v d c t F)"
    by (rule valid_ex, rule valid_fact, rule keep)
  then show ?thesis by (rule valid_pre) (auto simp: whole_def)
qed

text \<open>Writing through a temporary file, for any preparation \<open>m\<close> that leaves the area alone.\<close>

lemma write_document_atomic:
  assumes "undisturbed os d" and "plain_dirs F d" and "F (d @ [t]) = None" and "t \<noteq> c"
    and "calm_in d m"
  shows "valid (area d (F(d @ [t] \<mapsto> Regular [] True)))
    (catchM
       (bindM m (\<lambda>u. write_document os fr (abs_path (d @ [c])) v (d @ [t]) (abs_path (d @ [t]))))
       (discard_temporary os (abs_path (d @ [t]))))
    (\<lambda>u w. \<exists>G. written fr v d c F G \<and> area d G w) (\<lambda>e. whole fr v d c t F)"
proof (rule valid_catch, rule valid_bind)
  let ?F = "F(d @ [t] \<mapsto> Regular [] True)"
  show "valid (area d ?F) m (\<lambda>x. area d ?F) (\<lambda>e. whole fr v d c t F)"
    by (rule valid_conseq, rule calm_valid [OF assms(5)])
      (auto simp: whole_def half_written_def)
  show "valid (area d ?F)
      (write_document os fr (abs_path (d @ [c])) v (d @ [t]) (abs_path (d @ [t])))
      (\<lambda>u w. \<exists>G. written fr v d c F G \<and> area d G w) (\<lambda>e. whole fr v d c t F)"
    by (rule write_document_written [OF assms(1-4)])
  show "valid (whole fr v d c t F) (discard_temporary os (abs_path (d @ [t])) e)
      (\<lambda>u w. \<exists>G. written fr v d c F G \<and> area d G w) (\<lambda>e. whole fr v d c t F)" for e
    by (rule discard_whole [OF assms(1-4)])
qed

end
