(* ===== verification/Urls.thy ===== *)
theory Urls
  imports Patterns
begin

text \<open>
  \<^verbatim>\<open>urllib.parse\<close> as the scripts use it: \<^verbatim>\<open>urlsplit\<close>,
  \<^verbatim>\<open>urlparse\<close>, and the parts of a network location. The two checks of
  \<^verbatim>\<open>urlsplit\<close> that rest on \<^verbatim>\<open>ipaddress\<close> and
  \<^verbatim>\<open>unicodedata\<close> are the parameters \<open>host_ok\<close> (an address in brackets) and
  \<open>netloc_ok\<close> (a network location that is not ASCII).
\<close>

section \<open>Splitting\<close>

text \<open>\<^verbatim>\<open>s.partition(c)\<close>: the text before the first \<open>c\<close>, whether there is one, the rest.\<close>

fun partition_at :: "char \<Rightarrow> string \<Rightarrow> string \<times> bool \<times> string" where
  "partition_at c [] = ([], False, [])"
| "partition_at c (x # s) =
     (if x = c then ([], True, s)
      else case partition_at c s of (a, found, b) \<Rightarrow> (x # a, found, b))"

text \<open>\<^verbatim>\<open>s.rpartition(c)\<close>: as the code uses it, whether there is a \<open>c\<close>, and the text after the last.\<close>

definition after_last :: "char \<Rightarrow> string \<Rightarrow> string" where
  "after_last c s = rev (takeWhile (\<lambda>x. x \<noteq> c) (rev s))"

record split_url =
  scheme :: string
  netloc :: string
  url_path :: string
  url_query :: string
  fragment :: string

definition scheme_char :: "char \<Rightarrow> bool" where
  "scheme_char c \<longleftrightarrow>
     c \<in> set (lower_alnum @ ''ABCDEFGHIJKLMNOPQRSTUVWXYZ+-.'')"

definition ascii_letter :: "char \<Rightarrow> bool" where
  "ascii_letter c \<longleftrightarrow> c \<in> set ''abcdefghijklmnopqrstuvwxyzABCDEFGHIJKLMNOPQRSTUVWXYZ''"

text \<open>Leading control characters and blanks are stripped, and tabs and line ends removed.\<close>

definition url_clean :: "string \<Rightarrow> string" where
  "url_clean s =
     filter (\<lambda>c. c \<notin> {CHR 0x09, CHR 0x0D, CHR 0x0A})
       (dropWhile (\<lambda>c. (of_char c :: nat) \<le> 32) s)"

definition split_scheme :: "string \<Rightarrow> string \<times> string" where
  "split_scheme s =
     (case partition_at CHR '':'' s of (a, found, b) \<Rightarrow>
        (if found \<and> a \<noteq> [] \<and> ascii_letter (hd a) \<and> list_all scheme_char a
         then (map ascii_lower a, b) else ([], s)))"

definition netloc_end :: "char \<Rightarrow> bool" where
  "netloc_end c \<longleftrightarrow> c = CHR ''/'' \<or> c = CHR ''?'' \<or> c = CHR ''#''"

definition bracketed :: "string \<Rightarrow> string" where
  "bracketed n = fst (partition_at CHR '']'' (snd (snd (partition_at CHR ''['' n))))"

definition urlsplit :: "(string \<Rightarrow> bool) \<Rightarrow> (string \<Rightarrow> bool) \<Rightarrow> string \<Rightarrow> split_url result" where
  "urlsplit host_ok netloc_ok s =
     (case split_scheme (url_clean s) of (sch, rest) \<Rightarrow>
       let located = starts_with ''//'' rest;
           n = (if located then takeWhile (\<lambda>c. \<not> netloc_end c) (drop 2 rest) else []);
           rest1 = (if located then dropWhile (\<lambda>c. \<not> netloc_end c) (drop 2 rest) else rest);
           opened = CHR ''['' \<in> set n; closed = CHR '']'' \<in> set n
       in if opened \<noteq> closed then Inl ValueError
          else if opened \<and> \<not> host_ok (bracketed n) then Inl ValueError
          else case partition_at CHR ''#'' rest1 of (rest2, marked, frag) \<Rightarrow>
            (if list_ex (\<lambda>c. 128 \<le> (of_char c :: nat)) n \<and> \<not> netloc_ok n then Inl ValueError
             else Inr \<lparr>scheme = sch, netloc = n, url_path = fst (partition_at CHR ''?'' rest2),
                       url_query = snd (snd (partition_at CHR ''?'' rest2)), fragment = frag\<rparr>))"

definition has_userinfo :: "string \<Rightarrow> bool" where
  "has_userinfo n \<longleftrightarrow> CHR ''@'' \<in> set n"

text \<open>\<^verbatim>\<open>hostname\<close> without its lower casing, which does not change whether it is empty.\<close>

definition url_host :: "string \<Rightarrow> string" where
  "url_host n =
     (let host = after_last CHR ''@'' n
      in case partition_at CHR ''['' host of (a, found, b) \<Rightarrow>
           (if found then fst (partition_at CHR '']'' b) else fst (partition_at CHR '':'' host)))"

section \<open>The shape of a split URL\<close>

lemma partition_at_found:
  "partition_at c s = (a, True, b) \<Longrightarrow> s = a @ c # b \<and> c \<notin> set a"
  by (induction c s arbitrary: a b rule: partition_at.induct)
    (auto split: if_splits prod.splits)

lemma partition_at_missing: "partition_at c s = (a, False, b) \<Longrightarrow> s = a \<and> b = [] \<and> c \<notin> set a"
  by (induction c s arbitrary: a b rule: partition_at.induct)
    (auto split: if_splits prod.splits)

lemma partition_at_first: "fst (partition_at c s) = takeWhile (\<lambda>x. x \<noteq> c) s"
  by (induction c s rule: partition_at.induct) (auto split: prod.splits)

lemma split_scheme_https:
  assumes "split_scheme s = (''https'', rest)"
  shows "\<exists>a. s = a @ CHR '':'' # rest \<and> map ascii_lower a = ''https''"
proof -
  obtain a found b where p: "partition_at CHR '':'' s = (a, found, b)" by (metis prod_cases3)
  with assms have "found" "map ascii_lower a = ''https''" "b = rest"
    by (auto simp: split_scheme_def split: if_splits)
  with partition_at_found p show ?thesis by fastforce
qed

lemma urlsplit_https:
  assumes "urlsplit host_ok netloc_ok u = Inr parsed" and "scheme parsed = ''https''"
    and "url_host (netloc parsed) \<noteq> []" and "\<not> has_userinfo (netloc parsed)"
    and "fragment parsed = []" and "url_path parsed \<noteq> []"
  shows "\<exists>a n rest. url_clean u = a @ ''://'' @ n @ CHR ''/'' # rest \<and>
    map ascii_lower a = ''https'' \<and> n \<noteq> [] \<and> list_all (\<lambda>c. c \<notin> set ''/?#@'') n \<and>
    (\<forall>x y. rest = x @ CHR ''#'' # y \<longrightarrow> CHR ''#'' \<notin> set x \<longrightarrow> y = [])"
proof -
  obtain sch rest where split: "split_scheme (url_clean u) = (sch, rest)" by fastforce
  obtain rest2 marked frag where frag:
    "partition_at CHR ''#'' (if starts_with ''//'' rest
       then dropWhile (\<lambda>c. \<not> netloc_end c) (drop 2 rest) else rest) = (rest2, marked, frag)"
    by (metis prod_cases3)
  have fields: "sch = ''https''" "frag = []" "fst (partition_at CHR ''?'' rest2) \<noteq> []"
    "netloc parsed = (if starts_with ''//'' rest then takeWhile (\<lambda>c. \<not> netloc_end c) (drop 2 rest) else [])"
    using assms frag unfolding urlsplit_def split
    by (auto simp: Let_def split: if_splits)
  have "netloc parsed \<noteq> []"
    using assms(3) by (auto simp: url_host_def after_last_def)
  with fields(4) obtain t where t: "rest = ''//'' @ t" and n: "netloc parsed = takeWhile (\<lambda>c. \<not> netloc_end c) t"
    by (auto simp: starts_with_iff split: if_splits)
  let ?n = "netloc parsed" and ?r = "dropWhile (\<lambda>c. \<not> netloc_end c) t"
  have tn: "t = ?n @ ?r" unfolding n by simp
  have frag': "partition_at CHR ''#'' ?r = (rest2, marked, [])"
    using frag fields(2) t by simp
  have "takeWhile (\<lambda>x. x \<noteq> CHR ''?'') rest2 \<noteq> []" using fields(3) by (simp add: partition_at_first)
  moreover have r2: "rest2 = takeWhile (\<lambda>x. x \<noteq> CHR ''#'') ?r"
    using partition_at_first [of "CHR ''#''" ?r] frag' by simp
  ultimately obtain x r' where r: "?r = x # r'" "x \<noteq> CHR ''#''" "x \<noteq> CHR ''?''"
    by (cases ?r) (auto split: if_splits)
  then have "netloc_end x" by (metis hd_dropWhile list.distinct(1) list.sel(1))
  with r have slash: "?r = CHR ''/'' # r'" by (simp add: netloc_end_def)
  obtain a where a: "url_clean u = a @ CHR '':'' # rest" "map ascii_lower a = ''https''"
    using split_scheme_https [of "url_clean u" rest] split fields(1) by auto
  have "\<not> netloc_end x" if "x \<in> set ?n" for x
    using that set_takeWhileD unfolding n by metis
  then have chars: "list_all (\<lambda>c. c \<notin> set ''/?#@'') ?n"
    using assms(4) by (auto simp: list_all_iff has_userinfo_def netloc_end_def)
  have "y = []" if "r' = x @ CHR ''#'' # y" "CHR ''#'' \<notin> set x" for x y
  proof -
    have "partition_at CHR ''#'' (p @ CHR ''#'' # y) = (p, True, y)" if "CHR ''#'' \<notin> set p" for p
      using that by (induction p) auto
    from this [of "CHR ''/'' # x"] that have "partition_at CHR ''#'' ?r = (CHR ''/'' # x, True, y)"
      unfolding slash by simp
    with frag' show ?thesis by simp
  qed
  moreover have "url_clean u = a @ ''://'' @ ?n @ CHR ''/'' # r'"
    using a(1) t tn slash by simp
  ultimately show ?thesis
    using a(2) \<open>?n \<noteq> []\<close> chars
    by (intro exI [of _ a] exI [of _ "?n"] exI [of _ r'] conjI; (assumption | blast)?)
qed

end
