(* ===== verification/Hardware.thy ===== *)
theory Hardware
  imports AtomicWrite Urls Sha256
begin

text \<open>
  \<^verbatim>\<open>installer/calamares/modules/arachhardware/\<close>: the job that selects the hardware
  catalog (the offline one, or a remote one that it has synchronised), runs the hardware planner
  on it, and writes the receipt that binds the plan to the catalog. The TOML parser is the
  parameter \<open>toml\<close>; \<open>describe\<close> is \<^verbatim>\<open>str(error)\<close>. Of \<^verbatim>\<open>urlsplit\<close> the two
  checks that rest on \<^verbatim>\<open>ipaddress\<close> and \<^verbatim>\<open>unicodedata\<close> are the parameters
  \<open>host_ok\<close> (an address in brackets) and \<open>netloc_ok\<close> (a network location that is not ASCII).
\<close>

section \<open>Repository URLs\<close>

definition nul_in :: "string \<Rightarrow> bool" where
  "nul_in s \<longleftrightarrow> CHR 0x00 \<in> set s"

definition char_count :: "string \<Rightarrow> nat" where
  "char_count s = length (filter (\<lambda>c. \<not> cont (of_char c)) s)"

definition https_url :: "(string \<Rightarrow> bool) \<Rightarrow> (string \<Rightarrow> bool) \<Rightarrow> pyval \<Rightarrow> string \<Rightarrow> string result" where
  "https_url host_ok netloc_ok v name =
     (if \<not> str_that (\<lambda>s. char_count s \<le> 4096 \<and> \<not> nul_in s) v
      then Inl (Rejected (''hardware repository '' @ name @ '' is invalid''))
      else bindE (urlsplit host_ok netloc_ok (str_of v)) (\<lambda>parsed.
        if scheme parsed \<noteq> ''https'' \<or> url_host (netloc parsed) = [] \<or>
           has_userinfo (netloc parsed) \<or> fragment parsed \<noteq> [] \<or> url_path parsed = []
        then Inl (Rejected (''hardware repository '' @ name @
          '' must be an HTTPS URL without credentials or fragments''))
        else Inr (str_of v)))"

section \<open>The repository configuration\<close>

definition offline_catalog_root :: pure_path where
  "offline_catalog_root = Path ''/etc/arach/hwd''"

definition repository_keyring :: pure_path where
  "repository_keyring = join offline_catalog_root ''keys.toml''"

definition max_repository_configuration_bytes :: nat where
  "max_repository_configuration_bytes = 64 * 1024"

record repository_configuration =
  manifest_url :: string
  signature_url :: string
  bootstrap_keyring :: pure_path
  sync_required :: bool

record catalog =
  catalog_root :: pure_path
  profiles :: pure_path
  keyring :: pure_path
  catalog_lock :: pure_path
  driver_abi :: pure_path
  binary_index :: pure_path
  binary_signature :: pure_path

fun bounded_size :: "nat \<Rightarrow> node \<Rightarrow> bool" where
  "bounded_size limit (Regular c r) = (0 < length c \<and> length c \<le> limit)"
| "bounded_size limit nd = False"

definition parse_repository_configuration ::
    "(string \<Rightarrow> bool) \<Rightarrow> (string \<Rightarrow> bool) \<Rightarrow> pyval \<Rightarrow> repository_configuration result" where
  "parse_repository_configuration host_ok netloc_ok document =
     (if \<not> has_fields [''format'', ''manifest_url'', ''signature_url'', ''keyring'', ''required'']
           document
      then Inl (Rejected ''hardware repository configuration has unknown or missing fields'')
      else if \<not> py_eq (field document ''format'') (PInt 1)
      then Inl (Rejected ''unsupported hardware repository format'')
      else if \<not> is_bool (field document ''required'')
      then Inl (Rejected ''hardware repository required flag must be Boolean'')
      else bindE (https_url host_ok netloc_ok (field document ''manifest_url'') ''manifest_url'')
        (\<lambda>manifest.
      bindE (https_url host_ok netloc_ok (field document ''signature_url'') ''signature_url'')
        (\<lambda>signature.
      if \<not> str_that (\<lambda>s. Path s = repository_keyring) (field document ''keyring'')
      then Inl (Rejected ''hardware repository keyring must use the measured bootstrap path'')
      else Inr \<lparr>manifest_url = manifest, signature_url = signature,
                bootstrap_keyring = Path (str_of (field document ''keyring'')),
                sync_required = (field document ''required'' = PBool True)\<rparr>)))"

definition load_repository_configuration ::
    "os \<Rightarrow> (string \<Rightarrow> pyval option) \<Rightarrow> (string \<Rightarrow> bool) \<Rightarrow> (string \<Rightarrow> bool) \<Rightarrow> pure_path \<Rightarrow>
     repository_configuration option job" where
  "load_repository_configuration os toml host_ok netloc_ok p =
     bindM (catchM (bindM (lstat_call os p) (\<lambda>nd. returnM (Some nd))) (\<lambda>e.
         if e = NotFound then returnM None
         else raiseM (if os_error e then Rejected ''cannot inspect the configuration'' else e)))
       (\<lambda>found. case found of
          None \<Rightarrow> returnM None
        | Some nd \<Rightarrow>
            (if \<not> bounded_size max_repository_configuration_bytes nd
             then raiseM (Rejected
               ''hardware repository configuration must be a bounded regular file'')
             else bindM (reportM ''hardware repository configuration is unreadable''
                 (read_file_call os p)) (\<lambda>raw.
               case (if utf8_valid raw then toml raw else None) of
                 None \<Rightarrow> raiseM (Rejected ''hardware repository configuration is unreadable'')
               | Some document \<Rightarrow>
                   bindM (liftM (parse_repository_configuration host_ok netloc_ok document))
                     (\<lambda>r. returnM (Some r)))))"

definition catalog_paths :: "pure_path \<Rightarrow> catalog result" where
  "catalog_paths root =
     (if \<not> is_absolute root \<or> root = Path ''/''
      then Inl (Rejected ''hardware catalog root must be absolute and non-root'')
      else Inr \<lparr>catalog_root = root, profiles = join root ''profiles'',
        keyring = join root ''keys.toml'', catalog_lock = join root ''catalog.lock'',
        driver_abi = join root ''driver-abi'', binary_index = join root ''packages.toml'',
        binary_signature = join root ''packages.toml.sig''\<rparr>)"

definition remap_catalog_file :: "pyval \<Rightarrow> pure_path \<Rightarrow> pure_path result" where
  "remap_catalog_file v active_root =
     (if \<not> str_that (\<lambda>s. \<not> nul_in s) v
      then Inl (Rejected ''catalog metadata path is invalid'')
      else case relative_to (Path (str_of v)) offline_catalog_root of
        None \<Rightarrow> Inl (Rejected ''catalog metadata path is outside the measured catalog root'')
      | Some relative \<Rightarrow>
          (if relative = [] \<or> list_ex (\<lambda>part. part \<in> {[], ''.'', ''..''}) relative
           then Inl (Rejected ''catalog metadata path is not canonical'')
           else Inr (active_root\<lparr>tail := tail active_root @ relative\<rparr>)))"

end
