(* ===== verification/HardwareJob.thy ===== *)
theory HardwareJob
  imports Hardware
begin

text \<open>
  \<^verbatim>\<open>run\<close> of \<^verbatim>\<open>installer/calamares/modules/arachhardware/main.py\<close>: the checks
  of the configuration, the synchronisation of the remote catalog, the tests of the active
  catalog, the planner's two commands, the receipt, and what is handed over in the storage.
  Calamares runs its jobs as the superuser, for whom \<^verbatim>\<open>os.access(path, X_OK)\<close> asks for
  any execute bit.
\<close>

type_synonym answer = "(string \<times> string) option"

text \<open>
  Early returns: \<open>and_then\<close> goes on unless the job has already answered, and \<open>answering\<close> goes on
  with a value unless there is an answer instead of it.
\<close>

definition and_then :: "answer job \<Rightarrow> answer job \<Rightarrow> answer job" where
  "and_then m m' = bindM m (\<lambda>a. if a \<noteq> None then returnM a else m')"

definition answering :: "((string \<times> string) + 'a) job \<Rightarrow> ('a \<Rightarrow> answer job) \<Rightarrow> answer job" where
  "answering m f = bindM m (\<lambda>r. case r of Inl a \<Rightarrow> returnM (Some a) | Inr x \<Rightarrow> f x)"

definition supported_executables :: "(string \<times> string) list" where
  "supported_executables =
     [(''/system/arach-hwd'', ''/system/arach-hwd-catalog-sync''),
      (''/usr/bin/arach-hwd'', ''/usr/bin/arach-hwd-catalog-sync'')]"

definition report_file :: string where
  "report_file = ''/run/arach-installer/hardware.toml''"

definition planned_file :: string where
  "planned_file = ''/run/arach-installer/hardware.plan.toml''"

definition planned_receipt_file :: string where
  "planned_receipt_file = ''/run/arach-installer/hardware.plan.verified.json''"

definition remote_catalog_root :: string where
  "remote_catalog_root = ''/run/arach-installer/catalog''"

text \<open>The fixed settings, in the order in which they are tested; the test of the executables
  hashes its operands.\<close>

definition executables_supported :: "pyval \<Rightarrow> bool result" where
  "executables_supported c =
     (let a = field c ''executable''; b = field c ''catalogSyncExecutable''
      in if \<not> hashable a \<or> \<not> hashable b then Inl TypeError
         else Inr (list_ex (\<lambda>(x, y). py_eq a (PStr x) \<and> py_eq b (PStr y)) supported_executables))"

definition settings_fixed :: "pyval \<Rightarrow> bool" where
  "settings_fixed c \<longleftrightarrow>
     list_all (\<lambda>(k, s). py_eq (field c k) (PStr s))
       [(''repositoryConfiguration'', ''/etc/arach/hwd/repository.toml''),
        (''remoteCatalogRoot'', remote_catalog_root), (''sysfs'', ''/sys'')] \<and>
     list_all (\<lambda>k. is_list (field c k))
       [''modulesAlias'', ''modulesFirmware'', ''modulesDep'', ''modulesBuiltin'', ''firmwareRoots''] \<and>
     list_all (\<lambda>(k, s). py_eq (field c k) (PStr s))
       [(''report'', report_file), (''profiles'', ''/etc/arach/hwd/profiles''),
        (''keyring'', ''/etc/arach/hwd/keys.toml''), (''catalogLock'', ''/etc/arach/hwd/catalog.lock''),
        (''driverAbi'', ''/etc/arach/hwd/driver-abi''),
        (''binaryIndex'', ''/etc/arach/hwd/packages.toml''),
        (''binarySignature'', ''/etc/arach/hwd/packages.toml.sig''), (''plan'', planned_file),
        (''planReceipt'', planned_receipt_file)] \<and>
     field c ''requireTargetProfiles'' = PBool True"

section \<open>The catalog\<close>

definition access_call :: "os \<Rightarrow> pure_path \<Rightarrow> bool job" where
  "access_call os p =
     catchM (sys os (\<lambda>n w. (Inr (case locate (tree w) p of
         None \<Rightarrow> False
       | Some q \<Rightarrow> node_at (tree w) q \<noteq> None \<and>
           (odd (modes w q) \<or> odd (modes w q div 8) \<or> odd (modes w q div 64))), w)))
       (\<lambda>e. returnM False)"

definition sync_command :: "string \<Rightarrow> repository_configuration \<Rightarrow> catalog \<Rightarrow> string list" where
  "sync_command sync_executable repository remote =
     [sync_executable, ''--manifest-url'', manifest_url repository,
      ''--signature-url'', signature_url repository,
      ''--keyring'', path_str (bootstrap_keyring repository),
      ''--output'', path_str (catalog_root remote)]"

definition sync_catalog :: "os \<Rightarrow> string \<Rightarrow> repository_configuration \<Rightarrow> catalog job" where
  "sync_catalog os sync_executable repository =
     bindM (lstat_call os (Path sync_executable)) (\<lambda>sync_metadata.
     bindM (lstat_call os (bootstrap_keyring repository)) (\<lambda>keyring_metadata.
     bindM (if regular_node sync_metadata then access_call os (Path sync_executable)
            else returnM False) (\<lambda>executable.
     if \<not> executable \<or> \<not> regular_node keyring_metadata then raiseM OSError
     else bindM (liftM (catalog_paths (Path remote_catalog_root))) (\<lambda>remote.
     bindM (exists_call os (catalog_root remote)) (\<lambda>present.
     bindM (if present
            then bindM (lstat_call os (catalog_root remote)) (\<lambda>nd.
              if nd \<noteq> Directory then raiseM OSError else returnM ())
            else bindM (spawn_call os True (sync_command sync_executable repository remote))
              (\<lambda>status. if status \<noteq> 0 then raiseM OSError else returnM ())) (\<lambda>u.
       returnM remote))))))"

text \<open>
  The active catalog, and the error of the synchronisation when it failed although it was not
  required (\<open>Inr\<close>); or the answer of the job (\<open>Inl\<close>).
\<close>

definition active_catalog ::
    "os \<Rightarrow> (exn \<Rightarrow> string) \<Rightarrow> string \<Rightarrow> catalog \<Rightarrow> repository_configuration option \<Rightarrow>
     ((string \<times> string) + catalog \<times> string option) job" where
  "active_catalog os describe sync_executable offline repository =
     (case repository of
        None \<Rightarrow> returnM (Inr (offline, None))
      | Some r \<Rightarrow>
          catchM (bindM (sync_catalog os sync_executable r) (\<lambda>remote. returnM (Inr (remote, None))))
            (\<lambda>e. if os_error e \<or> e = ProcessError
              then (if sync_required r
                then returnM (Inl (''Remote hardware catalog is unavailable'', describe e))
                else returnM (Inr (offline, Some (describe e))))
              else raiseM e))"

text \<open>An \<^verbatim>\<open>OSError\<close> ends the job with a title and its text.\<close>

definition os_answer :: "(exn \<Rightarrow> string) \<Rightarrow> string \<Rightarrow> answer job \<Rightarrow> answer job" where
  "os_answer describe title m =
     catchM m (\<lambda>e. if os_error e then returnM (Some (title, describe e)) else raiseM e)"

fun require_files :: "os \<Rightarrow> (exn \<Rightarrow> string) \<Rightarrow> pure_path list \<Rightarrow> answer job" where
  "require_files os describe [] = returnM None"
| "require_files os describe (p # ps) =
     and_then (os_answer describe ''Hardware catalog is incomplete''
       (bindM (lstat_call os p) (\<lambda>nd. returnM
         (if \<not> regular_node nd
          then Some (''Hardware catalog is incomplete'', ''missing regular file'') else None))))
       (require_files os describe ps)"

definition require_profiles :: "os \<Rightarrow> (exn \<Rightarrow> string) \<Rightarrow> pure_path \<Rightarrow> answer job" where
  "require_profiles os describe p =
     os_answer describe ''Hardware catalog is incomplete''
       (bindM (lstat_call os p) (\<lambda>nd. returnM
         (if nd \<noteq> Directory
          then Some (''Hardware catalog is incomplete'', ''missing profile directory'') else None)))"

definition ABI_RE :: rx where
  "ABI_RE = Seq (plus_rx (Cls digits)) (Seq (Cls ''.'') (plus_rx (Cls digits)))"

text \<open>The driver ABI (\<open>Inr\<close>), or the answer of the job.\<close>

definition read_driver_abi :: "os \<Rightarrow> (exn \<Rightarrow> string) \<Rightarrow> pure_path \<Rightarrow> ((string \<times> string) + string) job" where
  "read_driver_abi os describe p =
     catchM (bindM (read_file_call os p) (\<lambda>raw.
       bindM (liftM (decode_text raw)) (\<lambda>s.
         let abi = py_strip s
         in returnM (if \<not> fullmatch ABI_RE abi
              then Inl (''Hardware catalog is invalid'', ''driver ABI must be MAJOR.MINOR'')
              else Inr abi))))
       (\<lambda>e. if os_error e
         then returnM (Inl (''Hardware catalog is unreadable'', describe e)) else raiseM e)"

section \<open>The arguments of the planner\<close>

definition metadata_argument ::
    "os \<Rightarrow> pure_path \<Rightarrow> string \<Rightarrow> pyval \<Rightarrow> string list job" where
  "metadata_argument os active_root option v =
     bindM (liftM (remap_catalog_file v active_root)) (\<lambda>p.
     bindM (reportM ''cannot inspect catalog metadata'' (lstat_call os p)) (\<lambda>nd.
     if \<not> regular_node nd then raiseM (Rejected ''metadata path is not a regular file'')
     else returnM [option, path_str p]))"

definition metadata_arguments ::
    "os \<Rightarrow> pure_path \<Rightarrow> pyval list \<Rightarrow> string \<Rightarrow> string list job" where
  "metadata_arguments os active_root vs option =
     bindM (mapM (metadata_argument os active_root option) vs) (\<lambda>xs. returnM (concat xs))"

definition firmware_argument :: "os \<Rightarrow> pyval \<Rightarrow> string list job" where
  "firmware_argument os v =
     (if \<not> str_that (\<lambda>s. starts_with ''/'' s \<and> \<not> nul_in s) v
      then raiseM (Rejected ''--firmware-root entries must be absolute paths'')
      else bindM (lstat_call os (Path (str_of v))) (\<lambda>nd.
        if nd \<noteq> Directory then raiseM (Rejected ''firmware root is not a real directory'')
        else returnM [''--firmware-root'', str_of v]))"

definition planner_metadata :: "os \<Rightarrow> pyval \<Rightarrow> pure_path \<Rightarrow> string list job" where
  "planner_metadata os c active_root =
     bindM (metadata_arguments os active_root (list_of (field c ''modulesAlias'')) ''--modules-alias'')
       (\<lambda>a.
     bindM (metadata_arguments os active_root (list_of (field c ''modulesFirmware''))
         ''--modules-firmware'') (\<lambda>b.
     bindM (metadata_arguments os active_root (list_of (field c ''modulesDep'')) ''--modules-dep'')
       (\<lambda>d.
     bindM (metadata_arguments os active_root (list_of (field c ''modulesBuiltin''))
         ''--modules-builtin'') (\<lambda>e.
     bindM (mapM (firmware_argument os) (list_of (field c ''firmwareRoots''))) (\<lambda>f.
       returnM (a @ b @ d @ e @ concat f))))))"

definition planner_arguments ::
    "os \<Rightarrow> (exn \<Rightarrow> string) \<Rightarrow> pyval \<Rightarrow> pure_path \<Rightarrow> ((string \<times> string) + string list) job" where
  "planner_arguments os describe c active_root =
     catchM (bindM (planner_metadata os c active_root) (\<lambda>xs. returnM (Inr xs)))
       (\<lambda>e. case e of
          Rejected m \<Rightarrow> returnM (Inl (''Hardware catalog is invalid'', m))
        | _ \<Rightarrow> (if os_error e
            then returnM (Inl (''Hardware catalog is invalid'', describe e)) else raiseM e))"

definition plan_command :: "string \<Rightarrow> string list \<Rightarrow> catalog \<Rightarrow> string \<Rightarrow> string list" where
  "plan_command executable metadata active abi =
     [executable, ''plan'', ''--sysfs'', ''/sys''] @ metadata @
     [''--profiles'', path_str (profiles active), ''--keyring'', path_str (keyring active),
      ''--catalog-lock'', path_str (catalog_lock active), ''--driver-abi'', abi,
      ''--output'', planned_file, ''--require-target-profiles'']"

definition preflight_command :: "string \<Rightarrow> string list \<Rightarrow> string list" where
  "preflight_command executable metadata =
     [executable, ''preflight'', ''--sysfs'', ''/sys''] @ metadata @
     [''--output'', report_file, ''--allow-unresolved'']"

fun run_commands :: "os \<Rightarrow> (exn \<Rightarrow> string) \<Rightarrow> string list list \<Rightarrow> answer job" where
  "run_commands os describe [] = returnM None"
| "run_commands os describe (command # commands) =
     and_then (catchM (bindM (spawn_call os True command) (\<lambda>status. returnM
         (if status \<noteq> 0
          then Some (''Hardware driver coverage is incomplete'', ''the planner failed'') else None)))
       (\<lambda>e. if os_error e \<or> e = ProcessError
         then returnM (Some (''Hardware preflight failed'', describe e)) else raiseM e))
       (run_commands os describe commands)"

section \<open>The receipt\<close>

definition max_plan_bytes :: nat where
  "max_plan_bytes = 1024 * 1024"

definition read_bounded_regular :: "os \<Rightarrow> pure_path \<Rightarrow> string job" where
  "read_bounded_regular os p =
     bindM (open_call os p) (\<lambda>f.
     if \<not> bounded_size max_plan_bytes (snd f) then raiseM OSError
     else bindM (read_call os f 0 (Suc max_plan_bytes)) (\<lambda>v.
       if max_plan_bytes < length v then raiseM OSError
       else bindM (log_fetched p v) (\<lambda>u. returnM v)))"

definition receipt_document :: "string \<Rightarrow> string \<Rightarrow> pyval" where
  "receipt_document catalog_bytes plan_bytes =
     PDict [(''catalog_lock_sha256'', PStr (sha256_hex catalog_bytes)),
       (''plan_sha256'', PStr (sha256_hex plan_bytes)), (''schema'', PInt 1),
       (''verifier'', PStr ''arach-hwd-plan'')]"

definition with_name :: "pure_path \<Rightarrow> string \<Rightarrow> pure_path" where
  "with_name p name = p\<lparr>tail := butlast (tail p) @ [name]\<rparr>"

definition uuid_call :: "os \<Rightarrow> string job" where
  "uuid_call os w = (Inr (fresh os (clock w)), w\<lparr>clock := Suc (clock w)\<rparr>)"

text \<open>The second half, once both files are read: the receipt is written beside the old one and
  renamed over it.\<close>

definition replace_receipt ::
    "os \<Rightarrow> (pyfloat \<Rightarrow> string) \<Rightarrow> pure_path \<Rightarrow> string \<Rightarrow> string \<Rightarrow> unit job" where
  "replace_receipt os fr receipt plan_bytes catalog_bytes =
     bindM (mkdirs os (parent receipt) 448) (\<lambda>u.
     bindM (chmod_call os (parent receipt) 448) (\<lambda>u.
     bindM (uuid_call os) (\<lambda>hex.
     let temporary = with_name receipt (''.'' @ path_name receipt @ ''.'' @ hex @ ''.tmp'') in
     bindM (create_call os temporary) (\<lambda>q.
       catchM (write_document os fr receipt (receipt_document catalog_bytes plan_bytes) q temporary)
         (discard_temporary os temporary)))))"

definition write_plan_receipt ::
    "os \<Rightarrow> (pyfloat \<Rightarrow> string) \<Rightarrow> pure_path \<Rightarrow> pure_path \<Rightarrow> pure_path \<Rightarrow> unit job" where
  "write_plan_receipt os fr plan lock receipt =
     bindM (read_bounded_regular os plan) (\<lambda>plan_bytes.
     bindM (read_bounded_regular os lock) (\<lambda>catalog_bytes.
       replace_receipt os fr receipt plan_bytes catalog_bytes))"

section \<open>The job\<close>

fun insert_values :: "(string \<times> string) list \<Rightarrow> unit job" where
  "insert_values [] = returnM ()"
| "insert_values ((k, s) # kvs) = bindM (insert_value k (PStr s)) (\<lambda>u. insert_values kvs)"

definition handed_over :: "catalog \<Rightarrow> (string \<times> string) list" where
  "handed_over active =
     [(''arachHardwareReport'', report_file), (''arachHardwarePlan'', planned_file),
      (''arachHardwarePlanReceipt'', planned_receipt_file),
      (''arachHardwareCatalogRoot'', path_str (catalog_root active)),
      (''arachHardwareProfiles'', path_str (profiles active)),
      (''arachHardwareKeyring'', path_str (keyring active)),
      (''arachHardwareCatalogLock'', path_str (catalog_lock active)),
      (''arachHardwareBinaryIndex'', path_str (binary_index active)),
      (''arachHardwareBinarySignature'', path_str (binary_signature active)),
      (''arachHardwareCatalogSource'',
        if catalog_root active \<noteq> offline_catalog_root then ''remote'' else ''offline'')]"

text \<open>What follows once the active catalog is known.\<close>

definition plan_hardware ::
    "os \<Rightarrow> (pyfloat \<Rightarrow> string) \<Rightarrow> (exn \<Rightarrow> string) \<Rightarrow> pyval \<Rightarrow> catalog \<Rightarrow> string option \<Rightarrow> answer job" where
  "plan_hardware os fr describe c active sync_error =
     and_then (require_files os describe [keyring active, catalog_lock active, driver_abi active,
         binary_index active, binary_signature active])
    (and_then (require_profiles os describe (profiles active))
    (answering (read_driver_abi os describe (driver_abi active)) (\<lambda>abi.
     answering (planner_arguments os describe c (catalog_root active)) (\<lambda>metadata.
     and_then (run_commands os describe
         [plan_command (str_of (field c ''executable'')) metadata active abi,
          preflight_command (str_of (field c ''executable'')) metadata])
    (and_then (os_answer describe ''Hardware preflight failed''
         (bindM (write_plan_receipt os fr (Path planned_file) (catalog_lock active)
             (Path planned_receipt_file)) (\<lambda>u. returnM None)))
    (bindM (insert_values (handed_over active @ (case sync_error of
         None \<Rightarrow> [] | Some m \<Rightarrow> [(''arachHardwareCatalogSyncError'', m)]))) (\<lambda>u.
       returnM None)))))))"

definition load_configuration ::
    "os \<Rightarrow> (string \<Rightarrow> pyval option) \<Rightarrow> (string \<Rightarrow> bool) \<Rightarrow> (string \<Rightarrow> bool) \<Rightarrow>
     ((string \<times> string) + repository_configuration option \<times> catalog) job" where
  "load_configuration os toml host_ok netloc_ok =
     catchM (bindM (load_repository_configuration os toml host_ok netloc_ok
         (Path ''/etc/arach/hwd/repository.toml'')) (\<lambda>r.
       bindM (liftM (catalog_paths offline_catalog_root)) (\<lambda>offline. returnM (Inr (r, offline)))))
       (\<lambda>e. case e of
          Rejected m \<Rightarrow> returnM (Inl (''Hardware repository configuration is invalid'', m))
        | _ \<Rightarrow> raiseM e)"

definition hardware_run ::
    "os \<Rightarrow> (string \<Rightarrow> pyval option) \<Rightarrow> (string \<Rightarrow> bool) \<Rightarrow> (string \<Rightarrow> bool) \<Rightarrow>
     (pyfloat \<Rightarrow> string) \<Rightarrow> (exn \<Rightarrow> string) \<Rightarrow> pyval \<Rightarrow> answer job" where
  "hardware_run os toml host_ok netloc_ok fr describe c =
     bindM (liftM (executables_supported c)) (\<lambda>supported.
     if \<not> supported \<or> \<not> settings_fixed c
     then returnM (Some (''Invalid hardware preflight configuration'', ''Required paths are absent''))
     else and_then (os_answer describe ''Hardware preflight failed''
         (bindM (mkdirs os (parent (Path report_file)) 448) (\<lambda>u. returnM None)))
       (answering (load_configuration os toml host_ok netloc_ok) (\<lambda>(repository, offline).
        answering (active_catalog os describe (str_of (field c ''catalogSyncExecutable'')) offline
            repository) (\<lambda>(active, sync_error).
          plan_hardware os fr describe c active sync_error))))"

end
