(* ===== verification/HardwareProps.thy ===== *)
theory HardwareProps
  imports HardwareJob
begin

text \<open>
  What the hardware job guarantees: an accepted repository URL has the form that is asked for
  (\<open>https_url_is_plain\<close>), and success means that the planner has accepted a catalog at one of
  the two measured places (\<open>hardware_success_is_verified\<close>).
\<close>

section \<open>URLs\<close>

text \<open>
  An accepted repository URL is plain: the value is a string, and once leading blanks and line
  ends are removed as \<^verbatim>\<open>urlsplit\<close> does, it consists of the scheme https, a non-empty
  network location without credentials, and an absolute path, with at most an empty fragment.
\<close>

theorem https_url_is_plain:
  assumes "https_url host_ok netloc_ok v name = Inr u"
  shows "v = PStr u \<and> (\<exists>a n rest. url_clean u = a @ ''://'' @ n @ CHR ''/'' # rest \<and>
    map ascii_lower a = ''https'' \<and> n \<noteq> [] \<and> list_all (\<lambda>c. c \<notin> set ''/?#@'') n \<and>
    (\<forall>x y. rest = x @ CHR ''#'' # y \<longrightarrow> CHR ''#'' \<notin> set x \<longrightarrow> y = []))"
proof -
  from assms obtain parsed where v: "v = PStr u" and parsed: "urlsplit host_ok netloc_ok u = Inr parsed"
    and ok: "scheme parsed = ''https''" "url_host (netloc parsed) \<noteq> []"
      "\<not> has_userinfo (netloc parsed)" "fragment parsed = []" "url_path parsed \<noteq> []"
    by (auto simp: https_url_def bindE_Inr_iff split: if_splits)
  show ?thesis by (rule conjI, rule v, rule urlsplit_https, rule parsed) (rule ok)+
qed

lemma https_url_is_plain_witness:
  "\<exists>a n rest. url_clean ''https://hw.example/catalog.toml'' = a @ ''://'' @ n @ CHR ''/'' # rest \<and>
     map ascii_lower a = ''https'' \<and> n \<noteq> []"
proof -
  have "https_url (\<lambda>x. False) (\<lambda>x. False) (PStr ''https://hw.example/catalog.toml'') [] =
      Inr ''https://hw.example/catalog.toml''" by code_simp
  from https_url_is_plain [OF this] show ?thesis by (elim conjE exE) (intro exI conjI)
qed

text \<open>A bracket without its partner is an exception that the job does not catch.\<close>

lemma https_url_crashes:
  "https_url host_ok netloc_ok (PStr ''https://[::1/x'') name = Inl ValueError"
  by code_simp

section \<open>Successful runs\<close>

lemma os_answer_None [job_simps]: "os_answer describe title m w = (Inr None, w') \<longleftrightarrow> m w = (Inr None, w')"
  by (auto simp: os_answer_def job_simps)

lemma success_and_then [job_simps]:
  "and_then m m' w = (Inr None, w') \<longleftrightarrow> (\<exists>w1. m w = (Inr None, w1) \<and> m' w1 = (Inr None, w'))"
  by (simp only: and_then_def job_simps) (metis option.distinct(1))

lemma success_answering [job_simps]:
  "answering m f w = (Inr None, w') \<longleftrightarrow>
     (\<exists>x w1. m w = (Inr (Inr x), w1) \<and> f x w1 = (Inr None, w'))"
proof -
  have "(case r of Inl a \<Rightarrow> returnM (Some a) | Inr x \<Rightarrow> f x) u = (Inr None, w') \<longleftrightarrow>
      (\<exists>x. r = Inr x \<and> f x u = (Inr None, w'))" for r u
    by (cases r) (simp_all add: job_simps)
  then show ?thesis by (auto simp: answering_def job_simps)
qed

lemma success_handler [job_simps]:
  "(case e of Rejected m \<Rightarrow> g m | _ \<Rightarrow> j) w = (Inr y, w') \<longleftrightarrow>
     (\<exists>m. e = Rejected m \<and> g m w = (Inr y, w')) \<or>
     ((\<forall>m. e \<noteq> Rejected m) \<and> j w = (Inr y, w'))"
  by (cases e) simp_all

text \<open>The arguments that the planner is given, and where they lead.\<close>

definition confined_argument :: "pure_path \<Rightarrow> string \<times> string \<Rightarrow> bool" where
  "confined_argument root p \<longleftrightarrow>
     (fst p = ''--firmware-root'' \<and> starts_with ''/'' (snd p)) \<or>
     (\<exists>rel. rel \<noteq> [] \<and> set rel \<inter> {[], ''.'', ''..''} = {} \<and>
        snd p = path_str (root\<lparr>tail := tail root @ rel\<rparr>))"

definition confined :: "pure_path \<Rightarrow> string list \<Rightarrow> bool" where
  "confined root xs \<longleftrightarrow>
     (\<exists>ps. xs = concat (map (\<lambda>(option, s). [option, s]) ps) \<and> list_all (confined_argument root) ps)"

lemma confined_append: "confined root xs \<Longrightarrow> confined root ys \<Longrightarrow> confined root (xs @ ys)"
  unfolding confined_def
  by (elim exE conjE, rename_tac ps qs, rule_tac x = "ps @ qs" in exI) simp

lemma confined_concat: "list_all (confined root) xss \<Longrightarrow> confined root (concat xss)"
proof (induction xss)
  case Nil
  show ?case unfolding confined_def by (rule exI [of _ "[]"]) simp
next
  case (Cons xs xss)
  then show ?case by (simp add: confined_append)
qed

lemma confined_one: "confined_argument root (option, s) \<Longrightarrow> confined root [option, s]"
  unfolding confined_def by (rule exI [of _ "[(option, s)]"]) simp

lemma mapM_success:
  "mapM f xs w = (Inr ys, w') \<Longrightarrow> (\<And>x y w w'. f x w = (Inr y, w') \<Longrightarrow> Q y) \<Longrightarrow> list_all Q ys"
  by (induction xs arbitrary: w ys) (fastforce simp: job_simps)+

text \<open>
  A metadata file keeps its place relative to the catalog when it is looked up in another root.
\<close>

lemma remapped_confined:
  assumes "remap_catalog_file v root = Inr p"
  shows "confined_argument root (option, path_str p)"
  using assms
  by (auto simp: remap_catalog_file_def confined_argument_def list_ex_iff split: if_splits option.splits)

lemma metadata_confined:
  assumes "metadata_arguments os root vs option w = (Inr xs, w')"
  shows "confined root xs"
proof -
  obtain yss where yss: "mapM (metadata_argument os root option) vs w = (Inr yss, w')" "xs = concat yss"
    using assms by (auto simp: metadata_arguments_def job_simps)
  have "confined root ys" if "metadata_argument os root option v u = (Inr ys, u')" for v u ys u'
    using that remapped_confined confined_one
    by (fastforce simp: metadata_argument_def job_simps)
  with mapM_success [OF yss(1)] have "list_all (confined root) yss" by blast
  with yss(2) confined_concat show ?thesis by simp
qed

lemma firmware_confined:
  assumes "mapM (firmware_argument os) vs w = (Inr yss, w')"
  shows "confined root (concat yss)"
proof -
  have "confined root ys" if "firmware_argument os v u = (Inr ys, u')" for v u ys u'
    using that confined_one [of root "''--firmware-root''" "str_of v"]
    by (auto simp: firmware_argument_def job_simps confined_argument_def)
  with mapM_success [OF assms] have "list_all (confined root) yss" by blast
  then show ?thesis by (rule confined_concat)
qed

lemma planner_metadata_confined:
  assumes "planner_metadata os c root w = (Inr xs, w')"
  shows "confined root xs"
proof -
  obtain a b d e f w1 w2 w3 w4 where parts:
    "metadata_arguments os root (list_of (field c ''modulesAlias'')) ''--modules-alias'' w = (Inr a, w1)"
    "metadata_arguments os root (list_of (field c ''modulesFirmware'')) ''--modules-firmware'' w1 = (Inr b, w2)"
    "metadata_arguments os root (list_of (field c ''modulesDep'')) ''--modules-dep'' w2 = (Inr d, w3)"
    "metadata_arguments os root (list_of (field c ''modulesBuiltin'')) ''--modules-builtin'' w3 = (Inr e, w4)"
    "mapM (firmware_argument os) (list_of (field c ''firmwareRoots'')) w4 = (Inr f, w')"
    "xs = a @ b @ d @ e @ concat f"
    using assms by (auto simp: planner_metadata_def job_simps)
  show ?thesis
    unfolding parts(6)
    by (intro confined_append metadata_confined [OF parts(1)] metadata_confined [OF parts(2)]
        metadata_confined [OF parts(3)] metadata_confined [OF parts(4)] firmware_confined [OF parts(5)])
qed

section \<open>What the log keeps\<close>

definition logged :: "event set \<Rightarrow> world \<Rightarrow> bool" where
  "logged L w \<longleftrightarrow> L \<subseteq> set (trace w)"

named_theorems log_rules \<open>jobs that do not forget what is in the log\<close>

lemma logged_world [simp]: "logged L (w\<lparr>tree := t\<rparr>) = logged L w"
  "logged L (w\<lparr>modes := m\<rparr>) = logged L w" "logged L (w\<lparr>clock := n\<rparr>) = logged L w"
  "logged L (w\<lparr>storage := s\<rparr>) = logged L w"
  by (simp_all add: logged_def)

lemma log_calls [log_rules]:
  "keeps (logged L) (lstat_call os p)" "keeps (logged L) (stat_call os p)"
  "keeps (logged L) (chmod_call os p n)" "keeps (logged L) (mkdir_call os p n)"
  "keeps (logged L) (create_call os p)" "keeps (logged L) (sync_call os)"
  "keeps (logged L) (unlink_call os p)" "keeps (logged L) (replace_call os p p')"
  "keeps (logged L) (open_call os p)" "keeps (logged L) (read_call os g k n)"
  unfolding lstat_call_def stat_call_def chmod_call_def mkdir_call_def create_call_def sync_call_def
    unlink_call_def replace_call_def open_call_def read_call_def
  by (rule keeps_sys, simp, simp add: keeps_def valid_def split: option.split node.split sum.split prod.split bool.split)+

lemma log_append [log_rules]: "keeps (logged L) (append_call os q s)"
  by (simp add: keeps_def valid_def append_call_def Let_def)

lemma log_other [log_rules]:
  "keeps (logged L) (uuid_call os)" "keeps (logged L) (insert_value k v)"
  "keeps (logged L) (log_fetched p s)"
  by (auto simp: keeps_def valid_def uuid_call_def insert_value_def log_fetched_def logged_def)

lemma log_directories [log_rules]:
  "keeps (logged L) (is_dir_call os p)" "keeps (logged L) (open_directory_call os p)"
  unfolding is_dir_call_def absent_is_false_def open_directory_call_def
  by (intro keeps_rules log_rules)+

lemma log_mkdirs [log_rules]: "keeps (logged L) (mkdirs os p n)"
proof -
  have "keeps (logged L) (mkdir_parents os a cs k)" for a cs k
    by (induction cs arbitrary: k)
      (simp_all only: mkdir_parents.simps mkdir_exist_ok_def Let_def,
        (intro keeps_rules log_rules; assumption?)+)
  then show ?thesis by (simp add: mkdirs_def)
qed

lemma log_receipt [log_rules]:
  "keeps (logged L) (read_bounded_regular os plan)" "keeps (logged L) (replace_receipt os fr receipt p l)"
  "keeps (logged L) (write_plan_receipt os fr plan lock receipt)"
  unfolding write_plan_receipt_def read_bounded_regular_def replace_receipt_def write_document_def
    discard_temporary_def Let_def
  by (intro keeps_rules log_rules)+

lemma log_insert [log_rules]: "keeps (logged L) (insert_values kvs)"
  by (induction kvs rule: insert_values.induct) (auto intro: keeps_rules log_rules)

text \<open>The commands that were started and succeeded.\<close>

definition ran_all :: "string list set \<Rightarrow> world \<Rightarrow> bool" where
  "ran_all D w \<longleftrightarrow> (\<forall>cmd \<in> D. \<exists>t. Ran cmd t True \<in> set (trace w))"

lemma ran_all_kept:
  assumes "\<And>L. keeps (logged L) m" and "m w = (r, w')" and "ran_all D w"
  shows "ran_all D w'"
proof -
  have "logged (set (trace w)) w'"
    by (rule keepsD [OF assms(1,2)]) (simp add: logged_def)
  with assms(3) show ?thesis unfolding ran_all_def logged_def by blast
qed

lemma commands_ran:
  "run_commands os describe cmds w = (Inr None, w') \<Longrightarrow> ran_all D w \<Longrightarrow> ran_all (D \<union> set cmds) w'"
proof (induction cmds arbitrary: D w)
  case Nil
  then show ?case by (simp add: job_simps)
next
  case (Cons cmd cmds)
  then obtain w1 where one: "spawn_call os True cmd w = (Inr 0, w1)"
    and rest: "run_commands os describe cmds w1 = (Inr None, w')"
    by (auto simp: job_simps split: if_splits)
  from one Cons.prems(2) have "ran_all (insert cmd D) w1"
    by (cases "spawned os cmd (clock w)")
      (auto simp: spawn_call_def Let_def ran_all_def split: if_splits, blast)
  from Cons.IH [OF rest this] show ?case by simp
qed

section \<open>Success\<close>

text \<open>The storage after the values have been handed over.\<close>

lemma insert_values_stored:
  "insert_values kvs w = (Inr u, w') \<Longrightarrow> distinct (map fst kvs) \<Longrightarrow>
     (\<forall>(k, s) \<in> set kvs. storage w' k = Some (PStr s)) \<and>
     (\<forall>k. k \<notin> set (map fst kvs) \<longrightarrow> storage w' k = storage w k)"
proof (induction kvs arbitrary: w rule: insert_values.induct)
  case 1
  then show ?case by (simp add: job_simps)
next
  case (2 k s kvs)
  then obtain w1 where w1: "w1 = w\<lparr>storage := (storage w)(k \<mapsto> PStr s)\<rparr>"
    and rest: "insert_values kvs w1 = (Inr u, w')"
    by (auto simp: job_simps insert_value_def)
  from "2.IH" [OF rest] "2.prems"(2) w1 show ?case by auto
qed

text \<open>A catalog at one of the two places, complete with the names below its root.\<close>

definition measured_catalog :: "catalog \<Rightarrow> bool" where
  "measured_catalog active \<longleftrightarrow>
     catalog_paths offline_catalog_root = Inr active \<or>
     catalog_paths (Path remote_catalog_root) = Inr active"

definition handover_done :: "catalog \<Rightarrow> world \<Rightarrow> bool" where
  "handover_done active w \<longleftrightarrow> (\<forall>(k, s) \<in> set (handed_over active). storage w k = Some (PStr s))"

lemma read_driver_abi_form:
  "read_driver_abi os describe p w = (Inr (Inr abi), w') \<Longrightarrow> fullmatch ABI_RE abi"
  by (auto simp: read_driver_abi_def job_simps Let_def split: if_splits)

lemma planner_arguments_confined:
  "planner_arguments os describe c root w = (Inr (Inr xs), w') \<Longrightarrow> confined root xs"
  by (auto simp: planner_arguments_def job_simps dest: planner_metadata_confined)

lemma plan_hardware_success:
  assumes "plan_hardware os fr describe c active sync_error w = (Inr None, w')"
  shows "\<exists>metadata abi. fullmatch ABI_RE abi \<and> confined (catalog_root active) metadata \<and>
    ran_all {plan_command (str_of (field c ''executable'')) metadata active abi,
      preflight_command (str_of (field c ''executable'')) metadata} w' \<and> handover_done active w'"
proof -
  obtain abi metadata w1 w2 w3 w4 w5 where
    abi: "read_driver_abi os describe (driver_abi active) w1 = (Inr (Inr abi), w2)"
    and metadata: "planner_arguments os describe c (catalog_root active) w2 = (Inr (Inr metadata), w3)"
    and commands: "run_commands os describe
      [plan_command (str_of (field c ''executable'')) metadata active abi,
       preflight_command (str_of (field c ''executable'')) metadata] w3 = (Inr None, w4)"
    and receipt: "write_plan_receipt os fr (Path planned_file) (catalog_lock active)
      (Path planned_receipt_file) w4 = (Inr (), w5)"
    and inserted: "insert_values (handed_over active @ (case sync_error of
      None \<Rightarrow> [] | Some m \<Rightarrow> [(''arachHardwareCatalogSyncError'', m)])) w5 = (Inr (), w')"
    using assms by (auto simp: plan_hardware_def job_simps)
  have "ran_all {} w3" by (simp add: ran_all_def)
  from commands_ran [OF commands this]
  have "ran_all {plan_command (str_of (field c ''executable'')) metadata active abi,
      preflight_command (str_of (field c ''executable'')) metadata} w4" by simp
  with ran_all_kept [OF log_receipt(3) receipt] ran_all_kept [OF log_insert inserted]
  have "ran_all {plan_command (str_of (field c ''executable'')) metadata active abi,
      preflight_command (str_of (field c ''executable'')) metadata} w'" by blast
  moreover have "handover_done active w'"
  proof -
    have "distinct (map fst (handed_over active @ (case sync_error of
        None \<Rightarrow> [] | Some m \<Rightarrow> [(''arachHardwareCatalogSyncError'', m)])))"
      by (simp add: handed_over_def split: option.split)
    from insert_values_stored [OF inserted this] show ?thesis
      unfolding handover_done_def by simp
  qed
  ultimately show ?thesis
    using read_driver_abi_form [OF abi] planner_arguments_confined [OF metadata] by blast
qed

lemma active_catalog_measured:
  assumes "active_catalog os describe sync offline repository w = (Inr (Inr (active, err)), w')"
    and "catalog_paths offline_catalog_root = Inr offline"
  shows "measured_catalog active"
proof -
  have "catalog_paths (Path remote_catalog_root) = Inr remote"
    if "sync_catalog os sync r u = (Inr remote, u')" for r u u' remote
    using that by (auto simp: sync_catalog_def job_simps)
  with assms show ?thesis
    by (fastforce simp: active_catalog_def measured_catalog_def job_simps split: option.splits if_splits)
qed

lemma hardware_run_steps:
  assumes "hardware_run os toml host_ok netloc_ok fr describe c w = (Inr None, w')"
  shows "\<exists>active sync_error w1. measured_catalog active \<and>
    plan_hardware os fr describe c active sync_error w1 = (Inr None, w')"
proof -
  obtain repository offline active sync_error w1 w2 w3 where
    loaded: "load_configuration os toml host_ok netloc_ok w1 = (Inr (Inr (repository, offline)), w2)"
    and selected: "active_catalog os describe (str_of (field c ''catalogSyncExecutable'')) offline
      repository w2 = (Inr (Inr (active, sync_error)), w3)"
    and planned: "plan_hardware os fr describe c active sync_error w3 = (Inr None, w')"
    using assms by (auto simp: hardware_run_def job_simps)
  have "catalog_paths offline_catalog_root = Inr offline"
    using loaded by (auto simp: load_configuration_def job_simps)
  from active_catalog_measured [OF selected this] planned show ?thesis by blast
qed

text \<open>
  C14. Success of the hardware job is earned: when it answers success, the catalog it selected is at
  one of the two measured places; the planner accepted it, both as a plan and as a preflight,
  with a driver ABI of the form MAJOR.MINOR and with metadata files that all lie below the
  root of that catalog (firmware directories are absolute); and the storage hands exactly that
  catalog over to the later jobs. This holds whatever the other processes and the operating
  system do.
\<close>

theorem hardware_success_is_verified:
  assumes "hardware_run os toml host_ok netloc_ok fr describe c w = (Inr None, w')"
  shows "\<exists>active metadata abi. measured_catalog active \<and> fullmatch ABI_RE abi \<and>
    confined (catalog_root active) metadata \<and>
    ran_all {plan_command (str_of (field c ''executable'')) metadata active abi,
      preflight_command (str_of (field c ''executable'')) metadata} w' \<and> handover_done active w'"
proof -
  from hardware_run_steps [OF assms] obtain active sync_error w1 where
    "measured_catalog active" "plan_hardware os fr describe c active sync_error w1 = (Inr None, w')"
    by blast
  with plan_hardware_success show ?thesis by blast
qed

end
