(* ===== verification/Pacman.thy ===== *)
theory Pacman
  imports Jobs Json Sha256
begin

text \<open>
  \<^verbatim>\<open>installer/calamares/modules/arachpacman/\<close>: the adapter that stages a signed
  package snapshot into the private directory of the transaction, authorises it against the
  verified hardware plan, and runs pacman on the staged archives. \<open>parse_signed_snapshot\<close> and
  \<open>validate_verified_plan\<close> are pure; the others are jobs. The TOML and JSON parsers and the form
  of floats are the parameters \<open>toml\<close>, \<open>json\<close> and \<open>fr\<close>. The default arguments of
  \<^verbatim>\<open>stage_and_authorize\<close>, the only ones in use, are written in.
\<close>

section \<open>Constants and records\<close>

definition max_document_bytes :: nat where
  "max_document_bytes = 1024 * 1024"

definition max_archive_bytes :: nat where
  "max_archive_bytes = 2 * 1024 * 1024 * 1024"

definition max_packages :: nat where
  "max_packages = 256"

definition plan_file :: string where
  "plan_file = ''/run/arach-installer/hardware.plan.toml''"

definition receipt_file :: string where
  "receipt_file = ''/run/arach-installer/hardware.plan.verified.json''"

definition catalog_lock_file :: string where
  "catalog_lock_file = ''/etc/arach/hwd/catalog.lock''"

definition mapping_file :: string where
  "mapping_file = ''/etc/arach/hwd/pacman-snapshot.toml''"

definition signature_file :: string where
  "signature_file = ''/etc/arach/hwd/pacman-snapshot.toml.sig''"

definition keyring_file :: string where
  "keyring_file = ''/etc/arach/hwd/pacman-snapshot.gpg''"

definition snapshot_root :: string where
  "snapshot_root = ''/etc/arach/hwd/pacman-snapshot''"

definition runtime_root :: string where
  "runtime_root = ''/run/arach-installer''"

definition pacman_file :: string where
  "pacman_file = ''/usr/bin/pacman''"

definition gpgv_file :: string where
  "gpgv_file = ''/usr/bin/gpgv''"

record snapshot_package =
  archive :: string
  package_sha256 :: string

record signed_snapshot =
  plan_sha256 :: string
  pacman_config_sha256 :: string
  packages :: "snapshot_package list"

section \<open>The documents\<close>

definition digest_value :: "pyval \<Rightarrow> string \<Rightarrow> string result" where
  "digest_value v name =
     (if \<not> str_that (fullmatch SHA256_RE) v
      then Inl (Rejected (''Pacman snapshot '' @ name @ '' must be a SHA-256 digest''))
      else Inr (str_of v))"

text \<open>\<^verbatim>\<open>len\<close> counts characters: the bytes that do not continue one.\<close>

definition py_length :: "string \<Rightarrow> nat" where
  "py_length s = length (filter (\<lambda>c. \<not> cont (of_char c)) s)"

definition archive_char :: "char \<Rightarrow> bool" where
  "archive_char c \<longleftrightarrow>
     c \<noteq> CHR ''/'' \<and> c \<noteq> CHR 0x5C \<and> 33 \<le> (of_char c :: nat) \<and> (of_char c :: nat) \<noteq> 127"

definition archive_name_ok :: "string \<Rightarrow> bool" where
  "archive_name_ok s \<longleftrightarrow>
     s \<noteq> [] \<and> py_length s \<le> 255 \<and> s \<noteq> ''.'' \<and> s \<noteq> ''..'' \<and> list_all archive_char s"

definition archive_name :: "pyval \<Rightarrow> string result" where
  "archive_name v =
     (if \<not> str_that archive_name_ok v
      then Inl (Rejected ''Pacman snapshot archive name is invalid'')
      else Inr (str_of v))"

definition package_step ::
    "nat \<Rightarrow> pyval \<Rightarrow> string set \<times> snapshot_package list \<Rightarrow>
     (string set \<times> snapshot_package list) result" where
  "package_step i v acc =
     (if \<not> has_fields [''archive'', ''sha256''] v
      then Inl (Rejected ''Pacman snapshot package has unknown or missing fields'')
      else bindE (archive_name (field v ''archive'')) (\<lambda>name.
        if name \<in> fst acc then Inl (Rejected ''Pacman snapshot contains a duplicate archive'')
        else bindE (digest_value (field v ''sha256'') ''sha256'') (\<lambda>d.
          Inr (insert name (fst acc), snd acc @ [\<lparr>archive = name, package_sha256 = d\<rparr>]))))"

definition parse_signed_snapshot ::
    "(string \<Rightarrow> pyval option) \<Rightarrow> string \<Rightarrow> signed_snapshot result" where
  "parse_signed_snapshot toml raw =
     (if raw = [] \<or> max_document_bytes < length raw
      then Inl (Rejected ''Pacman snapshot is empty or exceeds its size limit'')
      else if \<not> utf8_valid raw
      then Inl (Rejected ''Pacman snapshot is not valid UTF-8 TOML'')
      else case toml raw of
        None \<Rightarrow> Inl (Rejected ''Pacman snapshot is not valid UTF-8 TOML'')
      | Some document \<Rightarrow>
          (if \<not> has_fields [''format'', ''plan_sha256'', ''pacman_config_sha256'', ''package'']
                document
           then Inl (Rejected ''Pacman snapshot has unknown or missing fields'')
           else if \<not> py_eq (field document ''format'') (PInt 1)
           then Inl (Rejected ''Pacman snapshot has an unsupported format'')
           else bindE (digest_value (field document ''plan_sha256'') ''plan_sha256'') (\<lambda>plan.
             bindE (digest_value (field document ''pacman_config_sha256'')
                 ''pacman_config_sha256'') (\<lambda>config.
             if \<not> is_list (field document ''package'') \<or>
                max_packages < length (list_of (field document ''package''))
             then Inl (Rejected ''Pacman snapshot package list is invalid'')
             else bindE (forE package_step 0 (list_of (field document ''package'')) ({}, []))
               (\<lambda>acc. Inr \<lparr>plan_sha256 = plan, pacman_config_sha256 = config,
                           packages = snd acc\<rparr>)))))"

definition validate_verified_plan ::
    "(string \<Rightarrow> pyval option) \<Rightarrow> (pyfloat \<Rightarrow> string) \<Rightarrow> string \<Rightarrow> string \<Rightarrow> string \<Rightarrow>
     string result" where
  "validate_verified_plan json fr plan receipt catalog_lock =
     (if plan = [] \<or> max_document_bytes < length plan
      then Inl (Rejected ''Arach-HWD plan is empty or exceeds its size limit'')
      else if receipt = [] \<or> max_document_bytes < length receipt
      then Inl (Rejected ''Arach-HWD verification receipt is invalid'')
      else if \<not> utf8_valid receipt
      then Inl (Rejected ''Arach-HWD verification receipt is not JSON'')
      else case json receipt of
        None \<Rightarrow> Inl (Rejected ''Arach-HWD verification receipt is not JSON'')
      | Some document \<Rightarrow>
          bindE (json_dumps fr document) (\<lambda>text.
          if \<not> is_dict document \<or> receipt \<noteq> text @ [CHR 0x0A] \<or>
             \<not> has_fields [''catalog_lock_sha256'', ''plan_sha256'', ''schema'', ''verifier'']
                document
          then Inl (Rejected ''Arach-HWD verification receipt is not canonical'')
          else if \<not> py_eq (field document ''schema'') (PInt 1) \<or>
                  \<not> py_eq (field document ''verifier'') (PStr ''arach-hwd-plan'')
          then Inl (Rejected ''Arach-HWD verification receipt has an unsupported format'')
          else bindE (digest_value (field document ''plan_sha256'') ''plan_sha256'') (\<lambda>d.
            bindE (digest_value (field document ''catalog_lock_sha256'')
                ''catalog_lock_sha256'') (\<lambda>c.
            if d \<noteq> sha256_hex plan
            then Inl (Rejected ''Arach-HWD plan differs from its verification receipt'')
            else if c \<noteq> sha256_hex catalog_lock
            then Inl (Rejected ''Arach-HWD catalog differs from its verification receipt'')
            else Inr d))))"

section \<open>Files\<close>

fun bounded_regular :: "nat \<Rightarrow> node \<Rightarrow> bool" where
  "bounded_regular limit (Regular c r) = (0 < length c \<and> length c \<le> limit)"
| "bounded_regular limit nd = False"

definition read_regular :: "os \<Rightarrow> pure_path \<Rightarrow> nat \<Rightarrow> string job" where
  "read_regular os p limit =
     bindM (reportM ''cannot open'' (open_call os p)) (\<lambda>f.
     bindM (if \<not> bounded_regular limit (snd f)
            then raiseM (Rejected ''not a bounded regular file'')
            else reportM ''cannot read'' (read_call os f 0 (Suc limit))) (\<lambda>v.
     if limit < length v then raiseM (Rejected ''exceeds its size limit'')
     else bindM (log_fetched p v) (\<lambda>u. returnM v)))"

definition chunk_bytes :: nat where
  "chunk_bytes = 1024 * 1024"

text \<open>
  The copying loop: the bytes hashed so far are the bytes written so far (\<open>sofar\<close>). It ends
  because every round copies at least one byte and the limit stops it.
\<close>

function copy_loop ::
    "os \<Rightarrow> string list \<times> node \<Rightarrow> string list \<Rightarrow> nat \<Rightarrow> string \<Rightarrow> world \<Rightarrow> string result \<times> world" where
  "copy_loop os f q limit sofar w =
     (case read_call os f (length sofar) chunk_bytes w of
        (Inl e, w1) \<Rightarrow> (Inl e, w1)
      | (Inr chunk, w1) \<Rightarrow>
          (if chunk = [] then (Inr sofar, w1)
           else if limit < length sofar + length chunk
           then (Inl (Rejected ''exceeds its size limit''), w1)
           else case append_call os q chunk w1 of
             (Inl e, w2) \<Rightarrow> (Inl e, w2)
           | (Inr u, w2) \<Rightarrow> copy_loop os f q limit (sofar @ chunk) w2))"
  by pat_completeness auto

termination
  by (relation "measure (\<lambda>(os, f, q, limit, sofar, w). limit - length sofar)")
    (auto simp: neq_Nil_conv)

declare copy_loop.simps [simp del]

definition copy_regular_with_digest ::
    "os \<Rightarrow> pure_path \<Rightarrow> pure_path \<Rightarrow> nat \<Rightarrow> (pure_path \<times> string) job" where
  "copy_regular_with_digest os source destination limit =
     bindM (reportM ''cannot read'' (open_call os source)) (\<lambda>f.
     reportM ''cannot stage''
       (bindM (create_call os destination) (\<lambda>q.
        if \<not> bounded_regular limit (snd f)
        then raiseM (Rejected ''not a bounded regular file'')
        else bindM (copy_loop os f q limit []) (\<lambda>content.
          bindM (sync_call os) (\<lambda>u. returnM (destination, sha256_hex content))))))"

definition copy_regular :: "os \<Rightarrow> pure_path \<Rightarrow> pure_path \<Rightarrow> nat \<Rightarrow> pure_path job" where
  "copy_regular os source destination limit =
     bindM (copy_regular_with_digest os source destination limit) (\<lambda>r. returnM (fst r))"

definition require_real_directory :: "os \<Rightarrow> pure_path \<Rightarrow> unit job" where
  "require_real_directory os p =
     bindM (reportM ''cannot inspect'' (lstat_call os p)) (\<lambda>nd.
     if nd \<noteq> Directory then raiseM (Rejected ''not a real directory'') else returnM ())"

definition require_private_directory :: "os \<Rightarrow> pure_path \<Rightarrow> unit job" where
  "require_private_directory os p =
     bindM (require_real_directory os p) (\<lambda>u.
     bindM (mode_call os p) (\<lambda>mode.
     if mode \<noteq> 448 then raiseM (Rejected ''not a private transaction directory'')
     else returnM ()))"

definition make_private_directory :: "os \<Rightarrow> pure_path \<Rightarrow> unit job" where
  "make_private_directory os p =
     reportM ''cannot create Pacman snapshot staging directory'' (mkdir_call os p 448)"

definition require_target :: "os \<Rightarrow> pure_path \<Rightarrow> unit job" where
  "require_target os p =
     (if \<not> is_absolute p \<or> p = Path ''/''
      then raiseM (Rejected ''Pacman target must be an absolute non-root directory'')
      else require_real_directory os p)"

definition verify_signature :: "os \<Rightarrow> pure_path \<Rightarrow> pure_path \<Rightarrow> pure_path \<Rightarrow> unit job" where
  "verify_signature os keyring signature mapping =
     catchM (checked_call os True
         [gpgv_file, ''--keyring'', path_str keyring, path_str signature, path_str mapping])
       (\<lambda>e. raiseM (if os_error e \<or> e = ProcessError
          then Rejected ''Pacman snapshot signature verification failed'' else e))"

definition check_transaction_id :: "pyval \<Rightarrow> unit job" where
  "check_transaction_id v =
     (if \<not> str_that (\<lambda>s. length s = 32 \<and> list_all (\<lambda>c. c \<in> set hex_chars) s) v
      then raiseM (Rejected ''transaction id must be 32 lowercase hexadecimal characters'')
      else returnM ())"

section \<open>Staging and authorisation\<close>

definition stage_package :: "os \<Rightarrow> pure_path \<Rightarrow> snapshot_package \<Rightarrow> unit job" where
  "stage_package os stage package =
     bindM (copy_regular_with_digest os (join (Path snapshot_root) (archive package))
         (join stage (archive package)) max_archive_bytes) (\<lambda>r.
     if snd r \<noteq> package_sha256 package
     then raiseM (Rejected ''Pacman archive differs from the signed snapshot'')
     else returnM ())"

text \<open>The part of \<^verbatim>\<open>stage_and_authorize\<close> after the stage has been made.\<close>

definition authorize_snapshot ::
    "os \<Rightarrow> (string \<Rightarrow> pyval option) \<Rightarrow> string \<Rightarrow> pure_path \<Rightarrow> (signed_snapshot \<times> pure_path) job" where
  "authorize_snapshot os toml plan_digest stage =
     bindM (copy_regular os (Path mapping_file) (join stage ''mapping.toml'')
         max_document_bytes) (\<lambda>mapping.
     bindM (copy_regular os (Path signature_file) (join stage ''mapping.toml.sig'')
         max_document_bytes) (\<lambda>signature.
     bindM (copy_regular os (Path keyring_file) (join stage ''keyring.gpg'')
         max_document_bytes) (\<lambda>keyring.
     bindM (verify_signature os keyring signature mapping) (\<lambda>u.
     bindM (read_regular os mapping max_document_bytes) (\<lambda>raw.
     bindM (liftM (parse_signed_snapshot toml raw)) (\<lambda>snapshot.
     if plan_sha256 snapshot \<noteq> plan_digest
     then raiseM (Rejected ''signed Pacman snapshot is not authorized for this Arach-HWD plan'')
     else bindM (require_real_directory os (Path snapshot_root)) (\<lambda>u.
     bindM (copy_regular os (join (Path snapshot_root) ''pacman.conf'')
         (join stage ''pacman.conf'') max_document_bytes) (\<lambda>config.
     bindM (read_regular os config max_document_bytes) (\<lambda>config_text.
     if sha256_hex config_text \<noteq> pacman_config_sha256 snapshot
     then raiseM (Rejected ''Pacman configuration differs from the signed snapshot'')
     else bindM (eachM (stage_package os stage) (packages snapshot)) (\<lambda>u.
       returnM (snapshot, stage)))))))))))"

definition stage_and_authorize ::
    "os \<Rightarrow> (string \<Rightarrow> pyval option) \<Rightarrow> (string \<Rightarrow> pyval option) \<Rightarrow> (pyfloat \<Rightarrow> string) \<Rightarrow>
     pyval \<Rightarrow> (signed_snapshot \<times> pure_path) job" where
  "stage_and_authorize os json toml fr transaction_id =
     bindM (check_transaction_id transaction_id) (\<lambda>u.
     bindM (read_regular os (Path plan_file) max_document_bytes) (\<lambda>plan.
     bindM (read_regular os (Path receipt_file) max_document_bytes) (\<lambda>receipt.
     bindM (read_regular os (Path catalog_lock_file) max_document_bytes) (\<lambda>catalog_lock.
     bindM (liftM (validate_verified_plan json fr plan receipt catalog_lock)) (\<lambda>plan_digest.
     bindM (require_private_directory os (join (Path runtime_root) (str_of transaction_id))) (\<lambda>u.
     bindM (make_private_directory os
         (join (join (Path runtime_root) (str_of transaction_id)) ''pacman-snapshot'')) (\<lambda>u.
     authorize_snapshot os toml plan_digest
       (join (join (Path runtime_root) (str_of transaction_id)) ''pacman-snapshot''))))))))"

definition pacman_arguments :: "pure_path \<Rightarrow> pure_path \<Rightarrow> signed_snapshot \<Rightarrow> string list" where
  "pacman_arguments target stage snapshot =
     [pacman_file, ''--root'', path_str target,
      ''--dbpath'', path_str (join target ''var/lib/pacman''), ''--cachedir'', path_str stage,
      ''--config'', path_str (join stage ''pacman.conf''), ''--noconfirm'', ''--needed'', ''-U''] @
     map (\<lambda>p. path_str (join stage (archive p))) (packages snapshot)"

definition pacman_command ::
    "os \<Rightarrow> pure_path \<Rightarrow> pure_path \<Rightarrow> signed_snapshot \<Rightarrow> string list job" where
  "pacman_command os target stage snapshot =
     bindM (require_target os target) (\<lambda>u.
     bindM (require_real_directory os stage) (\<lambda>u.
     if packages snapshot = []
     then raiseM (Rejected ''empty Pacman snapshots do not authorize execution'')
     else returnM (pacman_arguments target stage snapshot)))"

definition execute_pacman :: "os \<Rightarrow> pure_path \<Rightarrow> signed_snapshot \<Rightarrow> pure_path \<Rightarrow> unit job" where
  "execute_pacman os target snapshot stage =
     bindM (pacman_command os target stage snapshot) (\<lambda>command.
     catchM (checked_call os False command)
       (\<lambda>e. raiseM (if os_error e \<or> e = ProcessError
          then Rejected ''authorized Pacman execution failed'' else e)))"

section \<open>The job\<close>

text \<open>A job of Calamares answers \<^verbatim>\<open>None\<close>, or a title and a message.\<close>

type_synonym outcome = "(string \<times> string) option"

definition pacman_refused :: "string \<Rightarrow> outcome" where
  "pacman_refused m = Some (''Pacman adapter refused'', m)"

definition pacman_run ::
    "os \<Rightarrow> (string \<Rightarrow> pyval option) \<Rightarrow> (string \<Rightarrow> pyval option) \<Rightarrow> (pyfloat \<Rightarrow> string) \<Rightarrow>
     pyval \<Rightarrow> outcome job" where
  "pacman_run os json toml fr configuration =
     (if \<not> has_fields [''enabled''] configuration \<or> \<not> is_bool (field configuration ''enabled'')
      then returnM (Some (''Invalid Pacman adapter configuration'',
        ''The adapter accepts only an explicit Boolean enabled setting''))
      else if field configuration ''enabled'' = PBool False then returnM None
      else bindM (value_of ''arachHardwarePlan'') (\<lambda>plan.
        bindM (value_of ''arachHardwarePlanReceipt'') (\<lambda>receipt.
        bindM (value_of ''rootMountPoint'') (\<lambda>target.
        bindM (value_of ''arachTransactionId'') (\<lambda>transaction_id.
        if \<not> py_eq plan (PStr plan_file) \<or> \<not> py_eq receipt (PStr receipt_file) \<or>
           \<not> str_that (\<lambda>s. True) target \<or> \<not> str_that (\<lambda>s. True) transaction_id
        then returnM (pacman_refused
          ''A verified Arach-HWD plan, target, or transaction is absent'')
        else catchM
          (bindM (stage_and_authorize os json toml fr transaction_id) (\<lambda>(snapshot, stage).
           bindM (execute_pacman os (Path (str_of target)) snapshot stage) (\<lambda>u.
           bindM (insert_value ''arachHardwarePacmanSnapshot'' (PStr (path_str stage))) (\<lambda>u.
             returnM None))))
          (\<lambda>e. case e of Rejected m \<Rightarrow> returnM (pacman_refused m) | _ \<Rightarrow> raiseM e))))))"

end
