(* ===== verification/PacmanProps.thy ===== *)
theory PacmanProps
  imports Pacman PrivateArea
begin

text \<open>
  What the package adapter guarantees: pacman is only started on a stage that the job wrote
  itself, under a snapshot whose signature was verified, for the hardware plan that was verified
  (\<open>pacman_runs_only_authorized\<close>), even while other processes change the rest of the tree. The
  proof follows the code with the Hoare rules of theory \<open>PrivateArea\<close>: \<open>known H\<close> says what the
  private directory holds, and \<open>\<subseteq>\<^sub>m\<close> that nothing staged is touched again.
\<close>

section \<open>Names in the stage\<close>

lemma archive_name_parts:
  assumes "archive_name_ok s"
  shows "CHR ''/'' \<notin> set s" and "s \<noteq> []" and "s \<noteq> ''.''" and "s \<noteq> ''..''"
  using assms by (auto simp: archive_name_ok_def archive_char_def list_all_iff)

definition runtime_area :: "string \<Rightarrow> string list" where
  "runtime_area tx = [''run'', ''arach-installer'', tx]"

definition stage_of :: "string \<Rightarrow> string list" where
  "stage_of tx = runtime_area tx @ [''pacman-snapshot'']"

lemma near_stage: "near (runtime_area tx) (stage_of tx @ cs)" "near (runtime_area tx) (stage_of tx)"
  "near (runtime_area tx) (runtime_area tx)"
  "near (runtime_area tx) [''run'', ''arach-installer'']"
  by (auto simp: near_def stage_of_def runtime_area_def)

lemma runtime_join: "join (Path runtime_root) tx = abs_path (runtime_area tx)"
  if "CHR ''/'' \<notin> set tx" "tx \<noteq> []" "tx \<noteq> ''.''"
proof -
  have "Path runtime_root = abs_path [''run'', ''arach-installer'']"
    by (simp add: runtime_root_def Path_def abs_path_def)
  with join_name [OF that] show ?thesis by (simp add: runtime_area_def)
qed

definition hex_id :: "string \<Rightarrow> bool" where
  "hex_id s \<longleftrightarrow> length s = 32 \<and> list_all (\<lambda>c. c \<in> set hex_chars) s"

lemma hex_id_name:
  assumes "hex_id tx"
  shows "CHR ''/'' \<notin> set tx" and "tx \<noteq> []" and "tx \<noteq> ''.''" and "tx \<noteq> ''..''"
proof -
  have "CHR ''/'' \<notin> set hex_chars" by (simp add: hex_chars_def)
  with assms show "CHR ''/'' \<notin> set tx" by (auto simp: hex_id_def list_all_iff)
  from assms have "length tx = 32" by (simp add: hex_id_def)
  then show "tx \<noteq> []" "tx \<noteq> ''.''" "tx \<noteq> ''..''" by auto
qed

section \<open>Copying into the stage\<close>

lemma map_le_fresh: "F q = None \<Longrightarrow> F \<subseteq>\<^sub>m F(q \<mapsto> x)"
  by (auto simp: map_le_def)

lemma map_le_at: "F \<subseteq>\<^sub>m H \<Longrightarrow> F q = Some x \<Longrightarrow> H q = Some x"
  by (metis domI map_le_def)

lemma map_le_plain: "F \<subseteq>\<^sub>m H \<Longrightarrow> plain_dirs F r \<Longrightarrow> plain_dirs H r"
  by (simp add: plain_dirs_def map_le_at)

lemma copy_loop_known:
  "undisturbed os P \<Longrightarrow> near P q \<Longrightarrow> known B P F L w \<Longrightarrow> F q = Some (Regular sofar True) \<Longrightarrow>
    (case copy_loop os f q limit sofar w of
       (Inl e, w') \<Rightarrow> broken B e w'
     | (Inr content, w') \<Rightarrow> known B P (F(q \<mapsto> Regular content True)) L w')"
proof (induction os f q limit sofar w arbitrary: F rule: copy_loop.induct)
  case (1 os f q limit sofar w)
  note rely = 1(2,3) and unfold = copy_loop.simps [of os f q limit sofar w]
  obtain r w1 where read: "read_call os f (length sofar) chunk_bytes w = (r, w1)"
    by (metis surj_pair)
  show ?case
  proof (cases r)
    case (Inl e)
    with known_read [OF rely(1), of B F L f "length sofar" chunk_bytes] 1(4) read show ?thesis
      by (auto simp: valid_def unfold)
  next
    case (Inr chunk)
    with known_read [OF rely(1), of B F L f "length sofar" chunk_bytes] 1(4) read
    have w1: "known B P F L w1" by (auto simp: valid_def)
    have same: "F(q \<mapsto> Regular sofar True) = F" using 1(5) by auto
    show ?thesis
    proof (cases "chunk = [] \<or> limit < length sofar + length chunk")
      case True
      with read Inr w1 same show ?thesis by (auto simp: broken_def known_silent unfold)
    next
      case False
      obtain s w2 where app: "append_call os q chunk w1 = (s, w2)" by (metis surj_pair)
      let ?F = "F(q \<mapsto> Regular (sofar @ chunk) True)"
      from known_append_inside [of os P q F sofar B L chunk] rely 1(5) w1 app have
        w2: "case s of Inl e \<Rightarrow> broken B e w2 | Inr u \<Rightarrow> known B P ?F L w2"
        by (auto simp: valid_def)
      show ?thesis
      proof (cases s)
        case (Inl e)
        with read False app w2 \<open>r = Inr chunk\<close> show ?thesis by (simp add: unfold)
      next
        case (Inr u)
        with 1(1) [OF read [symmetric, unfolded \<open>r = Inr chunk\<close>] refl] False app w2 rely
        have "case copy_loop os f q limit (sofar @ chunk) w2 of (Inl e, w') \<Rightarrow> broken B e w'
            | (Inr content, w') \<Rightarrow> known B P (?F(q \<mapsto> Regular content True)) L w'"
          by auto
        with read \<open>r = Inr chunk\<close> False app Inr show ?thesis
          by (simp add: unfold split: prod.splits sum.splits)
      qed
    qed
  qed
qed

lemma copy_loop_valid:
  assumes "undisturbed os P" and "near P q" and "F q = Some (Regular [] True)"
  shows "valid (known B P F L) (copy_loop os f q limit [])
    (\<lambda>content. known B P (F(q \<mapsto> Regular content True)) L) (broken B)"
  unfolding valid_def
  by (intro allI impI) (rule copy_loop_known [where F = F and sofar = "[]", OF assms(1,2) _ assms(3)])

lemma known_report:
  "valid P m Q (broken B) \<Longrightarrow> valid P (reportM s m) Q (broken B)"
  unfolding reportM_def
  by (rule valid_catch, assumption) (rule valid_raise, simp add: broken_def)

lemma known_raise: "valid (known B P F L) (raiseM e) Q (broken B)"
  by (rule valid_raise) (simp add: broken_def known_silent)

lemma copy_known:
  assumes rely: "undisturbed os P" and area: "near P r" "plain_dirs F r" "near P (r @ [c])"
  shows "valid (known B P F L)
    (copy_regular_with_digest os source (abs_path (r @ [c])) limit)
    (\<lambda>res w. \<exists>content. (res = (abs_path (r @ [c]), sha256_hex content) \<and> F (r @ [c]) = None) \<and>
       known B P (F(r @ [c] \<mapsto> Regular content True)) L w) (broken B)"
proof -
  let ?q = "r @ [c]" and ?F = "\<lambda>content. F(r @ [c] \<mapsto> Regular content True)"
  have body: "valid (\<lambda>w. (q = ?q \<and> F ?q = None) \<and> known B P (?F []) L w)
      (if \<not> bounded_regular limit (snd f) then raiseM (Rejected ''not a bounded regular file'')
       else bindM (copy_loop os f q limit []) (\<lambda>content.
         bindM (sync_call os) (\<lambda>u. returnM (abs_path ?q, sha256_hex content))))
      (\<lambda>res w. \<exists>content. (res = (abs_path ?q, sha256_hex content) \<and> F ?q = None) \<and>
         known B P (?F content) L w) (broken B)" for q f
  proof (rule valid_fact, rule valid_if, rule known_raise, rule valid_bind)
    assume fresh: "q = ?q \<and> F ?q = None"
    show "valid (known B P (?F []) L) (copy_loop os f q limit [])
        (\<lambda>content. known B P (?F content) L) (broken B)"
      using copy_loop_valid [OF rely, of q "?F []" B L f limit] area fresh by simp
    fix content
    show "valid (known B P (?F content) L)
        (bindM (sync_call os) (\<lambda>u. returnM (abs_path ?q, sha256_hex content)))
        (\<lambda>res w. \<exists>content. (res = (abs_path ?q, sha256_hex content) \<and> F ?q = None) \<and>
           known B P (?F content) L w) (broken B)"
      by (rule valid_bind [OF known_sync [OF rely]], rule valid_return) (use fresh in blast)
  qed
  show ?thesis
    unfolding copy_regular_with_digest_def
    by (rule valid_bind [OF known_report [OF known_open [OF rely]]], rule known_report,
        rule valid_bind [OF known_create_inside [OF rely area(1,2,3)] body])
qed

lemma copy_regular_known:
  assumes "undisturbed os P" and "near P r" "plain_dirs F r" "near P (r @ [c])"
  shows "valid (known B P F L) (copy_regular os source (abs_path (r @ [c])) limit)
    (\<lambda>p w. \<exists>content. (p = abs_path (r @ [c]) \<and> F (r @ [c]) = None) \<and>
       known B P (F(r @ [c] \<mapsto> Regular content True)) L w) (broken B)"
  unfolding copy_regular_def
  by (rule valid_bind [OF copy_known [OF assms]], rule valid_ex, rule valid_fact, rule valid_return)
    auto

section \<open>Reading\<close>

lemma read_known:
  assumes "undisturbed os P" and "\<And>s. \<not> B (Fetched p s)"
  shows "valid (known B P F L) (read_regular os p limit)
    (\<lambda>s. known B P F (insert (Fetched p s) L)) (broken B)"
  unfolding read_regular_def
  by (rule valid_bind [OF known_report [OF known_open [OF assms(1)]]], rule valid_bind,
      rule valid_if, rule known_raise, rule known_report [OF known_read [OF assms(1)]],
      rule valid_if, rule known_raise, rule valid_bind [OF known_log [where B = B, OF assms(2)]],
      rule valid_return)

lemma read_known_inside:
  assumes rely: "undisturbed os P" and area: "near P r" "plain_dirs F r" "near P (r @ [c])"
    and "c \<noteq> ''..''" and node: "F (r @ [c]) = Some (Regular text True)"
    and "\<And>s. \<not> B (Fetched (abs_path (r @ [c])) s)"
  shows "valid (known B P F L) (read_regular os (abs_path (r @ [c])) limit)
    (\<lambda>s w. s = text \<and> known B P F L w) (broken B)"
proof -
  let ?p = "abs_path (r @ [c])"
  have rest: "valid (\<lambda>w. (s = text) \<and> known B P F L w)
      (if limit < length s then raiseM (Rejected ''exceeds its size limit'')
       else bindM (log_fetched ?p s) (\<lambda>u. returnM s))
      (\<lambda>s w. s = text \<and> known B P F L w) (broken B)" for s
    by (rule valid_fact, rule valid_if, rule known_raise,
        rule valid_bind [OF known_log [where B = B, OF assms(7)]], rule valid_return) (simp add: known_def)
  have read: "valid (\<lambda>w. f = (r @ [c], Regular text True) \<and> known B P F L w)
      (if \<not> bounded_regular limit (snd f) then raiseM (Rejected ''not a bounded regular file'')
       else reportM ''cannot read'' (read_call os f 0 (Suc limit)))
      (\<lambda>s w. (s = text) \<and> known B P F L w) (broken B)" for f
  proof (rule valid_fact, rule valid_if, rule known_raise, rule known_report)
    assume f: "f = (r @ [c], Regular text True)" and "\<not> \<not> bounded_regular limit (snd f)"
    then have "take (Suc limit) (drop 0 text) = text" by simp
    with known_read_inside [OF rely area(3), of F "text" B L "Regular text True" 0 "Suc limit"] node
    show "valid (known B P F L) (read_call os f 0 (Suc limit))
        (\<lambda>s w. s = text \<and> known B P F L w) (broken B)"
      by (simp add: f)
  qed
  note opened = known_open_inside [OF rely area(1,2) assms(5) area(3) node]
  show ?thesis
    unfolding read_regular_def
    by (rule valid_bind [OF known_report [OF opened] valid_bind [OF read rest]])
qed

section \<open>The signed snapshot\<close>

definition package_ok :: "pyval \<Rightarrow> bool" where
  "package_ok v \<longleftrightarrow>
     has_fields [''archive'', ''sha256''] v \<and> str_that archive_name_ok (field v ''archive'') \<and>
     str_that (fullmatch SHA256_RE) (field v ''sha256'')"

definition package_of :: "pyval \<Rightarrow> snapshot_package" where
  "package_of v =
     \<lparr>archive = str_of (field v ''archive''), package_sha256 = str_of (field v ''sha256'')\<rparr>"

lemma digest_value_iff [result_simps]:
  "digest_value v n = Inr d \<longleftrightarrow> str_that (fullmatch SHA256_RE) v \<and> d = str_of v"
  by (auto simp: digest_value_def)

lemma archive_name_iff [result_simps]:
  "archive_name v = Inr d \<longleftrightarrow> str_that archive_name_ok v \<and> d = str_of v"
  by (auto simp: archive_name_def)

interpretation snapshot_packages: unique_loop
  package_step "\<lambda>i. package_ok" "\<lambda>v. archive (package_of v)" fst
  "\<lambda>v acc. (insert (archive (package_of v)) (fst acc), snd acc @ [package_of v])"
  by unfold_locales
    (auto simp: package_step_def package_ok_def package_of_def result_simps)

lemma snapshot_fold:
  "snd (fold (\<lambda>v acc. (insert (archive (package_of v)) (fst acc), snd acc @ [package_of v])) vs acc) =
     snd acc @ map package_of vs"
  by (induction vs arbitrary: acc) auto

lemma parsed_packages:
  assumes "parse_signed_snapshot toml raw = Inr snapshot"
  shows "\<forall>p \<in> set (packages snapshot). archive_name_ok (archive p)"
    and "distinct (map archive (packages snapshot))" and "length (packages snapshot) \<le> max_packages"
proof -
  obtain document where ok: "\<forall>j < length (list_of (field document ''package'')).
        package_ok (list_of (field document ''package'') ! j)"
      "distinct (map (\<lambda>v. archive (package_of v)) (list_of (field document ''package'')))"
      "length (list_of (field document ''package'')) \<le> max_packages"
    and packages: "packages snapshot = map package_of (list_of (field document ''package''))"
    using assms
    by (auto simp: parse_signed_snapshot_def result_simps snapshot_packages.loop_iff snapshot_fold
        not_less split: option.splits if_splits)
  then show "\<forall>p \<in> set (packages snapshot). archive_name_ok (archive p)"
    by (fastforce simp: in_set_conv_nth package_ok_def package_of_def)
  from ok packages show "distinct (map archive (packages snapshot))"
    "length (packages snapshot) \<le> max_packages"
    by (simp_all add: comp_def)
qed

section \<open>Staging the packages\<close>

definition staged_package :: "string \<Rightarrow> fs \<Rightarrow> snapshot_package \<Rightarrow> bool" where
  "staged_package tx t p \<longleftrightarrow>
     (\<exists>content. t (stage_of tx @ [archive p]) = Some (Regular content True) \<and>
        sha256_hex content = package_sha256 p)"

lemma staged_package_mono: "F \<subseteq>\<^sub>m H \<Longrightarrow> staged_package tx F p \<Longrightarrow> staged_package tx H p"
  by (auto simp: staged_package_def map_le_at)

lemma stage_package_known:
  assumes rely: "undisturbed os (runtime_area tx)" and plain: "plain_dirs F (stage_of tx)"
    and name: "archive_name_ok (archive p)"
  shows "valid (known B (runtime_area tx) F L) (stage_package os (abs_path (stage_of tx)) p)
    (\<lambda>u w. \<exists>H. (F \<subseteq>\<^sub>m H \<and> staged_package tx H p) \<and> known B (runtime_area tx) H L w) (broken B)"
proof -
  let ?q = "stage_of tx @ [archive p]"
  have path: "join (abs_path (stage_of tx)) (archive p) = abs_path ?q"
    by (rule join_name) (use archive_name_parts [OF name] in auto)
  have body: "valid (\<lambda>w. \<exists>content. (res = (abs_path ?q, sha256_hex content) \<and> F ?q = None) \<and>
        known B (runtime_area tx) (F(?q \<mapsto> Regular content True)) L w)
      (if snd res \<noteq> package_sha256 p
       then raiseM (Rejected ''Pacman archive differs from the signed snapshot'') else returnM ())
      (\<lambda>u w. \<exists>H. (F \<subseteq>\<^sub>m H \<and> staged_package tx H p) \<and> known B (runtime_area tx) H L w)
      (broken B)" for res
  proof (rule valid_ex, rule valid_fact, rule valid_if, rule known_raise, rule valid_return)
    fix content w
    assume "res = (abs_path ?q, sha256_hex content) \<and> F ?q = None" "\<not> snd res \<noteq> package_sha256 p"
    then have fresh: "F ?q = None" and sha: "sha256_hex content = package_sha256 p" by auto
    from sha have "staged_package tx (F(?q \<mapsto> Regular content True)) p"
      by (simp add: staged_package_def)
    with map_le_fresh [of F ?q, OF fresh]
    show "known B (runtime_area tx) (F(?q \<mapsto> Regular content True)) L w \<Longrightarrow>
        \<exists>H. (F \<subseteq>\<^sub>m H \<and> staged_package tx H p) \<and> known B (runtime_area tx) H L w"
      by blast
  qed
  show ?thesis
    unfolding stage_package_def path
    by (rule valid_bind, rule copy_known [OF rely near_stage(2) plain near_stage(1)], rule body)
qed

lemma stage_packages_known:
  assumes rely: "undisturbed os (runtime_area tx)"
  shows "plain_dirs F (stage_of tx) \<Longrightarrow> \<forall>p \<in> set ps. archive_name_ok (archive p) \<Longrightarrow>
    valid (known B (runtime_area tx) F L) (eachM (stage_package os (abs_path (stage_of tx))) ps)
    (\<lambda>u w. \<exists>H. (F \<subseteq>\<^sub>m H \<and> (\<forall>p \<in> set ps. staged_package tx H p)) \<and>
       known B (runtime_area tx) H L w) (broken B)"
proof (induction ps arbitrary: F)
  case Nil
  show ?case
    unfolding eachM.simps by (rule valid_return) (rule exI [of _ F], simp)
next
  case (Cons p ps)
  let ?post = "\<lambda>w. \<exists>H. (F \<subseteq>\<^sub>m H \<and> (\<forall>p \<in> set (p # ps). staged_package tx H p)) \<and>
       known B (runtime_area tx) H L w"
  have rest: "valid (known B (runtime_area tx) G L)
      (eachM (stage_package os (abs_path (stage_of tx))) ps) (\<lambda>u. ?post) (broken B)"
    if G: "F \<subseteq>\<^sub>m G \<and> staged_package tx G p" for G
  proof (rule valid_conseq [OF Cons.IH [of G]])
    show "plain_dirs G (stage_of tx)"
      using map_le_plain G Cons.prems(1) by blast
    show "\<forall>p \<in> set ps. archive_name_ok (archive p)" using Cons.prems(2) by simp
    fix u w
    assume "\<exists>H. (G \<subseteq>\<^sub>m H \<and> (\<forall>p \<in> set ps. staged_package tx H p)) \<and> known B (runtime_area tx) H L w"
    then show "?post w"
      using G map_le_trans staged_package_mono by (metis set_ConsD)
  qed
  have name: "archive_name_ok (archive p)" using Cons.prems(2) by simp
  show ?case
    unfolding eachM.simps
    by (rule valid_bind, rule stage_package_known [OF rely Cons.prems(1) name],
        rule valid_ex, rule valid_fact, rule rest)
qed

section \<open>Authorisation\<close>

definition staged :: "string \<Rightarrow> string \<Rightarrow> string list" where
  "staged tx name = stage_of tx @ [name]"

definition gpgv_command :: "string \<Rightarrow> string list" where
  "gpgv_command tx =
     [gpgv_file, ''--keyring'', path_str (abs_path (staged tx ''keyring.gpg'')),
      path_str (abs_path (staged tx ''mapping.toml.sig'')),
      path_str (abs_path (staged tx ''mapping.toml''))]"

text \<open>
  The signature check succeeded on the three files that the tree holds in the stage, and its
  signed content is the snapshot.
\<close>

definition signed :: "(string \<Rightarrow> pyval option) \<Rightarrow> string \<Rightarrow> fs \<Rightarrow> event set \<Rightarrow> signed_snapshot \<Rightarrow> bool" where
  "signed toml tx t L snapshot \<longleftrightarrow>
     (\<exists>mapping t'. Ran (gpgv_command tx) t' True \<in> L \<and>
        (\<forall>name \<in> {''keyring.gpg'', ''mapping.toml.sig'', ''mapping.toml''}.
           \<exists>content. t' (staged tx name) = Some (Regular content True) \<and>
             t (staged tx name) = Some (Regular content True)) \<and>
        t (staged tx ''mapping.toml'') = Some (Regular mapping True) \<and>
        parse_signed_snapshot toml mapping = Inr snapshot)"

definition authorized ::
    "(string \<Rightarrow> pyval option) \<Rightarrow> string \<Rightarrow> fs \<Rightarrow> event set \<Rightarrow> signed_snapshot \<Rightarrow> bool" where
  "authorized toml tx t L snapshot \<longleftrightarrow>
     signed toml tx t L snapshot \<and>
     (\<exists>config. t (staged tx ''pacman.conf'') = Some (Regular config True) \<and>
        sha256_hex config = pacman_config_sha256 snapshot) \<and>
     (\<forall>p \<in> set (packages snapshot). staged_package tx t p)"

definition plan_verified ::
    "(string \<Rightarrow> pyval option) \<Rightarrow> (pyfloat \<Rightarrow> string) \<Rightarrow> event set \<Rightarrow> string \<Rightarrow> bool" where
  "plan_verified json fr L d \<longleftrightarrow>
     (\<exists>plan receipt lock. Fetched (Path plan_file) plan \<in> L \<and>
        Fetched (Path receipt_file) receipt \<in> L \<and> Fetched (Path catalog_lock_file) lock \<in> L \<and>
        validate_verified_plan json fr plan receipt lock = Inr d)"

fun pacman_ran :: "event \<Rightarrow> bool" where
  "pacman_ran (Ran cmd t ok) = (cmd \<noteq> [] \<and> hd cmd = pacman_file)"
| "pacman_ran (Fetched p s) = False"

lemma near_staged: "near (runtime_area tx) (staged tx name)"
  using near_stage(1) by (simp add: staged_def)

lemma stage_join: "join (abs_path (stage_of tx)) name = abs_path (staged tx name)"
  if "CHR ''/'' \<notin> set name" "name \<noteq> []" "name \<noteq> ''.''"
  using join_name [OF that] by (simp add: staged_def)

lemma stage_names:
  "join (abs_path (stage_of tx)) ''mapping.toml'' = abs_path (staged tx ''mapping.toml'')"
  "join (abs_path (stage_of tx)) ''mapping.toml.sig'' = abs_path (staged tx ''mapping.toml.sig'')"
  "join (abs_path (stage_of tx)) ''keyring.gpg'' = abs_path (staged tx ''keyring.gpg'')"
  "join (abs_path (stage_of tx)) ''pacman.conf'' = abs_path (staged tx ''pacman.conf'')"
  by (simp_all add: stage_join)

lemmas stage_copy = copy_regular_known [where r = "stage_of tx" for tx,
  OF _ near_stage(2) _ near_stage(1), folded staged_def]

lemmas stage_read = read_known_inside [where r = "stage_of tx" and B = pacman_ran for tx,
  OF _ near_stage(2) _ near_stage(1), folded staged_def]

lemma gpgv_known:
  assumes "undisturbed os P"
  shows "valid (known pacman_ran P F L)
    (verify_signature os keyring signature mapping)
    (\<lambda>u w. \<exists>t. same_area P F t \<and> known pacman_ran P F
       (insert (Ran [gpgv_file, ''--keyring'', path_str keyring, path_str signature,
          path_str mapping] t True) L) w) (broken pacman_ran)"
  unfolding verify_signature_def
  by (rule valid_catch, rule known_checked [OF assms])
    (auto intro!: valid_raise simp: broken_def pacman_file_def gpgv_file_def)

lemma lift_known:
  "valid (known B P F L) (liftM r) (\<lambda>x w. r = Inr x \<and> known B P F L w) (broken B)"
  by (rule valid_lift) (auto simp: broken_def known_silent)

lemma real_directory_known:
  "undisturbed os P \<Longrightarrow>
     valid (known B P F L) (require_real_directory os p) (\<lambda>u. known B P F L) (broken B)"
  unfolding require_real_directory_def
  by (rule valid_bind, rule known_report, erule known_lstat, rule valid_if, rule known_raise,
      rule valid_return)

lemma staged_names_differ [simp]:
  "staged tx name = staged tx' name' \<longleftrightarrow> stage_of tx = stage_of tx' \<and> name = name'"
  by (simp add: staged_def)

lemma signed_mono:
  assumes "F \<subseteq>\<^sub>m H" and "signed toml tx F L snapshot"
  shows "signed toml tx H L snapshot"
proof -
  have kept: "H q = Some x" if "F q = Some x" for q x using map_le_at [OF assms(1) that] .
  from assms(2) show ?thesis
    unfolding signed_def by (elim exE) (intro exI, auto intro: kept)
qed

lemma authorize_config_known:
  assumes rely: "undisturbed os (runtime_area tx)" and plain: "plain_dirs G (stage_of tx)"
    and signed: "signed toml tx G L snapshot"
  shows "valid (known pacman_ran (runtime_area tx) G L)
    (bindM (require_real_directory os (Path snapshot_root)) (\<lambda>u.
     bindM (copy_regular os (join (Path snapshot_root) ''pacman.conf'')
         (abs_path (staged tx ''pacman.conf'')) max_document_bytes) (\<lambda>config.
     bindM (read_regular os config max_document_bytes) (\<lambda>config_text.
     if sha256_hex config_text \<noteq> pacman_config_sha256 snapshot
     then raiseM (Rejected ''Pacman configuration differs from the signed snapshot'')
     else bindM (eachM (stage_package os (abs_path (stage_of tx))) (packages snapshot)) (\<lambda>u.
       returnM (snapshot, abs_path (stage_of tx)))))))
    (\<lambda>res w. \<exists>H. (res = (snapshot, abs_path (stage_of tx)) \<and> plain_dirs H (stage_of tx) \<and>
       authorized toml tx H L snapshot) \<and> known pacman_ran (runtime_area tx) H L w)
    (broken pacman_ran)"
proof -
  have names: "\<forall>p \<in> set (packages snapshot). archive_name_ok (archive p)"
    using signed parsed_packages(1) unfolding signed_def by blast
  have rest: "valid (known pacman_ran (runtime_area tx) (G(staged tx ''pacman.conf'' \<mapsto> Regular c True)) L)
      (bindM (eachM (stage_package os (abs_path (stage_of tx))) (packages snapshot)) (\<lambda>u.
        returnM (snapshot, abs_path (stage_of tx))))
      (\<lambda>res w. \<exists>H. (res = (snapshot, abs_path (stage_of tx)) \<and> plain_dirs H (stage_of tx) \<and>
         authorized toml tx H L snapshot) \<and> known pacman_ran (runtime_area tx) H L w)
      (broken pacman_ran)"
    if new: "G (staged tx ''pacman.conf'') = None" and sha: "sha256_hex c = pacman_config_sha256 snapshot"
    for c
  proof -
    let ?G = "G(staged tx ''pacman.conf'' \<mapsto> Regular c True)"
    have le: "G \<subseteq>\<^sub>m ?G" by (rule map_le_fresh) (rule new)
    have final: "plain_dirs H (stage_of tx) \<and> authorized toml tx H L snapshot"
      if H: "?G \<subseteq>\<^sub>m H \<and> (\<forall>p \<in> set (packages snapshot). staged_package tx H p)" for H
    proof -
      have GH: "G \<subseteq>\<^sub>m H" using le H map_le_trans by blast
      have "signed toml tx H L snapshot"
        by (rule signed_mono [OF GH signed])
      moreover have "H (staged tx ''pacman.conf'') = Some (Regular c True)"
        using H map_le_at [of ?G H "staged tx ''pacman.conf''"] by simp
      ultimately show ?thesis
        using H sha map_le_plain [OF GH plain] unfolding authorized_def by blast
    qed
    have "plain_dirs ?G (stage_of tx)" by (rule map_le_plain [OF le plain])
    from stage_packages_known [OF rely this names, of pacman_ran L] show ?thesis
      by (rule valid_bind) (rule valid_ex, rule valid_fact, rule valid_return, use final in blast)
  qed
  show ?thesis
    apply (rule valid_bind, rule real_directory_known [OF rely])
    apply (rule valid_bind, rule stage_copy [OF rely plain])
    apply (rule valid_ex, rule valid_fact)
    subgoal for u config c
      apply (rule valid_bind)
       apply (simp only:)
       apply (rule stage_read [OF rely])
          apply (rule map_le_plain [OF map_le_fresh plain], simp)
         apply simp
        apply (rule fun_upd_same)
       apply simp
      apply (rule valid_fact, rule valid_if, rule known_raise)
      apply (rule rest)
       apply simp_all
      done
    done
qed

lemma authorize_known:
  assumes rely: "undisturbed os (runtime_area tx)" and plain: "plain_dirs F (stage_of tx)"
  shows "valid (known pacman_ran (runtime_area tx) F L)
    (authorize_snapshot os toml d (abs_path (stage_of tx)))
    (\<lambda>res w. \<exists>H L' snapshot. (res = (snapshot, abs_path (stage_of tx)) \<and> plan_sha256 snapshot = d \<and>
       L \<subseteq> L' \<and> plain_dirs H (stage_of tx) \<and> authorized toml tx H L' snapshot) \<and>
       known pacman_ran (runtime_area tx) H L' w)
    (broken pacman_ran)"
proof -
  let ?m = "staged tx ''mapping.toml''" and ?s = "staged tx ''mapping.toml.sig''"
    and ?k = "staged tx ''keyring.gpg''"
  let ?G = "\<lambda>m s k. F(?m \<mapsto> Regular m True, ?s \<mapsto> Regular s True, ?k \<mapsto> Regular k True)"
  let ?post = "\<lambda>res w. \<exists>H L' snapshot. (res = (snapshot, abs_path (stage_of tx)) \<and>
       plan_sha256 snapshot = d \<and> L \<subseteq> L' \<and> plain_dirs H (stage_of tx) \<and>
       authorized toml tx H L' snapshot) \<and> known pacman_ran (runtime_area tx) H L' w"
  have rest: "valid (known pacman_ran (runtime_area tx) (?G m s k) (insert (Ran (gpgv_command tx) t True) L))
      (bindM (read_regular os (abs_path ?m) max_document_bytes) (\<lambda>raw.
       bindM (liftM (parse_signed_snapshot toml raw)) (\<lambda>snapshot.
       if plan_sha256 snapshot \<noteq> d
       then raiseM (Rejected ''signed Pacman snapshot is not authorized for this Arach-HWD plan'')
       else bindM (require_real_directory os (Path snapshot_root)) (\<lambda>u.
         bindM (copy_regular os (join (Path snapshot_root) ''pacman.conf'')
             (abs_path (staged tx ''pacman.conf'')) max_document_bytes) (\<lambda>config.
         bindM (read_regular os config max_document_bytes) (\<lambda>config_text.
         if sha256_hex config_text \<noteq> pacman_config_sha256 snapshot
         then raiseM (Rejected ''Pacman configuration differs from the signed snapshot'')
         else bindM (eachM (stage_package os (abs_path (stage_of tx))) (packages snapshot)) (\<lambda>u.
           returnM (snapshot, abs_path (stage_of tx)))))))))
      ?post (broken pacman_ran)"
    if area: "same_area (runtime_area tx) (?G m s k) t" and G: "plain_dirs (?G m s k) (stage_of tx)"
    for m s k t
  proof -
    let ?L = "insert (Ran (gpgv_command tx) t True) L"
    have staged: "t (staged tx name) = ?G m s k (staged tx name)" for name
      using area near_staged by (simp add: same_area_def)
    have signed: "signed toml tx (?G m s k) ?L snapshot"
      if "parse_signed_snapshot toml m = Inr snapshot" for snapshot
      unfolding signed_def using that staged by (intro exI [of _ m] exI [of _ t]) simp
    show ?thesis
      apply (rule valid_bind, rule stage_read [OF rely G])
         apply simp
        apply simp
       apply simp
      apply (rule valid_fact)
      apply (rule valid_bind, rule lift_known)
      apply (rule valid_fact, rule valid_if, rule known_raise)
      apply (rule valid_conseq, rule authorize_config_known [OF rely G signed])
         apply simp
        apply assumption
       apply (elim exE conjE, rule exI, rule exI [of _ ?L], rule exI)
       apply auto
      done
  qed
  show ?thesis
    unfolding authorize_snapshot_def stage_names
    apply (rule valid_bind, rule stage_copy [OF rely plain])
    apply (rule valid_ex, rule valid_fact)
    subgoal premises m for p m
    proof -
      from m have F1: "plain_dirs (F(?m \<mapsto> Regular m True)) (stage_of tx)"
        by (intro map_le_plain [OF map_le_fresh plain]) simp
      show ?thesis
        apply (rule valid_bind, rule stage_copy [OF rely F1])
        apply (rule valid_ex, rule valid_fact)
        subgoal premises s for p' s
        proof -
          from s have F2: "plain_dirs (F(?m \<mapsto> Regular m True, ?s \<mapsto> Regular s True)) (stage_of tx)"
            by (intro map_le_plain [OF map_le_fresh F1]) simp
          show ?thesis
            apply (rule valid_bind, rule stage_copy [OF rely F2])
            apply (rule valid_ex, rule valid_fact)
            subgoal premises k for p'' k
            proof -
              from k have G: "plain_dirs (?G m s k) (stage_of tx)"
                by (intro map_le_plain [OF map_le_fresh F2]) simp
              have paths: "p = abs_path ?m" "p' = abs_path ?s" "p'' = abs_path ?k"
                using m s k by simp_all
              show ?thesis
                unfolding paths
                apply (rule valid_bind, rule gpgv_known [OF rely])
                apply (rule valid_ex, rule valid_fact)
                apply (fold gpgv_command_def)
                apply (rule rest [OF _ G], assumption)
                done
            qed
            done
        qed
        done
    qed
    done
qed

section \<open>The whole job\<close>

lemma transaction_id_known:
  "valid P (check_transaction_id (PStr tx)) (\<lambda>u w. hex_id tx \<and> P w) (\<lambda>e. P)"
  by (auto simp: check_transaction_id_def hex_id_def valid_def returnM_def raiseM_def)

lemma private_directory_known:
  assumes rely: "undisturbed os (runtime_area tx)"
    and plain: "plain_dirs F [''run'', ''arach-installer'']" and name: "tx \<noteq> ''..''"
  shows "valid (known B (runtime_area tx) F L)
    (require_private_directory os (abs_path (runtime_area tx)))
    (\<lambda>u w. plain_dirs F (runtime_area tx) \<and> known B (runtime_area tx) F L w) (broken B)"
proof -
  have area: "runtime_area tx = [''run'', ''arach-installer''] @ [tx]"
    by (simp add: runtime_area_def)
  have look: "valid (known B (runtime_area tx) F L) (lstat_call os (abs_path (runtime_area tx)))
      (\<lambda>nd w. F (runtime_area tx) = Some nd \<and> known B (runtime_area tx) F L w) (broken B)"
    using known_lstat_inside [OF rely near_stage(4) plain name, of B L] near_stage(3) [of tx]
    by (simp add: area)
  have found: "plain_dirs F (runtime_area tx)" if "F (runtime_area tx) = Some Directory"
    using plain that name unfolding area by (subst plain_dirs_snoc) simp_all
  show ?thesis
    unfolding require_private_directory_def require_real_directory_def
    apply (rule valid_bind)
     apply (rule valid_bind, rule known_report, rule look)
     apply (rule valid_fact, rule valid_if, rule known_raise)
     apply (rule valid_return)
     apply (rule conjI, rule found, simp, assumption)
    apply (rule valid_fact)
    apply (rule valid_bind, rule known_mode [OF rely])
    apply (rule valid_if, rule known_raise, rule valid_return, simp)
    done
qed

lemma stage_made:
  assumes rely: "undisturbed os (runtime_area tx)" and plain: "plain_dirs F (runtime_area tx)"
  shows "valid (known B (runtime_area tx) F L)
    (make_private_directory os (abs_path (stage_of tx)))
    (\<lambda>u w. (\<exists>G. plain_dirs G (stage_of tx) \<and> known B (runtime_area tx) G L w)) (broken B)"
proof -
  let ?G = "F(stage_of tx \<mapsto> Directory)"
  have made: "plain_dirs ?G (stage_of tx)" if "F (stage_of tx) = None"
  proof -
    have "plain_dirs ?G (runtime_area tx)"
      by (rule map_le_plain [OF map_le_fresh plain]) (rule that)
    then show ?thesis unfolding stage_of_def by (subst plain_dirs_snoc) simp_all
  qed
  have near: "near (runtime_area tx) (runtime_area tx @ [''pacman-snapshot''])"
    using near_stage(2) by (simp add: stage_of_def)
  show ?thesis
    unfolding make_private_directory_def
    apply (rule known_report)
    apply (rule valid_conseq)
       apply (simp only: stage_of_def, rule known_mkdir_inside [OF rely near_stage(3) plain near])
      apply assumption
     apply (rule exI [of _ ?G])
     apply (use made in \<open>simp add: stage_of_def\<close>)
    apply assumption
    done
qed

lemma stage_and_authorize_known:
  assumes rely: "undisturbed os (runtime_area tx)"
    and plain: "plain_dirs F [''run'', ''arach-installer'']"
  shows "valid (known pacman_ran (runtime_area tx) F L)
    (stage_and_authorize os json toml fr (PStr tx))
    (\<lambda>res w. \<exists>H L' snapshot. (res = (snapshot, abs_path (stage_of tx)) \<and>
       plain_dirs H (stage_of tx) \<and> authorized toml tx H L' snapshot \<and>
       plan_verified json fr L' (plan_sha256 snapshot)) \<and>
       known pacman_ran (runtime_area tx) H L' w)
    (broken pacman_ran)"
proof -
  have rest: "valid (known pacman_ran (runtime_area tx) F L')
      (bindM (require_private_directory os (join (Path runtime_root) (str_of (PStr tx)))) (\<lambda>u.
       bindM (make_private_directory os
         (join (join (Path runtime_root) (str_of (PStr tx))) ''pacman-snapshot'')) (\<lambda>u.
       authorize_snapshot os toml d
         (join (join (Path runtime_root) (str_of (PStr tx))) ''pacman-snapshot''))))
      (\<lambda>res w. \<exists>H L' snapshot. (res = (snapshot, abs_path (stage_of tx)) \<and>
         plain_dirs H (stage_of tx) \<and> authorized toml tx H L' snapshot \<and>
         plan_verified json fr L' (plan_sha256 snapshot)) \<and>
         known pacman_ran (runtime_area tx) H L' w)
      (broken pacman_ran)"
    if id: "hex_id tx" and verified: "plan_verified json fr L' d" for L' d
  proof -
    have path: "join (Path runtime_root) (str_of (PStr tx)) = abs_path (runtime_area tx)"
      "join (abs_path (runtime_area tx)) ''pacman-snapshot'' = abs_path (stage_of tx)"
      using runtime_join [OF hex_id_name(1-3) [OF id]] join_name [of "''pacman-snapshot''"]
      by (simp_all add: stage_of_def)
    have mono: "plan_verified json fr L'' d" if "L' \<subseteq> L''" for L''
      using verified that unfolding plan_verified_def by blast
    show ?thesis
      unfolding path
      apply (rule valid_bind, rule private_directory_known [OF rely plain hex_id_name(4) [OF id]])
      apply (rule valid_fact)
      apply (rule valid_bind, rule stage_made [OF rely], assumption)
      apply (rule valid_ex, rule valid_fact)
      apply (rule valid_conseq, rule authorize_known [OF rely], assumption, assumption)
       apply (use mono in blast)
      apply assumption
      done
  qed
  show ?thesis
    unfolding stage_and_authorize_def
    apply (rule valid_bind, rule valid_conseq, rule transaction_id_known, assumption, assumption)
     apply (simp add: broken_def known_silent)
    apply (rule valid_fact)
    apply (rule valid_bind, rule read_known [OF rely], simp)+
    apply (rule valid_bind, rule lift_known)
    apply (rule valid_fact)
    apply (rule rest, assumption)
    apply (unfold plan_verified_def, blast)
    done
qed

lemma authorized_transfer:
  assumes "same_area (runtime_area tx) H t" and "L \<subseteq> L'" and "authorized toml tx H L snapshot"
  shows "authorized toml tx t L' snapshot"
proof -
  have at: "t (staged tx name) = H (staged tx name)" for name
    using assms(1) near_staged by (simp add: same_area_def)
  have "signed toml tx t L' snapshot"
    using assms(2,3) unfolding authorized_def signed_def at by blast
  then show ?thesis
    using assms(3) unfolding authorized_def staged_package_def at staged_def [symmetric] by blast
qed

lemma plan_verified_mono: "plan_verified json fr L d \<Longrightarrow> L \<subseteq> L' \<Longrightarrow> plan_verified json fr L' d"
  unfolding plan_verified_def by blast

text \<open>Every start of pacman in the log was authorised at that time.\<close>

definition pacman_justified ::
    "(string \<Rightarrow> pyval option) \<Rightarrow> (string \<Rightarrow> pyval option) \<Rightarrow> (pyfloat \<Rightarrow> string) \<Rightarrow> string \<Rightarrow>
     world \<Rightarrow> bool" where
  "pacman_justified json toml fr tx w \<longleftrightarrow>
     (\<forall>cmd t ok. Ran cmd t ok \<in> set (trace w) \<and> pacman_ran (Ran cmd t ok) \<longrightarrow>
        (\<exists>target snapshot. cmd = pacman_arguments target (abs_path (stage_of tx)) snapshot \<and>
           packages snapshot \<noteq> [] \<and> authorized toml tx t (set (trace w)) snapshot \<and>
           plan_verified json fr (set (trace w)) (plan_sha256 snapshot)))"

lemma silent_justified: "silent pacman_ran w \<Longrightarrow> pacman_justified json toml fr tx w"
  by (auto simp: silent_def pacman_justified_def)

lemma broken_justified: "broken pacman_ran e w \<Longrightarrow> pacman_justified json toml fr tx w"
  by (simp add: broken_def silent_justified)

lemma execute_justified:
  assumes rely: "undisturbed os (runtime_area tx)"
    and ok: "authorized toml tx H L snapshot" "plan_verified json fr L (plan_sha256 snapshot)"
  shows "valid (known pacman_ran (runtime_area tx) H L)
    (execute_pacman os target snapshot (abs_path (stage_of tx)))
    (\<lambda>u. pacman_justified json toml fr tx) (\<lambda>e. pacman_justified json toml fr tx)"
proof -
  let ?cmd = "pacman_arguments target (abs_path (stage_of tx)) snapshot"
  have after: "pacman_justified json toml fr tx
      (w\<lparr>tree := t, clock := n, trace := trace w @ [Ran ?cmd t' b]\<rparr>)"
    if w: "known pacman_ran (runtime_area tx) H L w" and t: "same_area (runtime_area tx) H t'"
      and some: "packages snapshot \<noteq> []" for w t t' n b
  proof -
    have "L \<subseteq> set (trace w @ [Ran ?cmd t' b])" using w by (auto simp: known_def)
    with authorized_transfer [OF t _ ok(1)] plan_verified_mono [OF ok(2)] some w show ?thesis
      by (auto simp: pacman_justified_def known_def silent_def)
  qed
  have run: "valid (known pacman_ran (runtime_area tx) H L) (checked_call os False ?cmd)
      (\<lambda>u. pacman_justified json toml fr tx) (\<lambda>e. pacman_justified json toml fr tx)"
    if some: "packages snapshot \<noteq> []"
    unfolding valid_def checked_call_def spawn_call_def bindM_def returnM_def raiseM_def Let_def
    using after [OF _ same_area_interfere [OF rely] some]
    by (auto simp: known_def split: option.splits prod.splits)
  have target: "valid (known pacman_ran (runtime_area tx) H L) (require_target os target)
      (\<lambda>u. known pacman_ran (runtime_area tx) H L) (\<lambda>e. pacman_justified json toml fr tx)"
    unfolding require_target_def
    by (rule valid_conseq, rule valid_if, rule known_raise, rule real_directory_known [OF rely])
      (auto intro: broken_justified)
  have look: "valid (known pacman_ran (runtime_area tx) H L) (require_real_directory os p)
      (\<lambda>u. known pacman_ran (runtime_area tx) H L) (\<lambda>e. pacman_justified json toml fr tx)" for p
    by (rule valid_conseq, rule real_directory_known [OF rely]) (auto intro: broken_justified)
  show ?thesis
    unfolding execute_pacman_def pacman_command_def
    apply (rule valid_bind)
     apply (rule valid_bind, rule target, rule valid_bind, rule look, rule valid_if)
      apply (rule valid_raise, simp add: known_silent silent_justified)
     apply (rule valid_return [where Q = "\<lambda>c w. (c = ?cmd \<and> packages snapshot \<noteq> []) \<and>
        known pacman_ran (runtime_area tx) H L w"], simp)
    apply (rule valid_fact)
    apply (rule valid_catch [where R = "\<lambda>e. pacman_justified json toml fr tx"])
     apply (simp add: run)
    apply (rule valid_raise, simp)
    done
qed

lemma justified_storage:
  "pacman_justified json toml fr tx (w\<lparr>storage := s\<rparr>) = pacman_justified json toml fr tx w"
  by (simp add: pacman_justified_def)

lemma pacman_run_justified:
  assumes rely: "undisturbed os (runtime_area tx)"
    and plain: "plain_dirs F [''run'', ''arach-installer'']"
  shows "valid (\<lambda>w. storage w ''arachTransactionId'' = Some (PStr tx) \<and>
       known pacman_ran (runtime_area tx) F L w)
    (pacman_run os json toml fr configuration)
    (\<lambda>r. pacman_justified json toml fr tx) (\<lambda>e. pacman_justified json toml fr tx)"
proof -
  let ?P = "\<lambda>w. storage w ''arachTransactionId'' = Some (PStr tx) \<and>
       known pacman_ran (runtime_area tx) F L w"
  let ?J = "pacman_justified json toml fr tx"
  have quiet: "?P w \<Longrightarrow> ?J w" for w using known_silent silent_justified by blast
  have read: "valid ?P (value_of k)
      (\<lambda>v w. (k = ''arachTransactionId'' \<longrightarrow> v = PStr tx) \<and> ?P w) (\<lambda>e. ?J)" for k
    by (auto simp: valid_def value_of_def)
  have work: "valid ?P
      (bindM (stage_and_authorize os json toml fr (PStr tx)) (\<lambda>(snapshot, stage).
         bindM (execute_pacman os (Path (str_of target)) snapshot stage) (\<lambda>u.
         bindM (insert_value ''arachHardwarePacmanSnapshot'' (PStr (path_str stage))) (\<lambda>u.
           returnM None)))) (\<lambda>r. ?J) (\<lambda>e. ?J)" for target
    apply (rule valid_bind)
     apply (rule valid_conseq, rule stage_and_authorize_known [OF rely plain, of L])
       apply simp
      apply assumption
     apply (rule broken_justified, assumption)
    apply (rule valid_ex, rule valid_ex, rule valid_ex, rule valid_fact)
    apply (simp only: prod.case)
    apply (rule valid_bind, rule execute_justified [OF rely], simp, simp)
    apply (auto simp: valid_def bindM_def insert_value_def returnM_def justified_storage)
    done
  show ?thesis
    unfolding pacman_run_def
    apply (rule valid_if, rule valid_return, erule quiet)
    apply (rule valid_if, rule valid_return, erule quiet)
    apply (rule valid_bind, rule read, rule valid_fact)+
    apply (rule valid_if, rule valid_return, erule quiet)
    apply (rule valid_catch [where R = "\<lambda>e. ?J"])
     apply (simp add: work)
    apply (auto simp: valid_def returnM_def raiseM_def split: exn.splits)
    done
qed

text \<open>
  C1. Pacman only runs what was signed and verified. Let the transaction id be the one in the
  storage, the runtime directory be reached without links, and let no other process change the
  transaction's own directory while the job runs; everything else may change at any time and
  every system call may fail. Then whenever the adapter starts pacman, its arguments are the
  staged archives of a non-empty snapshot; at that moment the stage holds exactly the bytes that
  the snapshot names by their digests, the configuration included; the snapshot is the content
  of a mapping that gpgv accepted with the staged signature and keyring; and it names the plan
  that the job read and checked against the verification receipt and the catalog lock.
\<close>

theorem pacman_runs_only_authorized:
  assumes "undisturbed os (runtime_area tx)"
    and "storage w ''arachTransactionId'' = Some (PStr tx)"
    and "plain_dirs (tree w) [''run'', ''arach-installer'']" and "trace w = []"
    and "pacman_run os json toml fr configuration w = (r, w')"
    and "Ran cmd t ok \<in> set (trace w')" and "cmd \<noteq> []" and "hd cmd = pacman_file"
  shows "\<exists>target snapshot. cmd = pacman_arguments target (abs_path (stage_of tx)) snapshot \<and>
    packages snapshot \<noteq> [] \<and> authorized toml tx t (set (trace w')) snapshot \<and>
    plan_verified json fr (set (trace w')) (plan_sha256 snapshot)"
proof -
  have "known pacman_ran (runtime_area tx) (tree w) {} w"
    by (simp add: known_def same_area_def silent_def assms(4))
  with pacman_run_justified [OF assms(1,3), of "{}" json toml fr configuration] assms(2,5)
  have "pacman_justified json toml fr tx w'"
    by (auto simp: valid_def split: sum.splits)
  with assms(6-8) show ?thesis
    unfolding pacman_justified_def by (simp only: pacman_ran.simps) blast
qed

end
