(* ===== verification/Calm.thy ===== *)
theory Calm
  imports Jobs
begin

text \<open>
  Running jobs on concrete inputs. In the operating system \<open>calm\<close> nothing fails, nobody
  interferes and every command succeeds, so a job's answer, the tree it leaves and the events it
  adds are determined: \<open>runs m T x T' es\<close>. The rules compute them call by call; the witnesses of
  the installer jobs use them.
\<close>

definition calm :: os where
  "calm = \<lparr>interfere = (\<lambda>n t. t), faulty = (\<lambda>n. False), spawned = (\<lambda>cmd n. Some (0, True, True)),
     fresh = (\<lambda>n. ''0123456789abcdef0123456789abcdef''), cut = (\<lambda>n. 0)\<rparr>"

definition runs :: "string list \<Rightarrow> 'a job \<Rightarrow> fs \<Rightarrow> 'a \<Rightarrow> fs \<Rightarrow> event list \<Rightarrow> bool" where
  "runs d m T x T' es \<longleftrightarrow>
     (\<forall>w. tree w = T \<and> modes w d = 448 \<longrightarrow>
        (\<exists>n md. md d = 448 \<and>
           m w = (Inr x, w\<lparr>tree := T', modes := md, clock := n, trace := trace w @ es\<rparr>)))"

lemma runs_return: "runs d (returnM x) T x T []"
proof -
  have "w = w\<lparr>tree := tree w, modes := modes w, clock := clock w, trace := trace w @ []\<rparr>" for w :: world
    by simp
  then show ?thesis unfolding runs_def returnM_def by metis
qed

lemma runs_bind:
  assumes "runs d m T x T1 es" and "runs d (f x) T1 y T2 fs"
  shows "runs d (bindM m f) T y T2 (es @ fs)"
  unfolding runs_def
proof (intro allI impI, elim conjE)
  fix w :: world
  assume "tree w = T" "modes w d = 448"
  with assms(1) obtain n md where md: "md d = 448"
    and m: "m w = (Inr x, w\<lparr>tree := T1, modes := md, clock := n, trace := trace w @ es\<rparr>)"
    unfolding runs_def by blast
  let ?w = "w\<lparr>tree := T1, modes := md, clock := n, trace := trace w @ es\<rparr>"
  have "tree ?w = T1 \<and> modes ?w d = 448" using md by simp
  with assms(2) obtain n' md' where "md' d = 448"
    and "f x ?w = (Inr y, ?w\<lparr>tree := T2, modes := md', clock := n', trace := trace ?w @ fs\<rparr>)"
    unfolding runs_def by blast
  with m show "\<exists>n md. md d = 448 \<and>
      bindM m f w = (Inr y, w\<lparr>tree := T2, modes := md, clock := n, trace := trace w @ es @ fs\<rparr>)"
    by (intro exI [of _ n'] exI [of _ md']) (simp add: bindM_def)
qed

lemma runs_catch: "runs d m T x T' es \<Longrightarrow> runs d (catchM m h) T x T' es"
  by (fastforce simp: runs_def catchM_def)

lemma runs_report: "runs d m T x T' es \<Longrightarrow> runs d (reportM s m) T x T' es"
  unfolding reportM_def by (rule runs_catch)

lemma runs_lift: "r = Inr x \<Longrightarrow> runs d (liftM r) T x T []"
  using runs_return by (fastforce simp: runs_def liftM_def returnM_def)

lemma runs_if: "\<not> c \<Longrightarrow> runs d m' T x T' es \<Longrightarrow> runs d (if c then m else m') T x T' es"
  by simp

lemma runs_sys:
  assumes "\<And>n w. tree w = T \<Longrightarrow> modes w d = 448 \<Longrightarrow>
    \<exists>md. md d = 448 \<and> f n w = (Inr x, w\<lparr>tree := T', modes := md\<rparr>)"
  shows "runs d (sys calm f) T x T' []"
  unfolding runs_def
proof (intro allI impI, elim conjE)
  fix w :: world
  assume w: "tree w = T" "modes w d = 448"
  let ?w = "w\<lparr>tree := tree w, clock := Suc (clock w)\<rparr>"
  obtain md where "md d = 448" "f (clock w) ?w = (Inr x, ?w\<lparr>tree := T', modes := md\<rparr>)"
    using assms [of ?w "clock w"] w by auto
  then show "\<exists>n md. md d = 448 \<and>
      sys calm f w = (Inr x, w\<lparr>tree := T', modes := md, clock := n, trace := trace w @ []\<rparr>)"
    by (intro exI [of _ "Suc (clock w)"] exI [of _ md]) (simp add: sys_def calm_def)
qed

lemma runs_look:
  assumes "\<And>w. tree w = T \<Longrightarrow> modes w d = 448 \<Longrightarrow> r w = Inr x"
  shows "runs d (sys calm (\<lambda>n w. (r w, w))) T x T []"
proof (rule runs_sys)
  fix n :: nat and w :: world
  assume w: "tree w = T" "modes w d = 448"
  have "w = w\<lparr>tree := T, modes := modes w\<rparr>" using w(1) by simp
  with assms [OF w] w(2) show "\<exists>md. md d = 448 \<and> (r w, w) = (Inr x, w\<lparr>tree := T, modes := md\<rparr>)"
    by metis
qed

lemma runs_lstat: "lstat T p = Some nd \<Longrightarrow> runs d (lstat_call calm p) T nd T []"
  unfolding lstat_call_def by (rule runs_look) simp

lemma runs_stat: "stat T p = Some nd \<Longrightarrow> runs d (stat_call calm p) T nd T []"
  unfolding stat_call_def by (rule runs_look) simp

lemma runs_mode: "locate T p = Some d \<Longrightarrow> node_at T d \<noteq> None \<Longrightarrow> runs d (mode_call calm p) T 448 T []"
  unfolding mode_call_def by (rule runs_look) auto

lemma runs_sync: "runs d (sync_call calm) T () T []"
  unfolding sync_call_def by (rule runs_look) simp

lemma runs_open:
  "walk T False max_links [] (tail p) = Some q \<Longrightarrow> node_at T q = Some (Regular c True) \<Longrightarrow>
     runs d (open_call calm p) T (q, Regular c True) T []"
  unfolding open_call_def by (rule runs_look) simp

lemma runs_read:
  "T q = Some (Regular c r) \<Longrightarrow> runs d (read_call calm (q, nd) off k) T (take k (drop off c)) T []"
  unfolding read_call_def by (rule runs_look) simp

lemma runs_mkdir:
  "place T p = Some q \<Longrightarrow> T q = None \<Longrightarrow> q \<noteq> d \<Longrightarrow>
     runs d (mkdir_call calm p mode) T () (T(q \<mapsto> Directory)) []"
  unfolding mkdir_call_def
  by (rule runs_sys) (auto intro!: exI [of _ "\<lambda>x. if x = q then mode else modes _ x"] simp: fun_upd_def)

lemma runs_create:
  "place T p = Some q \<Longrightarrow> T q = None \<Longrightarrow> q \<noteq> d \<Longrightarrow>
     runs d (create_call calm p) T q (T(q \<mapsto> Regular [] True)) []"
  unfolding create_call_def
  by (rule runs_sys) (auto intro!: exI [of _ "\<lambda>x. if x = q then 384 else modes _ x"] simp: fun_upd_def)

lemma runs_append:
  assumes "T q = Some (Regular c r)"
  shows "runs d (append_call calm q s) T () (T(q \<mapsto> Regular (c @ s) r)) []"
  unfolding runs_def
proof (intro allI impI, elim conjE)
  fix w :: world
  assume "tree w = T" "modes w d = 448"
  with assms show "\<exists>n md. md d = 448 \<and> append_call calm q s w =
      (Inr (), w\<lparr>tree := T(q \<mapsto> Regular (c @ s) r), modes := md, clock := n, trace := trace w @ []\<rparr>)"
    by (intro exI [of _ "Suc (clock w)"] exI [of _ "modes w"])
      (simp add: append_call_def calm_def appended_def Let_def)
qed

lemma runs_log: "runs d (log_fetched p s) T () T [Fetched p s]"
  unfolding runs_def
proof (intro allI impI, elim conjE)
  fix w :: world
  assume "tree w = T" "modes w d = 448"
  then show "\<exists>n md. md d = 448 \<and> log_fetched p s w =
      (Inr (), w\<lparr>tree := T, modes := md, clock := n, trace := trace w @ [Fetched p s]\<rparr>)"
    by (intro exI [of _ "clock w"] exI [of _ "modes w"]) (auto simp: log_fetched_def)
qed

lemma runs_spawn: "runs d (spawn_call calm captured cmd) T 0 T [Ran cmd T True]"
  unfolding runs_def
proof (intro allI impI, elim conjE)
  fix w :: world
  assume "tree w = T" "modes w d = 448"
  then show "\<exists>n md. md d = 448 \<and> spawn_call calm captured cmd w =
      (Inr 0, w\<lparr>tree := T, modes := md, clock := n, trace := trace w @ [Ran cmd T True]\<rparr>)"
    by (intro exI [of _ "Suc (clock w)"] exI [of _ "modes w"])
      (simp add: spawn_call_def calm_def Let_def)
qed

lemma runs_checked: "runs d (checked_call calm captured cmd) T () T [Ran cmd T True]"
proof -
  have "runs d (checked_call calm captured cmd) T () T ([Ran cmd T True] @ [])"
    unfolding checked_call_def by (rule runs_bind, rule runs_spawn) (simp add: runs_return)
  then show ?thesis by simp
qed

end
