(* ===== verification/PacmanSample.thy ===== *)
theory PacmanSample
  imports PacmanProps Calm Samples
begin

text \<open>
  A concrete installation for the witnesses of the installer jobs: an operating system in which
  nothing fails and nobody interferes, a live tree with plan, receipt, catalog lock, mapping and
  one package, and the transaction \<open>sample_tx\<close>. The adapter starts pacman on it in theory
  \<open>PacmanRun\<close>.
\<close>

definition sample_tx :: string where
  "sample_tx = ''0123456789abcdef0123456789abcdef''"

definition no_floats :: "pyfloat \<Rightarrow> string" where
  "no_floats x = []"

definition sample_receipt :: pyval where
  "sample_receipt =
     PDict [(''catalog_lock_sha256'', PStr sample_digest), (''plan_sha256'', PStr sample_digest),
       (''schema'', PInt 1), (''verifier'', PStr ''arach-hwd-plan'')]"

definition receipt_text :: string where
  "receipt_text =
     (case json_dumps no_floats sample_receipt of Inr s \<Rightarrow> s @ [CHR 0x0A] | Inl e \<Rightarrow> [])"

definition sample_snapshot :: pyval where
  "sample_snapshot =
     PDict [(''format'', PInt 1), (''plan_sha256'', PStr sample_digest),
       (''pacman_config_sha256'', PStr sample_digest),
       (''package'', PList [PDict [(''archive'', PStr ''driver.pkg''),
          (''sha256'', PStr sample_digest)]])]"

definition install_json :: "string \<Rightarrow> pyval option" where
  "install_json s = (if s = receipt_text then Some sample_receipt else None)"

definition install_toml :: "string \<Rightarrow> pyval option" where
  "install_toml s = (if s = ''mapping'' then Some sample_snapshot else None)"

definition install_nodes :: "(string list \<times> node) list" where
  "install_nodes =
     (let hwd = [''etc'', ''arach'', ''hwd'']; run = [''run'', ''arach-installer'']; file = (\<lambda>c. Regular c True)
      in [(run @ [''hardware.plan.toml''], file sample_artifact),
          (run @ [''hardware.plan.verified.json''], file receipt_text),
          (hwd @ [''catalog.lock''], file sample_artifact),
          (hwd @ [''pacman-snapshot.toml''], file ''mapping''),
          (hwd @ [''pacman-snapshot.toml.sig''], file ''signature''),
          (hwd @ [''pacman-snapshot.gpg''], file ''keyring''),
          (hwd @ [''pacman-snapshot'', ''pacman.conf''], file sample_artifact),
          (hwd @ [''pacman-snapshot'', ''driver.pkg''], file sample_artifact)] @
         map (\<lambda>q. (q, Directory))
           [[''etc''], [''etc'', ''arach''], hwd, hwd @ [''pacman-snapshot''], [''run''], run,
            run @ [sample_tx], [''mnt'']])"

definition install_tree :: fs where
  "install_tree = map_of install_nodes"

definition install_modes :: "string list \<Rightarrow> nat" where
  "install_modes q = (if q = [''run'', ''arach-installer'', sample_tx] then 448 else 493)"

definition install_storage :: "string \<Rightarrow> pyval option" where
  "install_storage =
     [''arachHardwarePlan'' \<mapsto> PStr plan_file, ''arachHardwarePlanReceipt'' \<mapsto> PStr receipt_file,
      ''rootMountPoint'' \<mapsto> PStr ''/mnt'', ''arachTransactionId'' \<mapsto> PStr sample_tx]"

definition install_world :: world where
  "install_world = \<lparr>tree = install_tree, modes = install_modes, storage = install_storage, clock = 0,
     trace = []\<rparr>"

definition pacman_enabled :: pyval where
  "pacman_enabled = PDict [(''enabled'', PBool True)]"

section \<open>The adapter's calls, run calmly\<close>

abbreviation tx_root :: "string list" where
  "tx_root \<equiv> [''run'', ''arach-installer'', sample_tx]"

lemma runs_copy_loop:
  assumes "T src = Some (Regular c r)" and "T q = Some (Regular [] True)" and "src \<noteq> q"
    and "c \<noteq> []" and "length c \<le> limit" and "length c \<le> chunk_bytes"
  shows "runs d (copy_loop calm (src, nd) q limit []) T c (T(q \<mapsto> Regular c True)) []"
proof -
  let ?T = "T(q \<mapsto> Regular c True)"
  have last: "runs d (copy_loop calm (src, nd) q limit c) ?T c ?T []"
  proof -
    have "runs d (bindM (read_call calm (src, nd) (length c) chunk_bytes) (\<lambda>chunk. returnM c)) ?T c ?T
        ([] @ [])"
      by (rule runs_bind, rule runs_read [of _ _ c r], simp add: assms, rule runs_return)
    moreover have "copy_loop calm (src, nd) q limit c w =
        bindM (read_call calm (src, nd) (length c) chunk_bytes) (\<lambda>chunk. returnM c) w"
      if "tree w = ?T" "modes w d = 448" for w
    proof -
      have "\<exists>n md. read_call calm (src, nd) (length c) chunk_bytes w =
          (Inr [], w\<lparr>tree := ?T, modes := md, clock := n, trace := trace w @ []\<rparr>)"
        using runs_read [of ?T src c r d nd "length c" chunk_bytes] assms(1,3) that
        unfolding runs_def by fastforce
      then show ?thesis
        by (subst copy_loop.simps) (auto simp: bindM_def returnM_def)
    qed
    ultimately show ?thesis by (simp add: runs_def)
  qed
  have app: "runs d (append_call calm q c) T () ?T []"
    using runs_append [of T q "[]" True d c] assms(2) by simp
  have all: "runs d (read_call calm (src, nd) 0 chunk_bytes) T c T []"
    using runs_read [of T src c r d nd 0 chunk_bytes] assms(1,6) by simp
  have first: "runs d (bindM (read_call calm (src, nd) 0 chunk_bytes) (\<lambda>chunk.
      bindM (append_call calm q chunk) (\<lambda>u. copy_loop calm (src, nd) q limit chunk))) T c ?T
      ([] @ [] @ [])"
    by (rule runs_bind, rule all, rule runs_bind, rule app, rule last)
  have same: "copy_loop calm (src, nd) q limit [] w =
      bindM (read_call calm (src, nd) 0 chunk_bytes) (\<lambda>chunk.
        bindM (append_call calm q chunk) (\<lambda>u. copy_loop calm (src, nd) q limit chunk)) w"
    if "tree w = T" "modes w d = 448" for w
  proof -
    have "\<exists>n md. read_call calm (src, nd) 0 chunk_bytes w =
        (Inr c, w\<lparr>tree := T, modes := md, clock := n, trace := trace w @ []\<rparr>)"
      using runs_read [of T src c r d nd 0 chunk_bytes] assms(1,6) that
      unfolding runs_def by fastforce
    then show ?thesis
      using assms(4,5)
      by (subst copy_loop.simps) (auto simp: bindM_def split: prod.splits sum.splits)
  qed
  from first same show ?thesis by (simp add: runs_def)
qed

text \<open>Files of the live system keep their place while the stage grows.\<close>

definition grown :: "fs \<Rightarrow> bool" where
  "grown T \<longleftrightarrow> install_tree \<subseteq>\<^sub>m T"

lemma grown_more: "grown T \<Longrightarrow> T q = None \<Longrightarrow> grown (T(q \<mapsto> x))"
  unfolding grown_def by (metis map_le_fresh map_le_trans)

lemma grown_walk:
  assumes "grown T" and "plain_dirs install_tree r" and "c \<noteq> ''..''"
    and "install_tree (r @ [c]) = Some (Regular x True)"
  shows "walk T False max_links [] (r @ [c]) = Some (r @ [c])"
    and "T (r @ [c]) = Some (Regular x True)"
proof -
  from assms(1,4) show "T (r @ [c]) = Some (Regular x True)"
    unfolding grown_def by (rule map_le_at)
  with walk_entry [OF map_le_plain [OF _ assms(2)] assms(3)] assms(1)
  show "walk T False max_links [] (r @ [c]) = Some (r @ [c])"
    by (simp add: grown_def)
qed

lemma runs_stage_copy:
  assumes T: "grown T" and src: "tail p = r @ [c]" "plain_dirs install_tree r" "c \<noteq> ''..''"
      "install_tree (r @ [c]) = Some (Regular x True)"
    and stage: "plain_dirs T (stage_of sample_tx)" and new: "T (staged sample_tx name) = None"
    and len: "0 < length x" "length x \<le> limit" "length x \<le> chunk_bytes"
  shows "runs tx_root (copy_regular_with_digest calm p (abs_path (staged sample_tx name)) limit) T
    (abs_path (staged sample_tx name), sha256_hex x) (T(staged sample_tx name \<mapsto> Regular x True)) []"
proof -
  let ?q = "staged sample_tx name" and ?src = "r @ [c]"
  let ?T0 = "T(?q \<mapsto> Regular [] True)"
  note at = grown_walk [OF T src(2-4)]
  have place: "place T (abs_path ?q) = Some ?q"
    using place_entry [OF stage] by (simp add: staged_def)
  have differ: "?src \<noteq> ?q" using at(2) new by auto
  have opened: "runs tx_root (open_call calm p) T (?src, Regular x True) T []"
    by (rule runs_open) (use at src(1) in \<open>simp_all add: node_at_def\<close>)
  have made: "runs tx_root (create_call calm (abs_path ?q)) T ?q ?T0 []"
    by (rule runs_create [OF place new]) (simp add: staged_def stage_of_def runtime_area_def)
  have "runs tx_root (copy_loop calm (?src, Regular x True) ?q limit []) ?T0 x
      (?T0(?q \<mapsto> Regular x True)) []"
    by (rule runs_copy_loop [of _ _ x True]) (use at(2) differ len in auto)
  then have loop: "runs tx_root (copy_loop calm (?src, Regular x True) ?q limit []) ?T0 x
      (T(?q \<mapsto> Regular x True)) []" by simp
  have "runs tx_root (copy_regular_with_digest calm p (abs_path ?q) limit) T
      (abs_path ?q, sha256_hex x) (T(?q \<mapsto> Regular x True)) ([] @ [] @ [] @ [] @ [])"
    unfolding copy_regular_with_digest_def
    by (rule runs_bind, rule runs_report, rule opened, rule runs_report, rule runs_bind, rule made,
        rule runs_if, use len in simp, rule runs_bind, rule loop, rule runs_bind, rule runs_sync,
        rule runs_return)
  then show ?thesis by simp
qed

lemma runs_stage_copy_regular:
  assumes "grown T" "tail p = r @ [c]" "plain_dirs install_tree r" "c \<noteq> ''..''"
    "install_tree (r @ [c]) = Some (Regular x True)" "plain_dirs T (stage_of sample_tx)"
    "T (staged sample_tx name) = None" "0 < length x" "length x \<le> limit" "length x \<le> chunk_bytes"
  shows "runs tx_root (copy_regular calm p (abs_path (staged sample_tx name)) limit) T
    (abs_path (staged sample_tx name)) (T(staged sample_tx name \<mapsto> Regular x True)) []"
proof -
  have "runs tx_root (copy_regular calm p (abs_path (staged sample_tx name)) limit) T
      (fst (abs_path (staged sample_tx name), sha256_hex x))
      (T(staged sample_tx name \<mapsto> Regular x True)) ([] @ [])"
    unfolding copy_regular_def
    by (rule runs_bind, rule runs_stage_copy [OF assms], rule runs_return)
  then show ?thesis by simp
qed

lemma runs_read_regular:
  assumes "walk T False max_links [] (tail p) = Some q" and "T q = Some (Regular x True)"
    and "q \<noteq> []" and "0 < length x" and "length x \<le> limit"
  shows "runs d (read_regular calm p limit) T x T [Fetched p x]"
proof -
  have opened: "runs d (open_call calm p) T (q, Regular x True) T []"
    by (rule runs_open) (use assms in \<open>simp_all add: node_at_def\<close>)
  have read: "runs d (read_call calm (q, Regular x True) 0 (Suc limit)) T x T []"
    using runs_read [of T q x True d "Regular x True" 0 "Suc limit"] assms(2,5) by simp
  have "runs d (read_regular calm p limit) T x T ([] @ [] @ [Fetched p x] @ [])"
    unfolding read_regular_def
    by (rule runs_bind, rule runs_report, rule opened, rule runs_bind, rule runs_if,
        use assms in simp, rule runs_report, rule read,
        rule runs_if, use assms in simp, rule runs_bind, rule runs_log, rule runs_return)
  then show ?thesis by simp
qed

lemma runs_real_directory:
  assumes "lstat T p = Some Directory"
  shows "runs d (require_real_directory calm p) T () T []"
proof -
  have "runs d (require_real_directory calm p) T () T ([] @ [])"
    unfolding require_real_directory_def
    by (rule runs_bind, rule runs_report, rule runs_lstat, rule assms) (simp add: runs_return)
  then show ?thesis by simp
qed

section \<open>The adapter starts pacman\<close>

definition receipt_body :: string where
  "receipt_body = CHR 0x7B # CHR 0x22 # ''catalog_lock_sha256'' @ [CHR 0x22, CHR '':'', CHR 0x22] @
     sample_digest @ CHR 0x22 # CHR '','' # CHR 0x22 # ''plan_sha256'' @
     [CHR 0x22, CHR '':'', CHR 0x22] @ sample_digest @ CHR 0x22 # CHR '','' # CHR 0x22 # ''schema'' @
     CHR 0x22 # '':1,'' @ CHR 0x22 # ''verifier'' @ [CHR 0x22, CHR '':'', CHR 0x22] @
     ''arach-hwd-plan'' @ [CHR 0x22, CHR 0x7D]"

lemma receipt_encoded: "json_dumps no_floats sample_receipt = Inr receipt_body"
  by code_simp

lemma receipt_text_form: "receipt_text = receipt_body @ [CHR 0x0A]"
  by (simp add: receipt_text_def receipt_encoded)

lemma receipt_length: "length receipt_text = 211"
proof -
  have "length sample_digest = 64"
    using sha256_hex_form [of sample_artifact] by (simp add: sha256_sample)
  then show ?thesis unfolding receipt_text_form receipt_body_def by simp
qed

lemma sample_tx_other:
  "sample_tx \<noteq> ''hardware.plan.toml''" "sample_tx \<noteq> ''hardware.plan.verified.json''"
  "sample_tx \<noteq> ''..''"
  by (simp_all add: sample_tx_def)

lemma install_lookup:
  "install_tree [''run'', ''arach-installer'', ''hardware.plan.toml''] =
     Some (Regular sample_artifact True)"
  "install_tree [''run'', ''arach-installer'', ''hardware.plan.verified.json''] =
     Some (Regular receipt_text True)"
  "install_tree [''etc'', ''arach'', ''hwd'', ''catalog.lock''] = Some (Regular sample_artifact True)"
  "install_tree [''etc'', ''arach'', ''hwd'', ''pacman-snapshot.toml''] = Some (Regular ''mapping'' True)"
  "install_tree [''etc'', ''arach'', ''hwd'', ''pacman-snapshot.toml.sig''] =
     Some (Regular ''signature'' True)"
  "install_tree [''etc'', ''arach'', ''hwd'', ''pacman-snapshot.gpg''] = Some (Regular ''keyring'' True)"
  "install_tree [''etc'', ''arach'', ''hwd'', ''pacman-snapshot'', ''pacman.conf''] =
     Some (Regular sample_artifact True)"
  "install_tree [''etc'', ''arach'', ''hwd'', ''pacman-snapshot'', ''driver.pkg''] =
     Some (Regular sample_artifact True)"
  "install_tree [''mnt''] = Some Directory"
  by (simp_all add: install_tree_def install_nodes_def)

lemma install_stage_empty:
  "install_tree (stage_of sample_tx) = None" "install_tree (staged sample_tx name) = None"
  by (simp_all add: install_tree_def install_nodes_def staged_def stage_of_def runtime_area_def)

lemma install_directories:
  "install_tree [''run''] = Some Directory" "install_tree [''etc''] = Some Directory"
  "install_tree [''run'', ''arach-installer''] = Some Directory"
  "install_tree [''run'', ''arach-installer'', sample_tx] = Some Directory"
  "install_tree [''etc'', ''arach''] = Some Directory"
  "install_tree [''etc'', ''arach'', ''hwd''] = Some Directory"
  "install_tree [''etc'', ''arach'', ''hwd'', ''pacman-snapshot''] = Some Directory"
  by (simp_all add: install_tree_def install_nodes_def sample_tx_other)

lemma install_dirs:
  "plain_dirs install_tree [''run'', ''arach-installer'']"
  "plain_dirs install_tree [''run'', ''arach-installer'', sample_tx]"
  "plain_dirs install_tree [''etc'', ''arach'', ''hwd'']"
  "plain_dirs install_tree [''etc'', ''arach'', ''hwd'', ''pacman-snapshot'']"
proof -
  have run: "plain_dirs install_tree [''run'']" and etc: "plain_dirs install_tree [''etc'']"
    using plain_dirs_snoc [of install_tree "[]"] by (simp_all add: install_directories)
  then show run2: "plain_dirs install_tree [''run'', ''arach-installer'']"
    using plain_dirs_snoc [OF run, of "''arach-installer''"] by (simp add: install_directories)
  show "plain_dirs install_tree [''run'', ''arach-installer'', sample_tx]"
    using plain_dirs_snoc [OF run2, of sample_tx] by (simp add: install_directories sample_tx_other)
  have arach: "plain_dirs install_tree [''etc'', ''arach'']"
    using plain_dirs_snoc [OF etc, of "''arach''"] by (simp add: install_directories)
  show hwd: "plain_dirs install_tree [''etc'', ''arach'', ''hwd'']"
    using plain_dirs_snoc [OF arach, of "''hwd''"] by (simp add: install_directories)
  show "plain_dirs install_tree [''etc'', ''arach'', ''hwd'', ''pacman-snapshot'']"
    using plain_dirs_snoc [OF hwd, of "''pacman-snapshot''"] by (simp add: install_directories)
qed

lemma sample_plan_verified:
  "validate_verified_plan install_json no_floats sample_artifact receipt_text sample_artifact =
     Inr sample_digest"
proof -
  have utf8: "utf8_valid receipt_text" unfolding receipt_text_form by code_simp
  have size: "receipt_text \<noteq> []" "\<not> max_document_bytes < length receipt_text"
    using receipt_length by (auto simp: max_document_bytes_def simp del: length_0_conv)
  have plan: "sample_artifact \<noteq> []" "\<not> max_document_bytes < length sample_artifact"
    by (simp_all add: sample_artifact_def max_document_bytes_def)
  have fields: "is_dict sample_receipt" "has_fields [''catalog_lock_sha256'', ''plan_sha256'', ''schema'',
      ''verifier''] sample_receipt"
    "field sample_receipt ''schema'' = PInt 1"
    "field sample_receipt ''verifier'' = PStr ''arach-hwd-plan''"
    "field sample_receipt ''plan_sha256'' = PStr sample_digest"
    "field sample_receipt ''catalog_lock_sha256'' = PStr sample_digest"
    by (auto simp: sample_receipt_def)
  show ?thesis
    unfolding validate_verified_plan_def
    by (simp add: utf8 size plan install_json_def receipt_encoded receipt_text_form [symmetric] fields digest_value_def
        sha256_sample)
qed

definition sample_signed :: signed_snapshot where
  "sample_signed =
     \<lparr>plan_sha256 = sample_digest, pacman_config_sha256 = sample_digest,
      packages = [\<lparr>archive = ''driver.pkg'', package_sha256 = sample_digest\<rparr>]\<rparr>"

lemma sample_snapshot_parsed: "parse_signed_snapshot install_toml ''mapping'' = Inr sample_signed"
proof -
  have name: "archive_name_ok ''driver.pkg''" by code_simp
  have utf8: "utf8_valid ''mapping''" by code_simp
  have fields: "has_fields [''format'', ''plan_sha256'', ''pacman_config_sha256'', ''package'']
      sample_snapshot"
    by (auto simp: sample_snapshot_def)
  have package: "package_step 0 (PDict [(''archive'', PStr ''driver.pkg''),
      (''sha256'', PStr sample_digest)]) ({}, []) =
      Inr ({''driver.pkg''}, [\<lparr>archive = ''driver.pkg'', package_sha256 = sample_digest\<rparr>])"
    by (simp add: package_step_def archive_name_def name digest_value_def)
  show ?thesis
    unfolding parse_signed_snapshot_def sample_signed_def
    by (simp add: utf8 install_toml_def fields max_document_bytes_def max_packages_def
        digest_value_def package) (simp add: sample_snapshot_def package digest_value_def)
qed

section \<open>The trees of the run\<close>

definition staged_tree :: "(string \<times> string) list \<Rightarrow> fs" where
  "staged_tree files =
     fold (\<lambda>(name, c) T. T(staged sample_tx name \<mapsto> Regular c True)) files
       (install_tree(stage_of sample_tx \<mapsto> Directory))"

lemma staged_tree_snoc:
  "(staged_tree files)(staged sample_tx name \<mapsto> Regular c True) = staged_tree (files @ [(name, c)])"
  by (simp add: staged_tree_def)

lemma staged_tree_other: "(\<And>name. q \<noteq> staged sample_tx name) \<Longrightarrow>
    staged_tree files q = (install_tree(stage_of sample_tx \<mapsto> Directory)) q"
  by (induction files rule: rev_induct) (auto simp: staged_tree_def)

lemma staged_tree_file: "staged_tree files (staged sample_tx name) =
    map_option (\<lambda>c. Regular c True) (map_of (rev files) name)"
proof (induction files rule: rev_induct)
  case Nil
  have "stage_of sample_tx \<noteq> staged sample_tx name" by (simp add: staged_def)
  then show ?case by (auto simp: staged_tree_def install_stage_empty)
next
  case (snoc f files)
  then show ?case by (cases f) (auto simp: staged_tree_snoc [symmetric])
qed

lemma staged_tree_grown: "grown (staged_tree files)"
proof -
  have "staged_tree files q = Some x" if "install_tree q = Some x" for q x
  proof -
    have "q \<noteq> staged sample_tx name" "q \<noteq> stage_of sample_tx" for name
      using that install_stage_empty by auto
    with that show ?thesis using staged_tree_other by simp
  qed
  then show ?thesis unfolding grown_def map_le_def by auto
qed

lemma staged_tree_dirs: "plain_dirs (staged_tree files) (stage_of sample_tx)"
proof -
  have "plain_dirs (staged_tree files) tx_root"
    using map_le_plain [OF _ install_dirs(2)] staged_tree_grown by (simp add: grown_def)
  moreover have "staged_tree files (tx_root @ [''pacman-snapshot'']) = Some Directory"
    using staged_tree_other [of "stage_of sample_tx" files]
    by (simp add: staged_def stage_of_def runtime_area_def)
  ultimately have "plain_dirs (staged_tree files) (tx_root @ [''pacman-snapshot''])"
    by (rule plain_dirs_snoc) simp
  then show ?thesis by (simp add: stage_of_def runtime_area_def)
qed

text \<open>One file of the live system copied into the stage.\<close>

lemma runs_staged_tree:
  assumes "tail p = r @ [c]" "plain_dirs install_tree r" "c \<noteq> ''..''"
    "install_tree (r @ [c]) = Some (Regular x True)" "map_of (rev files) name = None"
    "0 < length x" "length x \<le> limit" "length x \<le> chunk_bytes"
  shows "runs tx_root (copy_regular_with_digest calm p (abs_path (staged sample_tx name)) limit)
      (staged_tree files) (abs_path (staged sample_tx name), sha256_hex x)
      (staged_tree (files @ [(name, x)])) []"
    and "runs tx_root (copy_regular calm p (abs_path (staged sample_tx name)) limit)
      (staged_tree files) (abs_path (staged sample_tx name)) (staged_tree (files @ [(name, x)])) []"
proof -
  have new: "staged_tree files (staged sample_tx name) = None"
    by (simp add: staged_tree_file assms(5))
  show "runs tx_root (copy_regular_with_digest calm p (abs_path (staged sample_tx name)) limit)
      (staged_tree files) (abs_path (staged sample_tx name), sha256_hex x)
      (staged_tree (files @ [(name, x)])) []"
    using runs_stage_copy [OF staged_tree_grown assms(1-4) staged_tree_dirs new assms(6-8)]
    by (simp add: staged_tree_snoc)
  show "runs tx_root (copy_regular calm p (abs_path (staged sample_tx name)) limit)
      (staged_tree files) (abs_path (staged sample_tx name)) (staged_tree (files @ [(name, x)])) []"
    using runs_stage_copy_regular [OF staged_tree_grown assms(1-4) staged_tree_dirs new assms(6-8)]
    by (simp add: staged_tree_snoc)
qed

lemma runs_staged_read:
  assumes "map_of (rev files) name = Some x" and "name \<noteq> ''..''" and "0 < length x" "length x \<le> limit"
  shows "runs d (read_regular calm (abs_path (staged sample_tx name)) limit) (staged_tree files) x
    (staged_tree files) [Fetched (abs_path (staged sample_tx name)) x]"
proof -
  have node: "staged_tree files (staged sample_tx name) = Some (Regular x True)"
    by (simp add: staged_tree_file assms(1))
  have "walk (staged_tree files) False max_links [] (tail (abs_path (staged sample_tx name))) =
      Some (staged sample_tx name)"
    using walk_entry [OF staged_tree_dirs assms(2), of files False] node
    by (simp add: abs_path_def staged_def)
  then show ?thesis
    by (rule runs_read_regular) (use node assms(3,4) in \<open>auto simp: staged_def\<close>)
qed

end
