(* ===== verification/HardwareSample.thy ===== *)
theory HardwareSample
  imports HardwareProps PacmanSample
begin

text \<open>
  A concrete run of the hardware job for the witnesses: the offline catalog with one metadata
  file, a planner that succeeds, nothing that interferes or fails.
\<close>

section \<open>More calls, run calmly\<close>

lemma runs_chmod:
  "locate T p = Some q \<Longrightarrow> (q = d \<Longrightarrow> n = 448) \<Longrightarrow> runs d (chmod_call calm p n) T () T []"
  unfolding chmod_call_def
  by (rule runs_sys) (auto intro!: exI [of _ "\<lambda>x. if x = q then n else modes _ x"] simp: fun_upd_def)

lemma runs_replace:
  "place T p = Some q \<Longrightarrow> T q = Some (Regular s r) \<Longrightarrow> place T p' = Some q' \<Longrightarrow>
     T q' \<noteq> Some Directory \<Longrightarrow> q' \<noteq> d \<Longrightarrow>
     runs d (replace_call calm p p') T () (T(q := None, q' \<mapsto> Regular s r)) []"
  unfolding replace_call_def
  by (rule runs_sys)
    (auto intro!: exI [of _ "\<lambda>x. if x = q' then modes _ q else modes _ x"] simp: fun_upd_def)

lemma runs_uuid: "runs d (uuid_call calm) T (fresh calm 0) T []"
  unfolding runs_def
proof (intro allI impI, elim conjE)
  fix w :: world
  assume "tree w = T" "modes w d = 448"
  then show "\<exists>n md. md d = 448 \<and> uuid_call calm w =
      (Inr (fresh calm 0), w\<lparr>tree := T, modes := md, clock := n, trace := trace w @ []\<rparr>)"
    by (intro exI [of _ "Suc (clock w)"] exI [of _ "modes w"]) (auto simp: uuid_call_def calm_def)
qed

lemma runs_open_directory:
  assumes "stat T p = Some Directory"
  shows "runs d (open_directory_call calm p) T () T []"
proof -
  have "runs d (open_directory_call calm p) T () T ([] @ [])"
    unfolding open_directory_call_def
    by (rule runs_bind, rule runs_stat, rule assms) (simp add: runs_return)
  then show ?thesis by simp
qed

text \<open>A directory that is there already.\<close>

lemma runs_mkdirs_existing:
  assumes "tail p \<noteq> []" and "place T p = Some q" and "T q = Some Directory" and "stat T p = Some Directory"
  shows "runs d (mkdirs calm p n) T () T []"
proof -
  obtain c cs where cs: "rev (tail p) = c # cs" using assms(1) by (cases "rev (tail p)") auto
  then have p: "\<lparr>anchor = anchor p, tail = rev (c # cs)\<rparr> = p"
    by (metis pure_path.surjective old.unit.exhaust rev_swap)
  have dir: "runs d (is_dir_call calm p) T True T ([] @ [])"
    unfolding is_dir_call_def absent_is_false_def
    by (rule runs_catch, rule runs_bind, rule runs_stat, rule assms) (simp add: runs_return)
  have test: "runs d (bindM (is_dir_call calm p) (\<lambda>b. if b then returnM () else raiseM OSError)) T () T
      (([] @ []) @ [])"
    by (rule runs_bind, rule dir) (simp add: runs_return)
  show ?thesis
    unfolding runs_def
  proof (intro allI impI, elim conjE)
    fix w :: world
    assume w: "tree w = T" "modes w d = 448"
    let ?w = "w\<lparr>tree := T, clock := Suc (clock w)\<rparr>"
    have failed: "mkdir_call calm p n w = (Inl OSError, ?w)"
      using assms(2,3) w by (simp add: mkdir_call_def sys_def calm_def Let_def)
    have "tree ?w = T \<and> modes ?w d = 448" using w by simp
    with test obtain k md where "md d = 448"
      "bindM (is_dir_call calm p) (\<lambda>b. if b then returnM () else raiseM OSError) ?w =
        (Inr (), ?w\<lparr>tree := T, modes := md, clock := k, trace := trace ?w @ []\<rparr>)"
      unfolding runs_def by fastforce
    then show "\<exists>n' md. md d = 448 \<and> mkdirs calm p n w =
        (Inr (), w\<lparr>tree := T, modes := md, clock := n', trace := trace w @ []\<rparr>)"
      using failed by (intro exI [of _ k] exI [of _ md]) (simp add: mkdirs_def cs p [simplified] Let_def catchM_def)
  qed
qed

lemma runs_read_file:
  assumes "locate T p = Some q" and "T q = Some (Regular s True)" and "q \<noteq> []"
  shows "runs d (read_file_call calm p) T s T []"
proof -
  have "runs d (read_file_call calm p) T s T ([] @ [])"
    unfolding read_file_call_def
    by (rule runs_bind, rule runs_look [where x = "(q, s)"])
      (use assms in \<open>auto simp: node_at_def intro!: runs_look\<close>)
  then show ?thesis by simp
qed

lemma runs_spawn_captured: "runs d (spawn_call calm True cmd) T 0 T [Ran cmd T True]"
  by (rule runs_spawn)

lemma runs_bounded:
  assumes "walk T False max_links [] (tail p) = Some q" and "T q = Some (Regular s True)"
    and "q \<noteq> []" and "0 < length s" and "length s \<le> max_plan_bytes"
  shows "runs d (read_bounded_regular calm p) T s T [Fetched p s]"
proof -
  have opened: "runs d (open_call calm p) T (q, Regular s True) T []"
    by (rule runs_open) (use assms in \<open>simp_all add: node_at_def\<close>)
  have read: "runs d (read_call calm (q, Regular s True) 0 (Suc max_plan_bytes)) T s T []"
    using runs_read [of T q s True d "Regular s True" 0 "Suc max_plan_bytes"] assms(2,5) by simp
  have "runs d (read_bounded_regular calm p) T s T ([] @ [] @ [Fetched p s] @ [])"
    unfolding read_bounded_regular_def
    by (rule runs_bind, rule opened, rule runs_if, use assms in simp, rule runs_bind, rule read,
        rule runs_if, use assms in simp, rule runs_bind, rule runs_log, rule runs_return)
  then show ?thesis by simp
qed

lemma runs_lstat_absent:
  assumes "lstat T p = None" and "runs d (h NotFound) T x T' es"
  shows "runs d (catchM (bindM (lstat_call calm p) f) h) T x T' es"
  unfolding runs_def
proof (intro allI impI, elim conjE)
  fix w :: world
  assume w: "tree w = T" "modes w d = 448"
  let ?w = "w\<lparr>tree := T, clock := Suc (clock w)\<rparr>"
  have "lstat_call calm p w = (Inl NotFound, ?w)"
    using assms(1) w by (simp add: lstat_call_def sys_def calm_def Let_def)
  moreover have "tree ?w = T \<and> modes ?w d = 448" using w by simp
  with assms(2) obtain k md where "md d = 448"
    "h NotFound ?w = (Inr x, ?w\<lparr>tree := T', modes := md, clock := k, trace := trace ?w @ es\<rparr>)"
    unfolding runs_def by blast
  ultimately show "\<exists>n md. md d = 448 \<and> catchM (bindM (lstat_call calm p) f) h w =
      (Inr x, w\<lparr>tree := T', modes := md, clock := n, trace := trace w @ es\<rparr>)"
    by (intro exI [of _ k] exI [of _ md]) (simp add: catchM_def bindM_def)
qed

lemma stat_plain_dir: "plain_dirs T r \<Longrightarrow> r \<noteq> [] \<Longrightarrow> stat T (abs_path r) = Some Directory"
  using walk_plain_dirs [of T "[]" r True max_links "[]"]
  by (auto simp: stat_def abs_path_def node_at_def plain_dirs_def)

section \<open>The installation\<close>

definition hw_settings :: pyval where
  "hw_settings =
     PDict ([(''modulesAlias'', PList [PStr ''/etc/arach/hwd/modules.alias'']),
        (''modulesFirmware'', PList []), (''modulesDep'', PList []), (''modulesBuiltin'', PList []),
        (''firmwareRoots'', PList []), (''requireTargetProfiles'', PBool True)] @
       map (\<lambda>(k, s). (k, PStr s))
         [(''executable'', ''/usr/bin/arach-hwd''),
          (''catalogSyncExecutable'', ''/usr/bin/arach-hwd-catalog-sync''),
          (''repositoryConfiguration'', ''/etc/arach/hwd/repository.toml''),
          (''remoteCatalogRoot'', remote_catalog_root), (''sysfs'', ''/sys''), (''report'', report_file),
          (''profiles'', ''/etc/arach/hwd/profiles''), (''keyring'', ''/etc/arach/hwd/keys.toml''),
          (''catalogLock'', ''/etc/arach/hwd/catalog.lock''),
          (''driverAbi'', ''/etc/arach/hwd/driver-abi''),
          (''binaryIndex'', ''/etc/arach/hwd/packages.toml''),
          (''binarySignature'', ''/etc/arach/hwd/packages.toml.sig''), (''plan'', planned_file),
          (''planReceipt'', planned_receipt_file)])"

definition hw_tree :: fs where
  "hw_tree =
     (let hwd = [''etc'', ''arach'', ''hwd'']; run = [''run'', ''arach-installer'']
      in map_of (map (\<lambda>(name, c). (hwd @ [name], Regular c True))
           [(''keys.toml'', ''keys''), (''catalog.lock'', sample_artifact), (''driver-abi'', ''1.2''),
            (''packages.toml'', ''index''), (''packages.toml.sig'', ''signature''),
            (''modules.alias'', ''aliases'')] @
         [(run @ [''hardware.plan.toml''], Regular sample_artifact True)] @
         map (\<lambda>q. (q, Directory)) [[''etc''], [''etc'', ''arach''], hwd, hwd @ [''profiles''], [''run''], run]))"

abbreviation hw_run :: "string list" where
  "hw_run \<equiv> [''run'', ''arach-installer'']"

definition hw_world :: world where
  "hw_world = \<lparr>tree = hw_tree, modes = (\<lambda>q. 448), storage = (\<lambda>k. None), clock = 0, trace = []\<rparr>"

definition hw_catalog :: catalog where
  "hw_catalog =
     \<lparr>catalog_root = Path ''/etc/arach/hwd'', profiles = Path ''/etc/arach/hwd/profiles'',
      keyring = Path ''/etc/arach/hwd/keys.toml'', catalog_lock = Path ''/etc/arach/hwd/catalog.lock'',
      driver_abi = Path ''/etc/arach/hwd/driver-abi'', binary_index = Path ''/etc/arach/hwd/packages.toml'',
      binary_signature = Path ''/etc/arach/hwd/packages.toml.sig''\<rparr>"

lemma hw_settings_accepted:
  "executables_supported hw_settings = Inr True" "settings_fixed hw_settings"
  by (simp_all add: executables_supported_def settings_fixed_def hw_settings_def
      supported_executables_def)

lemma hw_catalog_paths: "catalog_paths offline_catalog_root = Inr hw_catalog"
  by code_simp

lemma hw_lookup:
  "lstat hw_tree (Path ''/etc/arach/hwd/keys.toml'') = Some (Regular ''keys'' True)"
  "lstat hw_tree (Path ''/etc/arach/hwd/catalog.lock'') = Some (Regular sample_artifact True)"
  "lstat hw_tree (Path ''/etc/arach/hwd/driver-abi'') = Some (Regular ''1.2'' True)"
  "lstat hw_tree (Path ''/etc/arach/hwd/packages.toml'') = Some (Regular ''index'' True)"
  "lstat hw_tree (Path ''/etc/arach/hwd/packages.toml.sig'') = Some (Regular ''signature'' True)"
  "lstat hw_tree (Path ''/etc/arach/hwd/modules.alias'') = Some (Regular ''aliases'' True)"
  "lstat hw_tree (Path ''/etc/arach/hwd/profiles'') = Some Directory"
  "lstat hw_tree (Path ''/etc/arach/hwd/repository.toml'') = None"
  "locate hw_tree (Path ''/etc/arach/hwd/driver-abi'') = Some [''etc'', ''arach'', ''hwd'', ''driver-abi'']"
  "walk hw_tree False max_links [] (tail (Path ''/etc/arach/hwd/catalog.lock'')) =
     Some [''etc'', ''arach'', ''hwd'', ''catalog.lock'']"
  "walk hw_tree False max_links [] (tail (Path planned_file)) =
     Some [''run'', ''arach-installer'', ''hardware.plan.toml'']"
  by code_simp+

lemma hw_nodes:
  "hw_tree [''etc'', ''arach'', ''hwd'', ''driver-abi''] = Some (Regular ''1.2'' True)"
  "hw_tree [''etc'', ''arach'', ''hwd'', ''catalog.lock''] = Some (Regular sample_artifact True)"
  "hw_tree [''run'', ''arach-installer'', ''hardware.plan.toml''] = Some (Regular sample_artifact True)"
  "hw_tree [''run''] = Some Directory" "hw_tree hw_run = Some Directory"
  by (simp_all add: hw_tree_def)

lemma hw_run_plain: "plain_dirs hw_tree hw_run"
  using plain_dirs_snoc [of hw_tree "[]" "''run''"] plain_dirs_snoc [of hw_tree "[''run'']"]
  by (simp add: hw_nodes)

section \<open>The receipt\<close>

definition hw_receipt :: "string list" where
  "hw_receipt = hw_run @ [''hardware.plan.verified.json'']"

definition hw_temporary :: "string list" where
  "hw_temporary = hw_run @ [''.hardware.plan.verified.json.0123456789abcdef0123456789abcdef.tmp'']"

lemma hw_receipt_document: "receipt_document sample_artifact sample_artifact = sample_receipt"
  by (simp add: receipt_document_def sample_receipt_def sha256_sample)

lemma hw_absent: "hw_tree hw_receipt = None" "hw_tree hw_temporary = None"
  by (simp_all add: hw_tree_def hw_receipt_def hw_temporary_def)

lemma hw_paths:
  "Path planned_receipt_file = abs_path hw_receipt" "parent (abs_path hw_receipt) = abs_path hw_run"
  "parent (Path report_file) = abs_path hw_run"
  "with_name (abs_path hw_receipt) (''.'' @ path_name (abs_path hw_receipt) @ ''.'' @ fresh calm 0 @ ''.tmp'') =
     abs_path hw_temporary"
  by (simp_all add: planned_receipt_file_def report_file_def Path_def abs_path_def hw_receipt_def
      parent_def with_name_def path_name_def calm_def hw_temporary_def)

lemma runs_hw_document:
  "runs hw_run (write_document calm no_floats (abs_path hw_receipt) sample_receipt hw_temporary
     (abs_path hw_temporary)) (hw_tree(hw_temporary \<mapsto> Regular [] True)) ()
     (hw_tree(hw_receipt \<mapsto> Regular receipt_text True)) ([] @ [] @ [] @ [] @ [] @ [])"
proof -
  let ?T = "\<lambda>s. hw_tree(hw_temporary \<mapsto> Regular s True)"
  have plain: "plain_dirs (?T s) hw_run" for s
    unfolding hw_temporary_def plain_dirs_below by (rule hw_run_plain)
  have place: "place (?T s) (abs_path hw_temporary) = Some hw_temporary"
    "place (?T s) (abs_path hw_receipt) = Some hw_receipt" for s
    using place_entry [OF plain] by (simp_all add: hw_temporary_def hw_receipt_def)
  have differ: "hw_receipt \<noteq> hw_temporary" by (simp add: hw_receipt_def hw_temporary_def)
  have append: "runs hw_run (append_call calm hw_temporary (receipt_body @ [CHR 0x0A])) (?T []) ()
      (?T receipt_text) []"
    using runs_append [of "?T []" hw_temporary "[]" True hw_run "receipt_body @ [CHR 0x0A]"]
    by (simp add: receipt_text_form)
  have swapped: "(?T receipt_text)(hw_temporary := None, hw_receipt \<mapsto> Regular receipt_text True) =
      hw_tree(hw_receipt \<mapsto> Regular receipt_text True)"
    using hw_absent(2) by (auto simp: fun_eq_iff)
  have replace: "runs hw_run (replace_call calm (abs_path hw_temporary) (abs_path hw_receipt))
      (?T receipt_text) () (hw_tree(hw_receipt \<mapsto> Regular receipt_text True)) []"
    using runs_replace [OF place(1) _ place(2), of receipt_text receipt_text True hw_run] differ hw_absent
    unfolding swapped by (simp add: hw_receipt_def)
  have stat: "stat (hw_tree(hw_receipt \<mapsto> Regular receipt_text True)) (abs_path hw_run) = Some Directory"
    unfolding hw_receipt_def by (rule stat_plain_dir, unfold plain_dirs_below, rule hw_run_plain) simp
  show ?thesis
    unfolding write_document_def hw_paths
    by (rule runs_bind, rule runs_lift, rule receipt_encoded, rule runs_bind, rule append,
        rule runs_bind, rule runs_sync, rule runs_bind, rule replace, rule runs_bind,
        rule runs_open_directory, rule stat, rule runs_sync)
qed

lemma hw_sizes: "0 < length sample_artifact" "length sample_artifact \<le> max_plan_bytes"
  by (simp_all add: sample_artifact_def max_plan_bytes_def)

lemma runs_hw_plan:
  "runs hw_run (read_bounded_regular calm (Path planned_file)) hw_tree sample_artifact hw_tree
     [Fetched (Path planned_file) sample_artifact]"
  by (rule runs_bounded [OF hw_lookup(11) hw_nodes(3) _ hw_sizes]) simp

lemma runs_hw_lock:
  "runs hw_run (read_bounded_regular calm (Path ''/etc/arach/hwd/catalog.lock'')) hw_tree
     sample_artifact hw_tree [Fetched (Path ''/etc/arach/hwd/catalog.lock'') sample_artifact]"
  by (rule runs_bounded [OF hw_lookup(10) hw_nodes(2) _ hw_sizes]) simp

lemma runs_hw_receipt:
  "\<exists>es. runs hw_run (write_plan_receipt calm no_floats (Path planned_file)
     (Path ''/etc/arach/hwd/catalog.lock'') (abs_path hw_receipt)) hw_tree ()
     (hw_tree(hw_receipt \<mapsto> Regular receipt_text True))
     ([Fetched (Path planned_file) sample_artifact] @
      [Fetched (Path ''/etc/arach/hwd/catalog.lock'') sample_artifact] @ es)"
proof -
  have dir: "plain_dirs hw_tree [''run'']"
    using plain_dirs_snoc [of hw_tree "[]" "''run''"] by (simp add: hw_nodes)
  have dirs: "runs hw_run (mkdirs calm (abs_path hw_run) 448) hw_tree () hw_tree []"
    by (rule runs_mkdirs_existing [where q = hw_run])
      (use place_entry [OF dir] hw_nodes(5) stat_plain_dir [OF hw_run_plain] in \<open>simp_all add: abs_path_def\<close>)
  have chmod: "runs hw_run (chmod_call calm (abs_path hw_run) 448) hw_tree () hw_tree []"
    by (rule runs_chmod [where q = hw_run])
      (use walk_plain_dirs [of hw_tree "[]" hw_run True max_links "[]"] hw_run_plain
        in \<open>simp_all add: locate_def abs_path_def\<close>)
  have create: "runs hw_run (create_call calm (abs_path hw_temporary)) hw_tree hw_temporary
      (hw_tree(hw_temporary \<mapsto> Regular [] True)) []"
    by (rule runs_create)
      (use place_entry [OF hw_run_plain] hw_absent in \<open>simp_all add: hw_temporary_def\<close>)
  show ?thesis
    unfolding write_plan_receipt_def replace_receipt_def hw_paths Let_def
    by (rule exI, rule runs_bind, rule runs_hw_plan, rule runs_bind, rule runs_hw_lock, rule runs_bind, rule dirs,
        rule runs_bind, rule chmod, rule runs_bind, rule runs_uuid, unfold hw_paths, rule runs_bind,
        rule create, rule runs_catch, unfold hw_receipt_document, rule runs_hw_document)
qed

end
