(* ===== verification/HardwareRun.thy ===== *)
theory HardwareRun
  imports HardwareSample
begin

text \<open>
  The concrete run of the whole hardware job, and the witness of
  \<open>hardware_success_is_verified\<close>.
\<close>

section \<open>The whole job\<close>

text \<open>As \<open>runs\<close>, for jobs that may also write to the storage.\<close>

definition succeeds :: "string list \<Rightarrow> 'a job \<Rightarrow> fs \<Rightarrow> 'a \<Rightarrow> fs \<Rightarrow> bool" where
  "succeeds d m T x T' \<longleftrightarrow>
     (\<forall>w. tree w = T \<and> modes w d = 448 \<longrightarrow>
        (\<exists>w'. m w = (Inr x, w') \<and> tree w' = T' \<and> modes w' d = 448))"

lemma runs_succeeds: "runs d m T x T' es \<Longrightarrow> succeeds d m T x T'"
  unfolding runs_def succeeds_def by fastforce

lemma succeeds_bind:
  assumes "succeeds d m T x T1" and "succeeds d (f x) T1 y T2"
  shows "succeeds d (bindM m f) T y T2"
  unfolding succeeds_def
proof (intro allI impI)
  fix w :: world
  assume "tree w = T \<and> modes w d = 448"
  with assms(1) obtain w1 where m: "m w = (Inr x, w1)" and "tree w1 = T1 \<and> modes w1 d = 448"
    unfolding succeeds_def by blast
  with assms(2) obtain w2 where "f x w1 = (Inr y, w2)" "tree w2 = T2" "modes w2 d = 448"
    unfolding succeeds_def by blast
  with m show "\<exists>w'. bindM m f w = (Inr y, w') \<and> tree w' = T2 \<and> modes w' d = 448"
    by (simp add: bindM_def)
qed

lemma succeeds_return: "x = y \<Longrightarrow> succeeds d (returnM x) T y T"
  by (simp add: succeeds_def returnM_def)

lemma succeeds_catch: "succeeds d m T x T' \<Longrightarrow> succeeds d (catchM m h) T x T'"
  unfolding succeeds_def by (fastforce simp: catchM_def)

lemma succeeds_if: "\<not> c \<Longrightarrow> succeeds d m' T x T' \<Longrightarrow> succeeds d (if c then m else m') T x T'"
  by simp

lemma succeeds_lift: "r = Inr x \<Longrightarrow> succeeds d (liftM r) T x T"
  by (simp add: succeeds_def liftM_def)

lemma succeeds_and_then:
  "succeeds d m T None T1 \<Longrightarrow> succeeds d m' T1 x T2 \<Longrightarrow> succeeds d (and_then m m') T x T2"
  unfolding and_then_def by (erule succeeds_bind) simp

lemma succeeds_answering:
  "succeeds d m T (Inr y) T1 \<Longrightarrow> succeeds d (f y) T1 x T2 \<Longrightarrow> succeeds d (answering m f) T x T2"
  unfolding answering_def by (erule succeeds_bind) simp

lemma succeeds_os_answer: "succeeds d m T x T' \<Longrightarrow> succeeds d (os_answer describe title m) T x T'"
  unfolding os_answer_def by (rule succeeds_catch)

lemma succeeds_lstat: "lstat T p = Some nd \<Longrightarrow> succeeds d (lstat_call calm p) T nd T"
  by (rule runs_succeeds, rule runs_lstat)

lemma succeeds_insert: "succeeds d (insert_values kvs) T () T"
proof (induction kvs rule: insert_values.induct)
  case 1
  show ?case by (simp add: succeeds_return)
next
  case (2 k s kvs)
  have "succeeds d (insert_value k (PStr s)) T () T" by (simp add: succeeds_def insert_value_def)
  then show ?case unfolding insert_values.simps by (rule succeeds_bind) (rule 2)
qed

lemma succeeds_required:
  assumes "lstat T p = Some (Regular s r)" and "succeeds d (require_files calm describe ps) T None T"
  shows "succeeds d (require_files calm describe (p # ps)) T None T"
  unfolding require_files.simps
  by (rule succeeds_and_then, rule succeeds_os_answer, rule succeeds_bind, rule succeeds_lstat,
      rule assms, rule succeeds_return, simp, rule assms)

lemma hw_files_present:
  "succeeds d (require_files calm describe [keyring hw_catalog, catalog_lock hw_catalog,
     driver_abi hw_catalog, binary_index hw_catalog, binary_signature hw_catalog]) hw_tree None hw_tree"
  unfolding hw_catalog_def catalog.simps
  by ((rule succeeds_required, rule hw_lookup)+, unfold require_files.simps, rule succeeds_return, simp)

lemma hw_profiles_present:
  "succeeds d (require_profiles calm describe (profiles hw_catalog)) hw_tree None hw_tree"
  unfolding hw_catalog_def catalog.simps require_profiles_def
  by (rule succeeds_os_answer, rule succeeds_bind, rule succeeds_lstat, rule hw_lookup,
      rule succeeds_return, simp)

lemma hw_abi_read:
  "succeeds d (read_driver_abi calm describe (driver_abi hw_catalog)) hw_tree (Inr ''1.2'') hw_tree"
proof -
  have decoded: "decode_text ''1.2'' = Inr ''1.2''" and abi: "py_strip ''1.2'' = ''1.2''"
    and matched: "fullmatch ABI_RE ''1.2''"
    by code_simp+
  show ?thesis
    unfolding hw_catalog_def catalog.simps read_driver_abi_def
    by (rule succeeds_catch, rule succeeds_bind, rule runs_succeeds, rule runs_read_file,
        rule hw_lookup(9), rule hw_nodes, simp, rule succeeds_bind, rule succeeds_lift, rule decoded,
        unfold abi Let_def, rule succeeds_return, use matched in simp)
qed

definition hw_metadata :: "string list" where
  "hw_metadata = [''--modules-alias'', ''/etc/arach/hwd/modules.alias'']"

lemma succeeds_mapM:
  "succeeds d (f x) T y T \<Longrightarrow> succeeds d (mapM f xs) T ys T \<Longrightarrow> succeeds d (mapM f (x # xs)) T (y # ys) T"
  unfolding mapM.simps by (erule succeeds_bind, erule succeeds_bind, rule succeeds_return, simp)

lemma succeeds_mapM_Nil: "succeeds d (mapM f []) T [] T"
  unfolding mapM.simps by (rule succeeds_return, simp)

lemma hw_arguments:
  "succeeds d (planner_arguments calm describe hw_settings (catalog_root hw_catalog)) hw_tree
     (Inr hw_metadata) hw_tree"
proof -
  have lists: "list_of (field hw_settings ''modulesAlias'') = [PStr ''/etc/arach/hwd/modules.alias'']"
    "list_of (field hw_settings ''modulesFirmware'') = []"
    "list_of (field hw_settings ''modulesDep'') = []"
    "list_of (field hw_settings ''modulesBuiltin'') = []"
    "list_of (field hw_settings ''firmwareRoots'') = []"
    by (simp_all add: hw_settings_def)
  have remapped: "remap_catalog_file (PStr ''/etc/arach/hwd/modules.alias'') (catalog_root hw_catalog) =
      Inr (Path ''/etc/arach/hwd/modules.alias'')"
    and printed: "path_str (Path ''/etc/arach/hwd/modules.alias'') = ''/etc/arach/hwd/modules.alias''"
    by code_simp+
  have one: "succeeds d (metadata_argument calm (catalog_root hw_catalog) ''--modules-alias''
      (PStr ''/etc/arach/hwd/modules.alias'')) hw_tree hw_metadata hw_tree"
    unfolding metadata_argument_def
    by (rule succeeds_bind, rule succeeds_lift, rule remapped, rule succeeds_bind, unfold reportM_def,
        rule succeeds_catch, rule succeeds_lstat, rule hw_lookup(6), rule succeeds_if, simp,
        rule succeeds_return, simp add: printed hw_metadata_def)
  have none: "succeeds d (metadata_arguments calm (catalog_root hw_catalog) [] option) hw_tree [] hw_tree"
    for option
    unfolding metadata_arguments_def
    by (rule succeeds_bind, rule succeeds_mapM_Nil, rule succeeds_return, simp)
  have some: "succeeds d (metadata_arguments calm (catalog_root hw_catalog)
      [PStr ''/etc/arach/hwd/modules.alias''] ''--modules-alias'') hw_tree hw_metadata hw_tree"
    unfolding metadata_arguments_def
    by (rule succeeds_bind, rule succeeds_mapM, rule one, rule succeeds_mapM_Nil, rule succeeds_return, simp)
  show ?thesis
    unfolding planner_arguments_def planner_metadata_def lists
    by (rule succeeds_catch, rule succeeds_bind, rule succeeds_bind, rule some, rule succeeds_bind,
        rule none, rule succeeds_bind, rule none, rule succeeds_bind, rule none, rule succeeds_bind,
        rule succeeds_mapM_Nil, rule succeeds_return, rule refl, rule succeeds_return, simp)
qed

lemma hw_commands: "succeeds d (run_commands calm describe cmds) T None T"
proof (induction cmds)
  case Nil
  show ?case unfolding run_commands.simps by (rule succeeds_return, simp)
next
  case (Cons cmd cmds)
  show ?case
    unfolding run_commands.simps
    by (rule succeeds_and_then, rule succeeds_catch, rule succeeds_bind, rule runs_succeeds,
        rule runs_spawn, rule succeeds_return, simp, rule Cons)
qed

lemma hw_planned:
  "succeeds hw_run (plan_hardware calm no_floats describe hw_settings hw_catalog None) hw_tree None
     (hw_tree(hw_receipt \<mapsto> Regular receipt_text True))"
proof -
  from runs_hw_receipt have receipt: "succeeds hw_run (write_plan_receipt calm no_floats (Path planned_file)
      (catalog_lock hw_catalog) (Path planned_receipt_file)) hw_tree ()
      (hw_tree(hw_receipt \<mapsto> Regular receipt_text True))"
    unfolding hw_paths(1) hw_catalog_def catalog.simps by (elim exE) (rule runs_succeeds)
  show ?thesis
    unfolding plan_hardware_def
    by (rule succeeds_and_then, rule hw_files_present, rule succeeds_and_then, rule hw_profiles_present,
        rule succeeds_answering, rule hw_abi_read, rule succeeds_answering, rule hw_arguments,
        rule succeeds_and_then, rule hw_commands, rule succeeds_and_then, rule succeeds_os_answer,
        rule succeeds_bind, rule receipt, rule succeeds_return, rule refl, rule succeeds_bind,
        rule succeeds_insert, rule succeeds_return, rule refl)
qed

lemma hw_loaded:
  "succeeds d (load_configuration calm toml host_ok netloc_ok) hw_tree (Inr (None, hw_catalog)) hw_tree"
proof -
  have "runs d (load_repository_configuration calm toml host_ok netloc_ok
      (Path ''/etc/arach/hwd/repository.toml'')) hw_tree None hw_tree ([] @ [])"
    unfolding load_repository_configuration_def
    by (rule runs_bind [where x = None and ?T1.0 = hw_tree], rule runs_lstat_absent, rule hw_lookup)
      (simp_all add: runs_return)
  from runs_succeeds [OF this] have loaded: "succeeds d (load_repository_configuration calm toml host_ok
      netloc_ok (Path ''/etc/arach/hwd/repository.toml'')) hw_tree None hw_tree" .
  show ?thesis
    unfolding load_configuration_def
    by (rule succeeds_catch, rule succeeds_bind, rule loaded, rule succeeds_bind, rule succeeds_lift,
        rule hw_catalog_paths, rule succeeds_return, simp)
qed

lemma hw_succeeds:
  "succeeds hw_run (hardware_run calm toml host_ok netloc_ok no_floats describe hw_settings) hw_tree None
     (hw_tree(hw_receipt \<mapsto> Regular receipt_text True))"
proof -
  have parent: "parent (Path report_file) = abs_path hw_run" by (rule hw_paths)
  have dir: "plain_dirs hw_tree [''run'']"
    using plain_dirs_snoc [of hw_tree "[]" "''run''"] by (simp add: hw_nodes)
  have dirs: "succeeds hw_run (mkdirs calm (abs_path hw_run) 448) hw_tree () hw_tree"
    by (rule runs_succeeds, rule runs_mkdirs_existing [where q = hw_run])
      (use place_entry [OF dir] hw_nodes(5) stat_plain_dir [OF hw_run_plain] in \<open>simp_all add: abs_path_def\<close>)
  show ?thesis
    unfolding hardware_run_def parent
    by (rule succeeds_bind, rule succeeds_lift, rule hw_settings_accepted, rule succeeds_if,
        simp add: hw_settings_accepted, rule succeeds_and_then, rule succeeds_os_answer,
        rule succeeds_bind, rule dirs, rule succeeds_return, rule refl, rule succeeds_answering,
        rule hw_loaded, unfold prod.case, rule succeeds_answering, unfold active_catalog_def option.case,
        rule succeeds_return, rule refl, unfold prod.case, rule hw_planned)
qed

lemma hw_world_runs:
  "\<exists>w'. hardware_run calm (\<lambda>s. None) (\<lambda>s. False) (\<lambda>s. False) no_floats (\<lambda>e. []) hw_settings hw_world =
     (Inr None, w') \<and> tree w' = hw_tree(hw_receipt \<mapsto> Regular receipt_text True)"
proof -
  have "tree hw_world = hw_tree \<and> modes hw_world hw_run = 448" by (simp add: hw_world_def)
  with hw_succeeds show ?thesis unfolding succeeds_def by blast
qed

lemma hardware_success_is_verified_witness:
  "\<exists>w'. hardware_run calm (\<lambda>s. None) (\<lambda>s. False) (\<lambda>s. False) no_floats (\<lambda>e. []) hw_settings hw_world =
     (Inr None, w') \<and> (\<exists>active. measured_catalog active \<and> handover_done active w')"
proof -
  from hw_world_runs obtain w' where run: "hardware_run calm (\<lambda>s. None) (\<lambda>s. False) (\<lambda>s. False)
      no_floats (\<lambda>e. []) hw_settings hw_world = (Inr None, w')" by blast
  with hardware_success_is_verified [OF run] show ?thesis by blast
qed

end
