(* ===== verification/Transaction.thy ===== *)
theory Transaction
  imports AtomicWrite "HOL-Library.AList"
begin

text \<open>
  \<^verbatim>\<open>installer/calamares/modules/arachtransaction/\<close>: the job that prepares the
  transaction of an installation (the state handed to the installer backend) and later applies
  and verifies it, or rolls it back. Paths, configuration and storage are dynamic values, as
  Calamares hands them over; \<open>show\<close> is \<^verbatim>\<open>str\<close> on values that are not strings, \<open>fr\<close>
  the form of floats. What \<^verbatim>\<open>json.dump\<close> has buffered when it meets a value that it
  cannot serialise is not modelled: the temporary file is removed in that case.
\<close>

section \<open>Values\<close>

text \<open>\<^verbatim>\<open>bool(v)\<close> and \<^verbatim>\<open>a or b\<close>\<close>

fun truthy :: "pyval \<Rightarrow> bool" where
  "truthy PNone = False"
| "truthy (PBool b) = b"
| "truthy (PInt n) = (n \<noteq> 0)"
| "truthy (PFloat (Dyadic m e)) = (m \<noteq> 0)"
| "truthy (PFloat x) = True"
| "truthy (PStr s) = (s \<noteq> [])"
| "truthy (PList xs) = (xs \<noteq> [])"
| "truthy (PDict d) = (d \<noteq> [])"
| "truthy (PTime t) = True"

definition py_or :: "pyval \<Rightarrow> pyval \<Rightarrow> pyval" where
  "py_or a b = (if truthy a then a else b)"

definition py_str :: "(pyval \<Rightarrow> string) \<Rightarrow> pyval \<Rightarrow> string" where
  "py_str show v = (if str_that (\<lambda>s. True) v then str_of v else show v)"

text \<open>\<^verbatim>\<open>pathlib.Path(v)\<close> and \<^verbatim>\<open>path / v\<close> refuse everything but strings.\<close>

definition py_path :: "pyval \<Rightarrow> pure_path result" where
  "py_path v = (if str_that (\<lambda>s. True) v then Inr (Path (str_of v)) else Inl TypeError)"

definition py_join :: "pure_path \<Rightarrow> pyval \<Rightarrow> pure_path result" where
  "py_join p v = (if str_that (\<lambda>s. True) v then Inr (join p (str_of v)) else Inl TypeError)"

section \<open>The protocol\<close>

definition state_keys :: "string list" where
  "state_keys =
     [''firmwareType'', ''partitionChoices'', ''locale'', ''region'', ''zone'', ''keyboardLayout'',
      ''keyboardVariant'', ''keyboardVConsoleKeymap'', ''username'', ''fullname'', ''hostname'']"

definition secret_keys :: "string list" where
  "secret_keys = [''password'', ''rootPassword'', ''luksPassphrase'']"

text \<open>The callback \<^verbatim>\<open>storage.value\<close> is the argument \<open>value\<close>.\<close>

fun collect_items ::
    "(string \<Rightarrow> pyval job) \<Rightarrow> string list \<Rightarrow> (string \<times> pyval) list \<Rightarrow> (string \<times> pyval) list job" where
  "collect_items lookup [] state = returnM state"
| "collect_items lookup (k # ks) state =
     bindM (lookup k) (\<lambda>x.
       collect_items lookup ks (if x = PNone then state else AList.update k x state))"

definition collect_state :: "(string \<Rightarrow> pyval job) \<Rightarrow> pyval \<Rightarrow> pyval job" where
  "collect_state lookup transaction_id =
     bindM (collect_items lookup state_keys
         [(''schema'', PInt 1), (''transaction_id'', transaction_id)]) (\<lambda>state.
     if list_ex (\<lambda>k. k \<in> set (map fst state)) secret_keys
     then raiseM (Rejected ''secret key crossed installer boundary'')
     else returnM (PDict state))"

definition atomic_json ::
    "os \<Rightarrow> (pyfloat \<Rightarrow> string) \<Rightarrow> pure_path \<Rightarrow> pyval \<Rightarrow> nat \<Rightarrow> unit job" where
  "atomic_json os fr path v mode =
     bindM (mkdirs os (parent path) 448) (\<lambda>u.
     bindM (chmod_call os (parent path) 448) (\<lambda>u.
     bindM (mkstemp_call os (''.'' @ path_name path @ ''.'') (parent path)) (\<lambda>(q, temporary).
     catchM (bindM (fchmod_call os q mode) (\<lambda>u. write_document os fr path v q temporary))
       (discard_temporary os temporary))))"

definition new_transaction_id :: "os \<Rightarrow> string job" where
  "new_transaction_id os w = (Inr (fresh os (clock w)), w\<lparr>clock := Suc (clock w)\<rparr>)"

record transaction_paths =
  base :: pure_path
  state_json :: pure_path
  plan_json :: pure_path
  journal_json :: pure_path

definition paths :: "pyval \<Rightarrow> pyval \<Rightarrow> transaction_paths result" where
  "paths runtime_directory transaction_id =
     bindE (py_path runtime_directory) (\<lambda>runtime.
     bindE (py_join runtime transaction_id) (\<lambda>b.
       Inr \<lparr>base = b, state_json = join b ''state.json'', plan_json = join b ''plan.json'',
            journal_json = join b ''journal.json''\<rparr>))"

definition nul_free :: "string \<Rightarrow> bool" where
  "nul_free s \<longleftrightarrow> CHR 0x00 \<notin> set s"

definition execute :: "os \<Rightarrow> pyval list \<Rightarrow> unit job" where
  "execute os arguments =
     (if arguments = []
      then raiseM (Rejected ''command must be a non-empty argument array'')
      else if \<not> list_all (str_that nul_free) arguments
      then raiseM (Rejected ''command arguments must be NUL-free strings'')
      else catchM (checked_call os False (map str_of arguments))
        (\<lambda>e. raiseM (if os_error e \<or> e = ProcessError then Rejected ''command failed'' else e)))"

section \<open>The job\<close>

text \<open>Each value of the hardware catalog: its storage key, its configuration key, its file.\<close>

definition hardware_keys :: "(string \<times> string \<times> string) list" where
  "hardware_keys =
     [(''arachHardwareProfiles'', ''hardwareProfiles'', ''profiles''),
      (''arachHardwareKeyring'', ''hardwareKeyring'', ''keys.toml''),
      (''arachHardwareCatalogLock'', ''hardwareCatalogLock'', ''catalog.lock''),
      (''arachHardwareBinaryIndex'', ''hardwareBinaryIndex'', ''packages.toml''),
      (''arachHardwareBinarySignature'', ''hardwareBinarySignature'', ''packages.toml.sig'')]"

definition hardware_value :: "pyval \<Rightarrow> string \<times> string \<times> string \<Rightarrow> pyval job" where
  "hardware_value configuration key =
     (case key of (stored, configured, name) \<Rightarrow>
        bindM (value_of stored) (\<lambda>v. returnM (py_or v (field configuration configured))))"

fun any_differs :: "pure_path \<Rightarrow> (pyval \<times> string) list \<Rightarrow> bool result" where
  "any_differs expected [] = Inr False"
| "any_differs expected ((v, name) # rest) =
     bindE (py_path v) (\<lambda>p.
       if p \<noteq> join expected name then Inr True else any_differs expected rest)"

definition catalog_differs :: "pyval \<Rightarrow> pyval list \<Rightarrow> bool result" where
  "catalog_differs catalog_root hardware =
     (if \<not> truthy catalog_root then Inr False
      else bindE (py_path catalog_root) (\<lambda>expected.
        if \<not> str_that (\<lambda>s. s = ''/etc/arach/hwd'' \<or> s = ''/run/arach-installer/catalog'') catalog_root
        then Inr True
        else any_differs expected (zip hardware (map (snd \<circ> snd) hardware_keys))))"

definition transaction_refused :: "string \<Rightarrow> (string \<times> string) option" where
  "transaction_refused m = Some (''Invalid Arach installer configuration'', m)"

definition prepare_command ::
    "(pyval \<Rightarrow> string) \<Rightarrow> pyval \<Rightarrow> transaction_paths \<Rightarrow> string \<Rightarrow> pyval list" where
  "prepare_command show configuration ps hardware_plan =
     field configuration ''executable'' # map PStr
       [''prepare'', ''--state'', path_str (state_json ps), ''--plan'', path_str (plan_json ps),
        ''--journal'', path_str (journal_json ps),
        ''--generation'', py_str show (field configuration ''generationSource''),
        ''--boot-bundle'', py_str show (field configuration ''bootBundleSource''),
        ''--hardware-plan'', hardware_plan]"

text \<open>The arguments that verification and rollback have in common with each other.\<close>

definition target_command ::
    "(pyval \<Rightarrow> string) \<Rightarrow> pyval \<Rightarrow> transaction_paths \<Rightarrow> pyval \<Rightarrow> string \<Rightarrow> pyval list" where
  "target_command show configuration ps target action =
     field configuration ''executable'' # map PStr
       [action, ''--plan'', path_str (plan_json ps), ''--journal'', path_str (journal_json ps),
        ''--target'', py_str show target]"

definition apply_command ::
    "(pyval \<Rightarrow> string) \<Rightarrow> pyval \<Rightarrow> transaction_paths \<Rightarrow> pyval \<Rightarrow> pyval list \<Rightarrow> pyval list" where
  "apply_command show configuration ps target hardware =
     target_command show configuration ps target ''apply'' @ map PStr
       ([''--boot-bundle'', py_str show (field configuration ''bootBundleSource'')] @
        concat (map (\<lambda>(option, v). [option, py_str show v])
          (zip [''--hardware-profiles'', ''--hardware-keyring'', ''--hardware-catalog-lock'',
                ''--hardware-binary-index'', ''--hardware-binary-signature''] hardware)) @
        [''--hardware-work'', path_str (join (base ps) ''hardware-work''),
         ''--hardware-artifacts'', path_str (join (base ps) ''hardware-artifacts'')])"

definition prepare_phase ::
    "os \<Rightarrow> (pyfloat \<Rightarrow> string) \<Rightarrow> (pyval \<Rightarrow> string) \<Rightarrow> pyval \<Rightarrow> transaction_paths \<Rightarrow> pyval \<Rightarrow> unit job" where
  "prepare_phase os fr show configuration ps transaction_id =
     bindM (value_of ''arachHardwarePlan'') (\<lambda>hardware_plan.
     if \<not> py_eq hardware_plan (PStr ''/run/arach-installer/hardware.plan.toml'')
     then raiseM (Rejected ''hardware preflight plan is missing'')
     else bindM (is_file_call os (Path (str_of hardware_plan))) (\<lambda>regular.
     bindM (if regular then is_symlink_call os (Path (str_of hardware_plan)) else returnM True)
       (\<lambda>irregular.
     if irregular then raiseM (Rejected ''hardware preflight plan is not a regular file'')
     else bindM (collect_state value_of transaction_id) (\<lambda>state.
     bindM (atomic_json os fr (state_json ps) state 384) (\<lambda>u.
     execute os (prepare_command show configuration ps (str_of hardware_plan)))))))"

definition commit_phase ::
    "os \<Rightarrow> (pyval \<Rightarrow> string) \<Rightarrow> pyval \<Rightarrow> transaction_paths \<Rightarrow> pyval list \<Rightarrow> unit job" where
  "commit_phase os show configuration ps hardware =
     bindM (value_of ''rootMountPoint'') (\<lambda>target.
     if \<not> truthy target then raiseM (Rejected ''Calamares did not provide rootMountPoint'')
     else catchM
       (bindM (execute os (apply_command show configuration ps target hardware)) (\<lambda>u.
        execute os (target_command show configuration ps target ''verify'')))
       (\<lambda>e. case e of
          Rejected m \<Rightarrow>
            bindM (execute os (target_command show configuration ps target ''rollback''))
              (\<lambda>u. raiseM e)
        | _ \<Rightarrow> raiseM e))"

definition is_commit :: "pyval \<Rightarrow> bool" where
  "is_commit configuration \<longleftrightarrow> py_eq (field configuration ''phase'') (PStr ''commit'')"

definition is_prepare :: "pyval \<Rightarrow> bool" where
  "is_prepare configuration \<longleftrightarrow> py_eq (field configuration ''phase'') (PStr ''prepare'')"

definition fields_absent :: "pyval \<Rightarrow> pyval list \<Rightarrow> bool" where
  "fields_absent configuration hardware \<longleftrightarrow>
     \<not> (is_prepare configuration \<or> is_commit configuration) \<or>
     list_ex (\<lambda>k. \<not> truthy (field configuration k))
       [''executable'', ''runtimeDirectory'', ''generationSource'', ''bootBundleSource''] \<or>
     is_commit configuration \<and> list_ex (\<lambda>v. \<not> truthy v) hardware"

definition transaction_phase ::
    "os \<Rightarrow> (pyfloat \<Rightarrow> string) \<Rightarrow> (pyval \<Rightarrow> string) \<Rightarrow> pyval \<Rightarrow> pyval list \<Rightarrow> pyval \<Rightarrow>
     (string \<times> string) option job" where
  "transaction_phase os fr show configuration hardware transaction_id =
     (if \<not> truthy transaction_id
      then returnM (Some (''Arach transaction is missing'', ''The prepare phase did not complete''))
      else bindM (liftM (paths (field configuration ''runtimeDirectory'') transaction_id)) (\<lambda>ps.
        catchM
          (bindM (if is_prepare configuration
                  then prepare_phase os fr show configuration ps transaction_id
                  else commit_phase os show configuration ps hardware) (\<lambda>u. returnM None))
          (\<lambda>e. case e of
             Rejected m \<Rightarrow> returnM (Some (''ArachOS transaction failed'', m))
           | _ \<Rightarrow> raiseM e)))"

definition transaction_checked ::
    "os \<Rightarrow> (pyfloat \<Rightarrow> string) \<Rightarrow> (pyval \<Rightarrow> string) \<Rightarrow> pyval \<Rightarrow> pyval list \<Rightarrow>
     (string \<times> string) option job" where
  "transaction_checked os fr show configuration hardware =
     (if fields_absent configuration hardware
      then returnM (transaction_refused ''Required transaction fields are absent'')
      else bindM (value_of ''arachTransactionId'') (\<lambda>transaction_id.
        if is_prepare configuration
        then (if truthy transaction_id
          then returnM (Some (''Arach transaction already exists'',
            ''Refusing to overwrite its journal''))
          else bindM (new_transaction_id os) (\<lambda>t.
            bindM (insert_value ''arachTransactionId'' (PStr t)) (\<lambda>u.
            transaction_phase os fr show configuration hardware (PStr t))))
        else transaction_phase os fr show configuration hardware transaction_id))"

definition transaction_run ::
    "os \<Rightarrow> (pyfloat \<Rightarrow> string) \<Rightarrow> (pyval \<Rightarrow> string) \<Rightarrow> pyval \<Rightarrow> (string \<times> string) option job" where
  "transaction_run os fr show configuration =
     (if is_commit configuration
      then bindM (mapM (hardware_value configuration) hardware_keys) (\<lambda>hardware.
        bindM (value_of ''arachHardwareCatalogRoot'') (\<lambda>catalog_root.
        bindM (liftM (catalog_differs catalog_root hardware)) (\<lambda>differs.
        if differs
        then returnM (transaction_refused
          ''Hardware transaction paths differ from the verified catalog'')
        else transaction_checked os fr show configuration hardware)))
      else transaction_checked os fr show configuration
        (map (\<lambda>(stored, configured, name). field configuration configured) hardware_keys))"

end
