(* ===== verification/TransactionProps.thy ===== *)
theory TransactionProps
  imports Transaction
begin

text \<open>
  What the transaction job guarantees: the secrets of the installer never influence it
  (\<open>transaction_ignores_secrets\<close>), a commit is applied and verified or else rolled back
  (\<open>transaction_commit_protocol\<close>, \<open>transaction_commit_completes\<close>), and the state file is replaced
  as a whole (\<open>atomic_json_is_atomic\<close>).
\<close>

section \<open>Independence of the storage\<close>

text \<open>
  A job that neither reads nor writes the storage, and a job that is blind for the keys of \<open>K\<close>:
  worlds that differ there only are mapped to worlds that differ there only, with the same answer.
\<close>

named_theorems storage_rules \<open>jobs that leave the storage alone, and blind jobs\<close>

definition storage_free :: "'a job \<Rightarrow> bool" where
  "storage_free m \<longleftrightarrow> (\<forall>w s. m (w\<lparr>storage := s\<rparr>) = (fst (m w), snd (m w)\<lparr>storage := s\<rparr>))"

definition blind :: "string set \<Rightarrow> 'a job \<Rightarrow> bool" where
  "blind K m \<longleftrightarrow>
     (\<forall>w s. (\<forall>k. k \<notin> K \<longrightarrow> s k = storage w k) \<longrightarrow>
        (\<exists>s'. m (w\<lparr>storage := s\<rparr>) = (fst (m w), snd (m w)\<lparr>storage := s'\<rparr>) \<and>
           (\<forall>k. k \<notin> K \<longrightarrow> s' k = storage (snd (m w)) k)))"

lemma storage_free_keeps: "storage_free m \<Longrightarrow> storage (snd (m w)) = storage w"
  unfolding storage_free_def by (metis snd_conv world.select_convs(3)
      world.surjective world.update_convs(3))

lemma storage_free_blind: "storage_free m \<Longrightarrow> blind K m"
  using storage_free_keeps [of m] unfolding storage_free_def blind_def by metis

lemma storage_free_bind [storage_rules]:
  assumes "storage_free m" and "\<And>x. storage_free (f x)"
  shows "storage_free (bindM m f)"
  using assms unfolding storage_free_def bindM_def
  by (auto split: prod.splits sum.splits)

lemma storage_free_catch [storage_rules]:
  assumes "storage_free m" and "\<And>e. storage_free (h e)"
  shows "storage_free (catchM m h)"
  using assms unfolding storage_free_def catchM_def
  by (auto split: prod.splits sum.splits)

lemma storage_free_basic [storage_rules]:
  "storage_free (returnM x)" "storage_free (raiseM e)" "storage_free (liftM r)"
  by (simp_all add: storage_free_def returnM_def raiseM_def liftM_def)

lemma storage_free_if [storage_rules]:
  "storage_free m \<Longrightarrow> storage_free m' \<Longrightarrow> storage_free (if c then m else m')"
  by simp

lemma storage_free_sys:
  assumes "\<And>n. storage_free (f n)"
  shows "storage_free (sys os f)"
  unfolding storage_free_def
proof (intro allI)
  fix w :: world and s
  let ?w = "w\<lparr>tree := interfere os (clock w) (tree w), clock := Suc (clock w)\<rparr>"
  have swap: "w\<lparr>storage := s, tree := interfere os (clock w) (tree w), clock := Suc (clock w)\<rparr> =
      ?w\<lparr>storage := s\<rparr>" by simp
  have "sys os f (w\<lparr>storage := s\<rparr>) =
      (if faulty os (clock w) then (Inl OSError, ?w\<lparr>storage := s\<rparr>)
       else f (clock w) (?w\<lparr>storage := s\<rparr>))"
    unfolding swap [symmetric] by (simp add: sys_def Let_def)
  moreover have "f (clock w) (?w\<lparr>storage := s\<rparr>) =
      (fst (f (clock w) ?w), snd (f (clock w) ?w)\<lparr>storage := s\<rparr>)"
    using assms [of "clock w"] unfolding storage_free_def by blast
  moreover have "sys os f w = (if faulty os (clock w) then (Inl OSError, ?w) else f (clock w) ?w)"
    by (simp add: sys_def Let_def)
  ultimately show "sys os f (w\<lparr>storage := s\<rparr>) = (fst (sys os f w), snd (sys os f w)\<lparr>storage := s\<rparr>)"
    by (simp only: fst_conv snd_conv split: if_split) simp
qed

text \<open>The system calls, and the operations built from them.\<close>

lemma storage_free_calls [storage_rules]:
  "storage_free (lstat_call os p)" "storage_free (stat_call os p)" "storage_free (mode_call os p)"
  "storage_free (chmod_call os p n)" "storage_free (mkdir_call os p n)"
  "storage_free (create_call os p)" "storage_free (sync_call os)" "storage_free (fchmod_call os q n)"
  "storage_free (unlink_call os p)" "storage_free (replace_call os p p')"
  unfolding lstat_call_def stat_call_def mode_call_def chmod_call_def mkdir_call_def
    create_call_def sync_call_def fchmod_call_def unlink_call_def replace_call_def
  by (rule storage_free_sys, simp add: storage_free_def split: option.split node.split)+

lemma storage_free_append [storage_rules]: "storage_free (append_call os q s)"
  by (simp add: storage_free_def append_call_def Let_def)

lemma storage_free_spawn [storage_rules]: "storage_free (spawn_call os captured cmd)"
  by (simp add: storage_free_def spawn_call_def Let_def split: option.split prod.split)

lemma storage_free_checked [storage_rules]: "storage_free (checked_call os captured cmd)"
  unfolding checked_call_def by (intro storage_rules)

lemma storage_free_tests [storage_rules]:
  "storage_free (is_dir_call os p)" "storage_free (is_file_call os p)"
  "storage_free (is_symlink_call os p)" "storage_free (open_directory_call os p)"
  unfolding is_dir_call_def is_file_call_def is_symlink_call_def open_directory_call_def
    absent_is_false_def
  by (intro storage_rules)+

lemma storage_free_mkdirs [storage_rules]: "storage_free (mkdirs os p n)"
proof -
  have "storage_free (mkdir_parents os a cs k)" for a cs k
    by (induction cs arbitrary: k)
      (simp_all only: mkdir_parents.simps mkdir_exist_ok_def Let_def, (intro storage_rules; assumption?)+)
  then show ?thesis by (simp add: mkdirs_def)
qed

lemma storage_free_mkstemp [storage_rules]: "storage_free (mkstemp_call os pre d)"
proof -
  have "storage_free (bindM (create_call os p) (\<lambda>q. returnM (q, p)))" for p
    by (intro storage_rules)
  then show ?thesis by (simp add: storage_free_def mkstemp_call_def Let_def)
qed

lemma storage_free_atomic_json [storage_rules]: "storage_free (atomic_json os fr p v n)"
  unfolding atomic_json_def write_document_def discard_temporary_def
  by (intro storage_rules) (auto intro!: storage_rules)

lemma storage_free_execute [storage_rules]: "storage_free (execute os arguments)"
  unfolding execute_def by (intro storage_rules)


text \<open>Composition of blind jobs.\<close>

named_theorems blind_rules \<open>composition of jobs that are blind for some keys\<close>

lemma blind_bind [blind_rules]:
  assumes m: "blind K m" and f: "\<And>x. blind K (f x)"
  shows "blind K (bindM m f)"
  unfolding blind_def
proof (intro allI impI)
  fix w :: world and s
  assume "\<forall>k. k \<notin> K \<longrightarrow> s k = storage w k"
  with m obtain s1 where s1: "m (w\<lparr>storage := s\<rparr>) = (fst (m w), snd (m w)\<lparr>storage := s1\<rparr>)"
    "\<forall>k. k \<notin> K \<longrightarrow> s1 k = storage (snd (m w)) k"
    unfolding blind_def by blast
  show "\<exists>s'. bindM m f (w\<lparr>storage := s\<rparr>) = (fst (bindM m f w), snd (bindM m f w)\<lparr>storage := s'\<rparr>) \<and>
      (\<forall>k. k \<notin> K \<longrightarrow> s' k = storage (snd (bindM m f w)) k)"
  proof (cases "fst (m w)")
    case (Inl e)
    with s1 show ?thesis by (auto simp: bindM_def split: prod.splits)
  next
    case (Inr x)
    with s1 f [of x] show ?thesis
      unfolding blind_def by (cases "m w") (fastforce simp: bindM_def)
  qed
qed

lemma blind_catch [blind_rules]:
  assumes m: "blind K m" and h: "\<And>e. blind K (h e)"
  shows "blind K (catchM m h)"
  unfolding blind_def
proof (intro allI impI)
  fix w :: world and s
  assume "\<forall>k. k \<notin> K \<longrightarrow> s k = storage w k"
  with m obtain s1 where s1: "m (w\<lparr>storage := s\<rparr>) = (fst (m w), snd (m w)\<lparr>storage := s1\<rparr>)"
    "\<forall>k. k \<notin> K \<longrightarrow> s1 k = storage (snd (m w)) k"
    unfolding blind_def by blast
  show "\<exists>s'. catchM m h (w\<lparr>storage := s\<rparr>) = (fst (catchM m h w), snd (catchM m h w)\<lparr>storage := s'\<rparr>) \<and>
      (\<forall>k. k \<notin> K \<longrightarrow> s' k = storage (snd (catchM m h w)) k)"
  proof (cases "fst (m w)")
    case (Inr x)
    with s1 show ?thesis by (auto simp: catchM_def split: prod.splits)
  next
    case (Inl e)
    with s1 h [of e] show ?thesis
      unfolding blind_def by (cases "m w") (fastforce simp: catchM_def)
  qed
qed

lemma blind_if [blind_rules]: "blind K m \<Longrightarrow> blind K m' \<Longrightarrow> blind K (if c then m else m')"
  by simp

lemma blind_handler [blind_rules]:
  "(\<And>m. blind K (g m)) \<Longrightarrow> blind K j \<Longrightarrow> blind K (case e of Rejected m \<Rightarrow> g m | _ \<Rightarrow> j)"
  by (cases e) simp_all

lemma blind_value [blind_rules]: "k \<notin> K \<Longrightarrow> blind K (value_of k)"
  by (auto simp: blind_def value_of_def)

lemma blind_insert [blind_rules]: "blind K (insert_value k v)"
  by (fastforce simp: blind_def insert_value_def)

lemma blind_mapM [blind_rules]: "(\<And>x. x \<in> set xs \<Longrightarrow> blind K (f x)) \<Longrightarrow> blind K (mapM f xs)"
proof (induction xs)
  case Nil
  show ?case unfolding mapM.simps by (intro storage_free_blind storage_rules)
next
  case (Cons x xs)
  then show ?case unfolding mapM.simps
    by (intro blind_rules storage_free_blind [OF storage_free_basic(1)]) simp_all
qed

section \<open>Secrets\<close>

lemma storage_free_new_id [storage_rules]: "storage_free (new_transaction_id os)"
  by (simp add: storage_free_def new_transaction_id_def)

lemma blind_collect:
  assumes "set secret_keys \<inter> set state_keys = {}"
  shows "blind (set secret_keys) (collect_state value_of t)"
proof -
  have "blind (set secret_keys) (collect_items value_of ks state)"
    if "set secret_keys \<inter> set ks = {}" for ks state
    using that
  proof (induction ks arbitrary: state)
    case Nil
    show ?case unfolding collect_items.simps by (intro storage_free_blind storage_rules)
  next
    case (Cons k ks)
    then show ?case unfolding collect_items.simps by (intro blind_rules) auto
  qed
  from this [OF assms] show ?thesis
    unfolding collect_state_def
    by (rule blind_bind) (intro storage_free_blind storage_rules)
qed

lemma secrets_apart:
  "set secret_keys \<inter> set state_keys = {}" "''arachTransactionId'' \<notin> set secret_keys"
  "''arachHardwarePlan'' \<notin> set secret_keys" "''rootMountPoint'' \<notin> set secret_keys"
  "''arachHardwareCatalogRoot'' \<notin> set secret_keys" "fst ` set hardware_keys \<inter> set secret_keys = {}"
  by (simp_all add: secret_keys_def state_keys_def hardware_keys_def)

lemma blind_phases:
  "blind (set secret_keys) (prepare_phase os fr show c ps t)"
  "blind (set secret_keys) (commit_phase os show c ps hardware)"
proof -
  show "blind (set secret_keys) (prepare_phase os fr show c ps t)"
    unfolding prepare_phase_def
    by (intro blind_rules blind_collect secrets_apart storage_free_blind storage_rules)
  show "blind (set secret_keys) (commit_phase os show c ps hardware)"
    unfolding commit_phase_def
    by (intro blind_rules secrets_apart storage_free_blind storage_rules)
qed


lemma blind_transaction_phase:
  "blind (set secret_keys) (transaction_phase os fr show c hardware t)"
  unfolding transaction_phase_def
  by (intro blind_rules blind_phases storage_free_blind storage_rules)

lemma blind_transaction_run: "blind (set secret_keys) (transaction_run os fr show c)"
proof -
  have checked: "blind (set secret_keys) (transaction_checked os fr show c hardware)" for hardware
    unfolding transaction_checked_def
    by (intro blind_rules secrets_apart blind_transaction_phase storage_free_blind storage_rules)
  have hardware: "blind (set secret_keys) (hardware_value c key)" if "key \<in> set hardware_keys" for key
  proof -
    obtain stored configured name where key: "key = (stored, configured, name)" by (cases key)
    with that secrets_apart(6) have "stored \<notin> set secret_keys" by force
    then show ?thesis
      unfolding hardware_value_def key prod.case
      by (intro blind_rules storage_free_blind [OF storage_free_basic(1)])
  qed
  show ?thesis
    unfolding transaction_run_def
    by (intro blind_rules secrets_apart hardware checked storage_free_blind [OF storage_free_basic(1)]
        storage_free_blind [OF storage_free_basic(3)])
qed

text \<open>
  C9. The secrets of the installer stay behind the boundary: worlds that differ only in the
  passwords and passphrases held in the global storage lead to the same answer of the
  transaction job, the same files, the same commands with the same arguments, and to storages
  that again differ only there, whatever the operating system does.
\<close>

theorem transaction_ignores_secrets:
  assumes "\<forall>k. k \<notin> set secret_keys \<longrightarrow> s k = storage w k"
    and "transaction_run os fr show configuration w = (r, w')"
  shows "\<exists>s'. transaction_run os fr show configuration (w\<lparr>storage := s\<rparr>) = (r, w'\<lparr>storage := s'\<rparr>) \<and>
    (\<forall>k. k \<notin> set secret_keys \<longrightarrow> s' k = storage w' k)"
  using blind_transaction_run [of os fr "show" configuration] assms unfolding blind_def by (metis fst_conv snd_conv)

section \<open>The commit protocol\<close>

text \<open>What one command adds to the log.\<close>

definition command_ok :: "pyval list \<Rightarrow> bool" where
  "command_ok arguments \<longleftrightarrow> arguments \<noteq> [] \<and> list_all (str_that nul_free) arguments"

abbreviation ran :: "pyval list \<Rightarrow> fs \<Rightarrow> bool \<Rightarrow> event" where
  "ran arguments \<equiv> Ran (map str_of arguments)"

lemma execute_outcome:
  assumes "execute os arguments w = (r, w')"
  shows "\<exists>es. trace w' = trace w @ es \<and> storage w' = storage w \<and>
    (if command_ok arguments
     then \<exists>t ok. es = [ran arguments t ok] \<and> (if ok then r = Inr () else \<exists>m. r = Inl (Rejected m))
     else es = [] \<and> (\<exists>m. r = Inl (Rejected m)))"
proof (cases "command_ok arguments")
  case False
  then have "arguments = [] \<or> \<not> list_all (str_that nul_free) arguments"
    by (simp add: command_ok_def)
  with assms False show ?thesis
    by (auto simp: execute_def raiseM_def split: if_splits)
next
  case True
  have kept: "storage w' = storage w"
    using storage_free_keeps [OF storage_free_execute, of os arguments w] assms by simp
  let ?t = "interfere os (clock w) (tree w)"
  have "trace w' = trace w @ [ran arguments ?t True] \<and> r = Inr () \<or>
      trace w' = trace w @ [ran arguments ?t False] \<and> (\<exists>m. r = Inl (Rejected m))"
    using assms True
    by (auto simp: execute_def command_ok_def catchM_def checked_call_def spawn_call_def bindM_def
        returnM_def raiseM_def Let_def os_error_def split: option.splits if_splits prod.splits)
  with True kept show ?thesis by fastforce
qed

text \<open>
  The histories of a commit: nothing was started; the application was refused as a command and
  only the rollback was started; the application failed and was rolled back; the verification
  failed and was rolled back; or both succeeded, which is the only history without a rollback
  at the end.
\<close>

definition commit_history :: "pyval list \<Rightarrow> pyval list \<Rightarrow> pyval list \<Rightarrow> event list \<Rightarrow> bool" where
  "commit_history apply verify rollback es \<longleftrightarrow>
     es = [] \<or> (\<exists>t ok. es = [ran rollback t ok]) \<or>
     (\<exists>t t' ok. es = [ran apply t False, ran rollback t' ok]) \<or>
     (\<exists>t t' t'' ok. es = [ran apply t True, ran verify t' False, ran rollback t'' ok]) \<or>
     (\<exists>t t'. es = [ran apply t True, ran verify t' True])"

definition commit_done :: "pyval list \<Rightarrow> pyval list \<Rightarrow> event list \<Rightarrow> bool" where
  "commit_done apply verify es \<longleftrightarrow> (\<exists>t t'. es = [ran apply t True, ran verify t' True])"

lemma target_command_ok:
  "action \<in> {''verify'', ''rollback''} \<Longrightarrow>
     command_ok (target_command show c ps target action) =
     command_ok (target_command show c ps target ''verify'')"
  by (auto simp: command_ok_def target_command_def nul_free_def)

lemma apply_command_ok:
  "command_ok (apply_command show c ps target hardware) \<Longrightarrow>
     command_ok (target_command show c ps target ''verify'')"
  by (simp add: command_ok_def apply_command_def target_command_def nul_free_def)

lemma attempt_outcome:
  assumes "bindM (execute os a) (\<lambda>u. execute os b) w = (r, w')"
    and "command_ok a \<Longrightarrow> command_ok b"
  shows "\<exists>es. trace w' = trace w @ es \<and> (es \<noteq> [] \<longrightarrow> command_ok a) \<and>
    ((es = [] \<or> (\<exists>t. es = [ran a t False]) \<or> (\<exists>t t'. es = [ran a t True, ran b t' False])) \<and>
       (\<exists>m. r = Inl (Rejected m)) \<or>
     commit_done a b es \<and> r = Inr ())"
proof -
  obtain r1 w1 where one: "execute os a w = (r1, w1)" by fastforce
  from execute_outcome [OF one] consider
      (refused) m where "trace w1 = trace w" "r1 = Inl (Rejected m)"
    | (failed) m t where "trace w1 = trace w @ [ran a t False]" "r1 = Inl (Rejected m)"
        "command_ok a"
    | (worked) t where "trace w1 = trace w @ [ran a t True]" "r1 = Inr ()" "command_ok a"
    by (auto split: if_splits)
  then show ?thesis
  proof cases
    case refused
    with assms(1) one show ?thesis by (auto simp: bindM_def)
  next
    case failed
    with assms(1) one show ?thesis by (auto simp: bindM_def)
  next
    case worked
    with assms(1) one have two: "execute os b w1 = (r, w')" by (simp add: bindM_def)
    from execute_outcome [OF two] assms(2) [OF worked(3)] worked(1,3) show ?thesis
      by (auto simp: commit_done_def split: if_splits)
  qed
qed

definition stored :: "world \<Rightarrow> string \<Rightarrow> pyval" where
  "stored w k = (case storage w k of Some v \<Rightarrow> v | None \<Rightarrow> PNone)"

lemma value_of_stored: "value_of k w = (Inr (stored w k), w)"
  by (simp add: value_of_def stored_def)

lemma commit_phase_outcome:
  assumes "commit_phase os show c ps hardware w = (r, w')"
  defines "command \<equiv> target_command show c ps (stored w ''rootMountPoint'')"
    and "application \<equiv> apply_command show c ps (stored w ''rootMountPoint'') hardware"
  shows "\<exists>es. trace w' = trace w @ es \<and>
    commit_history application (command ''verify'') (command ''rollback'') es \<and>
    (if commit_done application (command ''verify'') es then r = Inr () else \<exists>m. r = Inl (Rejected m))"
proof (cases "truthy (stored w ''rootMountPoint'')")
  case False
  with assms(1) show ?thesis
    by (auto simp: commit_phase_def bindM_def value_of_stored raiseM_def commit_history_def
        commit_done_def)
next
  case True
  have same: "command_ok (command ''rollback'') = command_ok (command ''verify'')"
    unfolding command_def using target_command_ok [of "''rollback''"] by simp
  let ?attempt = "bindM (execute os application) (\<lambda>u. execute os (command ''verify''))"
  obtain r1 w1 where one: "?attempt w = (r1, w1)" by fastforce
  have "command_ok application \<Longrightarrow> command_ok (command ''verify'')"
    unfolding command_def application_def by (rule apply_command_ok)
  with attempt_outcome [OF one] obtain es where es: "trace w1 = trace w @ es"
      "es \<noteq> [] \<Longrightarrow> command_ok application"
    and cases: "(es = [] \<or> (\<exists>t. es = [ran application t False]) \<or>
        (\<exists>t t'. es = [ran application t True, ran (command ''verify'') t' False])) \<and>
        (\<exists>m. r1 = Inl (Rejected m)) \<or>
      commit_done application (command ''verify'') es \<and> r1 = Inr ()"
    by blast
  have run: "catchM ?attempt (\<lambda>e. case e of
      Rejected m \<Rightarrow> bindM (execute os (command ''rollback'')) (\<lambda>u. raiseM e) | _ \<Rightarrow> raiseM e) w =
      (r, w')"
    using assms(1) True unfolding commit_phase_def command_def application_def
    by (simp add: bindM_def value_of_stored)
  from cases consider
      (failed) m where "es = [] \<or> (\<exists>t. es = [ran application t False]) \<or>
        (\<exists>t t'. es = [ran application t True, ran (command ''verify'') t' False])"
        "r1 = Inl (Rejected m)"
    | (completed) "commit_done application (command ''verify'') es" "r1 = Inr ()"
    by blast
  then show ?thesis
  proof cases
    case completed
    with run one have "r = Inr ()" "w' = w1" by (simp_all add: catchM_def)
    with completed es show ?thesis by (auto simp: commit_done_def commit_history_def)
  next
    case failed
    obtain r2 w2 where two: "execute os (command ''rollback'') w1 = (r2, w2)" by fastforce
    from run one failed(2) two have "w' = w2" "r = (case r2 of Inl e \<Rightarrow> Inl e | Inr u \<Rightarrow> r1)"
      by (auto simp: catchM_def bindM_def raiseM_def split: sum.splits)
    note after = this
    from execute_outcome [OF two] obtain es2 where two': "trace w2 = trace w1 @ es2"
      "if command_ok (command ''rollback'')
       then \<exists>t ok. es2 = [ran (command ''rollback'') t ok] \<and>
         (if ok then r2 = Inr () else \<exists>m. r2 = Inl (Rejected m))
       else es2 = [] \<and> (\<exists>m. r2 = Inl (Rejected m))"
      by blast
    from two'(2) after(2) failed(2) have es2: "es2 = [] \<or> (\<exists>t ok. es2 = [ran (command ''rollback'') t ok])"
      "command_ok (command ''rollback'') \<Longrightarrow> es2 \<noteq> []" "\<exists>m. r = Inl (Rejected m)"
      by (auto split: if_splits)
    have trace: "trace w' = trace w @ es @ es2" using two'(1) es(1) after(1) by simp
    have "command_ok application \<Longrightarrow> command_ok (command ''rollback'')"
      unfolding same unfolding command_def application_def by (rule apply_command_ok)
    with es(2) es2(2) have "es \<noteq> [] \<Longrightarrow> es2 \<noteq> []" by blast
    with es2(1) failed(1) have "commit_history application (command ''verify'') (command ''rollback'') (es @ es2)"
      "\<not> commit_done application (command ''verify'') (es @ es2)"
      by (auto simp: commit_history_def commit_done_def)
    with es2(3) trace show ?thesis by auto
  qed
qed


text \<open>The paths of the hardware catalog, and what the comparison with its root establishes.\<close>

definition hardware_of :: "pyval \<Rightarrow> world \<Rightarrow> pyval list" where
  "hardware_of c w = map (\<lambda>(key, configured, name). py_or (stored w key) (field c configured)) hardware_keys"

lemma hardware_read: "mapM (hardware_value c) hardware_keys w = (Inr (hardware_of c w), w)"
proof -
  have "mapM (hardware_value c) keys w =
      (Inr (map (\<lambda>(key, configured, name). py_or (stored w key) (field c configured)) keys), w)" for keys
    by (induction keys)
      (auto simp: returnM_def bindM_def hardware_value_def value_of_stored)
  then show ?thesis by (simp add: hardware_of_def)
qed

definition catalog_matches :: "pyval \<Rightarrow> pyval list \<Rightarrow> bool" where
  "catalog_matches root hardware \<longleftrightarrow>
     (\<exists>r. root = PStr r \<and> (r = ''/etc/arach/hwd'' \<or> r = ''/run/arach-installer/catalog'') \<and>
        list_all2 (\<lambda>v name. \<exists>s. v = PStr s \<and> Path s = join (Path r) name) hardware
          [''profiles'', ''keys.toml'', ''catalog.lock'', ''packages.toml'', ''packages.toml.sig''])"

lemma any_differs_iff:
  "length vs = length names \<Longrightarrow> any_differs expected (zip vs names) = Inr False \<longleftrightarrow>
     list_all2 (\<lambda>v name. \<exists>s. v = PStr s \<and> Path s = join expected name) vs names"
  by (induction vs names rule: list_induct2) (auto simp: bindE_Inr_iff py_path_def split: if_splits)

lemma catalog_differs_iff:
  assumes "length hardware = length hardware_keys"
  shows "catalog_differs root hardware = Inr False \<longleftrightarrow>
    (truthy root \<longrightarrow> catalog_matches root hardware)"
proof -
  have names: "map (snd \<circ> snd) hardware_keys =
      [''profiles'', ''keys.toml'', ''catalog.lock'', ''packages.toml'', ''packages.toml.sig'']"
    by (simp add: hardware_keys_def)
  have five: "length hardware_keys = length
      [''profiles'', ''keys.toml'', ''catalog.lock'', ''packages.toml'', ''packages.toml.sig'']"
    by (simp add: hardware_keys_def)
  have "catalog_differs root hardware = Inr False \<longleftrightarrow> (truthy root \<longrightarrow> (\<exists>r. root = PStr r \<and>
      (r = ''/etc/arach/hwd'' \<or> r = ''/run/arach-installer/catalog'') \<and>
      any_differs (Path r) (zip hardware (map (snd \<circ> snd) hardware_keys)) = Inr False))"
    unfolding catalog_differs_def py_path_def by (cases root) simp_all
  then show ?thesis
    unfolding catalog_matches_def names any_differs_iff [OF trans [OF assms five]] .
qed

text \<open>
  C6. A commit is applied and verified, or it is rolled back. In the commit phase the commands
  that the job starts form one of five histories; the answer is success exactly when the
  application and then the verification have succeeded, and in every other history in which
  anything was started the last command is the rollback of the same plan and journal on the same
  target. Nothing is started unless the fields are present, the transaction id is stored, and the
  hardware paths are those of one of the two measured catalogs when a catalog root is stored; and
  once anything has been started no exception escapes.
\<close>

theorem transaction_commit_protocol:
  assumes "is_commit c" and "transaction_run os fr show c w = (r, w')"
  shows "\<exists>es ps. trace w' = trace w @ es \<and>
    commit_history
      (apply_command show c ps (stored w ''rootMountPoint'') (hardware_of c w))
      (target_command show c ps (stored w ''rootMountPoint'') ''verify'')
      (target_command show c ps (stored w ''rootMountPoint'') ''rollback'') es \<and>
    (r = Inr None \<longleftrightarrow> commit_done
      (apply_command show c ps (stored w ''rootMountPoint'') (hardware_of c w))
      (target_command show c ps (stored w ''rootMountPoint'') ''verify'') es) \<and>
    (es \<noteq> [] \<longrightarrow> (\<exists>answer. r = Inr answer) \<and> \<not> fields_absent c (hardware_of c w) \<and>
       paths (field c ''runtimeDirectory'') (stored w ''arachTransactionId'') = Inr ps \<and>
       (truthy (stored w ''arachHardwareCatalogRoot'') \<longrightarrow>
          catalog_matches (stored w ''arachHardwareCatalogRoot'') (hardware_of c w)))"
proof -
  let ?target = "stored w ''rootMountPoint''" and ?t = "stored w ''arachTransactionId''"
    and ?root = "stored w ''arachHardwareCatalogRoot''" and ?h = "hardware_of c w"
  have not_prepare: "\<not> is_prepare c" using assms(1) by (auto simp: is_commit_def is_prepare_def)
  have quiet: ?thesis if "w' = w" "r \<noteq> Inr None"
    using that by (intro exI [of _ "[]"]) (simp add: commit_history_def commit_done_def)
  have run: "transaction_run os fr show c w =
      (case catalog_differs ?root ?h of
         Inl e \<Rightarrow> (Inl e, w)
       | Inr True \<Rightarrow> (Inr (transaction_refused
           ''Hardware transaction paths differ from the verified catalog''), w)
       | Inr False \<Rightarrow>
           (if fields_absent c ?h
            then (Inr (transaction_refused ''Required transaction fields are absent''), w)
            else transaction_phase os fr show c ?h ?t w))"
    using assms(1) not_prepare
    by (simp add: transaction_run_def bindM_def hardware_read value_of_stored liftM_def returnM_def
        transaction_checked_def split: sum.splits bool.splits)
  show ?thesis
  proof (cases "catalog_differs ?root ?h = Inr False \<and> \<not> fields_absent c ?h \<and> truthy ?t")
    case False
    then show ?thesis
      using assms(2) run
      by (intro quiet) (auto simp: transaction_refused_def transaction_phase_def returnM_def
          split: sum.splits bool.splits if_splits)
  next
    case True
    show ?thesis
    proof (cases "paths (field c ''runtimeDirectory'') ?t")
      case (Inl e)
      with assms(2) run True not_prepare show ?thesis
        by (intro quiet) (auto simp: transaction_phase_def bindM_def liftM_def)
    next
      case (Inr ps)
      obtain r1 w1 where one: "commit_phase os show c ps ?h w = (r1, w1)" by fastforce
      from commit_phase_outcome [OF one] obtain es where es: "trace w1 = trace w @ es"
        "commit_history (apply_command show c ps ?target ?h)
          (target_command show c ps ?target ''verify'')
          (target_command show c ps ?target ''rollback'') es"
        "if commit_done (apply_command show c ps ?target ?h)
          (target_command show c ps ?target ''verify'') es
         then r1 = Inr () else \<exists>m. r1 = Inl (Rejected m)"
        by blast
      have "w' = w1" and "r = Inr None \<or> (\<exists>answer. r = Inr (Some answer))"
        and "r = Inr None \<longleftrightarrow> r1 = Inr ()"
        using assms(2) run True not_prepare one Inr es(3)
        by (auto simp: transaction_phase_def bindM_def liftM_def catchM_def returnM_def
            split: if_splits)
      moreover have "length ?h = length hardware_keys" by (simp add: hardware_of_def)
      ultimately show ?thesis
        using es True Inr catalog_differs_iff by (intro exI [of _ es] exI [of _ ps]) (auto split: if_splits)
    qed
  qed
qed


text \<open>A commit whose two commands succeed completes.\<close>

lemma execute_succeeds:
  assumes "command_ok arguments" and "\<And>n. spawned os (map str_of arguments) n = Some (0, a, b)"
  shows "\<exists>w'. execute os arguments w = (Inr (), w') \<and> storage w' = storage w \<and>
    trace w' = trace w @ [ran arguments (interfere os (clock w) (tree w)) True]"
  using assms
  by (simp add: execute_def command_ok_def catchM_def checked_call_def spawn_call_def bindM_def
      returnM_def Let_def)

text \<open>
  C17. A commit completes: when the fields are present, the hardware paths are those of the
  measured catalog or no catalog root is stored, the transaction and the target are known, and
  the backend succeeds in applying and verifying, the job answers success, and it has started
  the application and then the verification, each once and nothing else.
\<close>

theorem transaction_commit_completes:
  assumes "is_commit c" and "\<not> fields_absent c (hardware_of c w)"
    and "truthy (stored w ''arachHardwareCatalogRoot'') \<longrightarrow>
      catalog_matches (stored w ''arachHardwareCatalogRoot'') (hardware_of c w)"
    and "paths (field c ''runtimeDirectory'') (stored w ''arachTransactionId'') = Inr ps"
    and "truthy (stored w ''arachTransactionId'')" and "truthy (stored w ''rootMountPoint'')"
    and "application = apply_command show c ps (stored w ''rootMountPoint'') (hardware_of c w)"
    and "verification = target_command show c ps (stored w ''rootMountPoint'') ''verify''"
    and "command_ok application"
    and "\<And>n. spawned os (map str_of application) n = Some (0, True, True)"
    and "\<And>n. spawned os (map str_of verification) n = Some (0, True, True)"
  shows "\<exists>w' t t'. transaction_run os fr show c w = (Inr None, w') \<and>
    trace w' = trace w @ [ran application t True, ran verification t' True]"
proof -
  have not_prepare: "\<not> is_prepare c" using assms(1) by (auto simp: is_commit_def is_prepare_def)
  have "length (hardware_of c w) = length hardware_keys" by (simp add: hardware_of_def)
  from catalog_differs_iff [OF this] assms(3)
  have agreed: "catalog_differs (stored w ''arachHardwareCatalogRoot'') (hardware_of c w) = Inr False"
    by simp
  from execute_succeeds [OF assms(9,10)] obtain w1 t where one:
    "execute os application w = (Inr (), w1)" "trace w1 = trace w @ [ran application t True]" by blast
  from apply_command_ok assms(7,8,9) have "command_ok verification" by blast
  from execute_succeeds [OF this assms(11)] obtain w2 t' where two:
    "execute os verification w1 = (Inr (), w2)" "trace w2 = trace w1 @ [ran verification t' True]"
    by blast
  have "commit_phase os show c ps (hardware_of c w) w = (Inr (), w2)"
    using one two assms(6) unfolding assms(7,8)
    by (simp add: commit_phase_def bindM_def value_of_stored catchM_def)
  then have "transaction_run os fr show c w = (Inr None, w2)"
    using assms(1,2,4,5) not_prepare agreed
    by (simp add: transaction_run_def bindM_def hardware_read value_of_stored liftM_def returnM_def
        transaction_checked_def transaction_phase_def catchM_def)
  with one two show ?thesis by auto
qed

section \<open>Preparing once\<close>

lemma keeps_value_of: "keeps (\<lambda>w. storage w = s) (value_of k)"
  by (simp add: keeps_def valid_def value_of_def)

lemma storage_free_keeps_storage: "storage_free m \<Longrightarrow> keeps (\<lambda>w. storage w = s) m"
  using storage_free_keeps [of m]
  by (auto simp: keeps_def valid_def split: prod.splits sum.splits) (metis snd_conv)+

lemma collect_keeps_storage: "keeps (\<lambda>w. storage w = s) (collect_state value_of t)"
proof -
  have "keeps (\<lambda>w. storage w = s) (collect_items value_of ks state)" for ks state
  proof (induction ks arbitrary: state)
    case Nil
    show ?case unfolding collect_items.simps by (intro storage_free_keeps_storage storage_rules)
  next
    case (Cons k ks)
    then show ?case
      unfolding collect_items.simps by (intro keeps_bind [OF keeps_value_of])
  qed
  then show ?thesis
    unfolding collect_state_def
    by (rule keeps_bind) (intro storage_free_keeps_storage storage_rules)
qed

lemma prepare_keeps_storage: "keeps (\<lambda>w. storage w = s) (prepare_phase os fr show c ps t)"
  unfolding prepare_phase_def
  by (intro keeps_bind keeps_if keeps_value_of collect_keeps_storage storage_free_keeps_storage storage_rules)

text \<open>
  C18. A transaction is prepared at most once: after any run of the prepare phase that got past
  the checks of its fields, successful or not, the transaction id stays in the storage, and every
  further prepare phase refuses at once, without touching a file or starting a command.
\<close>

theorem transaction_is_prepared_once:
  assumes "is_prepare c" and "\<not> fields_absent c []" and "fresh os (clock w) \<noteq> []"
    and "transaction_run os fr show c w = (r, w')"
  shows "transaction_run os' fr show c w' =
    (Inr (Some (''Arach transaction already exists'', ''Refusing to overwrite its journal'')), w')"
proof -
  have not_commit: "\<not> is_commit c" using assms(1) by (auto simp: is_commit_def is_prepare_def)
  then have absent: "fields_absent c hardware = fields_absent c []" for hardware
    by (simp add: fields_absent_def)
  have refuses: "transaction_run os'' fr show c v =
      (Inr (Some (''Arach transaction already exists'', ''Refusing to overwrite its journal'')), v)"
    if "truthy (stored v ''arachTransactionId'')" for os'' v
    using that assms(1,2) not_commit absent
    by (simp add: transaction_run_def transaction_checked_def bindM_def value_of_stored returnM_def)
  have "truthy (stored w' ''arachTransactionId'')"
  proof (cases "truthy (stored w ''arachTransactionId'')")
    case True
    with refuses [OF True] assms(4) show ?thesis by simp
  next
    case False
    let ?t = "fresh os (clock w)"
    let ?w = "w\<lparr>clock := Suc (clock w), storage := (storage w)(''arachTransactionId'' \<mapsto> PStr ?t)\<rparr>"
    have "keeps (\<lambda>v. storage v = storage ?w) (transaction_phase os fr show c hardware (PStr ?t))" for hardware
      unfolding transaction_phase_def if_P [OF assms(1)]
      by (intro keeps_if keeps_bind keeps_catch prepare_keeps_storage keeps_basic)
        (auto split: exn.split intro: keeps_basic)
    moreover have "transaction_phase os fr show c
        (map (\<lambda>(key, configured, name). field c configured) hardware_keys) (PStr ?t) ?w = (r, w')"
      using assms False not_commit absent
      by (simp add: transaction_run_def transaction_checked_def bindM_def value_of_stored
          new_transaction_id_def insert_value_def)
    ultimately have "storage w' = storage ?w" by (rule keepsD) simp
    with assms(3) show ?thesis by (simp add: stored_def)
  qed
  then show ?thesis by (rule refuses)
qed

end
