(* ===== verification/TransactionState.thy ===== *)
theory TransactionState
  imports TransactionProps Calm
begin

text \<open>
  The state file of a transaction is replaced as a whole (\<open>atomic_json_is_atomic\<close>), and concrete
  commits for the witnesses of the transaction job.
\<close>

section \<open>The state file\<close>

lemma abspath_plain: "''..'' \<notin> set d \<Longrightarrow> abspath (abs_path d) = abs_path d"
proof -
  have "fold (\<lambda>c cs. if c = ''..'' then butlast cs else cs @ [c]) d acc = acc @ d"
    if "''..'' \<notin> set d" for acc
    using that by (induction d arbitrary: acc) auto
  then show "''..'' \<notin> set d \<Longrightarrow> abspath (abs_path d) = abs_path d"
    by (simp add: abspath_def abs_path_def)
qed

text \<open>The temporary file has a name of its own in the directory.\<close>

definition temporary_at ::
    "string list \<Rightarrow> fs \<Rightarrow> string \<Rightarrow> string list \<Rightarrow> pure_path \<Rightarrow> string \<Rightarrow> bool" where
  "temporary_at d F c q p t \<longleftrightarrow>
     t \<noteq> c \<and> q = d @ [t] \<and> p = abs_path (d @ [t]) \<and> F (d @ [t]) = None"

definition intact :: "(pyfloat \<Rightarrow> string) \<Rightarrow> pyval \<Rightarrow> string list \<Rightarrow> string \<Rightarrow> fs \<Rightarrow> world \<Rightarrow> bool" where
  "intact fr v d c F w \<longleftrightarrow> (\<exists>t. t \<noteq> c \<and> whole fr v d c t F w)"

lemma area_intact:
  assumes "area d F w"
  shows "intact fr v d c F w"
proof -
  have "c @ ''.'' \<noteq> c" by simp
  with assms show ?thesis unfolding intact_def whole_def half_written_def by blast
qed

lemma mkstemp_area:
  assumes rely: "undisturbed os d" and plain: "plain_dirs F d"
    and names: "CHR ''/'' \<notin> set c" "\<And>n. CHR ''/'' \<notin> set (fresh os n)"
  shows "valid (area d F)
    (mkstemp_call os (''.'' @ path_name (abs_path (d @ [c])) @ ''.'') (parent (abs_path (d @ [c]))))
    (\<lambda>(q, p) w. \<exists>t. temporary_at d F c q p t \<and> area d (F(d @ [t] \<mapsto> Regular [] True)) w)
    (\<lambda>e. intact fr v d c F)"
proof -
  let ?name = "\<lambda>n. (''.'' @ c @ ''.'') @ fresh os n"
  have named: "join (abspath (parent (abs_path (d @ [c]))))
      ((''.'' @ path_name (abs_path (d @ [c])) @ ''.'') @ fresh os n) = abs_path (d @ [?name n])" for n
  proof -
    have "''..'' \<notin> set d" using plain by (simp add: plain_dirs_def)
    moreover have "path_name (abs_path (d @ [c])) = c" by (simp add: path_name_def abs_path_def)
    ultimately show ?thesis
      using join_name [of "?name n" d] names by (simp add: abspath_plain)
  qed
  have "valid (area d F) (bindM (create_call os (abs_path (d @ [?name n])))
      (\<lambda>q. returnM (q, abs_path (d @ [?name n]))))
    (\<lambda>(q, p) w. \<exists>t. temporary_at d F c q p t \<and> area d (F(d @ [t] \<mapsto> Regular [] True)) w)
    (\<lambda>e. intact fr v d c F)" for n
  proof -
    have "length (?name n) > length c" by simp
    then have "?name n \<noteq> c" by (metis less_irrefl)
    then have "valid (\<lambda>w. (q = d @ [?name n] \<and> F (d @ [?name n]) = None) \<and>
        area d (F(d @ [?name n] \<mapsto> Regular [] True)) w)
      (returnM (q, abs_path (d @ [?name n])))
      (\<lambda>(q, p) w. \<exists>t. temporary_at d F c q p t \<and> area d (F(d @ [t] \<mapsto> Regular [] True)) w)
      (\<lambda>e. intact fr v d c F)" for q
      by (intro valid_return) (auto simp: temporary_at_def)
    moreover have "valid (area d F) (create_call os (abs_path (d @ [?name n])))
      (\<lambda>q w. (q = d @ [?name n] \<and> F (d @ [?name n]) = None) \<and>
         area d (F(d @ [?name n] \<mapsto> Regular [] True)) w) (\<lambda>e. intact fr v d c F)"
      by (rule valid_conseq [OF area_create [OF rely plain]]) (auto intro: area_intact)
    ultimately show ?thesis by (rule valid_bind [rotated])
  qed
  then show ?thesis
    unfolding valid_def mkstemp_call_def Let_def named by (intro allI) (rule spec)
qed

lemma replacing_area:
  assumes "undisturbed os d" and "plain_dirs F d" and "calm_in d m"
  shows "valid (\<lambda>w. \<exists>t. temporary_at d F c q p t \<and> area d (F(d @ [t] \<mapsto> Regular [] True)) w)
    (catchM (bindM m (\<lambda>u. write_document os fr (abs_path (d @ [c])) v q p)) (discard_temporary os p))
    (\<lambda>u w. \<exists>G. written fr v d c F G \<and> area d G w) (\<lambda>e. intact fr v d c F)"
proof (rule valid_ex, rule valid_fact)
  fix t
  assume t: "temporary_at d F c q p t"
  then have "F (d @ [t]) = None" "t \<noteq> c" by (simp_all add: temporary_at_def)
  from write_document_atomic [OF assms(1,2) this assms(3)] t
  show "valid (area d (F(d @ [t] \<mapsto> Regular [] True)))
    (catchM (bindM m (\<lambda>u. write_document os fr (abs_path (d @ [c])) v q p)) (discard_temporary os p))
    (\<lambda>u w. \<exists>G. written fr v d c F G \<and> area d G w) (\<lambda>e. intact fr v d c F)"
    unfolding temporary_at_def intact_def
    by (elim conjE, hypsubst) (rule valid_conseq, assumption, auto)
qed

text \<open>What the two outcomes mean for the tree.\<close>

lemma written_tree:
  "written fr v d c F G \<Longrightarrow> area d G w \<Longrightarrow>
     \<exists>body. json_dumps fr v = Inr body \<and>
       (\<forall>q. near d q \<longrightarrow> tree w q = (F(d @ [c] \<mapsto> Regular (body @ [CHR 0x0A]) True)) q)"
  by (auto simp: written_def area_def same_area_def)

lemma intact_tree:
  "intact fr v d c F w \<Longrightarrow> tree w (d @ [c]) = F (d @ [c]) \<or>
     (\<exists>body. json_dumps fr v = Inr body \<and>
        tree w (d @ [c]) = Some (Regular (body @ [CHR 0x0A]) True))"
  by (auto simp: intact_def whole_def half_written_def written_def area_at)

text \<open>
  C13. The state file is replaced as a whole. Let its directory exist, reached without links and
  not changed by others while the file is written. When the writer returns, the file holds the
  document in canonical form with a final newline, and nothing else in the directory has changed:
  no temporary file is left. When it raises, whatever call failed, the file is the old one,
  untouched, or holds the whole new document; a partial text is never seen under its name.
\<close>

theorem atomic_json_is_atomic:
  assumes "undisturbed os d" and "plain_dirs (tree w) d" and "d \<noteq> []"
    and "CHR ''/'' \<notin> set c" and "\<And>n. CHR ''/'' \<notin> set (fresh os n)"
    and "atomic_json os fr (abs_path (d @ [c])) v mode w = (r, w')"
  shows "case r of
      Inr u \<Rightarrow> \<exists>body. json_dumps fr v = Inr body \<and>
        (\<forall>q. near d q \<longrightarrow> tree w' q = ((tree w)(d @ [c] \<mapsto> Regular (body @ [CHR 0x0A]) True)) q)
    | Inl e \<Rightarrow> tree w' (d @ [c]) = tree w (d @ [c]) \<or>
        (\<exists>body. json_dumps fr v = Inr body \<and>
           tree w' (d @ [c]) = Some (Regular (body @ [CHR 0x0A]) True))"
proof -
  let ?F = "tree w" and ?path = "abs_path (d @ [c])"
  have whole: "valid (area d ?F) (atomic_json os fr ?path v mode)
      (\<lambda>u w'. \<exists>G. written fr v d c ?F G \<and> area d G w') (\<lambda>e. intact fr v d c ?F)"
  proof -
    have dirs: "valid (area d ?F) (mkdirs os (parent ?path) 448) (\<lambda>u. area d ?F)
        (\<lambda>e. intact fr v d c ?F)"
      unfolding parent_abs
      by (rule valid_conseq [OF mkdirs_existing [OF assms(1-3)]]) (auto intro: area_intact)
    have mode: "valid (area d ?F) (chmod_call os (parent ?path) 448) (\<lambda>u. area d ?F)
        (\<lambda>e. intact fr v d c ?F)"
      by (rule valid_conseq [OF calm_valid [OF calm_calls(3) [OF assms(1)]]]) (auto intro: area_intact)
    show ?thesis
      unfolding atomic_json_def
      apply (rule valid_bind, rule dirs)
      apply (rule valid_bind, rule mode)
      apply (rule valid_bind, rule mkstemp_area [OF assms(1,2,4,5)])
      apply (simp only: split_paired_all prod.case)
      apply (rule replacing_area [OF assms(1,2) calm_calls(4) [OF assms(1)]])
      done
  qed
  have "area d ?F w" by (simp add: area_def same_area_def)
  with whole assms(6) have outcome: "case r of
      Inr u \<Rightarrow> \<exists>G. written fr v d c ?F G \<and> area d G w' | Inl e \<Rightarrow> intact fr v d c ?F w'"
    unfolding valid_def by (cases r) fastforce+
  show ?thesis
  proof (cases r)
    case (Inl e)
    with outcome intact_tree show ?thesis by simp
  next
    case (Inr u)
    with outcome obtain G where "written fr v d c ?F G" "area d G w'" by auto
    from written_tree [OF this] Inr show ?thesis by simp
  qed
qed

section \<open>Concrete jobs\<close>

definition commit_settings :: pyval where
  "commit_settings =
     PDict [(''phase'', PStr ''commit''), (''executable'', PStr ''/usr/libexec/arach-install''),
       (''runtimeDirectory'', PStr ''/run/arach-installer''),
       (''generationSource'', PStr ''/system.gen''), (''bootBundleSource'', PStr ''/boot-bundle'')]"

definition prepare_settings :: pyval where
  "prepare_settings =
     PDict [(''phase'', PStr ''prepare''), (''executable'', PStr ''/usr/libexec/arach-install''),
       (''runtimeDirectory'', PStr ''/run/arach-installer''),
       (''generationSource'', PStr ''/system.gen''), (''bootBundleSource'', PStr ''/boot-bundle'')]"

definition commit_storage :: "string \<Rightarrow> pyval option" where
  "commit_storage =
     [''arachTransactionId'' \<mapsto> PStr ''0f'', ''rootMountPoint'' \<mapsto> PStr ''/mnt'',
      ''arachHardwareCatalogRoot'' \<mapsto> PStr ''/etc/arach/hwd'',
      ''arachHardwareProfiles'' \<mapsto> PStr ''/etc/arach/hwd/profiles'',
      ''arachHardwareKeyring'' \<mapsto> PStr ''/etc/arach/hwd/keys.toml'',
      ''arachHardwareCatalogLock'' \<mapsto> PStr ''/etc/arach/hwd/catalog.lock'',
      ''arachHardwareBinaryIndex'' \<mapsto> PStr ''/etc/arach/hwd/packages.toml'',
      ''arachHardwareBinarySignature'' \<mapsto> PStr ''/etc/arach/hwd/packages.toml.sig'',
      ''password'' \<mapsto> PStr ''hunter2'']"

definition bare_world :: "(string \<Rightarrow> pyval option) \<Rightarrow> world" where
  "bare_world s = \<lparr>tree = (\<lambda>q. None), modes = (\<lambda>q. 493), storage = s, clock = 0, trace = []\<rparr>"

definition no_show :: "pyval \<Rightarrow> string" where
  "no_show v = []"

definition plain_floats :: "pyfloat \<Rightarrow> string" where
  "plain_floats x = []"

lemma transaction_ignores_secrets_witness:
  "\<exists>s' r w'. transaction_run calm plain_floats no_show commit_settings (bare_world commit_storage) = (r, w') \<and>
     transaction_run calm plain_floats no_show commit_settings
       ((bare_world commit_storage)\<lparr>storage := commit_storage(''password'' := None)\<rparr>) =
       (r, w'\<lparr>storage := s'\<rparr>)"
proof -
  obtain r w' where run: "transaction_run calm plain_floats no_show commit_settings
      (bare_world commit_storage) = (r, w')" by fastforce
  have "\<forall>k. k \<notin> set secret_keys \<longrightarrow>
      (commit_storage(''password'' := None)) k = storage (bare_world commit_storage) k"
    by (simp add: secret_keys_def bare_world_def)
  from transaction_ignores_secrets [OF this run] run show ?thesis by blast
qed

lemma transaction_commit_protocol_witness:
  "\<exists>es ps r. fst (transaction_run calm plain_floats no_show commit_settings (bare_world commit_storage)) = r \<and>
     (r = Inr None \<longleftrightarrow> commit_done
       (apply_command no_show commit_settings ps (PStr ''/mnt'')
         (hardware_of commit_settings (bare_world commit_storage)))
       (target_command no_show commit_settings ps (PStr ''/mnt'') ''verify'') es)"
proof -
  obtain r w' where run: "transaction_run calm plain_floats no_show commit_settings
      (bare_world commit_storage) = (r, w')" by fastforce
  have "is_commit commit_settings" by (simp add: is_commit_def commit_settings_def)
  moreover have "stored (bare_world commit_storage) ''rootMountPoint'' = PStr ''/mnt''"
    by (simp add: stored_def bare_world_def commit_storage_def)
  ultimately show ?thesis
    using transaction_commit_protocol [OF _ run] run by fastforce
qed

lemma commit_hardware:
  "hardware_of commit_settings (bare_world commit_storage) =
     [PStr ''/etc/arach/hwd/profiles'', PStr ''/etc/arach/hwd/keys.toml'',
      PStr ''/etc/arach/hwd/catalog.lock'', PStr ''/etc/arach/hwd/packages.toml'',
      PStr ''/etc/arach/hwd/packages.toml.sig'']"
  by (simp add: hardware_of_def hardware_keys_def stored_def bare_world_def commit_storage_def py_or_def)

definition commit_paths :: transaction_paths where
  "commit_paths =
     (let dir = (\<lambda>cs. abs_path ([''run'', ''arach-installer'', ''0f''] @ cs))
      in \<lparr>base = dir [], state_json = dir [''state.json''], plan_json = dir [''plan.json''],
          journal_json = dir [''journal.json'']\<rparr>)"

lemma commit_paths: "paths (field commit_settings ''runtimeDirectory'') (PStr ''0f'') = Inr commit_paths"
  by code_simp

lemma commit_command_ok:
  "command_ok (apply_command no_show commit_settings commit_paths (PStr ''/mnt'')
     [PStr ''/etc/arach/hwd/profiles'', PStr ''/etc/arach/hwd/keys.toml'',
      PStr ''/etc/arach/hwd/catalog.lock'', PStr ''/etc/arach/hwd/packages.toml'',
      PStr ''/etc/arach/hwd/packages.toml.sig''])"
  by code_simp

lemma transaction_commit_completes_witness:
  "\<exists>w'. transaction_run calm plain_floats no_show commit_settings (bare_world commit_storage) =
     (Inr None, w')"
proof -
  let ?w = "bare_world commit_storage" and ?c = commit_settings
  have stored: "stored ?w ''arachTransactionId'' = PStr ''0f''" "stored ?w ''rootMountPoint'' = PStr ''/mnt''"
    "stored ?w ''arachHardwareCatalogRoot'' = PStr ''/etc/arach/hwd''"
    by (simp_all add: stored_def bare_world_def commit_storage_def)
  have commit: "is_commit ?c" by (simp add: is_commit_def commit_settings_def)
  have fields: "\<not> fields_absent ?c (hardware_of ?c ?w)"
    unfolding commit_hardware using commit by (simp add: fields_absent_def commit_settings_def)
  have catalog: "catalog_matches (PStr ''/etc/arach/hwd'') (hardware_of ?c ?w)"
    unfolding commit_hardware catalog_matches_def
    by (simp add: Path_def join_def is_absolute_def)
  show ?thesis
    using transaction_commit_completes [OF commit fields _ _ _ _ refl refl, of commit_paths no_show
        calm plain_floats]
      stored catalog commit_paths commit_command_ok commit_hardware
    by (auto simp: calm_def)
qed

lemma transaction_is_prepared_once_witness:
  "\<exists>w'. w' = snd (transaction_run calm plain_floats no_show prepare_settings (bare_world (\<lambda>k. None))) \<and>
     transaction_run calm plain_floats no_show prepare_settings w' =
       (Inr (Some (''Arach transaction already exists'', ''Refusing to overwrite its journal'')), w')"
proof -
  have prepare: "is_prepare prepare_settings" by (simp add: is_prepare_def prepare_settings_def)
  have fields: "\<not> fields_absent prepare_settings []"
    using prepare by (simp add: fields_absent_def is_commit_def prepare_settings_def)
  have "fresh calm (clock (bare_world (\<lambda>k. None))) \<noteq> []" by (simp add: calm_def)
  from transaction_is_prepared_once [OF prepare fields this surjective_pairing] show ?thesis by blast
qed

definition state_world :: world where
  "state_world = (bare_world (\<lambda>k. None))\<lparr>tree := [[''run''] \<mapsto> Directory]\<rparr>"

lemma atomic_json_is_atomic_witness:
  "\<exists>r w'. atomic_json calm plain_floats (abs_path ([''run''] @ [''state.json''])) (PInt 1) 384 state_world =
     (r, w') \<and> (case r of
      Inr u \<Rightarrow> tree w' [''run'', ''state.json''] = Some (Regular [CHR ''1'', CHR 0x0A] True)
    | Inl e \<Rightarrow> tree w' [''run'', ''state.json''] = None \<or>
        tree w' [''run'', ''state.json''] = Some (Regular [CHR ''1'', CHR 0x0A] True))"
proof -
  obtain r w' where run: "atomic_json calm plain_floats (abs_path ([''run''] @ [''state.json'']))
      (PInt 1) 384 state_world = (r, w')" by fastforce
  have one: "int_str 1 = ''1''" by code_simp
  have rely: "undisturbed calm [''run'']" by (simp add: undisturbed_def calm_def)
  have dirs: "plain_dirs (tree state_world) [''run'']"
    using plain_dirs_snoc [of "tree state_world" "[]" "''run''"] by (simp add: state_world_def bare_world_def)
  have name: "CHR ''/'' \<notin> set ''state.json''" "\<And>n. CHR ''/'' \<notin> set (fresh calm n)"
    by (simp_all add: calm_def)
  have none: "tree state_world [''run'', ''state.json''] = None"
    by (simp add: state_world_def bare_world_def)
  have "near [''run''] [''run'', ''state.json'']" by (simp add: near_def)
  then have "case r of
      Inr u \<Rightarrow> tree w' [''run'', ''state.json''] = Some (Regular [CHR ''1'', CHR 0x0A] True)
    | Inl e \<Rightarrow> tree w' [''run'', ''state.json''] = None \<or>
        tree w' [''run'', ''state.json''] = Some (Regular [CHR ''1'', CHR 0x0A] True)"
    using atomic_json_is_atomic [OF rely dirs _ name run] none
    by (auto simp: one split: sum.splits)
  with run show ?thesis by blast
qed

end
