(* ===== verification/PacmanRun.thy ===== *)
theory PacmanRun
  imports PacmanSample
begin

text \<open>
  The run of the package adapter on the sample installation, call by call, up to the start of
  pacman: the witness of \<open>pacman_runs_only_authorized\<close>.
\<close>

section \<open>Authorisation\<close>

lemma sample_paths:
  "tail (Path mapping_file) = [''etc'', ''arach'', ''hwd''] @ [''pacman-snapshot.toml'']"
  "tail (Path signature_file) = [''etc'', ''arach'', ''hwd''] @ [''pacman-snapshot.toml.sig'']"
  "tail (Path keyring_file) = [''etc'', ''arach'', ''hwd''] @ [''pacman-snapshot.gpg'']"
  "tail (join (Path snapshot_root) ''pacman.conf'') =
     [''etc'', ''arach'', ''hwd'', ''pacman-snapshot''] @ [''pacman.conf'']"
  "tail (join (Path snapshot_root) ''driver.pkg'') =
     [''etc'', ''arach'', ''hwd'', ''pacman-snapshot''] @ [''driver.pkg'']"
  "tail (Path plan_file) = [''run'', ''arach-installer''] @ [''hardware.plan.toml'']"
  "tail (Path receipt_file) = [''run'', ''arach-installer''] @ [''hardware.plan.verified.json'']"
  "tail (Path catalog_lock_file) = [''etc'', ''arach'', ''hwd''] @ [''catalog.lock'']"
  by code_simp+

definition staged_files :: "(string \<times> string) list" where
  "staged_files =
     [(''mapping.toml'', ''mapping''), (''mapping.toml.sig'', ''signature''),
      (''keyring.gpg'', ''keyring'')]"

lemma limits [simp]:
  "n \<le> 16 \<Longrightarrow> n \<le> max_document_bytes" "n \<le> 16 \<Longrightarrow> n \<le> chunk_bytes"
  "length sample_artifact \<le> max_document_bytes" "length sample_artifact \<le> max_archive_bytes"
  "length sample_artifact \<le> chunk_bytes" "sample_artifact \<noteq> []"
  by (simp_all add: max_document_bytes_def max_archive_bytes_def chunk_bytes_def sample_artifact_def)

lemma sample_copies:
  "runs tx_root (copy_regular calm (Path mapping_file) (abs_path (staged sample_tx ''mapping.toml''))
     max_document_bytes) (staged_tree []) (abs_path (staged sample_tx ''mapping.toml''))
     (staged_tree [(''mapping.toml'', ''mapping'')]) []"
  "runs tx_root (copy_regular calm (Path signature_file)
     (abs_path (staged sample_tx ''mapping.toml.sig'')) max_document_bytes)
     (staged_tree [(''mapping.toml'', ''mapping'')]) (abs_path (staged sample_tx ''mapping.toml.sig''))
     (staged_tree [(''mapping.toml'', ''mapping''), (''mapping.toml.sig'', ''signature'')]) []"
  "runs tx_root (copy_regular calm (Path keyring_file) (abs_path (staged sample_tx ''keyring.gpg''))
     max_document_bytes)
     (staged_tree [(''mapping.toml'', ''mapping''), (''mapping.toml.sig'', ''signature'')])
     (abs_path (staged sample_tx ''keyring.gpg'')) (staged_tree staged_files) []"
  "runs tx_root (copy_regular calm (join (Path snapshot_root) ''pacman.conf'')
     (abs_path (staged sample_tx ''pacman.conf'')) max_document_bytes) (staged_tree staged_files)
     (abs_path (staged sample_tx ''pacman.conf''))
     (staged_tree (staged_files @ [(''pacman.conf'', sample_artifact)])) []"
  "runs tx_root (copy_regular_with_digest calm (join (Path snapshot_root) ''driver.pkg'')
     (abs_path (staged sample_tx ''driver.pkg'')) max_archive_bytes)
     (staged_tree (staged_files @ [(''pacman.conf'', sample_artifact)]))
     (abs_path (staged sample_tx ''driver.pkg''), sample_digest)
     (staged_tree ((staged_files @ [(''pacman.conf'', sample_artifact)]) @
        [(''driver.pkg'', sample_artifact)])) []"
  using runs_staged_tree(2) [OF sample_paths(1) install_dirs(3), of "''mapping''" "[]"]
    runs_staged_tree(2) [OF sample_paths(2) install_dirs(3), of "''signature''" "[(''mapping.toml'', ''mapping'')]"]
    runs_staged_tree(2) [OF sample_paths(3) install_dirs(3), of "''keyring''"
      "[(''mapping.toml'', ''mapping''), (''mapping.toml.sig'', ''signature'')]"]
    runs_staged_tree(2) [OF sample_paths(4) install_dirs(4), of sample_artifact staged_files]
    runs_staged_tree(1) [OF sample_paths(5) install_dirs(4), of sample_artifact
      "staged_files @ [(''pacman.conf'', sample_artifact)]"]
  by (simp_all add: install_lookup staged_files_def sha256_sample)

lemma runs_sample_stage:
  "runs tx_root (stage_package calm (abs_path (stage_of sample_tx))
     \<lparr>archive = ''driver.pkg'', package_sha256 = sample_digest\<rparr>)
     (staged_tree (staged_files @ [(''pacman.conf'', sample_artifact)])) ()
     (staged_tree ((staged_files @ [(''pacman.conf'', sample_artifact)]) @
        [(''driver.pkg'', sample_artifact)])) ([] @ [])"
proof -
  have name: "join (abs_path (stage_of sample_tx)) ''driver.pkg'' =
      abs_path (staged sample_tx ''driver.pkg'')"
    by (rule stage_join) auto
  show ?thesis
    unfolding stage_package_def snapshot_package.simps name
    by (rule runs_bind, rule sample_copies(5)) (simp add: runs_return)
qed

definition staged_all :: "(string \<times> string) list" where
  "staged_all =
     (staged_files @ [(''pacman.conf'', sample_artifact)]) @ [(''driver.pkg'', sample_artifact)]"

lemma runs_authorize:
  "\<exists>es. runs tx_root
     (authorize_snapshot calm install_toml sample_digest (abs_path (stage_of sample_tx)))
     (staged_tree []) (sample_signed, abs_path (stage_of sample_tx)) (staged_tree staged_all) es"
proof -
  have root: "lstat (staged_tree staged_files) (Path snapshot_root) = Some Directory"
  proof -
    have "plain_dirs (staged_tree staged_files) [''etc'', ''arach'', ''hwd'']"
      using map_le_plain [OF _ install_dirs(3)] staged_tree_grown by (simp add: grown_def)
    moreover have "staged_tree staged_files [''etc'', ''arach'', ''hwd'', ''pacman-snapshot''] =
        Some Directory"
      using staged_tree_grown [of staged_files] install_directories(7)
      by (simp add: grown_def map_le_at)
    moreover have "Path snapshot_root = abs_path ([''etc'', ''arach'', ''hwd''] @ [''pacman-snapshot''])"
      by (simp add: snapshot_root_def Path_def abs_path_def)
    ultimately show ?thesis
      using lstat_entry [of "staged_tree staged_files" "[''etc'', ''arach'', ''hwd'']" "''pacman-snapshot''"]
      by simp
  qed
  have signed: "runs tx_root (verify_signature calm k s m) T () T
      [Ran [gpgv_file, ''--keyring'', path_str k, path_str s, path_str m] T True]" for k s m T
    unfolding verify_signature_def by (rule runs_catch, rule runs_checked)
  have mapping: "runs tx_root (read_regular calm (abs_path (staged sample_tx ''mapping.toml''))
      max_document_bytes) (staged_tree staged_files) ''mapping'' (staged_tree staged_files)
      [Fetched (abs_path (staged sample_tx ''mapping.toml'')) ''mapping'']"
    by (rule runs_staged_read) (simp_all add: staged_files_def max_document_bytes_def)
  have config: "runs tx_root (read_regular calm (abs_path (staged sample_tx ''pacman.conf''))
      max_document_bytes) (staged_tree (staged_files @ [(''pacman.conf'', sample_artifact)]))
      sample_artifact (staged_tree (staged_files @ [(''pacman.conf'', sample_artifact)]))
      [Fetched (abs_path (staged sample_tx ''pacman.conf'')) sample_artifact]"
    by (rule runs_staged_read) (simp_all add: limits)
  have each: "runs tx_root (eachM (stage_package calm (abs_path (stage_of sample_tx)))
      (packages sample_signed)) (staged_tree (staged_files @ [(''pacman.conf'', sample_artifact)]))
      () (staged_tree staged_all) (([] @ []) @ [])"
    unfolding sample_signed_def signed_snapshot.simps eachM.simps staged_all_def
    by (rule runs_bind, rule runs_sample_stage, rule runs_return)
  have plan: "\<not> plan_sha256 sample_signed \<noteq> sample_digest"
    and digest: "\<not> sha256_hex sample_artifact \<noteq> pacman_config_sha256 sample_signed"
    by (simp_all add: sample_signed_def sha256_sample)
  show ?thesis
    unfolding authorize_snapshot_def stage_names
    by (rule exI, rule runs_bind, rule sample_copies(1), rule runs_bind, rule sample_copies(2),
        rule runs_bind, rule sample_copies(3), rule runs_bind, rule signed, rule runs_bind,
        rule mapping, rule runs_bind, rule runs_lift, rule sample_snapshot_parsed, rule runs_if,
        rule plan, rule runs_bind, rule runs_real_directory, rule root, rule runs_bind,
        rule sample_copies(4), rule runs_bind, rule config, rule runs_if, rule digest,
        rule runs_bind, rule each, rule runs_return)
qed

section \<open>Staging\<close>

lemma runs_live_read:
  assumes "tail p = r @ [c]" and "plain_dirs install_tree r" and "c \<noteq> ''..''"
    and "install_tree (r @ [c]) = Some (Regular x True)" and "0 < length x"
    and "length x \<le> max_document_bytes"
  shows "runs d (read_regular calm p max_document_bytes) install_tree x install_tree [Fetched p x]"
proof -
  have "grown install_tree" by (simp add: grown_def)
  from grown_walk [OF this assms(2-4)] show ?thesis
    by (intro runs_read_regular [where q = "r @ [c]"]) (use assms in auto)
qed

lemma sample_receipt_read:
  "runs d (read_regular calm (Path receipt_file) max_document_bytes) install_tree receipt_text
     install_tree [Fetched (Path receipt_file) receipt_text]"
  by (rule runs_live_read [OF sample_paths(7) install_dirs(1)])
    (simp_all add: install_lookup receipt_length max_document_bytes_def del: length_greater_0_conv)

lemma sample_plan_read:
  "runs d (read_regular calm (Path plan_file) max_document_bytes) install_tree sample_artifact
     install_tree [Fetched (Path plan_file) sample_artifact]"
  by (rule runs_live_read [OF sample_paths(6) install_dirs(1)])
    (simp_all add: install_lookup)

lemma sample_lock_read:
  "runs d (read_regular calm (Path catalog_lock_file) max_document_bytes) install_tree
     sample_artifact install_tree [Fetched (Path catalog_lock_file) sample_artifact]"
  by (rule runs_live_read [OF sample_paths(8) install_dirs(3)])
    (simp_all add: install_lookup)

lemma sample_id_ok: "runs d (check_transaction_id (PStr sample_tx)) T () T []"
proof -
  have "str_that (\<lambda>s. length s = 32 \<and> list_all (\<lambda>c. c \<in> set hex_chars) s) (PStr sample_tx)"
    by (simp add: sample_tx_def hex_chars_def)
  then show ?thesis
    unfolding check_transaction_id_def by (intro runs_if runs_return) simp
qed

lemma sample_private:
  "runs tx_root (require_private_directory calm (abs_path tx_root)) install_tree () install_tree
     ([] @ [] @ [])"
proof -
  have entry: "lstat install_tree (abs_path tx_root) = Some Directory"
    using lstat_entry [OF install_dirs(1), of sample_tx] install_directories(4)
    by (simp add: sample_tx_other)
  have located: "locate install_tree (abs_path tx_root) = Some tx_root"
    using walk_plain_dirs [of install_tree "[]" tx_root True max_links "[]"] install_dirs(2)
    by (simp add: locate_def abs_path_def)
  show ?thesis
    unfolding require_private_directory_def
    by (rule runs_bind, rule runs_real_directory, rule entry, rule runs_bind, rule runs_mode,
        rule located) (simp_all add: node_at_def install_directories runs_return)
qed

lemma sample_stage_made:
  "runs tx_root (make_private_directory calm (abs_path (stage_of sample_tx))) install_tree ()
     (staged_tree []) []"
proof -
  have "place install_tree (abs_path (stage_of sample_tx)) = Some (stage_of sample_tx)"
    using place_entry [OF install_dirs(2)] by (simp add: stage_of_def runtime_area_def)
  then have "runs tx_root (mkdir_call calm (abs_path (stage_of sample_tx)) 448) install_tree ()
      (install_tree(stage_of sample_tx \<mapsto> Directory)) []"
    by (rule runs_mkdir) (use install_stage_empty in \<open>simp_all add: stage_of_def runtime_area_def\<close>)
  then show ?thesis
    unfolding make_private_directory_def staged_tree_def by (intro runs_report) simp
qed

lemma runs_stage_and_authorize:
  "\<exists>es. runs tx_root
     (stage_and_authorize calm install_json install_toml no_floats (PStr sample_tx)) install_tree
     (sample_signed, abs_path (stage_of sample_tx)) (staged_tree staged_all) es"
proof -
  obtain es where rest: "runs tx_root
     (authorize_snapshot calm install_toml sample_digest (abs_path (stage_of sample_tx)))
     (staged_tree []) (sample_signed, abs_path (stage_of sample_tx)) (staged_tree staged_all) es"
    using runs_authorize by blast
  have path: "join (Path runtime_root) (str_of (PStr sample_tx)) = abs_path tx_root"
    "join (abs_path tx_root) ''pacman-snapshot'' = abs_path (stage_of sample_tx)"
    using runtime_join [of sample_tx] join_name [of "''pacman-snapshot''" tx_root]
    by (simp_all add: stage_of_def runtime_area_def sample_tx_def)
  show ?thesis
    unfolding stage_and_authorize_def path
    by (rule exI, rule runs_bind, rule sample_id_ok, rule runs_bind, rule sample_plan_read,
        rule runs_bind, rule sample_receipt_read, rule runs_bind, rule sample_lock_read,
        rule runs_bind, rule runs_lift, rule sample_plan_verified, rule runs_bind,
        rule sample_private, rule runs_bind, rule sample_stage_made, rule rest)
qed

section \<open>Execution\<close>

definition sample_command :: "string list" where
  "sample_command = pacman_arguments (abs_path ([] @ [''mnt''])) (abs_path (stage_of sample_tx)) sample_signed"

lemma runs_sample_execute:
  "\<exists>es. runs tx_root (execute_pacman calm (Path ''/mnt'') sample_signed
     (abs_path (stage_of sample_tx))) (staged_tree staged_all) () (staged_tree staged_all)
     (es @ [Ran sample_command (staged_tree staged_all) True])"
proof -
  have target: "Path ''/mnt'' = abs_path ([] @ [''mnt''])"
    by (simp add: Path_def abs_path_def)
  have mounted: "lstat (staged_tree staged_all) (abs_path ([] @ [''mnt''])) = Some Directory"
  proof -
    have "staged_tree staged_all ([] @ [''mnt'']) = Some Directory"
      using staged_tree_grown [of staged_all] install_lookup(9) by (simp add: grown_def map_le_at)
    then show ?thesis by (subst lstat_entry) simp_all
  qed
  have stage: "lstat (staged_tree staged_all) (abs_path (stage_of sample_tx)) = Some Directory"
  proof -
    have dirs: "plain_dirs (staged_tree staged_all) (tx_root @ [''pacman-snapshot''])"
      using staged_tree_dirs [of staged_all] by (simp add: stage_of_def runtime_area_def)
    have "lstat (staged_tree staged_all) (abs_path (tx_root @ [''pacman-snapshot''])) =
        staged_tree staged_all (tx_root @ [''pacman-snapshot''])"
      by (rule lstat_entry [OF plain_dirs_prefix [OF dirs]]) simp
    also have "\<dots> = Some Directory"
      using dirs unfolding plain_dirs_def by (auto dest: spec [of _ "4 :: nat"])
    finally show ?thesis by (simp add: stage_of_def runtime_area_def)
  qed
  have proper: "\<not> (\<not> is_absolute (abs_path ([] @ [''mnt''])) \<or> abs_path ([] @ [''mnt'']) = Path ''/'')"
    by (simp add: is_absolute_def abs_path_def Path_def)
  have accepted: "runs tx_root (require_target calm (abs_path ([] @ [''mnt'']))) (staged_tree staged_all) ()
      (staged_tree staged_all) []"
    unfolding require_target_def
    by (rule runs_if, rule proper, rule runs_real_directory, rule mounted)
  have some: "\<not> packages sample_signed = []" by (simp add: sample_signed_def)
  have "runs tx_root (pacman_command calm (abs_path ([] @ [''mnt''])) (abs_path (stage_of sample_tx))
      sample_signed) (staged_tree staged_all) sample_command (staged_tree staged_all) ([] @ [] @ [])"
    unfolding pacman_command_def sample_command_def
    by (rule runs_bind, rule accepted, rule runs_bind,
        rule runs_real_directory, rule stage, rule runs_if, rule some, rule runs_return)
  then show ?thesis
    unfolding execute_pacman_def target
    by (intro exI) (rule runs_bind, assumption, rule runs_catch, rule runs_checked)
qed

lemma sample_pacman_starts:
  "\<exists>r w'. pacman_run calm install_json install_toml no_floats pacman_enabled install_world = (r, w') \<and>
     Ran sample_command (staged_tree staged_all) True \<in> set (trace w')"
proof -
  obtain es where stage: "runs tx_root
      (stage_and_authorize calm install_json install_toml no_floats (PStr sample_tx)) install_tree
      (sample_signed, abs_path (stage_of sample_tx)) (staged_tree staged_all) es"
    using runs_stage_and_authorize by blast
  obtain fs where execute: "runs tx_root (execute_pacman calm (Path ''/mnt'') sample_signed
      (abs_path (stage_of sample_tx))) (staged_tree staged_all) () (staged_tree staged_all)
      (fs @ [Ran sample_command (staged_tree staged_all) True])"
    using runs_sample_execute by blast
  have "tree install_world = install_tree" "modes install_world tx_root = 448"
    by (simp_all add: install_world_def install_modes_def)
  with stage obtain w1 where w1: "stage_and_authorize calm install_json install_toml no_floats
      (PStr sample_tx) install_world = (Inr (sample_signed, abs_path (stage_of sample_tx)), w1)"
    "tree w1 = staged_tree staged_all" "modes w1 tx_root = 448"
    unfolding runs_def by fastforce
  with execute obtain w2 where w2: "execute_pacman calm (Path ''/mnt'') sample_signed
      (abs_path (stage_of sample_tx)) w1 = (Inr (), w2)"
    "trace w2 = trace w1 @ fs @ [Ran sample_command (staged_tree staged_all) True]"
    unfolding runs_def by fastforce
  have keys: "''arachHardwarePlan'' \<noteq> ''arachHardwarePlanReceipt''" by simp
  have stored: "storage install_world ''arachHardwarePlan'' = Some (PStr plan_file)"
    "storage install_world ''arachHardwarePlanReceipt'' = Some (PStr receipt_file)"
    "storage install_world ''rootMountPoint'' = Some (PStr ''/mnt'')"
    "storage install_world ''arachTransactionId'' = Some (PStr sample_tx)"
    by (simp_all add: install_world_def install_storage_def)
  have enabled: "has_fields [''enabled''] pacman_enabled"
    "field pacman_enabled ''enabled'' = PBool True"
    by (simp_all add: pacman_enabled_def)
  show ?thesis
    unfolding pacman_run_def
    by (simp add: enabled bindM_def value_of_def stored catchM_def w1 w2 insert_value_def
        returnM_def)
qed

text \<open>The claim at the sample installation.\<close>

lemma pacman_runs_only_authorized_witness:
  "\<exists>target snapshot t. sample_command = pacman_arguments target (abs_path (stage_of sample_tx)) snapshot \<and>
     packages snapshot \<noteq> [] \<and> staged_package sample_tx t (hd (packages snapshot))"
proof -
  obtain r w' where run: "pacman_run calm install_json install_toml no_floats pacman_enabled
      install_world = (r, w')"
    and ran: "Ran sample_command (staged_tree staged_all) True \<in> set (trace w')"
    using sample_pacman_starts by blast
  have rely: "undisturbed calm (runtime_area sample_tx)"
    by (simp add: undisturbed_def calm_def)
  have "\<exists>target snapshot. sample_command =
      pacman_arguments target (abs_path (stage_of sample_tx)) snapshot \<and> packages snapshot \<noteq> [] \<and>
      authorized install_toml sample_tx (staged_tree staged_all) (set (trace w')) snapshot \<and>
      plan_verified install_json no_floats (set (trace w')) (plan_sha256 snapshot)"
  proof (rule pacman_runs_only_authorized [OF rely _ _ _ run ran])
    show "storage install_world ''arachTransactionId'' = Some (PStr sample_tx)"
      by (simp add: install_world_def install_storage_def)
    show "plain_dirs (tree install_world) [''run'', ''arach-installer'']"
      using install_dirs(1) by (simp add: install_world_def)
    show "trace install_world = []" by (simp add: install_world_def)
    show "sample_command \<noteq> []" "hd sample_command = pacman_file"
      by (simp_all add: sample_command_def pacman_arguments_def)
  qed
  then show ?thesis unfolding authorized_def by (metis hd_in_set)
qed

end
