(* ===== verification/Installer.thy ===== *)
theory Installer
  imports HardwareRun TransactionState PacmanRun
begin

text \<open>
  The installer jobs together: what the hardware job writes and stores is what the package adapter
  and the transaction job demand.
\<close>

section \<open>The receipt\<close>

definition plain_char :: "char \<Rightarrow> bool" where
  "plain_char c \<longleftrightarrow> (let n = of_char c :: nat in 35 \<le> n \<and> n < 127 \<and> n \<noteq> 92)"

lemma escape_plain:
  assumes "list_all plain_char s"
  shows "json_string s = CHR 0x22 # s @ [CHR 0x22]"
proof -
  have point: "utf8_points (b # bs) = b # utf8_points bs" if "b < 128" for b bs
    using that by simp
  have escape: "escape_point (of_char c) = [c]" if "plain_char c" for c
    using that by (simp add: plain_char_def Let_def)
  have "concat (map escape_point (utf8_points (map of_char s))) = s"
    using assms
  proof (induction s)
    case (Cons c s)
    then have "of_char c < (128 :: nat)" by (simp add: plain_char_def Let_def)
    with Cons show ?case by (simp add: point escape del: utf8_points.simps(2) escape_point.simps)
  qed simp
  then show ?thesis by (simp add: json_string_def)
qed

lemma hex_escape:
  assumes "set s \<subseteq> set hex_chars"
  shows "json_string s = CHR 0x22 # s @ [CHR 0x22]"
  by (rule escape_plain) (use assms in \<open>auto simp: list_all_iff hex_chars_def plain_char_def\<close>)

definition receipt_form :: "string \<Rightarrow> string \<Rightarrow> string" where
  "receipt_form c p =
     CHR 0x7B # CHR 0x22 # ''catalog_lock_sha256'' @ [CHR 0x22, CHR '':'', CHR 0x22] @ c @
     CHR 0x22 # CHR '','' # CHR 0x22 # ''plan_sha256'' @ [CHR 0x22, CHR '':'', CHR 0x22] @ p @
     CHR 0x22 # CHR '','' # CHR 0x22 # ''schema'' @ CHR 0x22 # '':1,'' @ CHR 0x22 # ''verifier'' @
     [CHR 0x22, CHR '':'', CHR 0x22] @ ''arach-hwd-plan'' @ [CHR 0x22, CHR 0x7D]"

lemma receipt_dumped:
  "json_dumps fr (receipt_document l p) = Inr (receipt_form (sha256_hex l) (sha256_hex p))"
proof -
  have hex: "json_string (sha256_hex x) = CHR 0x22 # sha256_hex x @ [CHR 0x22]" for x
    by (rule hex_escape) (simp add: sha256_hex_form)
  have names: "json_string ''catalog_lock_sha256'' = CHR 0x22 # ''catalog_lock_sha256'' @ [CHR 0x22]"
    "json_string ''plan_sha256'' = CHR 0x22 # ''plan_sha256'' @ [CHR 0x22]"
    "json_string ''schema'' = CHR 0x22 # ''schema'' @ [CHR 0x22]"
    "json_string ''verifier'' = CHR 0x22 # ''verifier'' @ [CHR 0x22]"
    "json_string ''arach-hwd-plan'' = CHR 0x22 # ''arach-hwd-plan'' @ [CHR 0x22]"
    "int_str 1 = ''1''"
    by code_simp+
  have ordered: "sorted (map fst [(''catalog_lock_sha256'', a :: string), (''plan_sha256'', b),
      (''schema'', d), (''verifier'', e)])" for a b d e
    by code_simp
  show ?thesis
    unfolding receipt_document_def receipt_form_def
    by (simp add: hex names sorted_sort_id [OF ordered] sort_key_def)
qed

text \<open>What the adapter makes of a receipt that its JSON parser reads back.\<close>

lemma receipt_text_valid:
  "utf8_valid (receipt_form (sha256_hex l) (sha256_hex p) @ [CHR 0x0A])" (is "utf8_valid ?s")
  "length (receipt_form (sha256_hex l) (sha256_hex p) @ [CHR 0x0A]) = 211"
proof -
  have hex: "(of_char c :: nat) < 128" if "c \<in> set (sha256_hex x)" for c x
    using that subsetD [OF sha256_hex_form [THEN conjunct2]] by (fastforce simp: hex_chars_def)
  then have "list_all (\<lambda>c. (of_char c :: nat) < 128) ?s"
    by (auto simp: receipt_form_def list_all_iff)
  then show "utf8_valid ?s"
    unfolding utf8_valid_def by (intro utf8_ascii) (simp add: list_all_iff)
  show "length ?s = 211" by (simp add: receipt_form_def sha256_hex_form)
qed

lemma receipt_accepted_iff:
  assumes raw: "raw = receipt_form (sha256_hex l) (sha256_hex p) @ [CHR 0x0A]"
    and read: "json raw = Some (receipt_document l p)"
  shows "validate_verified_plan json fr p' raw l' = Inr digest \<longleftrightarrow>
    p' \<noteq> [] \<and> length p' \<le> max_document_bytes \<and> sha256_hex p' = sha256_hex p \<and>
    sha256_hex l' = sha256_hex l \<and> digest = sha256_hex p"
proof -
  have shape: "length raw = 211" "utf8_valid raw" "raw \<noteq> []"
    using receipt_text_valid [of l p] raw by auto
  have dumped: "json_dumps fr (receipt_document l p) = Inr (receipt_form (sha256_hex l) (sha256_hex p))"
    by (rule receipt_dumped)
  have fields: "is_dict (receipt_document l p)" "has_fields [''catalog_lock_sha256'', ''plan_sha256'',
      ''schema'', ''verifier''] (receipt_document l p)"
    "field (receipt_document l p) ''schema'' = PInt 1"
    "field (receipt_document l p) ''verifier'' = PStr ''arach-hwd-plan''"
    "field (receipt_document l p) ''plan_sha256'' = PStr (sha256_hex p)"
    "field (receipt_document l p) ''catalog_lock_sha256'' = PStr (sha256_hex l)"
    by (auto simp: receipt_document_def)
  have digests: "digest_value (PStr (sha256_hex x)) n = Inr (sha256_hex x)" for x n
  proof -
    have "set hex_chars \<subseteq> set lower_hex" by code_simp
    with sha256_hex_form [of x] show ?thesis by (auto simp: digest_value_def sha256_re_iff)
  qed
  show ?thesis
    unfolding validate_verified_plan_def
    by (simp add: shape dumped fields digests read raw [symmetric] max_document_bytes_def) (metis not_le)
qed

lemma valid_uuid: "valid (area d F) (uuid_call os) (\<lambda>hex. area d F) (\<lambda>e. area d F)"
  by (auto simp: valid_def uuid_call_def)

lemma replace_receipt_atomic:
  assumes rely: "undisturbed os d" and plain: "plain_dirs F d" and "d \<noteq> []"
  shows "valid (area d F) (replace_receipt os fr (abs_path (d @ [c])) p l)
    (\<lambda>u w. \<exists>G. written fr (receipt_document l p) d c F G \<and> area d G w)
    (\<lambda>e. intact fr (receipt_document l p) d c F)"
proof -
  let ?doc = "receipt_document l p" and ?path = "abs_path (d @ [c])"
  let ?t = "\<lambda>hex. ''.'' @ c @ ''.'' @ hex @ ''.tmp''"
  have calm: "valid (area d F) m (\<lambda>u. area d F) (\<lambda>e. intact fr ?doc d c F)"
    if "valid (area d F) m (\<lambda>u. area d F) (\<lambda>e. area d F)" for m :: "'x job"
    by (rule valid_conseq [OF that]) (auto intro: area_intact)
  have named: "with_name ?path (''.'' @ path_name ?path @ ''.'' @ hex @ ''.tmp'') = abs_path (d @ [?t hex])"
    for hex
    by (simp add: with_name_def path_name_def abs_path_def)
  have swap: "valid (area d F) (bindM (create_call os (abs_path (d @ [?t hex]))) (\<lambda>q.
      catchM (write_document os fr ?path ?doc q (abs_path (d @ [?t hex])))
        (discard_temporary os (abs_path (d @ [?t hex])))))
    (\<lambda>u w. \<exists>G. written fr ?doc d c F G \<and> area d G w) (\<lambda>e. intact fr ?doc d c F)" for hex
  proof (rule valid_bind)
    let ?n = "?t hex"
    have "length ?n > length c" by simp
    then have other: "?n \<noteq> c" by (metis less_irrefl)
    have whole: "whole fr ?doc d c ?n F u \<Longrightarrow> intact fr ?doc d c F u" for u
      unfolding intact_def using other by (intro exI conjI)
    show "valid (area d F) (create_call os (abs_path (d @ [?n])))
      (\<lambda>q w. (q = d @ [?n] \<and> F (d @ [?n]) = None) \<and> area d (F(d @ [?n] \<mapsto> Regular [] True)) w)
      (\<lambda>e. intact fr ?doc d c F)"
      by (rule valid_conseq [OF area_create [OF rely plain]]) (auto intro: area_intact)
    show "valid (\<lambda>w. (q = d @ [?n] \<and> F (d @ [?n]) = None) \<and> area d (F(d @ [?n] \<mapsto> Regular [] True)) w)
      (catchM (write_document os fr ?path ?doc q (abs_path (d @ [?n])))
        (discard_temporary os (abs_path (d @ [?n]))))
      (\<lambda>u w. \<exists>G. written fr ?doc d c F G \<and> area d G w) (\<lambda>e. intact fr ?doc d c F)" for q
    proof (rule valid_fact, elim conjE, hypsubst)
      assume new: "F (d @ [?n]) = None"
      have discarded: "valid (whole fr ?doc d c ?n F) (discard_temporary os (abs_path (d @ [?n])) e)
          (\<lambda>u w. \<exists>G. written fr ?doc d c F G \<and> area d G w) (\<lambda>e. whole fr ?doc d c ?n F)" for e
        by (rule discard_whole [OF rely plain new other])
      show "valid (area d (F(d @ [?n] \<mapsto> Regular [] True)))
          (catchM (write_document os fr ?path ?doc (d @ [?n]) (abs_path (d @ [?n])))
            (discard_temporary os (abs_path (d @ [?n]))))
          (\<lambda>u w. \<exists>G. written fr ?doc d c F G \<and> area d G w) (\<lambda>e. intact fr ?doc d c F)"
        by (rule valid_conseq [OF valid_catch [OF write_document_written [OF rely plain new other] discarded]])
          (assumption | rule whole)+
    qed
  qed
  show ?thesis
    unfolding replace_receipt_def parent_abs named Let_def
    by (rule valid_bind [OF calm [OF mkdirs_existing [OF assms]]],
        rule valid_bind [OF calm [OF calm_valid [OF calm_calls(3) [OF rely]]]],
        rule valid_bind [OF calm [OF valid_uuid]], rule swap)
qed

text \<open>
  C15. The receipt means what the adapter takes it to mean. Let the runtime directory be reached
  without links and not be changed by others while the hardware job writes its receipt. When the
  job returns, the receipt file holds a text that records the plan and the catalog lock that it
  has just read, and nothing else there has changed; and whatever JSON parser reads the text
  back, the package adapter accepts the receipt for exactly the non-empty plans within its size
  limit and the catalog locks that have the digests of those two, with the digest of that plan.
\<close>

theorem hardware_receipt_is_accepted:
  assumes "undisturbed os d" and "plain_dirs (tree w2) d" and "d \<noteq> []"
    and "read_bounded_regular os plan w = (Inr p, w1)"
    and "read_bounded_regular os lock w1 = (Inr l, w2)"
    and "write_plan_receipt os fr plan lock (abs_path (d @ [c])) w = (Inr (), w')"
  shows "\<exists>raw. (\<forall>q. near d q \<longrightarrow> tree w' q = ((tree w2)(d @ [c] \<mapsto> Regular raw True)) q) \<and>
    (\<forall>json p' l' digest. json raw = Some (receipt_document l p) \<longrightarrow>
       (validate_verified_plan json fr p' raw l' = Inr digest \<longleftrightarrow>
        p' \<noteq> [] \<and> length p' \<le> max_document_bytes \<and> sha256_hex p' = sha256_hex p \<and>
        sha256_hex l' = sha256_hex l \<and> digest = sha256_hex p))"
proof -
  have "replace_receipt os fr (abs_path (d @ [c])) p l w2 = (Inr (), w')"
    using assms(4-6) by (simp add: write_plan_receipt_def bindM_def)
  moreover have "area d (tree w2) w2" by (simp add: area_def same_area_def)
  ultimately obtain G where "written fr (receipt_document l p) d c (tree w2) G" "area d G w'"
    using replace_receipt_atomic [OF assms(1-3), of fr c p l] unfolding valid_def by fastforce
  from written_tree [OF this] obtain body where body: "json_dumps fr (receipt_document l p) = Inr body"
    and kept: "\<forall>q. near d q \<longrightarrow> tree w' q = ((tree w2)(d @ [c] \<mapsto> Regular (body @ [CHR 0x0A]) True)) q"
    by blast
  from body have "body @ [CHR 0x0A] = receipt_form (sha256_hex l) (sha256_hex p) @ [CHR 0x0A]"
    by (simp add: receipt_dumped)
  from receipt_accepted_iff [OF this] kept show ?thesis by blast
qed

lemma hardware_receipt_is_accepted_witness:
  "\<exists>w' raw. write_plan_receipt calm no_floats (Path planned_file) (Path ''/etc/arach/hwd/catalog.lock'')
       (abs_path (hw_run @ [''hardware.plan.verified.json''])) hw_world = (Inr (), w') \<and>
     tree w' hw_receipt = Some (Regular raw True)"
proof -
  let ?plan = "Path planned_file" and ?lock = "Path ''/etc/arach/hwd/catalog.lock''"
  have start: "tree hw_world = hw_tree" "modes hw_world hw_run = 448" by (simp_all add: hw_world_def)
  have rely: "undisturbed calm hw_run" by (simp add: undisturbed_def calm_def)
  from runs_hw_receipt start obtain w' where written:
    "write_plan_receipt calm no_floats ?plan ?lock (abs_path hw_receipt) hw_world = (Inr (), w')"
    unfolding runs_def by blast
  from runs_hw_plan start obtain w1 where plan:
    "read_bounded_regular calm ?plan hw_world = (Inr sample_artifact, w1)"
    "tree w1 = hw_tree" "modes w1 hw_run = 448"
    unfolding runs_def by fastforce
  from runs_hw_lock plan(2,3) obtain w2 where lock:
    "read_bounded_regular calm ?lock w1 = (Inr sample_artifact, w2)" "tree w2 = hw_tree"
    unfolding runs_def by fastforce
  from lock(2) hw_run_plain have "plain_dirs (tree w2) hw_run" by simp
  from hardware_receipt_is_accepted [OF rely this _ plan(1) lock(1) written [unfolded hw_receipt_def]]
  obtain raw where "\<forall>q. near hw_run q \<longrightarrow> tree w' q =
      ((tree w2)(hw_run @ [''hardware.plan.verified.json''] \<mapsto> Regular raw True)) q" by blast
  then have "tree w' hw_receipt = Some (Regular raw True)"
    unfolding hw_receipt_def by (simp add: near_def)
  with written show ?thesis unfolding hw_receipt_def by blast
qed

section \<open>The catalog\<close>

text \<open>The strings that are handed over denote the files below the root.\<close>

definition handed_strings :: "string \<Rightarrow> catalog \<Rightarrow> bool" where
  "handed_strings r active \<longleftrightarrow> path_str (catalog_root active) = r \<and>
     list_all2 (\<lambda>s name. s \<noteq> [] \<and> Path s = join (Path r) name)
       [path_str (profiles active), path_str (keyring active), path_str (catalog_lock active),
        path_str (binary_index active), path_str (binary_signature active)]
       [''profiles'', ''keys.toml'', ''catalog.lock'', ''packages.toml'', ''packages.toml.sig'']"

lemma measured_strings:
  assumes "measured_catalog active"
  shows "handed_strings ''/etc/arach/hwd'' active \<or> handed_strings ''/run/arach-installer/catalog'' active"
proof -
  have "case catalog_paths offline_catalog_root of
      Inr a \<Rightarrow> handed_strings ''/etc/arach/hwd'' a | Inl e \<Rightarrow> False"
    and "case catalog_paths (Path remote_catalog_root) of
      Inr a \<Rightarrow> handed_strings ''/run/arach-installer/catalog'' a | Inl e \<Rightarrow> False"
    by code_simp+
  with assms show ?thesis unfolding measured_catalog_def by (auto split: sum.splits)
qed

lemma handed_hardware:
  assumes "handover_done active w" and "handed_strings r active"
  shows "stored w ''arachHardwareCatalogRoot'' = PStr r"
    and "hardware_of c w = map PStr
      [path_str (profiles active), path_str (keyring active), path_str (catalog_lock active),
       path_str (binary_index active), path_str (binary_signature active)]"
    and "stored w ''arachHardwarePlan'' = PStr plan_file"
    and "stored w ''arachHardwarePlanReceipt'' = PStr receipt_file"
  using assms
  by (simp_all add: handover_done_def handed_over_def stored_def handed_strings_def hardware_of_def
      hardware_keys_def py_or_def planned_file_def plan_file_def planned_receipt_file_def receipt_file_def)

text \<open>
  C16. What the hardware job hands over is what the later jobs demand. After a successful run, and
  whatever configuration the transaction job has, its check of the hardware paths against the
  stored catalog root passes, none of the paths counts as absent, and the stored plan and receipt
  are the two files that the package adapter and the prepare phase read. A commit that follows is
  therefore never refused on account of the hardware paths.
\<close>

theorem hardware_hands_over_catalog:
  assumes "hardware_run os toml host_ok netloc_ok fr describe c w = (Inr None, w')"
  shows "catalog_differs (stored w' ''arachHardwareCatalogRoot'') (hardware_of configuration w') = Inr False \<and>
    list_all truthy (hardware_of configuration w') \<and>
    stored w' ''arachHardwarePlan'' = PStr plan_file \<and>
    stored w' ''arachHardwarePlanReceipt'' = PStr receipt_file"
proof -
  from hardware_run_steps [OF assms] obtain active sync_error w1 where measured: "measured_catalog active"
    and "plan_hardware os fr describe c active sync_error w1 = (Inr None, w')" by blast
  with plan_hardware_success have handed: "handover_done active w'" by blast
  from measured_strings [OF measured] obtain r where r: "r = ''/etc/arach/hwd'' \<or> r = ''/run/arach-installer/catalog''"
    and strings: "handed_strings r active" by blast
  note handed_values = handed_hardware [OF handed strings]
  have "catalog_matches (stored w' ''arachHardwareCatalogRoot'') (hardware_of configuration w')"
    using r strings unfolding handed_values(1,2) catalog_matches_def handed_strings_def by simp
  moreover have "length (hardware_of configuration w') = length hardware_keys" by (simp add: hardware_of_def)
  moreover have "list_all truthy (hardware_of configuration w')"
    using strings unfolding handed_values(2) handed_strings_def by simp
  ultimately show ?thesis
    using handed_values(3,4) by (simp add: catalog_differs_iff)
qed

lemma hardware_hands_over_catalog_witness:
  "\<exists>w'. hardware_run calm (\<lambda>s. None) (\<lambda>s. False) (\<lambda>s. False) no_floats (\<lambda>e. []) hw_settings hw_world =
     (Inr None, w') \<and>
     catalog_differs (stored w' ''arachHardwareCatalogRoot'') (hardware_of commit_settings w') = Inr False"
proof -
  from hw_world_runs obtain w' where run: "hardware_run calm (\<lambda>s. None) (\<lambda>s. False) (\<lambda>s. False)
      no_floats (\<lambda>e. []) hw_settings hw_world = (Inr None, w')" by blast
  with hardware_hands_over_catalog [OF run, of commit_settings] show ?thesis by blast
qed

end
