(* ===== verification/Markers.thy ===== *)
theory Markers
  imports Jobs Json Sha256 AtomicWrite
begin

text \<open>
  \<^verbatim>\<open>scripts/verify_marker_sequence.py\<close>: the check that the lines of a serial log match
  a sequence of regular expressions in order, the report that lists the matches as a table, and
  the evidence document about the log. \<^verbatim>\<open>re.compile\<close> on the markers, which come from
  the command line, is the parameter \<open>compile\<close> (\<open>None\<close> is \<^verbatim>\<open>re.error\<close>, otherwise
  whether a line contains a match); \<open>now\<close> is the text of the current time.
\<close>

section \<open>Reading the log\<close>

text \<open>
  Decoding with \<^verbatim>\<open>errors="replace"\<close>: the longest prefix of an encoded character that is
  broken off becomes one replacement character. \<open>follow_ups a\<close> is the number of bytes that follow
  the first byte \<open>a\<close> of a character (0: no character starts with it), \<open>matched a bs\<close> how many of
  them are there.
\<close>

definition follow_ups :: "nat \<Rightarrow> nat" where
  "follow_ups a =
     (if 194 \<le> a \<and> a \<le> 223 then 1 else if 224 \<le> a \<and> a \<le> 239 then 2
      else if 240 \<le> a \<and> a \<le> 244 then 3 else 0)"

definition second_ok :: "nat \<Rightarrow> nat \<Rightarrow> bool" where
  "second_ok a b \<longleftrightarrow> cont b \<and> (a = 224 \<longrightarrow> 160 \<le> b) \<and> (a = 237 \<longrightarrow> b \<le> 159) \<and>
     (a = 240 \<longrightarrow> 144 \<le> b) \<and> (a = 244 \<longrightarrow> b \<le> 143)"

fun matched :: "nat \<Rightarrow> nat list \<Rightarrow> nat" where
  "matched a [] = 0"
| "matched a (b # bs) =
     (if 0 < follow_ups a \<and> second_ok a b
      then Suc (length (takeWhile cont (take (follow_ups a - 1) bs))) else 0)"

definition replacement :: string where
  "replacement = [CHR 0xEF, CHR 0xBF, CHR 0xBD]"

text \<open>The first argument counts bytes that have been dealt with already.\<close>

fun decode_replace :: "nat \<Rightarrow> string \<Rightarrow> string" where
  "decode_replace k [] = []"
| "decode_replace (Suc k) (c # s) = decode_replace k s"
| "decode_replace 0 (c # s) =
     (let a = of_char c; m = matched a (map of_char s)
      in if a < 128 then c # decode_replace 0 s
         else if 0 < follow_ups a \<and> m = follow_ups a then c # take m s @ decode_replace m s
         else replacement @ decode_replace m s)"

text \<open>\<^verbatim>\<open>str.splitlines()\<close>\<close>

definition line_ends :: "string list" where
  "line_ends =
     [[CHR 0x0D, CHR 0x0A], [CHR 0x0A], [CHR 0x0D], [CHR 0x0B], [CHR 0x0C], [CHR 0x1C], [CHR 0x1D],
      [CHR 0x1E], [CHR 0xC2, CHR 0x85], [CHR 0xE2, CHR 0x80, CHR 0xA8],
      [CHR 0xE2, CHR 0x80, CHR 0xA9]]"

fun lines_from :: "nat \<Rightarrow> string \<Rightarrow> string \<Rightarrow> string list" where
  "lines_from k line [] = (if line = [] then [] else [line])"
| "lines_from (Suc k) line (c # s) = lines_from k line s"
| "lines_from 0 line (c # s) =
     (case find (\<lambda>e. starts_with e (c # s)) line_ends of
        None \<Rightarrow> lines_from 0 (line @ [c]) s
      | Some e \<Rightarrow> line # lines_from (length e - 1) [] s)"

definition splitlines :: "string \<Rightarrow> string list" where
  "splitlines s = lines_from 0 [] s"

definition load_lines :: "os \<Rightarrow> pure_path \<Rightarrow> string list job" where
  "load_lines os p =
     bindM (is_symlink_call os p) (\<lambda>linked.
     bindM (if linked then returnM False else is_file_call os p) (\<lambda>regular.
     if \<not> regular then raiseM (Rejected ''serial log is not a regular file'')
     else reportM ''cannot read serial log''
       (bindM (read_file_call os p) (\<lambda>raw.
          returnM (splitlines (universal_newlines (decode_replace 0 raw)))))))"

section \<open>The sequence\<close>

type_synonym compiler = "string \<Rightarrow> (string \<Rightarrow> bool) option"

record marker_match =
  marker_pattern :: string
  line_number :: nat

fun compile_markers :: "compiler \<Rightarrow> string list \<Rightarrow> (string \<times> (string \<Rightarrow> bool)) list result" where
  "compile_markers compile [] = Inr []"
| "compile_markers compile (p # ps) =
     (if p = [] then Inl (Rejected ''markers cannot be empty'')
      else case compile p of
        None \<Rightarrow> Inl (Rejected ''invalid marker expression'')
      | Some f \<Rightarrow> bindE (compile_markers compile ps) (\<lambda>fs. Inr ((p, f) # fs)))"

text \<open>\<^verbatim>\<open>for index in range(cursor, len(lines))\<close>\<close>

fun find_line :: "(string \<Rightarrow> bool) \<Rightarrow> nat \<Rightarrow> string list \<Rightarrow> nat option" where
  "find_line f i [] = None"
| "find_line f i (l # ls) = (if f l then Some i else find_line f (Suc i) ls)"

fun match_markers ::
    "string list \<Rightarrow> nat \<Rightarrow> (string \<times> (string \<Rightarrow> bool)) list \<Rightarrow> marker_match list result" where
  "match_markers lines cursor [] = Inr []"
| "match_markers lines cursor ((p, f) # compiled) =
     (case find_line f cursor (drop cursor lines) of
        None \<Rightarrow> Inl (Rejected ''serial evidence missing'')
      | Some i \<Rightarrow> bindE (match_markers lines (Suc i) compiled) (\<lambda>ms.
          Inr (\<lparr>marker_pattern = p, line_number = Suc i\<rparr> # ms)))"

definition verify_sequence :: "compiler \<Rightarrow> string list \<Rightarrow> string list \<Rightarrow> marker_match list result" where
  "verify_sequence compile lines patterns =
     (if patterns = [] then Inl (Rejected ''at least one marker is required'')
      else bindE (compile_markers compile patterns) (\<lambda>compiled. match_markers lines 0 compiled))"

section \<open>The report\<close>

text \<open>\<^verbatim>\<open>value.replace(c, r)\<close> for a single character \<open>c\<close>\<close>

definition replace_char :: "char \<Rightarrow> string \<Rightarrow> string \<Rightarrow> string" where
  "replace_char c r s = concat (map (\<lambda>x. if x = c then r else [x]) s)"

definition tsv_escape :: "string \<Rightarrow> string" where
  "tsv_escape s =
     replace_char CHR 0x0A [CHR 0x5C, CHR ''n''] (replace_char CHR 0x0D [CHR 0x5C, CHR ''r'']
       (replace_char CHR 0x09 [CHR 0x5C, CHR ''t'']
         (replace_char CHR 0x5C [CHR 0x5C, CHR 0x5C] s)))"

definition report_row :: "marker_match \<Rightarrow> string" where
  "report_row m = tsv_escape (marker_pattern m) @ CHR 0x09 # show_nat (line_number m)"

definition report_text :: "marker_match list \<Rightarrow> string" where
  "report_text ms =
     concat (map (\<lambda>row. row @ [CHR 0x0A]) ((''marker'' @ CHR 0x09 # ''line_number'') # map report_row ms))"

text \<open>
  Where \<^verbatim>\<open>open(path, "w")\<close> or \<^verbatim>\<open>open(path, "x")\<close> puts a file: as \<open>walk\<close> with
  links followed, but the last component may be absent.
\<close>

fun walk_new :: "fs \<Rightarrow> nat \<Rightarrow> string list \<Rightarrow> string list \<Rightarrow> string list option" where
  "walk_new t n cur [] = Some cur"
| "walk_new t n cur (c # cs) =
     (if c = ''..'' then walk_new t n (butlast cur) cs
      else case t (cur @ [c]) of
        None \<Rightarrow> (if cs = [] then Some (cur @ [c]) else None)
      | Some Directory \<Rightarrow> walk_new t n (cur @ [c]) cs
      | Some (Link l) \<Rightarrow>
          (case n of
             0 \<Rightarrow> None
           | Suc m \<Rightarrow>
               (if is_absolute (Path l) then walk_new t m [] (tail (Path l) @ cs)
                else walk_new t m cur (tail (Path l) @ cs)))
      | Some _ \<Rightarrow> (if cs = [] then Some (cur @ [c]) else None))"

definition open_text_call :: "os \<Rightarrow> pure_path \<Rightarrow> string list job" where
  "open_text_call os p =
     sys os (\<lambda>n w. case walk_new (tree w) max_links [] (tail p) of
         None \<Rightarrow> (Inl NotFound, w)
       | Some q \<Rightarrow>
           (case node_at (tree w) q of
              Some (Regular c r) \<Rightarrow> (Inr q, w\<lparr>tree := (tree w)(q \<mapsto> Regular [] r)\<rparr>)
            | Some Special \<Rightarrow> (Inr q, w)
            | Some nd \<Rightarrow> (Inl OSError, w)
            | None \<Rightarrow> (Inr q, w\<lparr>tree := (tree w)(q \<mapsto> Regular [] True),
                               modes := (modes w)(q := 420)\<rparr>)))"

definition write_report :: "os \<Rightarrow> pure_path \<Rightarrow> marker_match list \<Rightarrow> unit job" where
  "write_report os p ms =
     bindM (is_symlink_call os p) (\<lambda>linked.
     if linked then raiseM (Rejected ''marker report cannot be a symlink'')
     else reportM ''cannot write marker report''
       (bindM (mkdirs os (parent p) 511) (\<lambda>u.
        bindM (open_text_call os p) (\<lambda>q. append_call os q (report_text ms)))))"

section \<open>The evidence\<close>

definition evidence_document ::
    "string \<Rightarrow> string \<Rightarrow> string \<Rightarrow> string \<Rightarrow> marker_match list \<Rightarrow> pyval" where
  "evidence_document environment revision captured_at log ms =
     PDict [(''schema'', PInt 1), (''kind'', PStr ''cosmic-lifecycle''), (''environment'', PStr environment),
       (''revision'', PStr revision), (''captured_at'', PStr captured_at),
       (''serial_log_sha256'', PStr (sha256_hex log)),
       (''markers'', PList (map (\<lambda>m. PDict [(''pattern'', PStr (marker_pattern m)),
          (''line_number'', PInt (int (line_number m)))]) ms))]"

text \<open>\<^verbatim>\<open>open(path, "x")\<close>: nothing may be there, not even a link.\<close>

definition create_text_call :: "os \<Rightarrow> pure_path \<Rightarrow> string list job" where
  "create_text_call os p =
     sys os (\<lambda>n w. case place (tree w) p of
         None \<Rightarrow> (Inl NotFound, w)
       | Some q \<Rightarrow>
           (if tree w q \<noteq> None then (Inl OSError, w)
            else (Inr q, w\<lparr>tree := (tree w)(q \<mapsto> Regular [] True), modes := (modes w)(q := 420)\<rparr>)))"

definition write_evidence ::
    "os \<Rightarrow> (pyfloat \<Rightarrow> string) \<Rightarrow> (nat \<Rightarrow> string) \<Rightarrow> pure_path \<Rightarrow> pure_path \<Rightarrow> marker_match list \<Rightarrow>
     string \<Rightarrow> string \<Rightarrow> unit job" where
  "write_evidence os fr now p log ms revision environment =
     bindM (exists_call os p) (\<lambda>present.
     bindM (if present then returnM True else is_symlink_call os p) (\<lambda>unsafe.
     if unsafe then raiseM (Rejected ''lifecycle evidence already exists or is unsafe'')
     else if \<not> fullmatch REVISION_RE revision
     then raiseM (Rejected ''lifecycle evidence revision must be a full lowercase Git object ID'')
     else if is_placeholder revision
     then raiseM (Rejected ''lifecycle evidence revision cannot be a placeholder'')
     else reportM ''cannot write lifecycle evidence''
       (bindM (mkdirs os (parent p) 511) (\<lambda>u.
        bindM (is_symlink_call os (parent p)) (\<lambda>linked.
        if linked then raiseM (Rejected ''lifecycle evidence parent cannot be a symlink'')
        else bindM (\<lambda>w. (Inr (now (clock w)), w)) (\<lambda>captured_at.
          bindM (read_file_call os log) (\<lambda>raw.
          bindM (create_text_call os p) (\<lambda>q.
          bindM (liftM (json_dumps fr (evidence_document environment revision captured_at raw ms)))
            (\<lambda>body. append_call os q (body @ [CHR 0x0A]))))))))))"

section \<open>The program\<close>

record marker_arguments =
  serial_log :: pure_path
  report :: "pure_path option"
  evidence :: "pure_path option"
  revision_argument :: "string option"
  environment_argument :: "string option"
  markers :: "string list"

definition verify_markers ::
    "os \<Rightarrow> compiler \<Rightarrow> (pyfloat \<Rightarrow> string) \<Rightarrow> (nat \<Rightarrow> string) \<Rightarrow> marker_arguments \<Rightarrow>
     marker_match list job" where
  "verify_markers os compile fr now a =
     (if (evidence a = None) \<noteq> (revision_argument a = None)
      then raiseM (Rejected ''--evidence and --revision must be supplied together'')
      else if evidence a \<noteq> None \<and> environment_argument a = None
      then raiseM (Rejected ''--evidence requires --environment'')
      else bindM (load_lines os (serial_log a)) (\<lambda>lines.
        bindM (liftM (verify_sequence compile lines (markers a))) (\<lambda>ms.
        bindM (case report a of None \<Rightarrow> returnM () | Some p \<Rightarrow> write_report os p ms) (\<lambda>u.
        bindM (case evidence a of
            None \<Rightarrow> returnM ()
          | Some p \<Rightarrow> write_evidence os fr now p (serial_log a) ms (the (revision_argument a))
              (the (environment_argument a))) (\<lambda>u.
        returnM ms)))))"

definition markers_main ::
    "os \<Rightarrow> compiler \<Rightarrow> (pyfloat \<Rightarrow> string) \<Rightarrow> (nat \<Rightarrow> string) \<Rightarrow> marker_arguments \<Rightarrow> int job" where
  "markers_main os compile fr now a =
     catchM (bindM (verify_markers os compile fr now a) (\<lambda>ms. returnM 0))
       (\<lambda>e. case e of Rejected m \<Rightarrow> returnM 1 | _ \<Rightarrow> raiseM e)"

end
