(* ===== verification/MarkersProps.thy ===== *)
theory MarkersProps
  imports Markers
begin

text \<open>
  The marker check finds a sequence of lines exactly when there is one, and then the earliest
  (\<open>marker_sequence_is_decided\<close>); its report can be read back (\<open>marker_report_is_readable\<close>).
\<close>

section \<open>The sequence\<close>

text \<open>Numbers of lines, counted from one and increasing, that match the markers one by one.\<close>

definition in_order :: "compiler \<Rightarrow> string list \<Rightarrow> string list \<Rightarrow> nat list \<Rightarrow> bool" where
  "in_order compile lines patterns ns \<longleftrightarrow>
     length ns = length patterns \<and> sorted_wrt (<) ns \<and>
     (\<forall>(p, n) \<in> set (zip patterns ns). 0 < n \<and> n \<le> length lines \<and>
        (\<exists>f. compile p = Some f \<and> f (lines ! (n - 1))))"

text \<open>The same for compiled markers, from a line on.\<close>

fun chain :: "string list \<Rightarrow> nat \<Rightarrow> (string \<Rightarrow> bool) list \<Rightarrow> nat list \<Rightarrow> bool" where
  "chain lines c [] ns = (ns = [])"
| "chain lines c (f # fs) [] = False"
| "chain lines c (f # fs) (n # ns) =
     (c < n \<and> n \<le> length lines \<and> f (lines ! (n - 1)) \<and> chain lines n fs ns)"

lemma find_line_iff:
  "find_line f i ls = Some k \<longleftrightarrow>
     (\<exists>j < length ls. k = i + j \<and> f (ls ! j) \<and> (\<forall>m < j. \<not> f (ls ! m)))"
proof (induction ls arbitrary: i)
  case (Cons l ls)
  show ?case
    by (simp add: Ex_less_Suc2 All_less_Suc2 Cons.IH) auto
qed simp

lemma find_line_first:
  "find_line f c (drop c lines) = Some k \<longleftrightarrow>
     c \<le> k \<and> k < length lines \<and> f (lines ! k) \<and> (\<forall>m. c \<le> m \<and> m < k \<longrightarrow> \<not> f (lines ! m))"
proof -
  have "(\<forall>m < j. \<not> f (lines ! (c + m))) \<longleftrightarrow> (\<forall>m. c \<le> m \<and> m < c + j \<longrightarrow> \<not> f (lines ! m))" for j
    by (metis le_add1 le_iff_add nat_add_left_cancel_less)
  then show ?thesis
    unfolding find_line_iff by (auto simp: less_diff_conv2 le_iff_add) (auto simp: add.commute)
qed

lemma match_markers_chain:
  "match_markers lines c compiled = Inr ms \<Longrightarrow>
     map marker_pattern ms = map fst compiled \<and> chain lines c (map snd compiled) (map line_number ms)"
  by (induction lines c compiled arbitrary: ms rule: match_markers.induct)
    (fastforce simp: bindE_Inr_iff find_line_first less_Suc_eq_le split: option.splits)+

lemma chain_earlier: "chain lines c fs ns \<Longrightarrow> c' \<le> c \<Longrightarrow> chain lines c' fs ns"
  by (cases fs; cases ns) auto

lemma match_markers_first:
  "chain lines c (map snd compiled) ns \<Longrightarrow>
     \<exists>ms. match_markers lines c compiled = Inr ms \<and> list_all2 (\<le>) (map line_number ms) ns"
proof (induction lines c compiled arbitrary: ns rule: match_markers.induct)
  case (1 lines c)
  then show ?case by simp
next
  case (2 lines c p f compiled)
  then obtain n ns' where ns: "ns = n # ns'" and n: "c < n" "n \<le> length lines" "f (lines ! (n - 1))"
    and rest: "chain lines n (map snd compiled) ns'"
    by (cases ns) auto
  have "\<exists>k. find_line f c (drop c lines) = Some k \<and> k < n"
  proof -
    let ?P = "\<lambda>k. c \<le> k \<and> k < length lines \<and> f (lines ! k)"
    have "?P (n - 1)" using n by auto
    then have "?P (LEAST k. ?P k)" and "(LEAST k. ?P k) \<le> n - 1"
      by (rule LeastI, rule Least_le)
    moreover have "\<not> f (lines ! m)" if "c \<le> m" "m < (LEAST k. ?P k)" for m
      using that not_less_Least [of m ?P] calculation(1) by auto
    ultimately show ?thesis
      using n(1) by (intro exI [of _ "LEAST k. ?P k"]) (auto simp: find_line_first)
  qed
  then obtain k where k: "find_line f c (drop c lines) = Some k" "k < n" by blast
  from rest k(2) have "chain lines (Suc k) (map snd compiled) ns'" by (auto intro: chain_earlier)
  from "2.IH" [OF k(1) this] obtain ms where "match_markers lines (Suc k) compiled = Inr ms"
    "list_all2 (\<le>) (map line_number ms) ns'" by blast
  with k ns show ?case by simp
qed

lemma compile_markers_iff:
  "compile_markers compile ps = Inr compiled \<longleftrightarrow>
     [] \<notin> set ps \<and> list_all2 (\<lambda>p c. fst c = p \<and> compile p = Some (snd c)) ps compiled"
  by (induction ps arbitrary: compiled)
    (auto simp: bindE_Inr_iff list_all2_Cons1 split: option.splits)

lemma chain_in_order:
  "list_all2 (\<lambda>p c. fst c = p \<and> compile p = Some (snd c)) ps compiled \<Longrightarrow>
     chain lines k (map snd compiled) ns \<longleftrightarrow>
     in_order compile lines ps ns \<and> list_all (\<lambda>n. k < n) ns"
proof (induction arbitrary: k ns rule: list_all2_induct)
  case Nil
  then show ?case by (auto simp: in_order_def)
next
  case (Cons p ps c compiled)
  show ?case
  proof (cases ns)
    case Nil
    then show ?thesis by (simp add: in_order_def)
  next
    case (Cons n ns')
    have "in_order compile lines (p # ps) (n # ns') \<longleftrightarrow>
        0 < n \<and> n \<le> length lines \<and> snd c (lines ! (n - 1)) \<and>
        in_order compile lines ps ns' \<and> list_all (\<lambda>m. n < m) ns'"
      using Cons.hyps(1) by (auto simp: in_order_def list_all_iff)
    moreover have "list_all (\<lambda>m. n < m) ns' \<Longrightarrow> k < n \<Longrightarrow> list_all (\<lambda>m. k < m) ns'"
      by (auto simp: list_all_iff)
    ultimately show ?thesis
      using Cons Cons.IH [of n ns'] by auto
  qed
qed

text \<open>
  C11. The sequence check is complete and reports the earliest lines. It succeeds exactly when there
  are markers, none is empty, all are valid expressions, and some increasing lines of the log match
  them one by one. The answer then lists the markers in their order with such lines, and no other
  choice of lines has a smaller number anywhere.
\<close>

theorem marker_sequence_is_decided:
  "((\<exists>ms. verify_sequence compile lines patterns = Inr ms) \<longleftrightarrow>
     patterns \<noteq> [] \<and> [] \<notin> set patterns \<and> (\<forall>p \<in> set patterns. compile p \<noteq> None) \<and>
     (\<exists>ns. in_order compile lines patterns ns)) \<and>
   (verify_sequence compile lines patterns = Inr ms \<longrightarrow>
     map marker_pattern ms = patterns \<and> in_order compile lines patterns (map line_number ms) \<and>
     (\<forall>ns. in_order compile lines patterns ns \<longrightarrow> list_all2 (\<le>) (map line_number ms) ns))"
proof -
  have positive: "list_all (\<lambda>n. 0 < n) ns" if "in_order compile lines patterns ns" for ns
  proof -
    from that have "length patterns = length ns" "\<forall>(p, n) \<in> set (zip patterns ns). 0 < n"
      by (auto simp: in_order_def)
    then show ?thesis by (induction patterns ns rule: list_induct2) auto
  qed
  have answer: "patterns \<noteq> [] \<and> [] \<notin> set patterns \<and> (\<forall>p \<in> set patterns. compile p \<noteq> None) \<and>
      map marker_pattern ms = patterns \<and> in_order compile lines patterns (map line_number ms) \<and>
      (\<forall>ns. in_order compile lines patterns ns \<longrightarrow> list_all2 (\<le>) (map line_number ms) ns)"
    if ok: "verify_sequence compile lines patterns = Inr ms" for ms
  proof -
    obtain compiled where some: "patterns \<noteq> []" "[] \<notin> set patterns"
      and all: "list_all2 (\<lambda>p c. fst c = p \<and> compile p = Some (snd c)) patterns compiled"
      and run: "match_markers lines 0 compiled = Inr ms"
      using ok by (auto simp: verify_sequence_def bindE_Inr_iff compile_markers_iff split: if_splits)
    have names: "map fst compiled = patterns" "\<forall>p \<in> set patterns. compile p \<noteq> None"
      using all by (induction rule: list_all2_induct) auto
    have "list_all2 (\<le>) (map line_number ms) ns" if "in_order compile lines patterns ns" for ns
    proof -
      from that positive have "chain lines 0 (map snd compiled) ns"
        unfolding chain_in_order [OF all] by blast
      from match_markers_first [OF this] run show ?thesis by auto
    qed
    with match_markers_chain [OF run] some names chain_in_order [OF all] show ?thesis by auto
  qed
  moreover have "\<exists>ms. verify_sequence compile lines patterns = Inr ms"
    if "patterns \<noteq> [] \<and> [] \<notin> set patterns \<and> (\<forall>p \<in> set patterns. compile p \<noteq> None) \<and>
      (\<exists>ns. in_order compile lines patterns ns)"
  proof -
    from that obtain ns where some: "patterns \<noteq> []" "[] \<notin> set patterns" and ns: "in_order compile lines patterns ns"
      and valid: "\<forall>p \<in> set patterns. compile p \<noteq> None" by blast
    from valid have all: "list_all2 (\<lambda>p c. fst c = p \<and> compile p = Some (snd c)) patterns
        (map (\<lambda>p. (p, the (compile p))) patterns)" (is "list_all2 ?R patterns ?compiled")
      by (induction patterns) auto
    have "compile_markers compile patterns = Inr ?compiled"
      using some(2) all by (simp add: compile_markers_iff)
    moreover have "chain lines 0 (map snd ?compiled) ns"
      using ns positive unfolding chain_in_order [OF all] by blast
    from match_markers_first [OF this] obtain ms where "match_markers lines 0 ?compiled = Inr ms" by blast
    ultimately show ?thesis using some(1) by (simp add: verify_sequence_def)
  qed
  ultimately show ?thesis by blast
qed

lemma marker_sequence_is_decided_witness:
  "verify_sequence (\<lambda>p. Some (contains p)) [''boot'', ''ready'', ''login'', ''ready''] [''boot'', ''ready''] =
     Inr [\<lparr>marker_pattern = ''boot'', line_number = 1\<rparr>, \<lparr>marker_pattern = ''ready'', line_number = 2\<rparr>] \<and>
   in_order (\<lambda>p. Some (contains p)) [''boot'', ''ready'', ''login'', ''ready''] [''boot'', ''ready''] [1, 2]"
proof -
  let ?c = "\<lambda>p. Some (contains p)" and ?lines = "[''boot'', ''ready'', ''login'', ''ready'']"
  have run: "verify_sequence ?c ?lines [''boot'', ''ready''] =
     Inr [\<lparr>marker_pattern = ''boot'', line_number = 1\<rparr>, \<lparr>marker_pattern = ''ready'', line_number = 2\<rparr>]"
    by (simp add: verify_sequence_def)
  from marker_sequence_is_decided [THEN conjunct2, rule_format, OF run] run show ?thesis by simp
qed

section \<open>The report\<close>

text \<open>
  What a table of tab-separated fields needs of the encoding of its fields: it can be undone, and
  the separators do not occur in it.
\<close>

locale field_codec =
  fixes enc :: "string \<Rightarrow> string"
    and dec :: "string \<Rightarrow> string"
  assumes dec_enc: "dec (enc s) = s"
    and enc_clean: "CHR 0x09 \<notin> set (enc s)" "CHR 0x0A \<notin> set (enc s)"
begin

lemma split_row: "CHR 0x09 \<notin> set b \<Longrightarrow> split_on CHR 0x09 (enc a @ CHR 0x09 # b) = [enc a, b]"
proof -
  have "split_on c (x @ c # y) = x # split_on c y" if "c \<notin> set x" for c :: char and x y
    using that by (induction x) auto
  with enc_clean(1) show "CHR 0x09 \<notin> set b \<Longrightarrow> ?thesis" by (simp add: split_on_whole)
qed

lemma split_rows:
  "list_all (\<lambda>row. CHR 0x0A \<notin> set row) rows \<Longrightarrow>
     split_on CHR 0x0A (concat (map (\<lambda>row. row @ [CHR 0x0A]) rows)) = rows @ [[]]"
proof (induction rows)
  case (Cons row rows)
  have "split_on c (x @ c # y) = x # split_on c y" if "c \<notin> set x" for c :: char and x y
    using that by (induction x) auto
  with Cons show ?case by simp
qed simp

end

text \<open>Reading the escapes back.\<close>

fun tsv_unescape :: "string \<Rightarrow> string" where
  "tsv_unescape [] = []"
| "tsv_unescape [c] = [c]"
| "tsv_unescape (c # d # s) =
     (if c = CHR 0x5C then
        (if d = CHR ''t'' then CHR 0x09 else if d = CHR ''r'' then CHR 0x0D
         else if d = CHR ''n'' then CHR 0x0A else d) # tsv_unescape s
      else c # tsv_unescape (d # s))"

definition escape_char :: "char \<Rightarrow> string" where
  "escape_char c =
     (if c = CHR 0x5C then [CHR 0x5C, CHR 0x5C] else if c = CHR 0x09 then [CHR 0x5C, CHR ''t'']
      else if c = CHR 0x0D then [CHR 0x5C, CHR ''r''] else if c = CHR 0x0A then [CHR 0x5C, CHR ''n'']
      else [c])"

lemma tsv_escape_concat: "tsv_escape s = concat (map escape_char s)"
  by (induction s) (simp_all add: tsv_escape_def replace_char_def escape_char_def)

lemma tsv_unescape_char: "tsv_unescape (escape_char c @ s) = c # tsv_unescape s"
  by (cases s) (simp_all add: escape_char_def)

interpretation tsv: field_codec tsv_escape tsv_unescape
proof
  show "tsv_unescape (tsv_escape s) = s" for s
    unfolding tsv_escape_concat by (induction s) (simp_all add: tsv_unescape_char)
  show "CHR 0x09 \<notin> set (tsv_escape s)" "CHR 0x0A \<notin> set (tsv_escape s)" for s
    unfolding tsv_escape_concat by (induction s) (auto simp: escape_char_def)
qed

definition read_nat :: "string \<Rightarrow> nat" where
  "read_nat s = foldl (\<lambda>n c. 10 * n + (of_char c - 48)) 0 s"

lemma read_show: "read_nat (show_nat n) = n"
proof (induction n rule: show_nat.induct)
  case (1 n)
  have digit: "(of_char (char_of (48 + n mod 10) :: char) :: nat) = 48 + n mod 10"
    by (simp add: of_char_of take_bit_eq_mod)
  show ?case
  proof (cases "n < 10")
    case True
    with digit show ?thesis by (subst show_nat.simps) (simp add: read_nat_def)
  next
    case False
    with 1 digit show ?thesis by (subst show_nat.simps) (simp add: read_nat_def)
  qed
qed

lemma show_digits: "set (show_nat n) \<subseteq> set ''0123456789''"
proof (induction n rule: show_nat.induct)
  case (1 n)
  have "char_of (48 + k) \<in> set ''0123456789''" if "k < 10" for k :: nat
  proof -
    have "list_all (\<lambda>k. char_of (48 + k) \<in> set ''0123456789'') [0..<10]" by code_simp
    with that show ?thesis by (simp add: list_all_iff)
  qed
  with 1 show ?case by (subst show_nat.simps) auto
qed

definition parse_row :: "string \<Rightarrow> string \<times> nat" where
  "parse_row row =
     (case split_on CHR 0x09 row of [a, b] \<Rightarrow> (tsv_unescape a, read_nat b) | _ \<Rightarrow> ([], 0))"

definition parse_report :: "string \<Rightarrow> (string \<times> nat) list" where
  "parse_report raw = map parse_row (tl (butlast (split_on CHR 0x0A raw)))"

text \<open>
  C12. The marker report can be read back: whatever characters the markers contain, tabs, line ends
  and backslashes included, splitting the text at line ends, dropping the heading, splitting each
  row at its tab and undoing the escapes gives the markers and line numbers that were reported.
\<close>

theorem marker_report_is_readable:
  "parse_report (report_text ms) = map (\<lambda>m. (marker_pattern m, line_number m)) ms"
proof -
  have number: "CHR 0x09 \<notin> set (show_nat n)" "CHR 0x0A \<notin> set (show_nat n)" for n
    using show_digits [of n] by auto
  have row: "parse_row (report_row m) = (marker_pattern m, line_number m)" for m
    unfolding parse_row_def report_row_def tsv.split_row [OF number(1)]
    by (simp only: list.case tsv.dec_enc read_show)
  have "list_all (\<lambda>row. CHR 0x0A \<notin> set row)
      ((''marker'' @ CHR 0x09 # ''line_number'') # map report_row ms)"
    by (auto simp: list_all_iff report_row_def number tsv.enc_clean)
  then have "split_on CHR 0x0A (report_text ms) =
      ((''marker'' @ CHR 0x09 # ''line_number'') # map report_row ms) @ [[]]"
    unfolding report_text_def by (rule tsv.split_rows)
  then show ?thesis
    unfolding parse_report_def by (simp only: butlast_snoc list.sel map_map comp_def row)
qed

section \<open>The evidence\<close>

text \<open>On a machine where nobody else writes: \<open>undisturbed os []\<close>.\<close>

lemma quiet_sys:
  assumes "undisturbed os []" and "sys os f w = (Inr x, w')"
  shows "f (clock w) (w\<lparr>clock := Suc (clock w)\<rparr>) = (Inr x, w')"
proof -
  have "interfere os n t = t" for n t using assms(1) by (auto simp: undisturbed_def near_def)
  with assms(2) show ?thesis by (auto simp: sys_def Let_def split: if_splits)
qed

lemma area_everything: "area [] F w \<longleftrightarrow> tree w = F"
  by (auto simp: area_def same_area_def near_def)

lemma calm_tree: "calm_in [] m \<Longrightarrow> m w = (Inr x, w') \<Longrightarrow> tree w' = tree w"
  using calm_valid [of "[]" m "tree w"] by (auto simp: valid_def area_everything dest!: spec [of _ w])

lemma calm_read_file [calm_rules]: "undisturbed os d \<Longrightarrow> calm_in d (read_file_call os p)"
  unfolding read_file_call_def
  by (intro calm_bind) (auto intro!: calm_sys split: option.split node.split)

lemma quiet_read_file:
  assumes "undisturbed os []" and "read_file_call os p w = (Inr raw, w')" and "is_file (tree w) p"
  shows "read_bytes (tree w) p = Inr raw"
proof -
  let ?found = "\<lambda>t. (case locate t p of
         None \<Rightarrow> Inl NotFound
       | Some q \<Rightarrow>
           (case node_at t q of
              None \<Rightarrow> Inl NotFound
            | Some (Regular c True) \<Rightarrow> Inr (q, c)
            | Some Special \<Rightarrow> Inr (q, [])
            | Some nd \<Rightarrow> Inl OSError)) :: (string list \<times> string) result"
  obtain q opened w1 where one: "sys os (\<lambda>n w. (?found (tree w), w)) w = (Inr (q, opened), w1)"
    and two: "sys os (\<lambda>n w. (Inr (case tree w q of Some (Regular c r) \<Rightarrow> c | _ \<Rightarrow> opened), w)) w1 = (Inr raw, w')"
    using assms(2) unfolding read_file_call_def success_bind by (auto split: prod.splits)
  have one': "?found (tree (w\<lparr>clock := Suc (clock w)\<rparr>)) = Inr (q, opened) \<and> w\<lparr>clock := Suc (clock w)\<rparr> = w1"
    using quiet_sys [OF assms(1) one] unfolding prod.inject .
  have "tree (w\<lparr>clock := Suc (clock w)\<rparr>) = tree w" by simp
  from one' [unfolded this] have found: "?found (tree w) = Inr (q, opened)" by (rule conjunct1)
  from one' have w1: "tree w1 = tree w" by auto
  from quiet_sys [OF assms(1) two] w1
  have reading: "raw = (case tree w q of Some (Regular c r) \<Rightarrow> c | _ \<Rightarrow> opened)" by auto
  from assms(3) obtain c r where "stat (tree w) p = Some (Regular c r)"
    by (auto simp: is_file_def split: option.splits node.splits)
  with found have "stat (tree w) p = Some (Regular opened True)" "node_at (tree w) q = Some (Regular opened True)"
    by (auto simp: stat_def locate_def split: option.splits node.splits bool.splits)
  with reading show ?thesis by (simp add: read_bytes_def node_at_def split: if_splits)
qed

lemma quiet_look:
  assumes "undisturbed os []"
  shows "is_symlink_call os p w = (Inr x, w') \<Longrightarrow> tree w' = tree w"
    and "is_file_call os p w = (Inr x, w') \<Longrightarrow> tree w' = tree w"
    and "exists_call os p w = (Inr x, w') \<Longrightarrow> tree w' = tree w"
    and "read_file_call os p w = (Inr raw, w') \<Longrightarrow> tree w' = tree w"
  by (erule calm_tree [rotated], intro calm_rules assms)+

lemma create_text_success:
  assumes "undisturbed os []" and "plain_dirs (tree w) d"
    and "create_text_call os (abs_path (d @ [c])) w = (Inr q, w')"
  shows "q = d @ [c] \<and> tree w (d @ [c]) = None \<and> tree w' = (tree w)(d @ [c] \<mapsto> Regular [] True)"
  using assms(3) place_entry [OF assms(2)]
  by (auto simp: create_text_call_def dest!: quiet_sys [OF assms(1)] split: if_splits)

lemma append_success:
  assumes "undisturbed os []" and "append_call os q s w = (Inr u, w')" and "tree w q = Some (Regular c r)"
  shows "tree w' = (tree w)(q \<mapsto> Regular (c @ s) r)"
proof -
  have "interfere os n t = t" for n t using assms(1) by (auto simp: undisturbed_def near_def)
  with assms(2,3) show ?thesis by (auto simp: append_call_def Let_def appended_def split: if_splits)
qed

lemma load_lines_success:
  assumes "undisturbed os []" and "load_lines os p w = (Inr lines, w')"
  shows "tree w' = tree w \<and> (\<exists>raw. read_bytes (tree w) p = Inr raw \<and>
    lines = splitlines (universal_newlines (decode_replace 0 raw)))"
proof -
  obtain w1 w2 raw where linked: "is_symlink_call os p w = (Inr False, w1)"
    and regular: "is_file_call os p w1 = (Inr True, w2)" and read: "read_file_call os p w2 = (Inr raw, w')"
    and lines: "lines = splitlines (universal_newlines (decode_replace 0 raw))"
    using assms(2) by (auto simp: load_lines_def job_simps split: if_splits)
  have trees: "tree w1 = tree w" "tree w2 = tree w1" "tree w' = tree w2"
    using quiet_look [OF assms(1)] linked regular read by blast+
  have "is_file (tree w1) p"
    using regular
    by (auto simp: is_file_call_def absent_is_false_def stat_call_def job_simps is_file_def
        dest!: quiet_sys [OF assms(1)] split: option.splits if_splits elim!: regular_node.elims)
  with trees lines quiet_read_file [OF assms(1) read] show ?thesis by auto
qed


end
