(* ===== verification/MarkersRun.thy ===== *)
theory MarkersRun
  imports MarkersProps HardwareRun
begin

text \<open>
  A concrete run of the marker check that leaves evidence behind, for the witness of
  \<open>lifecycle_evidence_is_faithful\<close>.
\<close>

lemma succeeds_absent:
  assumes "stat T p = None"
  shows "succeeds d (absent_is_false (bindM (stat_call calm p) f)) T False T"
  using assms
  by (auto simp: succeeds_def absent_is_false_def catchM_def bindM_def stat_call_def sys_def calm_def
      Let_def returnM_def)

lemma succeeds_absent_link:
  assumes "lstat T p = None"
  shows "succeeds d (absent_is_false (bindM (lstat_call calm p) f)) T False T"
  using assms
  by (auto simp: succeeds_def absent_is_false_def catchM_def bindM_def lstat_call_def sys_def calm_def
      Let_def returnM_def)

lemma succeeds_symlink: "lstat T p = Some nd \<Longrightarrow> succeeds d (is_symlink_call calm p) T (link_node nd) T"
  unfolding is_symlink_call_def absent_is_false_def
  by (rule succeeds_catch, rule succeeds_bind, erule succeeds_lstat, rule succeeds_return, rule refl)

lemma succeeds_is_file: "stat T p = Some nd \<Longrightarrow> succeeds d (is_file_call calm p) T (regular_node nd) T"
  unfolding is_file_call_def absent_is_false_def
  by (rule succeeds_catch, rule succeeds_bind, rule runs_succeeds, erule runs_stat,
      rule succeeds_return, rule refl)

lemma succeeds_create_text:
  assumes "place T p = Some q" and "T q = None" and "q \<noteq> d"
  shows "succeeds d (create_text_call calm p) T q (T(q \<mapsto> Regular [] True))"
  using assms by (auto simp: succeeds_def create_text_call_def sys_def calm_def Let_def)

definition log_tree :: fs where
  "log_tree = [[''w''] \<mapsto> Directory, [''w'', ''log''] \<mapsto> Regular sample_artifact True]"

definition log_arguments :: marker_arguments where
  "log_arguments =
     \<lparr>serial_log = abs_path [''w'', ''log''], report = None, evidence = Some (abs_path ([''w''] @ [''out''])),
      revision_argument = Some (replicate 39 CHR ''a'' @ ''b''), environment_argument = Some ''qemu'',
      markers = [sample_artifact]\<rparr>"

definition log_matches :: "marker_match list" where
  "log_matches = [\<lparr>marker_pattern = sample_artifact, line_number = 1\<rparr>]"

lemma log_paths:
  "lstat log_tree (abs_path [''w'', ''log'']) = Some (Regular sample_artifact True)"
  "stat log_tree (abs_path [''w'', ''log'']) = Some (Regular sample_artifact True)"
  "locate log_tree (abs_path [''w'', ''log'']) = Some [''w'', ''log'']"
  "stat log_tree (abs_path ([''w''] @ [''out''])) = None" "lstat log_tree (abs_path ([''w''] @ [''out''])) = None"
  "lstat log_tree (abs_path [''w'']) = Some Directory" "stat log_tree (abs_path [''w'']) = Some Directory"
  "place log_tree (abs_path [''w'']) = Some [''w'']"
  "place log_tree (abs_path ([''w''] @ [''out''])) = Some [''w'', ''out'']"
  by code_simp+

lemma log_nodes:
  "log_tree [''w''] = Some Directory" "log_tree [''w'', ''log''] = Some (Regular sample_artifact True)"
  "log_tree [''w'', ''out''] = None"
  by (simp_all add: log_tree_def)

lemma log_lines: "splitlines (universal_newlines (decode_replace 0 sample_artifact)) = [sample_artifact]"
  by code_simp

lemma log_sequence:
  "verify_sequence (\<lambda>p. Some (contains p)) [sample_artifact] [sample_artifact] = Inr log_matches"
  by code_simp

lemma log_document:
  "\<exists>body. json_dumps no_floats (evidence_document ''qemu'' r ''2024-01-01T00:00:00Z'' sample_artifact
     log_matches) = Inr body"
  by (simp add: evidence_document_def log_matches_def)

lemma log_evidence:
  "\<exists>T. succeeds [''x''] (write_evidence calm no_floats (\<lambda>n. ''2024-01-01T00:00:00Z'') (abs_path ([''w''] @ [''out'']))
     (abs_path [''w'', ''log'']) log_matches (replicate 39 CHR ''a'' @ ''b'') ''qemu'') log_tree () T"
proof -
  let ?r = "replicate 39 CHR ''a'' @ ''b''"
  have revision: "fullmatch REVISION_RE ?r" by (simp add: revision_re_iff lower_hex_def)
  have genuine: "\<not> is_placeholder ?r"
  proof -
    have "CHR ''b'' \<in> set ?r" "hd ?r = CHR ''a''" by simp_all
    then show ?thesis unfolding is_placeholder_iff by force
  qed
  obtain body where body: "json_dumps no_floats (evidence_document ''qemu'' ?r ''2024-01-01T00:00:00Z''
      sample_artifact log_matches) = Inr body" using log_document by blast
  have now: "succeeds d (\<lambda>w. (Inr ''2024-01-01T00:00:00Z'', w)) T ''2024-01-01T00:00:00Z'' T" for d T
    by (simp add: succeeds_def)
  let ?T = "log_tree([''w'', ''out''] \<mapsto> Regular [] True)"
  have append: "succeeds [''x''] (append_call calm [''w'', ''out''] (body @ [CHR 0x0A])) ?T ()
      (?T([''w'', ''out''] \<mapsto> Regular ([] @ body @ [CHR 0x0A]) True))"
    by (rule runs_succeeds, rule runs_append) simp
  have dirs: "succeeds [''x''] (mkdirs calm (abs_path [''w'']) 511) log_tree () log_tree"
    by (rule runs_succeeds, rule runs_mkdirs_existing [where q = "[''w'']"])
      (simp_all add: log_paths log_nodes, simp add: abs_path_def)
  have parent: "parent (abs_path ([''w''] @ [''out''])) = abs_path [''w'']" by (rule parent_abs)
  show ?thesis
    unfolding write_evidence_def exists_call_def is_symlink_call_def [of _ "abs_path ([''w''] @ [''out''])"] parent
    by (rule exI, rule succeeds_bind, rule succeeds_absent, rule log_paths, rule succeeds_bind,
        rule succeeds_if, simp, rule succeeds_absent_link, rule log_paths, rule succeeds_if, simp,
        rule succeeds_if, simp only: revision not_not, rule succeeds_if, rule genuine, unfold reportM_def,
        rule succeeds_catch, rule succeeds_bind, rule dirs, rule succeeds_bind, rule succeeds_symlink,
        rule log_paths, rule succeeds_if, simp, rule succeeds_bind, rule now, rule succeeds_bind,
        rule runs_succeeds, rule runs_read_file, rule log_paths, rule log_nodes, simp, rule succeeds_bind,
        rule succeeds_create_text, rule log_paths, rule log_nodes, simp, rule succeeds_bind,
        rule succeeds_lift, rule body, rule append)
qed


end
