(* ===== verification/TextSearch.thy ===== *)
theory TextSearch
  imports Patterns
begin

text \<open>
  Searching in text, as the script for the release profile does it: \<^verbatim>\<open>str.find\<close>,
  \<^verbatim>\<open>str.count\<close>, \<^verbatim>\<open>str.casefold\<close> as far as searches for ASCII words
  see it, and \<^verbatim>\<open>re.findall\<close> for the script's two expressions. Scans that must not
  look at what they have consumed count the characters to skip in their first argument.
\<close>

section \<open>Find and count\<close>

text \<open>\<open>find_from w i s\<close>: the first position of \<open>w\<close> in a text of which \<open>s\<close> is what follows position \<open>i\<close>.\<close>

fun find_from :: "string \<Rightarrow> nat \<Rightarrow> string \<Rightarrow> nat option" where
  "find_from w i [] = (if w = [] then Some i else None)"
| "find_from w i (c # s) = (if starts_with w (c # s) then Some i else find_from w (Suc i) s)"

definition py_find :: "string \<Rightarrow> nat \<Rightarrow> string \<Rightarrow> nat option" where
  "py_find s start w = (if length s < start then None else find_from w start (drop start s))"

fun count_from :: "nat \<Rightarrow> string \<Rightarrow> string \<Rightarrow> nat" where
  "count_from k w [] = 0"
| "count_from (Suc k) w (c # s) = count_from k w s"
| "count_from 0 w (c # s) =
     (if starts_with w (c # s) then Suc (count_from (length w - 1) w s) else count_from 0 w s)"

definition py_count :: "string \<Rightarrow> string \<Rightarrow> nat" where
  "py_count s w = count_from 0 w s"

section \<open>Case folding\<close>

text \<open>The characters beyond ASCII whose folded form contains ASCII letters.\<close>

definition folded_ascii :: "(string \<times> string) list" where
  "folded_ascii =
     [([CHR 0xC3, CHR 0x9F], ''ss''), ([CHR 0xC4, CHR 0xB0], [CHR ''i'', CHR 0xCC, CHR 0x87]),
      ([CHR 0xC5, CHR 0x89], [CHR 0xCA, CHR 0xBC, CHR ''n'']), ([CHR 0xC5, CHR 0xBF], ''s''),
      ([CHR 0xC7, CHR 0xB0], [CHR ''j'', CHR 0xCC, CHR 0x8C]),
      ([CHR 0xE1, CHR 0xBA, CHR 0x96], [CHR ''h'', CHR 0xCC, CHR 0xB1]),
      ([CHR 0xE1, CHR 0xBA, CHR 0x97], [CHR ''t'', CHR 0xCC, CHR 0x88]),
      ([CHR 0xE1, CHR 0xBA, CHR 0x98], [CHR ''w'', CHR 0xCC, CHR 0x8A]),
      ([CHR 0xE1, CHR 0xBA, CHR 0x99], [CHR ''y'', CHR 0xCC, CHR 0x8A]),
      ([CHR 0xE1, CHR 0xBA, CHR 0x9A], [CHR ''a'', CHR 0xCA, CHR 0xBE]),
      ([CHR 0xE1, CHR 0xBA, CHR 0x9E], ''ss''), ([CHR 0xE2, CHR 0x84, CHR 0xAA], ''k''),
      ([CHR 0xEF, CHR 0xAC, CHR 0x80], ''ff''), ([CHR 0xEF, CHR 0xAC, CHR 0x81], ''fi''),
      ([CHR 0xEF, CHR 0xAC, CHR 0x82], ''fl''), ([CHR 0xEF, CHR 0xAC, CHR 0x83], ''ffi''),
      ([CHR 0xEF, CHR 0xAC, CHR 0x84], ''ffl''), ([CHR 0xEF, CHR 0xAC, CHR 0x85], ''st''),
      ([CHR 0xEF, CHR 0xAC, CHR 0x86], ''st'')]"

fun fold_from :: "nat \<Rightarrow> string \<Rightarrow> string" where
  "fold_from k [] = []"
| "fold_from (Suc k) (c # s) = fold_from k s"
| "fold_from 0 (c # s) =
     (case find (\<lambda>(a, b). starts_with a (c # s)) folded_ascii of
        None \<Rightarrow> ascii_lower c # fold_from 0 s
      | Some (a, b) \<Rightarrow> b @ fold_from (length a - 1) s)"

definition casefold :: "string \<Rightarrow> string" where
  "casefold s = fold_from 0 s"

section \<open>The two expressions\<close>

definition choice_char :: "char \<Rightarrow> bool" where
  "choice_char c \<longleftrightarrow> c \<in> set (lower_alnum @ ''-'')"

text \<open>\<^verbatim>\<open>packagechooser@([a-z0-9-]+)\<close>\<close>

fun chooser_names :: "nat \<Rightarrow> string \<Rightarrow> string list" where
  "chooser_names k [] = []"
| "chooser_names (Suc k) (c # s) = chooser_names k s"
| "chooser_names 0 (c # s) =
     (let name = takeWhile choice_char (drop 15 (c # s))
      in if starts_with ''packagechooser@'' (c # s) \<and> name \<noteq> []
         then name # chooser_names (14 + length name) s else chooser_names 0 s)"

text \<open>\<^verbatim>\<open>\s*\<close>: the blanks in front of a text, and what follows them.\<close>

definition blanks :: "string \<Rightarrow> string \<times> string" where
  "blanks s =
     (let rest = strip_front (length s) space_chars s
      in (take (length s - length rest) s, rest))"

text \<open>
  \<^verbatim>\<open>\s*$\<close> with \<^verbatim>\<open>re.MULTILINE\<close>, where the blanks \<open>w\<close> are followed by \<open>rest\<close>:
  how many of them the longest match takes.
\<close>

definition line_end :: "string \<Rightarrow> string \<Rightarrow> nat option" where
  "line_end w rest =
     (if rest = [] then Some (length w)
      else if CHR 0x0A \<in> set w
      then Some (length (dropWhile (\<lambda>c. c \<noteq> CHR 0x0A) (rev w)) - 1)
      else None)"

text \<open>
  \<^verbatim>\<open>^\s*-\s+id:\s*([a-z0-9-]+)\s*$\<close> at the beginning of a line: the group, and the length of
  the match. Every repetition stops at the first character it cannot take, and giving some of them
  back never lets the rest match, so that there is only one way to match from a given position.
\<close>

definition choice_at :: "string \<Rightarrow> (string \<times> nat) option" where
  "choice_at s =
     (case blanks s of (w1, r1) \<Rightarrow>
        if \<not> starts_with ''-'' r1 then None
        else case blanks (drop 1 r1) of (w2, r2) \<Rightarrow>
          if w2 = [] \<or> \<not> starts_with ''id:'' r2 then None
          else case blanks (drop 3 r2) of (w3, r3) \<Rightarrow>
            let name = takeWhile choice_char r3; after = dropWhile choice_char r3
            in case blanks after of (w4, r4) \<Rightarrow>
              if name = [] then None
              else map_option (\<lambda>n. (name, length s - length after + n)) (line_end w4 r4))"

text \<open>
  \<^verbatim>\<open>findall\<close> with \<^verbatim>\<open>re.MULTILINE\<close> for an expression that begins with
  \<^verbatim>\<open>^\<close>: \<open>m\<close> gives the group and the length of the match at the beginning of a line,
  \<open>b\<close> says whether a line begins here.
\<close>

fun scan :: "(string \<Rightarrow> (string \<times> nat) option) \<Rightarrow> nat \<Rightarrow> bool \<Rightarrow> string \<Rightarrow> string list" where
  "scan m k b [] = []"
| "scan m (Suc k) b (c # s) = scan m k (c = CHR 0x0A) s"
| "scan m 0 b (c # s) =
     (case (if b then m (c # s) else None) of
        None \<Rightarrow> scan m 0 (c = CHR 0x0A) s
      | Some (name, n) \<Rightarrow> name # scan m (n - 1) (c = CHR 0x0A) s)"

definition choices_from :: "nat \<Rightarrow> bool \<Rightarrow> string \<Rightarrow> string list" where
  "choices_from k b s = scan choice_at k b s"

section \<open>Closed forms\<close>

lemma matches_star_cls: "matches (Star (Cls cs)) s \<longleftrightarrow> set s \<subseteq> set cs"
proof (induction s)
  case Nil
  show ?case by (simp add: m_star0)
next
  case (Cons c s)
  have "matches (Star (Cls cs)) (c # s) \<longleftrightarrow> c \<in> set cs \<and> matches (Star (Cls cs)) s"
    by (auto simp: matches_star_Cons matches_cls)
  with Cons show ?case by simp
qed

lemma plus_cls_iff: "fullmatch (plus_rx (Cls cs)) s \<longleftrightarrow> s \<noteq> [] \<and> set s \<subseteq> set cs"
  by (cases s) (auto simp: plus_rx_def fullmatch_iff matches_seq_cls matches_star_cls)

lemma seq_upto_cls_iff:
  "fullmatch (Seq (Cls cs) (upto_rx n (Cls ds))) s \<longleftrightarrow>
     s \<noteq> [] \<and> hd s \<in> set cs \<and> length s \<le> Suc n \<and> set (tl s) \<subseteq> set ds"
  by (cases s) (auto simp: fullmatch_iff matches_seq_cls matches_upto_cls)

definition folding_chars :: string where
  "folding_chars =
     [CHR 0xC3, CHR 0xC4, CHR 0xC5, CHR 0xC7, CHR 0xE1, CHR 0xE2, CHR 0xEF]"

lemma folded_heads: "list_all (\<lambda>(a, b). a \<noteq> [] \<and> hd a \<in> set folding_chars) folded_ascii"
  by code_simp

lemma unfolded: "c \<notin> set folding_chars \<Longrightarrow> find (\<lambda>(a, b). starts_with a (c # s)) folded_ascii = None"
  using folded_heads by (fastforce simp: find_None_iff list_all_iff neq_Nil_conv)

lemma casefold_plain:
  assumes "set s \<inter> set folding_chars = {}"
  shows "casefold s = map ascii_lower s"
proof -
  have "fold_from 0 s = map ascii_lower s"
    using assms by (induction s) (simp_all add: unfolded)
  then show ?thesis by (simp add: casefold_def)
qed

text \<open>What the searches find.\<close>

lemma find_from_some:
  "find_from w i s = Some k \<Longrightarrow> i \<le> k \<and> k \<le> i + length s \<and> starts_with w (drop (k - i) s)"
proof (induction w i s rule: find_from.induct)
  case (2 w i c s)
  show ?case
  proof (cases "starts_with w (c # s)")
    case False
    with 2 have "Suc i \<le> k \<and> k \<le> Suc i + length s \<and> starts_with w (drop (k - Suc i) s)" by simp
    then show ?thesis by (auto simp: Suc_diff_Suc drop_Cons' )
  qed (use 2 in auto)
qed (auto split: if_splits)

lemma py_find_some:
  "py_find s start w = Some k \<Longrightarrow> start \<le> k \<and> starts_with w (drop k s)"
  by (auto simp: py_find_def add.commute dest!: find_from_some split: if_splits)

end
