(* ===== verification/ArchProfile.thy ===== *)
theory ArchProfile
  imports FileSystem TextSearch
begin

text \<open>
  \<^verbatim>\<open>validate_profile_contract\<close> of
  \<^verbatim>\<open>scripts/verify_archiso_qualification.py\<close>: the demands on the texts of the
  release profile under \<^verbatim>\<open>archiso/\<close>. Where the script iterates over a set, whose
  order is not fixed, the model takes one order; the order only decides which diagnosis comes
  first.
\<close>

section \<open>Constants\<close>

definition bootloader_packages :: "string list" where
  "bootloader_packages = [''grub'', ''efibootmgr'', ''systemd'']"

definition required_choice_packages :: "string list" where
  "required_choice_packages =
     [''plasma-meta'', ''sddm'', ''polkit-kde-agent'', ''gnome'', ''gdm'', ''cosmic-session'', ''cosmic-comp'',
      ''cosmic-greeter'', ''xdg-desktop-portal-cosmic''] @ bootloader_packages"

definition hwd_configuration :: "(string \<times> string) list" where
  "hwd_configuration =
     [(''executable'', ''/usr/bin/arach-hwd''),
      (''catalogSyncExecutable'', ''/usr/bin/arach-hwd-catalog-sync''),
      (''repositoryConfiguration'', ''/etc/arach/hwd/repository.toml''),
      (''remoteCatalogRoot'', ''/run/arach-installer/catalog''), (''sysfs'', ''/sys''),
      (''report'', ''/run/arach-installer/hardware.toml''), (''profiles'', ''/etc/arach/hwd/profiles''),
      (''keyring'', ''/etc/arach/hwd/keys.toml''), (''catalogLock'', ''/etc/arach/hwd/catalog.lock''),
      (''driverAbi'', ''/etc/arach/hwd/driver-abi''), (''binaryIndex'', ''/etc/arach/hwd/packages.toml''),
      (''binarySignature'', ''/etc/arach/hwd/packages.toml.sig''),
      (''plan'', ''/run/arach-installer/hardware.plan.toml''),
      (''planReceipt'', ''/run/arach-installer/hardware.plan.verified.json'')]"

definition sisyphus_fingerprint :: string where
  "sisyphus_fingerprint = ''2A02745D8C2C03AE7F95BCEA8136EB9238213447''"

section \<open>Demands on a text\<close>

definition require_profile_fragment :: "string \<Rightarrow> string \<Rightarrow> unit result" where
  "require_profile_fragment content fragment =
     (if \<not> contains fragment content then Inl (Rejected ''ArchISO profile is missing a fragment'')
      else Inr ())"

fun require_fragments :: "string \<Rightarrow> string list \<Rightarrow> unit result" where
  "require_fragments content [] = Inr ()"
| "require_fragments content (f # fs) =
     bindE (require_profile_fragment content f) (\<lambda>u. require_fragments content fs)"

definition require_profile_configuration :: "string \<Rightarrow> (string \<times> string) list \<Rightarrow> unit result" where
  "require_profile_configuration content expected =
     require_fragments content (map (\<lambda>(k, v). k @ '': '' @ v) expected)"

text \<open>\<open>start\<close> is \<^verbatim>\<open>position + 1\<close>.\<close>

fun require_ordered_fragments :: "string \<Rightarrow> nat \<Rightarrow> string list \<Rightarrow> unit result" where
  "require_ordered_fragments content start [] = Inr ()"
| "require_ordered_fragments content start (f # fs) =
     (case py_find content start f of
        None \<Rightarrow> Inl (Rejected ''ArchISO profile is missing an ordered fragment'')
      | Some i \<Rightarrow> require_ordered_fragments content (Suc i) fs)"

definition choice_ids :: "string \<Rightarrow> string list result" where
  "choice_ids content =
     (let choices = choices_from 0 True content
      in if \<not> distinct choices then Inl (Rejected ''duplicate choices'') else Inr choices)"

definition same_set :: "string list \<Rightarrow> string list \<Rightarrow> bool" where
  "same_set xs ys \<longleftrightarrow> list_all (\<lambda>x. x \<in> set ys) xs \<and> list_all (\<lambda>y. y \<in> set xs) ys"

section \<open>The profile\<close>

definition profile_read :: "fs \<Rightarrow> pure_path \<Rightarrow> string \<Rightarrow> string result" where
  "profile_read fs root relative =
     (if not_regular fs (join root relative)
      then Inl (Rejected ''ArchISO profile file is missing or not regular'')
      else read_text fs (join root relative))"

record profile_texts =
  settings_text :: string
  desktop_text :: string
  bootloader_choice_text :: string
  bootloader_text :: string
  hardware_text :: string
  pacman_adapter_text :: string
  packages_text :: string
  pacman_text :: string
  profile_definition_text :: string
  build_text :: string
  customizer_text :: string
  keyring_text :: string
  readme_text :: string

definition read_profile :: "fs \<Rightarrow> pure_path \<Rightarrow> profile_texts result" where
  "read_profile fs root =
     bindE (profile_read fs root ''calamares/settings.conf'') (\<lambda>settings.
     bindE (profile_read fs root ''calamares/modules/desktop.conf'') (\<lambda>desktop.
     bindE (profile_read fs root ''calamares/modules/bootloader-choice.conf'') (\<lambda>bootloader_choice.
     bindE (profile_read fs root ''calamares/modules/bootloader.conf'') (\<lambda>bootloader.
     bindE (profile_read fs root ''calamares/modules/arach-hardware.conf'') (\<lambda>hardware.
     bindE (profile_read fs root ''calamares/modules/arach-pacman.conf'') (\<lambda>pacman_adapter.
     bindE (profile_read fs root ''packages.x86_64'') (\<lambda>packages.
     bindE (profile_read fs root ''pacman.conf'') (\<lambda>pacman.
     bindE (profile_read fs root ''profiledef.sh'') (\<lambda>profile_definition.
     bindE (profile_read fs root ''build.sh'') (\<lambda>build.
     bindE (profile_read fs root ''airootfs/root/customize_airootfs.sh'') (\<lambda>customizer.
     bindE (profile_read fs root ''airootfs/usr/share/pacman/keyrings/sisyphus-repo.asc'') (\<lambda>keyring.
     bindE (profile_read fs root ''README.md'') (\<lambda>readme.
       Inr \<lparr>settings_text = settings, desktop_text = desktop,
         bootloader_choice_text = bootloader_choice, bootloader_text = bootloader,
         hardware_text = hardware, pacman_adapter_text = pacman_adapter, packages_text = packages,
         pacman_text = pacman, profile_definition_text = profile_definition, build_text = build,
         customizer_text = customizer, keyring_text = keyring, readme_text = readme\<rparr>)))))))))))))"

definition newline :: string where
  "newline = [CHR 0x0A]"

definition in_quotes :: "string \<Rightarrow> string" where
  "in_quotes s = CHR 0x22 # s @ [CHR 0x22]"

definition check_settings :: "string \<Rightarrow> unit result" where
  "check_settings settings =
     bindE (require_ordered_fragments settings 0
       [''module: packagechooser'' @ newline @ ''    id: desktop'' @ newline @ ''    config: desktop.conf'',
        ''module: packagechooser'' @ newline @ ''    id: bootloader'' @ newline @
          ''    config: bootloader-choice.conf'',
        ''module: arachhardware'' @ newline @ ''    id: hardware'' @ newline @
          ''    config: arach-hardware.conf'',
        ''module: arachpacman'' @ newline @ ''    id: hardware-payloads'' @ newline @
          ''    config: arach-pacman.conf'',
        ''module: bootloader'' @ newline @ ''    id: bootloader'' @ newline @ ''    config: bootloader.conf'']) (\<lambda>u.
     if py_count settings ''module: packagechooser'' \<noteq> 2
     then Inl (Rejected ''Calamares must expose exactly two package chooser modules'')
     else if \<not> same_set (chooser_names 0 settings) [''desktop'', ''bootloader'']
     then Inl (Rejected ''Calamares must show exactly the desktop and bootloader choice pages'')
     else require_ordered_fragments settings 0
       [newline @ ''      - arachhardware@hardware'', newline @ ''      - packages'',
        newline @ ''      - arachpacman@hardware-payloads'', newline @ ''      - bootloader@bootloader''])"

definition check_desktop :: "string \<Rightarrow> unit result" where
  "check_desktop desktop =
     bindE (require_fragments desktop
       [''default: kde'', ''id: kde'', ''packages: [ plasma-meta, sddm, polkit-kde-agent ]'', ''id: gnome'',
        ''packages: [ gnome, gdm ]'', ''id: cosmic'',
        ''packages: [ cosmic-session, cosmic-comp, cosmic-greeter, xdg-desktop-portal-cosmic ]'']) (\<lambda>u.
     bindE (choice_ids desktop) (\<lambda>choices.
     if \<not> same_set choices [''kde'', ''gnome'', ''cosmic'']
     then Inl (Rejected ''desktop choices must be exactly KDE, GNOME, and COSMIC'') else Inr ()))"

definition check_bootloader :: "string \<Rightarrow> string \<Rightarrow> string \<Rightarrow> unit result" where
  "check_bootloader bootloader_choice bootloader packages =
     bindE (require_fragments bootloader_choice [''default: grub'', ''id: grub'', ''id: systemd-boot'']) (\<lambda>u.
     bindE (choice_ids bootloader_choice) (\<lambda>choices.
     if \<not> same_set choices [''grub'', ''systemd-boot'']
     then Inl (Rejected ''bootloader choices must be exactly GRUB and systemd-boot'')
     else bindE (require_fragments bootloader
         [''efiBootLoaderVar: '' @ in_quotes ''packagechooser_bootloader'', ''efiBootLoader: '' @ in_quotes ''grub'']) (\<lambda>u.
       require_fragments packages (map (\<lambda>p. p @ newline) bootloader_packages))))"

definition check_hardware :: "string \<Rightarrow> string \<Rightarrow> unit result" where
  "check_hardware hardware pacman_adapter =
     bindE (require_profile_configuration hardware hwd_configuration) (\<lambda>u.
     bindE (require_fragments hardware
       ([''modulesAlias:'', ''modulesFirmware:'', ''modulesDep:'', ''modulesBuiltin:''] @
        [''requireTargetProfiles: true''])) (\<lambda>u.
     if py_strip pacman_adapter \<noteq> ''---'' @ newline @ ''enabled: true''
     then Inl (Rejected ''signed Pacman adapter must be explicitly enabled'') else Inr ()))"

definition check_trust :: "string \<Rightarrow> string \<Rightarrow> string \<Rightarrow> unit result" where
  "check_trust pacman customizer keyring =
     bindE (require_fragments pacman
       [''SigLevel = Required DatabaseRequired'', ''LocalFileSigLevel = Optional'', ''[sisyphus]'',
        ''Server = https://sisyphusaeolides.github.io/Sisyphus-Repo/$arch'',
        ''SigLevel = Required DatabaseRequired'']) (\<lambda>u.
     if py_count pacman ''SigLevel = Required DatabaseRequired'' \<noteq> 2
     then Inl (Rejected ''Pacman must require signatures globally and for Sisyphus'')
     else bindE (require_fragments customizer
         [''key=/usr/share/pacman/keyrings/sisyphus-repo.asc'', ''fingerprint='' @ sisyphus_fingerprint,
          ''pacman-key --add '' @ in_quotes ''$key'', ''pacman-key --lsign-key '' @ in_quotes ''$fingerprint'']) (\<lambda>u.
       if \<not> contains ''-----BEGIN PGP PUBLIC KEY BLOCK-----'' keyring \<or>
          \<not> contains ''-----END PGP PUBLIC KEY BLOCK-----'' keyring
       then Inl (Rejected ''Sisyphus keyring must contain an armored public key'') else Inr ()))"

definition check_build :: "string \<Rightarrow> unit result" where
  "check_build build =
     require_fragments build
       ([''readonly catalog_root='' @ CHR 0x22 # ''${ARACH_HWD_CATALOG_ROOT:'',
         ''readonly snapshot_root='' @ CHR 0x22 # ''${ARACH_HWD_PACMAN_SNAPSHOT_ROOT:'',
         in_quotes ''${source_modules}/arachhardware'', in_quotes ''${source_modules}/arachpacman'',
         in_quotes ''${snapshot_root}/pacman-snapshot.toml'', in_quotes ''${snapshot_root}/pacman-snapshot.toml.sig'',
         in_quotes ''${snapshot_root}/pacman-snapshot.gpg'', in_quotes ''${snapshot_root}/pacman.conf''] @
        [''keys.toml'', ''catalog.lock'', ''packages.toml'', ''packages.toml.sig'', ''driver-abi'',
         ''pacman-snapshot.toml'', ''pacman-snapshot.toml.sig'', ''pacman-snapshot.gpg''] @
        [in_quotes ''${catalog_root}/profiles'', in_quotes ''${catalog_root}/driver-sources'',
         in_quotes ''${snapshot_root}/packages''])"

definition without_limine :: "string \<Rightarrow> bool" where
  "without_limine content \<longleftrightarrow> \<not> contains ''limine'' (casefold content)"

definition check_exclusions :: "profile_texts \<Rightarrow> unit result" where
  "check_exclusions t =
     (if contains ''aur.archlinux.org'' (casefold (pacman_text t))
      then Inl (Rejected ''ArchISO profile must not configure the AUR'')
      else if \<not> list_all without_limine [settings_text t, desktop_text t, bootloader_choice_text t,
           bootloader_text t, hardware_text t, pacman_adapter_text t, packages_text t,
           profile_definition_text t, build_text t]
      then Inl (Rejected ''Limine must not be exposed'')
      else require_profile_fragment (readme_text t) ''Limine remains experimental'')"

definition is_dir :: "fs \<Rightarrow> pure_path \<Rightarrow> bool" where
  "is_dir fs p \<longleftrightarrow> stat fs p = Some Directory"

definition validate_profile_contract :: "fs \<Rightarrow> pure_path \<Rightarrow> unit result" where
  "validate_profile_contract fs root =
     (if is_symlink fs root \<or> \<not> is_dir fs root
      then Inl (Rejected ''ArchISO profile root is missing or not a real directory'')
      else bindE (read_profile fs root) (\<lambda>t.
        bindE (check_settings (settings_text t)) (\<lambda>u.
        bindE (check_desktop (desktop_text t)) (\<lambda>u.
        bindE (check_bootloader (bootloader_choice_text t) (bootloader_text t) (packages_text t)) (\<lambda>u.
        bindE (check_hardware (hardware_text t) (pacman_adapter_text t)) (\<lambda>u.
        bindE (check_trust (pacman_text t) (customizer_text t) (keyring_text t)) (\<lambda>u.
        bindE (check_build (build_text t)) (\<lambda>u.
        check_exclusions t))))))))"

end
