(* ===== verification/ArchLock.thy ===== *)
theory ArchLock
  imports ArchProfile Timestamps Urls Json Sha256
begin

text \<open>
  The package lock and the QEMU report of
  \<^verbatim>\<open>scripts/verify_archiso_qualification.py\<close>, and its
  \<^verbatim>\<open>main\<close>. \<open>json\<close> is the JSON parser, \<open>fr\<close> the form of floats, \<open>host_ok\<close> and
  \<open>netloc_ok\<close> the parameters of \<open>urlsplit\<close>. The values that \<^verbatim>\<open>print\<close> shows are not
  modelled.
\<close>

section \<open>Small checks\<close>

definition scenarios :: "string list" where
  "scenarios = [''live-boot'', ''install'', ''reboot-installed'', ''update'', ''rollback'']"

definition FINGERPRINT_RE :: rx where
  "FINGERPRINT_RE = between 40 64 (Cls ''0123456789ABCDEF'')"

definition PACKAGE_RE :: rx where
  "PACKAGE_RE = plus_rx (Cls (lower_alnum @ ''@._+:-''))"

definition SNAPSHOT_ID_RE :: rx where
  "SNAPSHOT_ID_RE =
     Seq (Cls (lower_alnum @ ''ABCDEFGHIJKLMNOPQRSTUVWXYZ''))
       (upto_rx 127 (Cls (lower_alnum @ ''ABCDEFGHIJKLMNOPQRSTUVWXYZ._-'')))"

definition canonical_sha256 :: "(pyfloat \<Rightarrow> string) \<Rightarrow> pyval \<Rightarrow> string result" where
  "canonical_sha256 fr v = bindE (json_dumps fr v) (\<lambda>encoded. Inr (sha256_hex encoded))"

definition verify_timestamp :: "pyval \<Rightarrow> unit result" where
  "verify_timestamp v =
     (if \<not> str_that (\<lambda>s. True) v then Inl (Rejected ''must be an RFC 3339 UTC timestamp'')
      else bindE (utc_timestamp ''must be an RFC 3339 UTC timestamp'' ''must be an RFC 3339 UTC timestamp''
         (str_of v)) (\<lambda>t. Inr ()))"

definition verify_digest :: "pyval \<Rightarrow> unit result" where
  "verify_digest v =
     (if \<not> str_that (fullmatch SHA256_RE) v
      then Inl (Rejected ''must be a lowercase SHA-256 digest'') else Inr ())"

definition verify_file :: "fs \<Rightarrow> pure_path \<Rightarrow> pyval \<Rightarrow> pyval \<Rightarrow> unit result" where
  "verify_file fs root relative digest =
     (if \<not> str_that safe_relative relative then Inl (Rejected ''path must be a safe relative path'')
      else bindE (verify_digest digest) (\<lambda>u.
        if not_regular fs (join root (str_of relative))
        then Inl (Rejected ''is missing or not a regular file'')
        else bindE (read_bytes fs (join root (str_of relative))) (\<lambda>content.
          if sha256_hex content \<noteq> str_of digest then Inl (Rejected ''digest does not match'')
          else Inr ())))"

text \<open>\<^verbatim>\<open>urlparse\<close> takes the parameters of the last segment off the path.\<close>

definition without_params :: "string \<Rightarrow> string" where
  "without_params p =
     (let name = after_last CHR ''/'' p
      in take (length p - length name) p @ takeWhile (\<lambda>c. c \<noteq> CHR '';'') name)"

definition ends_with :: "string \<Rightarrow> string \<Rightarrow> bool" where
  "ends_with w s \<longleftrightarrow> starts_with (rev w) (rev s)"

text \<open>\<^verbatim>\<open>parsed.username or parsed.password\<close>\<close>

definition credentials :: "string \<Rightarrow> bool" where
  "credentials n \<longleftrightarrow>
     has_userinfo n \<and> (let user = take (length n - length (after_last CHR ''@'' n) - 1) n
       in user \<noteq> [] \<and> user \<noteq> '':'')"

definition verify_snapshot_url :: "(string \<Rightarrow> bool) \<Rightarrow> (string \<Rightarrow> bool) \<Rightarrow> pyval \<Rightarrow> unit result" where
  "verify_snapshot_url host_ok netloc_ok v =
     (if \<not> str_that (\<lambda>s. True) v then Inl (Rejected ''must use HTTPS'')
      else bindE (urlsplit host_ok netloc_ok (str_of v)) (\<lambda>parsed.
        if scheme parsed \<noteq> ''https'' \<or> url_host (netloc parsed) = [] \<or> credentials (netloc parsed) \<or>
           url_query parsed \<noteq> [] \<or> fragment parsed \<noteq> []
        then Inl (Rejected ''must use a canonical HTTPS URL'')
        else let host = casefold (url_host (netloc parsed))
          in if host = ''aur.archlinux.org'' \<or> ends_with ''.aur.archlinux.org'' host
             then Inl (Rejected ''must not use the AUR'') else Inr ()))"

section \<open>Documents\<close>

definition lock_load :: "(string \<Rightarrow> pyval option) \<Rightarrow> fs \<Rightarrow> pure_path \<Rightarrow> pyval result" where
  "lock_load json fs p =
     (case read_text fs p of
        Inl e \<Rightarrow> Inl (if e = OSError then Rejected ''cannot load'' else e)
      | Inr content \<Rightarrow>
          (case json content of
             None \<Rightarrow> Inl (Rejected ''cannot load'')
           | Some v \<Rightarrow> (if \<not> is_dict v then Inl (Rejected ''must be a JSON object'') else Inr v)))"

text \<open>Every call leaves \<^verbatim>\<open>file_field\<close> at its default.\<close>

definition verify_signed_file :: "fs \<Rightarrow> pure_path \<Rightarrow> pyval \<Rightarrow> unit result" where
  "verify_signed_file fs root entry =
     (if \<not> has_fields [''path'', ''sha256'', ''signature'', ''signature_sha256'', ''signer_fingerprint''] entry
      then Inl (Rejected ''has unexpected or missing fields'')
      else bindE (verify_file fs root (field entry ''path'') (field entry ''sha256'')) (\<lambda>u.
        bindE (verify_file fs root (field entry ''signature'') (field entry ''signature_sha256'')) (\<lambda>u.
        if \<not> str_that (fullmatch FINGERPRINT_RE) (field entry ''signer_fingerprint'')
        then Inl (Rejected ''signer_fingerprint must be a full OpenPGP fingerprint'') else Inr ())))"

definition load_evidence_json ::
    "(string \<Rightarrow> pyval option) \<Rightarrow> fs \<Rightarrow> pure_path \<Rightarrow> pyval \<Rightarrow> pyval result" where
  "load_evidence_json json fs root entry =
     bindE (verify_file fs root (field entry ''path'') (field entry ''sha256'')) (\<lambda>u.
       lock_load json fs (join root (str_of (field entry ''path''))))"

section \<open>The bill of materials and the provenance\<close>

text \<open>Dictionaries of strings are lists of pairs with different keys; they are equal as sets.\<close>

definition expected_versions :: "pyval list \<Rightarrow> (string \<times> string) list" where
  "expected_versions packages =
     map (\<lambda>p. (str_of (field p ''name''), str_of (field p ''version''))) packages"

definition sbom_step ::
    "string \<Rightarrow> nat \<Rightarrow> pyval \<Rightarrow> (string \<times> string) list \<Rightarrow> (string \<times> string) list result" where
  "sbom_step version_field index v observed =
     (if \<not> is_dict v then Inl (Rejected ''sbom package entries must be objects'')
      else let name = field v ''name''; version = field v version_field
        in if \<not> str_that (\<lambda>s. True) name \<or> \<not> str_that (\<lambda>s. True) version \<or>
              str_of name \<in> fst ` set observed
           then Inl (Rejected ''sbom package entries must have unique names and versions'')
           else Inr (observed @ [(str_of name, str_of version)]))"

definition verify_sbom ::
    "(string \<Rightarrow> pyval option) \<Rightarrow> fs \<Rightarrow> pure_path \<Rightarrow> pyval \<Rightarrow> pyval list \<Rightarrow> string \<Rightarrow> unit result" where
  "verify_sbom json fs root entry packages package_set_sha256 =
     (if \<not> py_eq (field entry ''package_set_sha256'') (PStr package_set_sha256)
      then Inl (Rejected ''sbom does not bind the package list'')
      else bindE (load_evidence_json json fs root entry) (\<lambda>document.
        let spdx = py_eq (field entry ''format'') (PStr ''spdx-json'') in
        if spdx \<and> \<not> str_that (starts_with ''SPDX-'') (field document ''spdxVersion'')
        then Inl (Rejected ''sbom must be a valid SPDX JSON document'')
        else if \<not> spdx \<and> (\<not> py_eq (field document ''bomFormat'') (PStr ''CycloneDX'') \<or>
             \<not> str_that (\<lambda>s. True) (field document ''specVersion''))
        then Inl (Rejected ''sbom must be a valid CycloneDX JSON document'')
        else let reported = field document (if spdx then ''packages'' else ''components'')
          in if \<not> is_list reported
             then Inl (Rejected ''sbom must enumerate every immutable package'')
             else bindE (forE (sbom_step (if spdx then ''versionInfo'' else ''version'')) 0
                 (list_of reported) []) (\<lambda>observed.
               if set observed \<noteq> set (expected_versions packages)
               then Inl (Rejected ''sbom package names and versions must match the immutable package lock'')
               else Inr ())))"

definition binds_package_set :: "string \<Rightarrow> pyval \<Rightarrow> bool" where
  "binds_package_set package_set_sha256 subject \<longleftrightarrow>
     is_dict subject \<and> py_eq (field subject ''name'') (PStr ''arachos-package-set'') \<and>
     is_dict (field subject ''digest'') \<and>
     py_eq (field (field subject ''digest'') ''sha256'') (PStr package_set_sha256)"

definition verify_provenance ::
    "(string \<Rightarrow> pyval option) \<Rightarrow> fs \<Rightarrow> pure_path \<Rightarrow> pyval \<Rightarrow> string \<Rightarrow> unit result" where
  "verify_provenance json fs root entry package_set_sha256 =
     (if \<not> py_eq (field entry ''package_set_sha256'') (PStr package_set_sha256)
      then Inl (Rejected ''provenance does not bind the package list'')
      else bindE (load_evidence_json json fs root entry) (\<lambda>document.
        if \<not> py_eq (field document ''_type'') (PStr ''https://in-toto.io/Statement/v1'') \<or>
           \<not> str_that (\<lambda>s. s \<noteq> []) (field document ''predicateType'') \<or>
           \<not> is_dict (field document ''predicate'') \<or> \<not> is_list (field document ''subject'')
        then Inl (Rejected ''provenance must be an in-toto statement with subjects'')
        else if list_ex (binds_package_set package_set_sha256) (list_of (field document ''subject''))
        then Inr ()
        else Inl (Rejected ''provenance must bind the immutable package set'')))"

section \<open>The package lock\<close>

text \<open>The record of the snapshot; its repository is the answer.\<close>

definition validate_snapshot ::
    "fs \<Rightarrow> (string \<Rightarrow> bool) \<Rightarrow> (string \<Rightarrow> bool) \<Rightarrow> pure_path \<Rightarrow> pyval \<Rightarrow> unit result" where
  "validate_snapshot fs host_ok netloc_ok root snapshot =
     (if \<not> has_fields [''id'', ''repository'', ''generated_at'', ''database'', ''keyring'', ''verification''] snapshot
      then Inl (Rejected ''snapshot has unexpected or missing fields'')
      else if \<not> str_that (fullmatch SNAPSHOT_ID_RE) (field snapshot ''id'')
      then Inl (Rejected ''snapshot.id must be a canonical immutable identifier'')
      else bindE (verify_snapshot_url host_ok netloc_ok (field snapshot ''repository'')) (\<lambda>u.
      bindE (urlsplit host_ok netloc_ok (str_of (field snapshot ''repository''))) (\<lambda>parsed.
      if str_of (field snapshot ''id'') \<notin> set (split_on CHR ''/'' (without_params (url_path parsed)))
      then Inl (Rejected ''snapshot.repository must identify snapshot.id'')
      else bindE (verify_timestamp (field snapshot ''generated_at'')) (\<lambda>u.
      if \<not> is_dict (field snapshot ''database'')
      then Inl (Rejected ''snapshot.database must be an object'')
      else bindE (verify_signed_file fs root (field snapshot ''database'')) (\<lambda>u.
      let keyring = field snapshot ''keyring''; verification = field snapshot ''verification'' in
      if \<not> has_fields [''path'', ''sha256''] keyring
      then Inl (Rejected ''snapshot keyring has unexpected or missing fields'')
      else bindE (verify_file fs root (field keyring ''path'') (field keyring ''sha256'')) (\<lambda>u.
      if \<not> has_fields [''path'', ''sha256'', ''tool''] verification
      then Inl (Rejected ''snapshot verification has unexpected or missing fields'')
      else bindE (in_str_set (field verification ''tool'') [''gpgv'', ''pacman-key'']) (\<lambda>known_tool.
      if \<not> known_tool
      then Inl (Rejected ''snapshot verification tool must be gpgv or pacman-key'')
      else verify_file fs root (field verification ''path'') (field verification ''sha256''))))))))"

definition lock_package_step ::
    "fs \<Rightarrow> pure_path \<Rightarrow> string \<Rightarrow> nat \<Rightarrow> pyval \<Rightarrow> string set \<Rightarrow> string set result" where
  "lock_package_step fs root repository index package names =
     (let label = item ''packages'' index in
      if \<not> has_fields [''name'', ''version'', ''architecture'', ''repository'', ''archive''] package
      then Inl (Rejected (label @ '' has unexpected or missing fields''))
      else if \<not> str_that (fullmatch PACKAGE_RE) (field package ''name'')
      then Inl (Rejected (label @ ''.name is invalid''))
      else if str_of (field package ''name'') \<in> names
      then Inl (Rejected (label @ ''.name is duplicated''))
      else if \<not> str_that (\<lambda>s. s \<noteq> []) (field package ''version'')
      then Inl (Rejected (label @ ''.version must be non-empty''))
      else bindE (in_str_set (field package ''architecture'') [''x86_64'', ''aarch64'']) (\<lambda>known.
      if \<not> known then Inl (Rejected (label @ ''.architecture is unsupported''))
      else if \<not> py_eq (field package ''repository'') (PStr repository)
      then Inl (Rejected (label @ ''.repository must match the immutable snapshot repository''))
      else if \<not> is_dict (field package ''archive'')
      then Inl (Rejected (label @ ''.archive must be an object''))
      else bindE (verify_signed_file fs root (field package ''archive'')) (\<lambda>u.
        Inr (insert (str_of (field package ''name'')) names))))"

record lock_inputs =
  snapshot_digest :: string
  package_set_digest :: string
  package_count :: nat

definition attachment_fields :: "string list" where
  "attachment_fields = [''path'', ''sha256'', ''format'', ''package_set_sha256'']"

definition validate_attachments ::
    "(string \<Rightarrow> pyval option) \<Rightarrow> fs \<Rightarrow> pure_path \<Rightarrow> pyval \<Rightarrow> pyval list \<Rightarrow> string \<Rightarrow> unit result" where
  "validate_attachments json fs root document packages package_set_sha256 =
     (let sbom = field document ''sbom''; provenance = field document ''provenance'' in
      if \<not> has_fields attachment_fields sbom
      then Inl (Rejected ''sbom has unexpected or missing fields'')
      else if \<not> has_fields attachment_fields provenance
      then Inl (Rejected ''provenance has unexpected or missing fields'')
      else bindE (in_str_set (field sbom ''format'') [''spdx-json'', ''cyclonedx-json'']) (\<lambda>known.
      if \<not> known then Inl (Rejected ''sbom must use SPDX or CycloneDX JSON'')
      else if \<not> py_eq (field provenance ''format'') (PStr ''in-toto-statement'')
      then Inl (Rejected ''provenance must use an in-toto statement'')
      else bindE (verify_sbom json fs root sbom packages package_set_sha256) (\<lambda>u.
        verify_provenance json fs root provenance package_set_sha256)))"

definition validate_package_lock ::
    "(string \<Rightarrow> pyval option) \<Rightarrow> (pyfloat \<Rightarrow> string) \<Rightarrow> (string \<Rightarrow> bool) \<Rightarrow> (string \<Rightarrow> bool) \<Rightarrow>
     fs \<Rightarrow> pure_path \<Rightarrow> pyval \<Rightarrow> lock_inputs result" where
  "validate_package_lock json fr host_ok netloc_ok fs root document =
     (if \<not> has_fields [''format'', ''distribution'', ''archiso_profile_revision'', ''snapshot'', ''packages'',
           ''package_set_sha256'', ''sbom'', ''provenance''] document
      then Inl (Rejected ''package lock has unexpected or missing fields'')
      else if \<not> py_eq (field document ''format'') (PInt 1) \<or>
              \<not> py_eq (field document ''distribution'') (PStr ''ArachOS'')
      then Inl (Rejected ''package lock identity is invalid'')
      else if \<not> str_that (fullmatch REVISION_RE) (field document ''archiso_profile_revision'')
      then Inl (Rejected ''archiso_profile_revision must be a full Git object ID'')
      else let snapshot = field document ''snapshot''; packages = field document ''packages'' in
        bindE (validate_snapshot fs host_ok netloc_ok root snapshot) (\<lambda>u.
        if \<not> is_list packages \<or> list_of packages = []
        then Inl (Rejected ''packages must be a non-empty array'')
        else bindE (forE (lock_package_step fs root (str_of (field snapshot ''repository''))) 0
            (list_of packages) {}) (\<lambda>names.
        bindE (canonical_sha256 fr packages) (\<lambda>package_set_sha256.
        if \<not> py_eq (field document ''package_set_sha256'') (PStr package_set_sha256)
        then Inl (Rejected ''package_set_sha256 does not bind the package list'')
        else if list_ex (\<lambda>p. p \<notin> names) required_choice_packages
        then Inl (Rejected
          ''immutable snapshot does not supply required desktop or bootloader packages'')
        else bindE (validate_attachments json fs root document (list_of packages) package_set_sha256) (\<lambda>u.
          Inr \<lparr>snapshot_digest = str_of (field (field snapshot ''database'') ''sha256''),
               package_set_digest = package_set_sha256, package_count = length (list_of packages)\<rparr>)))))"

section \<open>The QEMU report\<close>

definition expected_transitions :: "string \<Rightarrow> string \<Rightarrow> (string \<times> string \<times> bool) list" where
  "expected_transitions initial update =
     [(initial, initial, False), (initial, initial, True), (initial, initial, True),
      (initial, update, True), (update, initial, True)]"

definition scenario_step ::
    "fs \<Rightarrow> pure_path \<Rightarrow> nat \<Rightarrow> pyval \<times> string \<times> string \<times> string \<times> bool \<Rightarrow> unit \<Rightarrow> unit result" where
  "scenario_step fs root index x u =
     (case x of (scenario, expected_id, before, after, reboot) \<Rightarrow>
      let label = item ''scenarios'' index in
      if \<not> has_fields [''id'', ''status'', ''log'', ''log_sha256'', ''snapshot_before_sha256'',
            ''snapshot_after_sha256'', ''post_reboot''] scenario
      then Inl (Rejected (label @ '' has unexpected or missing fields''))
      else if \<not> py_eq (field scenario ''id'') (PStr expected_id)
      then Inl (Rejected (label @ ''.id differs from canonical qualification order''))
      else if \<not> py_eq (field scenario ''status'') (PStr ''passed'')
      then Inl (Rejected (label @ '' did not pass''))
      else bindE (verify_file fs root (field scenario ''log'') (field scenario ''log_sha256'')) (\<lambda>u.
        if \<not> py_eq (field scenario ''snapshot_before_sha256'') (PStr before) \<or>
           \<not> py_eq (field scenario ''snapshot_after_sha256'') (PStr after) \<or>
           field scenario ''post_reboot'' \<noteq> PBool reboot
        then Inl (Rejected (label @ '' has an invalid snapshot or reboot transition''))
        else Inr ()))"

definition validate_qemu_report ::
    "fs \<Rightarrow> pure_path \<Rightarrow> pyval \<Rightarrow> string \<Rightarrow> string \<Rightarrow> nat result" where
  "validate_qemu_report fs root document package_lock_sha256 snapshot_sha256 =
     (if \<not> has_fields [''format'', ''captured_at'', ''package_lock_sha256'', ''image'', ''image_sha256'',
           ''qemu'', ''firmware'', ''initial_snapshot_sha256'', ''update_snapshot_sha256'', ''scenarios''] document
      then Inl (Rejected ''QEMU report has unexpected or missing fields'')
      else if \<not> py_eq (field document ''format'') (PInt 1)
      then Inl (Rejected ''QEMU report format is invalid'')
      else bindE (verify_timestamp (field document ''captured_at'')) (\<lambda>u.
      if \<not> py_eq (field document ''package_lock_sha256'') (PStr package_lock_sha256)
      then Inl (Rejected ''QEMU report does not bind the package lock'')
      else bindE (verify_file fs root (field document ''image'') (field document ''image_sha256'')) (\<lambda>u.
      let firmware = field document ''firmware''; update = field document ''update_snapshot_sha256'';
          qemu = field document ''qemu''; records = field document ''scenarios'' in
      if \<not> has_fields [''path'', ''sha256''] firmware
      then Inl (Rejected ''QEMU firmware evidence has unexpected or missing fields'')
      else bindE (verify_file fs root (field firmware ''path'') (field firmware ''sha256'')) (\<lambda>u.
      if \<not> py_eq (field document ''initial_snapshot_sha256'') (PStr snapshot_sha256)
      then Inl (Rejected ''QEMU report initial snapshot differs from the package lock'')
      else bindE (verify_digest update) (\<lambda>u.
      if py_eq update (PStr snapshot_sha256)
      then Inl (Rejected ''QEMU report update snapshot must differ from the initial snapshot'')
      else if \<not> has_fields [''binary'', ''version'', ''machine'', ''firmware_sha256''] qemu
      then Inl (Rejected ''QEMU environment has unexpected or missing fields'')
      else if \<not> py_eq (field qemu ''binary'') (PStr ''qemu-system-x86_64'') \<or>
              \<not> str_that (\<lambda>s. s \<noteq> []) (field qemu ''version'')
      then Inl (Rejected ''QEMU x86_64 binary and version must be recorded'')
      else if \<not> py_eq (field qemu ''machine'') (PStr ''q35'')
      then Inl (Rejected ''QEMU machine must be q35'')
      else bindE (verify_digest (field qemu ''firmware_sha256'')) (\<lambda>u.
      if \<not> py_eq (field qemu ''firmware_sha256'') (field firmware ''sha256'')
      then Inl (Rejected ''QEMU firmware digest differs from retained firmware evidence'')
      else if \<not> is_list records \<or> length (list_of records) \<noteq> length scenarios
      then Inl (Rejected ''QEMU report must contain all five scenarios'')
      else bindE (forE (scenario_step fs root) 0
          (zip (list_of records) (zip scenarios (expected_transitions snapshot_sha256 (str_of update)))) ())
        (\<lambda>u. Inr (length (list_of records)))))))))"

section \<open>The program\<close>

definition resolve_strict :: "fs \<Rightarrow> pure_path \<Rightarrow> pure_path result" where
  "resolve_strict fs p =
     (case walk fs True max_links [] (tail p) of
        None \<Rightarrow> Inl OSError
      | Some q \<Rightarrow> (if node_at fs q = None then Inl OSError else Inr (abs_path q)))"

text \<open>
  \<^verbatim>\<open>main\<close> once the command line is parsed; \<open>qemu\<close> is the report and the root of its
  artifacts, given together or not at all. The answer is the number of packages and of scenarios.
\<close>

definition qualify ::
    "(string \<Rightarrow> pyval option) \<Rightarrow> (pyfloat \<Rightarrow> string) \<Rightarrow> (string \<Rightarrow> bool) \<Rightarrow> (string \<Rightarrow> bool) \<Rightarrow> fs \<Rightarrow>
     pure_path \<Rightarrow> pure_path \<Rightarrow> pure_path \<Rightarrow> (pure_path \<times> pure_path) option \<Rightarrow> (nat \<times> nat) result" where
  "qualify json fr host_ok netloc_ok fs package_lock artifacts_root profile_root qemu =
     bindE (resolve_strict fs package_lock) (\<lambda>lock.
     bindE (read_bytes fs lock) (\<lambda>lock_bytes.
     bindE (validate_profile_contract fs profile_root) (\<lambda>u.
     bindE (resolve_strict fs artifacts_root) (\<lambda>root.
     bindE (lock_load json fs lock) (\<lambda>document.
     bindE (validate_package_lock json fr host_ok netloc_ok fs root document) (\<lambda>inputs.
     case qemu of
       None \<Rightarrow> Inr (package_count inputs, 0)
     | Some (report, report_root) \<Rightarrow>
         bindE (resolve_strict fs report) (\<lambda>report_path.
         bindE (lock_load json fs report_path) (\<lambda>report_document.
         bindE (resolve_strict fs report_root) (\<lambda>qemu_root.
         bindE (validate_qemu_report fs qemu_root report_document (sha256_hex lock_bytes)
             (snapshot_digest inputs)) (\<lambda>count.
         Inr (package_count inputs, count)))))))))))"

end
