(* ===== verification/ArchProps.thy ===== *)
theory ArchProps
  imports ArchLock Ledger HardwareJob
begin

text \<open>
  What an accepted package lock, an accepted QEMU report and an accepted release profile guarantee.
\<close>

section \<open>Files and signatures\<close>

text \<open>A path below the root that is a regular file, no link, whose content has the digest.\<close>

definition file_with_digest :: "fs \<Rightarrow> pure_path \<Rightarrow> pyval \<Rightarrow> pyval \<Rightarrow> bool" where
  "file_with_digest fs root relative digest \<longleftrightarrow>
     (\<exists>r content. relative = PStr r \<and> digest = PStr (sha256_hex content) \<and> safe_relative r \<and>
        \<not> is_symlink fs (join root r) \<and> read_bytes fs (join root r) = Inr content)"

lemma sha256_hex_matches: "fullmatch SHA256_RE (sha256_hex x)"
proof -
  have "set hex_chars \<subseteq> set lower_hex" by code_simp
  with sha256_hex_form [of x] show ?thesis by (auto simp: sha256_re_iff)
qed

lemma verify_digest_iff [result_simps]:
  "verify_digest v = Inr u \<longleftrightarrow> (\<exists>d. v = PStr d \<and> fullmatch SHA256_RE d)"
  by (auto simp: verify_digest_def)

lemma verify_file_iff [result_simps]:
  "verify_file fs root relative digest = Inr u \<longleftrightarrow> file_with_digest fs root relative digest"
  using sha256_hex_matches
  by (auto simp: verify_file_def file_with_digest_def result_simps not_regular_def dest: read_bytes_is_file)

definition signed_file :: "fs \<Rightarrow> pure_path \<Rightarrow> pyval \<Rightarrow> bool" where
  "signed_file fs root entry \<longleftrightarrow>
     has_fields [''path'', ''sha256'', ''signature'', ''signature_sha256'', ''signer_fingerprint''] entry \<and>
     file_with_digest fs root (field entry ''path'') (field entry ''sha256'') \<and>
     file_with_digest fs root (field entry ''signature'') (field entry ''signature_sha256'') \<and>
     str_that (fullmatch FINGERPRINT_RE) (field entry ''signer_fingerprint'')"

lemma verify_signed_file_iff [result_simps]:
  "verify_signed_file fs root entry = Inr u \<longleftrightarrow> signed_file fs root entry"
  by (auto simp: verify_signed_file_def signed_file_def result_simps)

section \<open>The package lock\<close>

definition package_name_of :: "pyval \<Rightarrow> string" where
  "package_name_of p = str_of (field p ''name'')"

definition lock_package_ok :: "fs \<Rightarrow> pure_path \<Rightarrow> string \<Rightarrow> pyval \<Rightarrow> bool" where
  "lock_package_ok fs root repository p \<longleftrightarrow>
     has_fields [''name'', ''version'', ''architecture'', ''repository'', ''archive''] p \<and>
     str_that (fullmatch PACKAGE_RE) (field p ''name'') \<and> str_that (\<lambda>s. s \<noteq> []) (field p ''version'') \<and>
     (field p ''architecture'' = PStr ''x86_64'' \<or> field p ''architecture'' = PStr ''aarch64'') \<and>
     field p ''repository'' = PStr repository \<and> signed_file fs root (field p ''archive'')"

lemma in_str_set_result [result_simps]: "in_str_set v ss = Inr b \<longleftrightarrow> hashable v \<and> b = str_that (\<lambda>s. s \<in> set ss) v"
  by (auto simp: in_str_set_def)

lemma signed_file_dict: "signed_file fs root entry \<Longrightarrow> is_dict entry"
  by (cases entry) (auto simp: signed_file_def)

interpretation lock_packages: unique_loop
  "lock_package_step fs root repository" "\<lambda>i. lock_package_ok fs root repository" package_name_of "\<lambda>s. s"
  "\<lambda>p. insert (package_name_of p)" for fs root repository
proof
  show "lock_package_step fs root repository i p s = Inr t \<longleftrightarrow>
      lock_package_ok fs root repository p \<and> package_name_of p \<notin> s \<and> t = insert (package_name_of p) s" for i p s t
    using signed_file_dict [of fs root "field p ''archive''"]
    by (auto simp: lock_package_step_def lock_package_ok_def package_name_of_def Let_def result_simps)
qed simp

interpretation sbom_entries: unique_loop
  "sbom_step version_field"
  "\<lambda>i v. is_dict v \<and> str_that (\<lambda>s. True) (field v ''name'') \<and> str_that (\<lambda>s. True) (field v version_field)"
  package_name_of "\<lambda>s. fst ` set s" "\<lambda>v s. s @ [(package_name_of v, str_of (field v version_field))]" for version_field
  by unfold_locales (auto simp: sbom_step_def package_name_of_def Let_def result_simps)

lemma sbom_collected:
  "fold (\<lambda>v s. s @ [(package_name_of v, str_of (field v version_field))]) vs acc =
     acc @ map (\<lambda>v. (package_name_of v, str_of (field v version_field))) vs"
  by (induction vs arbitrary: acc) auto

text \<open>What a bill of materials reports, in the format that its entry names.\<close>

definition reported_packages :: "pyval \<Rightarrow> pyval \<Rightarrow> (string \<times> string) list" where
  "reported_packages entry bom =
     (if field entry ''format'' = PStr ''spdx-json''
      then map (\<lambda>v. (package_name_of v, str_of (field v ''versionInfo''))) (list_of (field bom ''packages''))
      else map (\<lambda>v. (package_name_of v, str_of (field v ''version''))) (list_of (field bom ''components'')))"

lemma sbom_reported:
  assumes "verify_sbom json fs root entry packages digest = Inr u"
  shows "field entry ''package_set_sha256'' = PStr digest \<and>
    file_with_digest fs root (field entry ''path'') (field entry ''sha256'') \<and>
    (\<exists>bom. lock_load json fs (join root (str_of (field entry ''path''))) = Inr bom \<and>
       distinct (map fst (reported_packages entry bom)) \<and>
       set (reported_packages entry bom) = set (expected_versions packages))"
proof -
  define spdx where "spdx = (field entry ''format'' = PStr ''spdx-json'')"
  define key where "key = (if spdx then ''packages'' else ''components'')"
  define version where "version = (if spdx then ''versionInfo'' else ''version'')"
  obtain bom observed where start: "field entry ''package_set_sha256'' = PStr digest"
      "file_with_digest fs root (field entry ''path'') (field entry ''sha256'')"
      "lock_load json fs (join root (str_of (field entry ''path''))) = Inr bom"
    and loop: "forE (sbom_step version) 0 (list_of (field bom key)) [] = Inr observed"
    and same: "set observed = set (expected_versions packages)"
    using assms
    by (auto simp: verify_sbom_def load_evidence_json_def result_simps Let_def spdx_def key_def version_def
        split: if_splits)
  have observed: "observed = map (\<lambda>v. (package_name_of v, str_of (field v version))) (list_of (field bom key))"
    and distinct: "distinct (map package_name_of (list_of (field bom key)))"
    using loop by (auto simp: sbom_entries.loop_iff sbom_collected)
  have reported: "reported_packages entry bom = observed"
    unfolding reported_packages_def observed key_def version_def spdx_def by simp
  have "map fst observed = map package_name_of (list_of (field bom key))"
    unfolding observed by simp
  with distinct start same reported show ?thesis by auto
qed

lemma provenance_binds:
  assumes "verify_provenance json fs root entry digest = Inr u"
  shows "field entry ''package_set_sha256'' = PStr digest \<and>
    file_with_digest fs root (field entry ''path'') (field entry ''sha256'') \<and>
    (\<exists>statement. lock_load json fs (join root (str_of (field entry ''path''))) = Inr statement \<and>
       (\<exists>subject \<in> set (list_of (field statement ''subject'')). binds_package_set digest subject))"
  using assms
  by (auto simp: verify_provenance_def load_evidence_json_def result_simps list_ex_iff split: if_splits)

lemma snapshot_database:
  "validate_snapshot fs host_ok netloc_ok root snapshot = Inr u \<Longrightarrow> signed_file fs root (field snapshot ''database'')"
  by (auto simp: validate_snapshot_def result_simps Let_def split: if_splits)

abbreviation packages_of :: "pyval \<Rightarrow> pyval list" where
  "packages_of document \<equiv> list_of (field document ''packages'')"


section \<open>The QEMU report\<close>

definition scenarios_of :: "pyval \<Rightarrow> pyval list" where
  "scenarios_of report = list_of (field report ''scenarios'')"

definition snapshot_before :: "pyval \<Rightarrow> pyval" where
  "snapshot_before s = field s ''snapshot_before_sha256''"

definition snapshot_after :: "pyval \<Rightarrow> pyval" where
  "snapshot_after s = field s ''snapshot_after_sha256''"

definition scenario_ok :: "fs \<Rightarrow> pure_path \<Rightarrow> pyval \<times> string \<times> string \<times> string \<times> bool \<Rightarrow> bool" where
  "scenario_ok fs root x \<longleftrightarrow>
     (case x of (scenario, expected_id, before, after, reboot) \<Rightarrow>
        field scenario ''id'' = PStr expected_id \<and> field scenario ''status'' = PStr ''passed'' \<and>
        file_with_digest fs root (field scenario ''log'') (field scenario ''log_sha256'') \<and>
        snapshot_before scenario = PStr before \<and> snapshot_after scenario = PStr after \<and>
        field scenario ''post_reboot'' = PBool reboot)"

lemma scenario_step_ok: "scenario_step fs root i x u = Inr v \<Longrightarrow> scenario_ok fs root x"
  by (auto simp: scenario_step_def scenario_ok_def snapshot_before_def snapshot_after_def Let_def result_simps
      split: prod.splits)

lemma scenario_loop: "forE (scenario_step fs root) i xs u = Inr v \<Longrightarrow> list_all (scenario_ok fs root) xs"
  by (induction xs arbitrary: i u) (auto simp: result_simps dest: scenario_step_ok)

text \<open>
  The scenarios of a report as a history: all five in order and passed, each with its log, each
  started on the snapshot the previous one left, from the locked snapshot back to it, with
  one change of the snapshot by the update and one by the rollback, and rebooted after the first.
\<close>

definition passed_history :: "fs \<Rightarrow> pure_path \<Rightarrow> string \<Rightarrow> pyval list \<Rightarrow> bool" where
  "passed_history fs root snapshot ss \<longleftrightarrow>
     map (\<lambda>s. field s ''id'') ss = map PStr scenarios \<and>
     list_all (\<lambda>s. field s ''status'' = PStr ''passed'' \<and>
       file_with_digest fs root (field s ''log'') (field s ''log_sha256'')) ss \<and>
     snapshot_before (hd ss) = PStr snapshot \<and> snapshot_after (last ss) = PStr snapshot \<and>
     (\<forall>i < 4. snapshot_after (ss ! i) = snapshot_before (ss ! Suc i)) \<and>
     (\<forall>i < 5. snapshot_before (ss ! i) \<noteq> snapshot_after (ss ! i) \<longleftrightarrow> 3 \<le> i) \<and>
     map (\<lambda>s. field s ''post_reboot'') ss = map PBool [False, True, True, True, True]"

lemma history_of_transitions:
  assumes "length ss = 5" and "snapshot \<noteq> new"
    and "list_all (scenario_ok fs root) (zip ss (zip scenarios (expected_transitions snapshot new)))"
  shows "passed_history fs root snapshot ss"
proof -
  from assms(1) obtain a b c d e where ss: "ss = [a, b, c, d, e]"
    by (auto simp: eval_nat_numeral length_Suc_conv)
  have all5: "(\<forall>i < (5 :: nat). P i) \<longleftrightarrow> P 0 \<and> P 1 \<and> P 2 \<and> P 3 \<and> P 4"
    and all4: "(\<forall>i < (4 :: nat). P i) \<longleftrightarrow> P 0 \<and> P 1 \<and> P 2 \<and> P 3" for P
    by (simp_all add: eval_nat_numeral All_less_Suc conj_ac)
  have ok: "scenario_ok fs root (a, ''live-boot'', snapshot, snapshot, False)"
    "scenario_ok fs root (b, ''install'', snapshot, snapshot, True)"
    "scenario_ok fs root (c, ''reboot-installed'', snapshot, snapshot, True)"
    "scenario_ok fs root (d, ''update'', snapshot, new, True)"
    "scenario_ok fs root (e, ''rollback'', new, snapshot, True)"
    using assms(3) by (simp_all add: ss scenarios_def expected_transitions_def)
  show ?thesis
    using ok assms(2) unfolding passed_history_def all4 all5
    by (auto simp: ss scenario_ok_def scenarios_def)
qed

lemma qemu_history:
  assumes "validate_qemu_report fs root document lock_digest snapshot = Inr n"
  shows "n = 5 \<and> field document ''package_lock_sha256'' = PStr lock_digest \<and>
    file_with_digest fs root (field document ''image'') (field document ''image_sha256'') \<and>
    passed_history fs root snapshot (scenarios_of document)"
proof -
  obtain new where new: "new \<noteq> snapshot"
    and five: "length (scenarios_of document) = 5" "n = 5"
    and loop: "forE (scenario_step fs root) 0
      (zip (scenarios_of document) (zip scenarios (expected_transitions snapshot new))) () = Inr ()"
    and bound: "field document ''package_lock_sha256'' = PStr lock_digest"
      "file_with_digest fs root (field document ''image'') (field document ''image_sha256'')"
    using assms
    by (auto simp: validate_qemu_report_def scenarios_of_def result_simps Let_def scenarios_def split: if_splits)
  from history_of_transitions [OF five(1) new [symmetric] scenario_loop [OF loop]] five(2) bound show ?thesis by simp
qed

text \<open>
  C3. Qualification holds end to end. When the program accepts a lock together with a QEMU report,
  the report names the digest of the very lock file that was checked, its image is a file with
  the recorded digest, and its five scenarios are the canonical ones in order, all passed with
  their logs retained; each starts on the snapshot that the one before it left, the first on the
  snapshot whose signed database the lock records, and after exactly one update and its rollback
  the last ends there again.
\<close>

theorem qualification_is_end_to_end:
  assumes "qualify json fr host_ok netloc_ok fs package_lock artifacts_root profile_root
    (Some (report, report_root)) = Inr (n, m)"
  shows "m = 5 \<and> (\<exists>lock content document inputs root qemu_path qemu_document qemu_root.
    resolve_strict fs package_lock = Inr lock \<and> read_bytes fs lock = Inr content \<and>
    lock_load json fs lock = Inr document \<and> resolve_strict fs artifacts_root = Inr root \<and>
    validate_package_lock json fr host_ok netloc_ok fs root document = Inr inputs \<and>
    n = package_count inputs \<and>
    resolve_strict fs report = Inr qemu_path \<and> lock_load json fs qemu_path = Inr qemu_document \<and>
    resolve_strict fs report_root = Inr qemu_root \<and>
    field qemu_document ''package_lock_sha256'' = PStr (sha256_hex content) \<and>
    file_with_digest fs qemu_root (field qemu_document ''image'') (field qemu_document ''image_sha256'') \<and>
    passed_history fs qemu_root (snapshot_digest inputs) (scenarios_of qemu_document))"
proof -
  obtain lock content root document inputs qemu_path qemu_document qemu_root where steps:
    "resolve_strict fs package_lock = Inr lock" "read_bytes fs lock = Inr content"
    "lock_load json fs lock = Inr document"
    "validate_package_lock json fr host_ok netloc_ok fs root document = Inr inputs"
    "n = package_count inputs" "resolve_strict fs artifacts_root = Inr root"
    "resolve_strict fs report = Inr qemu_path" "lock_load json fs qemu_path = Inr qemu_document"
    "resolve_strict fs report_root = Inr qemu_root"
    and report: "validate_qemu_report fs qemu_root qemu_document (sha256_hex content) (snapshot_digest inputs) = Inr m"
    using assms by (auto simp: qualify_def result_simps)
  from qemu_history [OF report] steps show ?thesis by blast
qed

section \<open>The release profile\<close>

text \<open>Texts that occur in a text, each one after the beginning of the one before it.\<close>

definition laid_out :: "string \<Rightarrow> string list \<Rightarrow> bool" where
  "laid_out content ws \<longleftrightarrow>
     (\<exists>ps. length ps = length ws \<and> sorted_wrt (<) ps \<and>
        (\<forall>i < length ws. starts_with (ws ! i) (drop (ps ! i) content)))"

lemma ordered_positions:
  "require_ordered_fragments content start ws = Inr u \<Longrightarrow>
     \<exists>ps. length ps = length ws \<and> sorted_wrt (<) ps \<and> (\<forall>p \<in> set ps. start \<le> p) \<and>
       (\<forall>i < length ws. starts_with (ws ! i) (drop (ps ! i) content))"
proof (induction ws arbitrary: start)
  case (Cons w ws)
  from Cons.prems obtain k where k: "py_find content start w = Some k"
    "require_ordered_fragments content (Suc k) ws = Inr u" by (auto split: option.splits)
  from Cons.IH [OF k(2)] obtain ps where ps: "length ps = length ws" "sorted_wrt (<) ps"
    "\<forall>p \<in> set ps. Suc k \<le> p" "\<forall>i < length ws. starts_with (ws ! i) (drop (ps ! i) content)" by blast
  show ?case
    using ps py_find_some [OF k(1)]
    by (intro exI [of _ "k # ps"]) (auto simp: nth_Cons' Suc_le_eq)
qed simp

lemma ordered_fragments: "require_ordered_fragments content 0 ws = Inr u \<Longrightarrow> laid_out content ws"
  by (auto simp: laid_out_def dest!: ordered_positions)

lemma fragments_iff [result_simps]:
  "require_fragments content ws = Inr u \<longleftrightarrow> (\<forall>w \<in> set ws. contains w content)"
  by (induction ws) (auto simp: require_profile_fragment_def result_simps)

lemma same_set_iff [simp]: "same_set xs ys \<longleftrightarrow> set xs = set ys"
  by (auto simp: same_set_def list_all_iff)

lemma choice_ids_iff [result_simps]:
  "choice_ids content = Inr cs \<longleftrightarrow> cs = choices_from 0 True content \<and> distinct cs"
  by (auto simp: choice_ids_def Let_def)

text \<open>
  C19. An accepted release profile offers what it says and nothing else. The installer shows the
  desktop and the bootloader chooser, the desktops are exactly KDE, GNOME and COSMIC and the
  bootloaders exactly GRUB and systemd-boot, each offered once; the sequence installs in the order
  hardware plan, packages, hardware payloads, bootloader; the hardware module has every pinned
  setting; signatures are required both globally and for the additional repository; and neither the
  AUR nor Limine occurs, in any letter case, in the files where it could be configured.
\<close>

theorem profile_contract_holds:
  assumes "validate_profile_contract fs root = Inr u"
  shows "\<exists>t. read_profile fs root = Inr t \<and>
    set (chooser_names 0 (settings_text t)) = {''desktop'', ''bootloader''} \<and>
    (\<forall>(choices, names) \<in> {(desktop_text t, {''kde'', ''gnome'', ''cosmic''}),
         (bootloader_choice_text t, {''grub'', ''systemd-boot''})}.
       distinct (choices_from 0 True choices) \<and> set (choices_from 0 True choices) = names) \<and>
    laid_out (settings_text t)
      [newline @ ''      - arachhardware@hardware'', newline @ ''      - packages'',
       newline @ ''      - arachpacman@hardware-payloads'', newline @ ''      - bootloader@bootloader''] \<and>
    (\<forall>(k, v) \<in> set hwd_configuration. contains (k @ '': '' @ v) (hardware_text t)) \<and>
    py_count (pacman_text t) ''SigLevel = Required DatabaseRequired'' = 2 \<and>
    \<not> contains ''aur.archlinux.org'' (casefold (pacman_text t)) \<and>
    (\<forall>content \<in> {settings_text t, desktop_text t, bootloader_choice_text t, bootloader_text t,
         hardware_text t, pacman_adapter_text t, packages_text t, profile_definition_text t, build_text t}.
       \<not> contains ''limine'' (casefold content))"
proof -
  obtain t where t: "read_profile fs root = Inr t" "check_settings (settings_text t) = Inr ()"
    "check_desktop (desktop_text t) = Inr ()"
    "check_bootloader (bootloader_choice_text t) (bootloader_text t) (packages_text t) = Inr ()"
    "check_hardware (hardware_text t) (pacman_adapter_text t) = Inr ()"
    "check_trust (pacman_text t) (customizer_text t) (keyring_text t) = Inr ()"
    "check_exclusions t = Inr ()"
    using assms by (auto simp: validate_profile_contract_def result_simps)
  have order: "laid_out (settings_text t)
      [newline @ ''      - arachhardware@hardware'', newline @ ''      - packages'',
       newline @ ''      - arachpacman@hardware-payloads'', newline @ ''      - bootloader@bootloader'']"
    and choosers: "set (chooser_names 0 (settings_text t)) = {''desktop'', ''bootloader''}"
    using t(2) by (auto simp: check_settings_def result_simps simp del: require_ordered_fragments.simps
      intro: ordered_fragments)
  have pages: "distinct (choices_from 0 True (desktop_text t))"
    "set (choices_from 0 True (desktop_text t)) = {''kde'', ''gnome'', ''cosmic''}"
    "distinct (choices_from 0 True (bootloader_choice_text t))"
    "set (choices_from 0 True (bootloader_choice_text t)) = {''grub'', ''systemd-boot''}"
    using t(3,4) by (simp_all add: check_desktop_def check_bootloader_def result_simps split: if_splits)
  have hardware: "\<forall>(k, v) \<in> set hwd_configuration. contains (k @ '': '' @ v) (hardware_text t)"
    using t(5) by (fastforce simp: check_hardware_def require_profile_configuration_def result_simps)
  have trust: "py_count (pacman_text t) ''SigLevel = Required DatabaseRequired'' = 2"
    using t(6) by (simp add: check_trust_def result_simps split: if_splits)
  have exclusions: "\<not> contains ''aur.archlinux.org'' (casefold (pacman_text t))"
    "\<forall>content \<in> {settings_text t, desktop_text t, bootloader_choice_text t, bootloader_text t,
       hardware_text t, pacman_adapter_text t, packages_text t, profile_definition_text t, build_text t}.
       \<not> contains ''limine'' (casefold content)"
    using t(7) by (simp_all add: check_exclusions_def without_limine_def split: if_splits)
  show ?thesis
    using t(1) order choosers pages hardware trust exclusions by simp
qed


end
