(* ===== verification/ArchSample.thy ===== *)
theory ArchSample
  imports ArchProps
begin

text \<open>
  A small release profile, and a tree with its files, that the profile check accepts.
\<close>

section \<open>Texts of lines\<close>

definition unlines :: "string list \<Rightarrow> string" where
  "unlines ls = concat (map (\<lambda>l. l @ newline) ls)"

lemma starts_with_line:
  "CHR 0x0A \<notin> set w \<Longrightarrow> starts_with w (l @ CHR 0x0A # s) \<longleftrightarrow> starts_with w l"
proof (induction w arbitrary: l)
  case (Cons c w)
  then show ?case by (cases l) auto
qed simp

lemma contains_line:
  "w \<noteq> [] \<Longrightarrow> CHR 0x0A \<notin> set w \<Longrightarrow>
     contains w (l @ CHR 0x0A # s) \<longleftrightarrow> contains w l \<or> contains w s"
proof (induction l)
  case Nil
  then show ?case by (cases w) auto
next
  case (Cons c l)
  then show ?case using starts_with_line [of w "c # l" s] by auto
qed

lemma contains_unlines:
  "w \<noteq> [] \<Longrightarrow> CHR 0x0A \<notin> set w \<Longrightarrow> contains w (unlines ls) \<longleftrightarrow> list_ex (contains w) ls"
  by (induction ls) (simp_all add: unlines_def newline_def contains_line)

lemma count_line:
  "w \<noteq> [] \<Longrightarrow> CHR 0x0A \<notin> set w \<Longrightarrow> k \<le> length l \<Longrightarrow>
     count_from k w (l @ CHR 0x0A # s) = count_from k w l + count_from 0 w s"
proof (induction k w l rule: count_from.induct)
  case (1 k w)
  then show ?case by (cases w) auto
next
  case (3 w c l)
  have "length w - 1 \<le> length l" if "starts_with w (c # l)"
    using that by (auto simp: starts_with_iff Cons_eq_append_conv)
  with 3 starts_with_line [of w "c # l" s] show ?case by auto
qed simp

lemma count_unlines:
  "w \<noteq> [] \<Longrightarrow> CHR 0x0A \<notin> set w \<Longrightarrow> py_count (unlines ls) w = sum_list (map (\<lambda>l. py_count l w) ls)"
  by (induction ls) (simp_all add: py_count_def unlines_def newline_def count_line)

lemma chooser_line:
  "k \<le> length l \<Longrightarrow> chooser_names k (l @ CHR 0x0A # s) = chooser_names k l @ chooser_names 0 s"
proof (induction k l rule: chooser_names.induct)
  case (1 k)
  then show ?case by simp
next
  case (2 k c l)
  then show ?case by simp
next
  case (3 c l)
  let ?w = "''packagechooser@''"
  show ?case
  proof (cases "starts_with ?w (c # l)")
    case True
    then obtain r where r: "c # l = ?w @ r" by (auto simp: starts_with_iff)
    then have l: "l = tl ?w @ r" by simp
    have "takeWhile choice_char (r @ CHR 0x0A # s) = takeWhile choice_char r"
      by (induction r) (simp_all add: choice_char_def lower_alnum_def)
    moreover have "drop 15 (c # l) = r" "drop 15 (c # l @ CHR 0x0A # s) = r @ CHR 0x0A # s"
      by (simp_all add: l)
    moreover have "14 + length (takeWhile choice_char r) \<le> length l"
      using length_takeWhile_le [of choice_char r] by (simp add: l)
    moreover have "starts_with ?w (c # l @ CHR 0x0A # s)"
      using starts_with_line [of ?w "c # l" s] True by simp
    ultimately show ?thesis
      using 3 True by (simp only: chooser_names.simps Let_def append_Cons if_True simp_thms)
        (simp del: chooser_names.simps split: if_splits)
  next
    case False
    with 3 starts_with_line [of ?w "c # l" s] show ?thesis by (simp add: Let_def del: starts_with.simps)
  qed
qed

lemma chooser_unlines: "chooser_names 0 (unlines ls) = concat (map (chooser_names 0) ls)"
  by (induction ls) (simp_all add: unlines_def newline_def chooser_line)

lemma find_before: "starts_with w (drop p s) \<Longrightarrow> p \<le> length s \<Longrightarrow> \<exists>k. find_from w i s = Some k \<and> k \<le> i + p"
proof (induction w i s arbitrary: p rule: find_from.induct)
  case (1 w i)
  then show ?case by (cases w) auto
next
  case (2 w i c s)
  then show ?case by (cases p) (auto dest!: 2(1))
qed

text \<open>Texts laid out one after the other are found in order.\<close>

lemma ordered_layout:
  "start \<le> length pre \<Longrightarrow> list_all (\<lambda>(w, gap). w \<noteq> []) xs \<Longrightarrow>
     require_ordered_fragments (pre @ concat (map (\<lambda>(w, gap). w @ gap) xs)) start (map fst xs) = Inr ()"
proof (induction xs arbitrary: pre start)
  case (Cons x xs)
  obtain w gap where x: "x = (w, gap)" by (cases x)
  let ?rest = "concat (map (\<lambda>(w, gap). w @ gap) xs)"
  have "starts_with w (drop (length pre - start) (drop start (pre @ w @ gap @ ?rest)))"
    using Cons.prems(1) by (simp add: starts_with_iff)
  moreover have "length pre - start \<le> length (drop start (pre @ w @ gap @ ?rest))"
    using Cons.prems(1) by simp
  ultimately have "\<exists>k. find_from w start (drop start (pre @ w @ gap @ ?rest)) = Some k \<and> k \<le> start + (length pre - start)"
    by (rule find_before)
  then obtain k where "py_find (pre @ w @ gap @ ?rest) start w = Some k" "k \<le> length pre"
    using Cons.prems(1) by (auto simp: py_find_def)
  with Cons.IH [of "Suc k" "pre @ w @ gap"] Cons.prems(2) show ?case by (cases w) (auto simp: x)
qed simp

lemma casefold_unlines:
  assumes "list_all (list_all (\<lambda>c. \<not> digit7 c)) ls"
  shows "casefold (unlines ls) = unlines (map (map ascii_lower) ls)"
proof -
  have plain: "casefold s = map ascii_lower s" if "list_all (\<lambda>c. \<not> digit7 c) s" for s
  proof (rule casefold_plain)
    have "list_all digit7 folding_chars" by code_simp
    with that show "set s \<inter> set folding_chars = {}" by (auto simp: list_all_iff)
  qed
  have plain_text: "list_all (\<lambda>c. \<not> digit7 c) (unlines ls)"
    using assms by (auto simp: list_all_iff unlines_def newline_def)
  then show ?thesis unfolding plain [OF plain_text]
    by (simp add: unlines_def newline_def map_concat comp_def ascii_lower_def)
qed

section \<open>The texts\<close>

definition settings_lines :: "string list" where
  "settings_lines =
     [''module: packagechooser'',
      ''    id: desktop'',
      ''    config: desktop.conf'',
      ''module: packagechooser'',
      ''    id: bootloader'',
      ''    config: bootloader-choice.conf'',
      ''module: arachhardware'',
      ''    id: hardware'',
      ''    config: arach-hardware.conf'',
      ''module: arachpacman'',
      ''    id: hardware-payloads'',
      ''    config: arach-pacman.conf'',
      ''module: bootloader'',
      ''    id: bootloader'',
      ''    config: bootloader.conf'',
      ''packagechooser@desktop'',
      ''packagechooser@bootloader'',
      ''      - arachhardware@hardware'',
      ''      - packages'',
      ''      - arachpacman@hardware-payloads'',
      ''      - bootloader@bootloader'']"

definition desktop_lines :: "string list" where
  "desktop_lines =
     [''default: kde'',
      ''  - id: kde'',
      ''    packages: [ plasma-meta, sddm, polkit-kde-agent ]'',
      ''  - id: gnome'',
      ''    packages: [ gnome, gdm ]'',
      ''  - id: cosmic'',
      ''    packages: [ cosmic-session, cosmic-comp, cosmic-greeter, xdg-desktop-portal-cosmic ]'']"

definition bootloader_choice_lines :: "string list" where
  "bootloader_choice_lines =
     [''default: grub'',
      ''  - id: grub'',
      ''  - id: systemd-boot'']"

definition bootloader_lines :: "string list" where
  "bootloader_lines =
     [''efiBootLoaderVar: '' @ [CHR 0x22] @ ''packagechooser_bootloader'' @ [CHR 0x22],
      ''efiBootLoader: '' @ [CHR 0x22] @ ''grub'' @ [CHR 0x22]]"

definition adapter_lines :: "string list" where
  "adapter_lines =
     [''---'',
      ''enabled: true'']"

definition pacman_lines :: "string list" where
  "pacman_lines =
     [''[options]'',
      ''SigLevel = Required DatabaseRequired'',
      ''LocalFileSigLevel = Optional'',
      ''[sisyphus]'',
      ''SigLevel = Required DatabaseRequired'',
      ''Server = https://sisyphusaeolides.github.io/Sisyphus-Repo/$arch'']"

definition build_lines :: "string list" where
  "build_lines =
     [''readonly catalog_root='' @ [CHR 0x22] @ ''${ARACH_HWD_CATALOG_ROOT:?}'' @ [CHR 0x22],
      ''readonly snapshot_root='' @ [CHR 0x22] @ ''${ARACH_HWD_PACMAN_SNAPSHOT_ROOT:?}'' @ [CHR 0x22],
      ''cp '' @ [CHR 0x22] @ ''${source_modules}/arachhardware'' @ [CHR 0x22] @ '' '' @ [CHR 0x22] @ ''${source_modules}/arachpacman'' @ [CHR 0x22],
      ''cp '' @ [CHR 0x22] @ ''${snapshot_root}/pacman-snapshot.toml'' @ [CHR 0x22] @ '' '' @ [CHR 0x22] @ ''${snapshot_root}/pacman-snapshot.toml.sig'' @ [CHR 0x22],
      ''cp '' @ [CHR 0x22] @ ''${snapshot_root}/pacman-snapshot.gpg'' @ [CHR 0x22] @ '' '' @ [CHR 0x22] @ ''${snapshot_root}/pacman.conf'' @ [CHR 0x22],
      ''for name in keys.toml catalog.lock packages.toml packages.toml.sig driver-abi; do'',
      ''cp '' @ [CHR 0x22] @ ''${catalog_root}/profiles'' @ [CHR 0x22] @ '' '' @ [CHR 0x22] @ ''${catalog_root}/driver-sources'' @ [CHR 0x22] @ '' '' @ [CHR 0x22] @ ''${snapshot_root}/packages'' @ [CHR 0x22]]"

definition customizer_lines :: "string list" where
  "customizer_lines =
     [''key=/usr/share/pacman/keyrings/sisyphus-repo.asc'',
      ''fingerprint='' @ sisyphus_fingerprint,
      ''pacman-key --add '' @ [CHR 0x22] @ ''$key'' @ [CHR 0x22],
      ''pacman-key --lsign-key '' @ [CHR 0x22] @ ''$fingerprint'' @ [CHR 0x22]]"

definition keyring_lines :: "string list" where
  "keyring_lines =
     [''-----BEGIN PGP PUBLIC KEY BLOCK-----'',
      ''-----END PGP PUBLIC KEY BLOCK-----'']"

definition hardware_lines :: "string list" where
  "hardware_lines =
     map (\<lambda>(k, v). k @ '': '' @ v) hwd_configuration @
     [''modulesAlias: []'', ''modulesFirmware: []'', ''modulesDep: []'', ''modulesBuiltin: []'',
      ''firmwareRoots: []'', ''requireTargetProfiles: true'']"

abbreviation sample_settings :: string where
  "sample_settings \<equiv> unlines settings_lines"

lemma settings_layout:
  "require_ordered_fragments sample_settings 0
     [''module: packagechooser'' @ newline @ ''    id: desktop'' @ newline @ ''    config: desktop.conf'',
      ''module: packagechooser'' @ newline @ ''    id: bootloader'' @ newline @
        ''    config: bootloader-choice.conf'',
      ''module: arachhardware'' @ newline @ ''    id: hardware'' @ newline @
        ''    config: arach-hardware.conf'',
      ''module: arachpacman'' @ newline @ ''    id: hardware-payloads'' @ newline @
        ''    config: arach-pacman.conf'',
      ''module: bootloader'' @ newline @ ''    id: bootloader'' @ newline @ ''    config: bootloader.conf''] =
     Inr ()" (is "require_ordered_fragments _ _ [?a, ?b, ?c, ?d, ?e] = _")
  "require_ordered_fragments sample_settings 0
     [newline @ ''      - arachhardware@hardware'', newline @ ''      - packages'',
      newline @ ''      - arachpacman@hardware-payloads'', newline @ ''      - bootloader@bootloader''] =
     Inr ()" (is "require_ordered_fragments _ _ [?f, ?g, ?h, ?i] = _")
proof -
  have "sample_settings = [] @ concat (map (\<lambda>(w, gap). w @ gap)
      [(?a, newline), (?b, newline), (?c, newline), (?d, newline), (?e, newline @ unlines (drop 15 settings_lines))])"
    by (simp add: settings_lines_def unlines_def newline_def)
  then show "require_ordered_fragments sample_settings 0 [?a, ?b, ?c, ?d, ?e] = Inr ()"
    using ordered_layout [of 0 "[]" "[(?a, newline), (?b, newline), (?c, newline), (?d, newline),
      (?e, newline @ unlines (drop 15 settings_lines))]"]
    by (simp only: list.map fst_conv) simp
  have "sample_settings = butlast (unlines (take 17 settings_lines)) @ concat (map (\<lambda>(w, gap). w @ gap)
      [(?f, []), (?g, []), (?h, []), (?i, newline)])"
    by (simp add: settings_lines_def unlines_def newline_def)
  then show "require_ordered_fragments sample_settings 0 [?f, ?g, ?h, ?i] = Inr ()"
    using ordered_layout [of 0 "butlast (unlines (take 17 settings_lines))" "[(?f, []), (?g, []), (?h, []), (?i, newline)]"]
    by (simp only: list.map fst_conv) (simp add: newline_def)
qed

lemma sample_settings_ok: "check_settings sample_settings = Inr ()"
proof -
  have "py_count sample_settings ''module: packagechooser'' = 2"
    by (simp add: count_unlines) code_simp
  moreover have "chooser_names 0 sample_settings = [''desktop'', ''bootloader'']"
    unfolding chooser_unlines by code_simp
  ultimately show ?thesis
    unfolding check_settings_def settings_layout by simp
qed

lemma sample_desktop_ok: "check_desktop (unlines desktop_lines) = Inr ()"
proof -
  have "choice_ids (unlines desktop_lines) = Inr [''kde'', ''gnome'', ''cosmic'']" by code_simp
  moreover have "require_fragments (unlines desktop_lines)
      [''default: kde'', ''id: kde'', ''packages: [ plasma-meta, sddm, polkit-kde-agent ]'', ''id: gnome'',
       ''packages: [ gnome, gdm ]'', ''id: cosmic'',
       ''packages: [ cosmic-session, cosmic-comp, cosmic-greeter, xdg-desktop-portal-cosmic ]''] = Inr ()"
    unfolding fragments_iff by (simp add: contains_unlines) code_simp
  ultimately show ?thesis unfolding check_desktop_def by simp
qed

lemma sample_bootloader_ok:
  "check_bootloader (unlines bootloader_choice_lines) (unlines bootloader_lines)
     (unlines required_choice_packages) = Inr ()"
  by code_simp

lemma sample_hardware_ok: "check_hardware (unlines hardware_lines) (unlines adapter_lines) = Inr ()"
proof -
  have "py_strip (unlines adapter_lines) = ''---'' @ newline @ ''enabled: true''" by code_simp
  moreover have "require_profile_configuration (unlines hardware_lines) hwd_configuration = Inr ()"
    unfolding require_profile_configuration_def fragments_iff
    by (simp add: hwd_configuration_def contains_unlines) code_simp
  moreover have "require_fragments (unlines hardware_lines)
      ([''modulesAlias:'', ''modulesFirmware:'', ''modulesDep:'', ''modulesBuiltin:''] @
       [''requireTargetProfiles: true'']) = Inr ()"
    unfolding fragments_iff by (simp add: contains_unlines) code_simp
  ultimately show ?thesis unfolding check_hardware_def by simp
qed

lemma sample_trust_ok:
  "check_trust (unlines pacman_lines) (unlines customizer_lines) (unlines keyring_lines) = Inr ()"
proof -
  have "py_count (unlines pacman_lines) ''SigLevel = Required DatabaseRequired'' = 2" by code_simp
  moreover have "require_fragments (unlines pacman_lines)
      [''SigLevel = Required DatabaseRequired'', ''LocalFileSigLevel = Optional'', ''[sisyphus]'',
       ''Server = https://sisyphusaeolides.github.io/Sisyphus-Repo/$arch'',
       ''SigLevel = Required DatabaseRequired''] = Inr ()"
    unfolding fragments_iff by (simp add: contains_unlines) code_simp
  moreover have "require_fragments (unlines customizer_lines)
      [''key=/usr/share/pacman/keyrings/sisyphus-repo.asc'', ''fingerprint='' @ sisyphus_fingerprint,
       ''pacman-key --add '' @ in_quotes ''$key'', ''pacman-key --lsign-key '' @ in_quotes ''$fingerprint''] = Inr ()"
    unfolding fragments_iff by (simp add: contains_unlines sisyphus_fingerprint_def in_quotes_def) code_simp
  moreover have "contains ''-----BEGIN PGP PUBLIC KEY BLOCK-----'' (unlines keyring_lines)"
    "contains ''-----END PGP PUBLIC KEY BLOCK-----'' (unlines keyring_lines)"
    by code_simp+
  ultimately show ?thesis unfolding check_trust_def by simp
qed

lemma sample_build_ok: "check_build (unlines build_lines) = Inr ()"
  unfolding check_build_def fragments_iff by (simp add: contains_unlines in_quotes_def) code_simp

end
