(* ===== verification/ArchTree.thy ===== *)
theory ArchTree
  imports ArchSample
begin

text \<open>
  A tree with the files of the small profile, a package lock, a QEMU report and one artifact, and
  the acceptance of the profile.
\<close>

definition profile_files :: "(string list \<times> string) list" where
  "profile_files =
     [([''calamares'', ''settings.conf''], unlines settings_lines),
      ([''calamares'', ''modules'', ''desktop.conf''], unlines desktop_lines),
      ([''calamares'', ''modules'', ''bootloader-choice.conf''], unlines bootloader_choice_lines),
      ([''calamares'', ''modules'', ''bootloader.conf''], unlines bootloader_lines),
      ([''calamares'', ''modules'', ''arach-hardware.conf''], unlines hardware_lines),
      ([''calamares'', ''modules'', ''arach-pacman.conf''], unlines adapter_lines),
      ([''packages.x86_64''], unlines required_choice_packages),
      ([''pacman.conf''], unlines pacman_lines), ([''profiledef.sh''], unlines [''iso_name=arachos'']),
      ([''build.sh''], unlines build_lines),
      ([''airootfs'', ''root'', ''customize_airootfs.sh''], unlines customizer_lines),
      ([''airootfs'', ''usr'', ''share'', ''pacman'', ''keyrings'', ''sisyphus-repo.asc''], unlines keyring_lines),
      ([''README.md''], unlines [''Limine remains experimental''])]"

definition lock_files :: "(string \<times> string) list" where
  "lock_files =
     [(''lock.json'', ''lock''), (''qemu.json'', ''report''), (''a.bin'', sample_artifact)]"

definition profile_dirs :: "string list list" where
  "profile_dirs =
     [[], [''calamares''], [''calamares'', ''modules''], [''airootfs''], [''airootfs'', ''root''],
      [''airootfs'', ''usr''], [''airootfs'', ''usr'', ''share''], [''airootfs'', ''usr'', ''share'', ''pacman''],
      [''airootfs'', ''usr'', ''share'', ''pacman'', ''keyrings'']]"

definition qualification_tree :: fs where
  "qualification_tree =
     map_of (map (\<lambda>(q, c). (''p'' # q, Regular c True)) profile_files @
             map (\<lambda>q. (''p'' # q, Directory)) profile_dirs @
             ([''r''], Directory) # map (\<lambda>(n, c). ([''r'', n], Regular c True)) lock_files)"

lemmas tree_simps = qualification_tree_def profile_files_def profile_dirs_def lock_files_def

abbreviation profile_directory :: pure_path where
  "profile_directory \<equiv> abs_path [''p'']"

lemma walk_regular:
  assumes "plain_dirs fs d" and "n \<noteq> ''..''" and "fs (d @ [n]) = Some (Regular c True)"
  shows "walk fs follow k [] (d @ [n]) = Some (d @ [n])"
proof -
  have "walk fs follow k [] (d @ [n]) = walk fs follow k d [n]"
    using walk_plain_dirs [of fs "[]" d follow k "[n]"] assms(1) by simp
  with assms(2,3) show ?thesis by simp
qed

lemma plain_regular:
  assumes "plain_dirs fs d" and "n \<noteq> ''..''" and "fs (d @ [n]) = Some (Regular c True)"
  shows "\<not> not_regular fs (abs_path (d @ [n]))" and "read_bytes fs (abs_path (d @ [n])) = Inr c"
    and "\<not> is_symlink fs (abs_path (d @ [n]))"
  using walk_regular [OF assms] assms(3)
  by (simp_all add: not_regular_def is_symlink_def is_file_def stat_def lstat_def read_bytes_def abs_path_def node_at_def)

lemma plain_dirs_chain:
  "''..'' \<notin> set d \<Longrightarrow> list_all (\<lambda>k. fs (take k d) = Some Directory) [1..<Suc (length d)] \<Longrightarrow> plain_dirs fs d"
  by (auto simp: plain_dirs_def list_all_iff simp del: upt_Suc)

definition plain_text :: "string \<Rightarrow> bool" where
  "plain_text s \<longleftrightarrow> list_all (\<lambda>c. \<not> digit7 c \<and> c \<noteq> CHR 0x0D) s"

lemma of_char_ascii: "\<not> digit7 c \<Longrightarrow> of_char c < (128 :: nat)"
  by (cases c) (simp add: of_char_Char)

lemma plain_newlines: "plain_text s \<Longrightarrow> universal_newlines s = s"
  by (induction s rule: universal_newlines.induct) (simp_all add: plain_text_def)

lemma decode_plain: "plain_text s \<Longrightarrow> decode_text s = Inr s"
  using plain_newlines [of s]
  by (simp add: decode_text_def utf8_valid_def utf8_ascii of_char_ascii plain_text_def list_all_iff)

lemma plain_unlines: "list_all plain_text ls \<Longrightarrow> plain_text (unlines ls)"
  by (induction ls) (simp_all add: unlines_def newline_def plain_text_def)

lemma profile_read_plain:
  assumes "plain_dirs fs d" and "n \<noteq> ''..''" and "fs (d @ [n]) = Some (Regular (unlines ls) True)"
    and "list_all plain_text ls" and "join root r = abs_path (d @ [n])"
  shows "profile_read fs root r = Inr (unlines ls)"
  unfolding profile_read_def read_text_def assms(5)
  using plain_regular [OF assms(1-3)] by (simp add: decode_plain [OF plain_unlines [OF assms(4)]])

section \<open>The profile is accepted\<close>

lemma profile_dirs_plain: "list_all (\<lambda>d. plain_dirs qualification_tree (''p'' # d)) profile_dirs"
proof -
  have "list_all (\<lambda>d. qualification_tree (''p'' # d) = Some Directory) profile_dirs"
    by (simp add: tree_simps)
  then show ?thesis by (simp add: profile_dirs_def plain_dirs_chain upt_rec)
qed

lemma profile_lines_plain:
  "list_all (list_all plain_text)
     [settings_lines, desktop_lines, bootloader_choice_lines, bootloader_lines, hardware_lines,
      adapter_lines, required_choice_packages, pacman_lines, [''iso_name=arachos''], build_lines,
      customizer_lines, keyring_lines, [''Limine remains experimental'']]"
  by code_simp

lemma profile_joins:
  "join profile_directory ''calamares/settings.conf'' = abs_path [''p'', ''calamares'', ''settings.conf'']"
  "join profile_directory ''calamares/modules/desktop.conf'' = abs_path [''p'', ''calamares'', ''modules'', ''desktop.conf'']"
  "join profile_directory ''calamares/modules/bootloader-choice.conf'' = abs_path [''p'', ''calamares'', ''modules'', ''bootloader-choice.conf'']"
  "join profile_directory ''calamares/modules/bootloader.conf'' = abs_path [''p'', ''calamares'', ''modules'', ''bootloader.conf'']"
  "join profile_directory ''calamares/modules/arach-hardware.conf'' = abs_path [''p'', ''calamares'', ''modules'', ''arach-hardware.conf'']"
  "join profile_directory ''calamares/modules/arach-pacman.conf'' = abs_path [''p'', ''calamares'', ''modules'', ''arach-pacman.conf'']"
  "join profile_directory ''packages.x86_64'' = abs_path [''p'', ''packages.x86_64'']"
  "join profile_directory ''pacman.conf'' = abs_path [''p'', ''pacman.conf'']"
  "join profile_directory ''profiledef.sh'' = abs_path [''p'', ''profiledef.sh'']"
  "join profile_directory ''build.sh'' = abs_path [''p'', ''build.sh'']"
  "join profile_directory ''airootfs/root/customize_airootfs.sh'' = abs_path [''p'', ''airootfs'', ''root'', ''customize_airootfs.sh'']"
  "join profile_directory ''airootfs/usr/share/pacman/keyrings/sisyphus-repo.asc'' = abs_path [''p'', ''airootfs'', ''usr'', ''share'', ''pacman'', ''keyrings'', ''sisyphus-repo.asc'']"
  "join profile_directory ''README.md'' = abs_path [''p'', ''README.md'']"
  by code_simp+

lemma map_of_below:
  "map_of xs k = Some c \<Longrightarrow> map_of (map (\<lambda>(q, c). (a # q, Regular c True)) xs) (a # k) = Some (Regular c True)"
  by (induction xs) (auto split: if_splits)

lemma profile_texts_read:
  assumes "(d @ [n], unlines ls) \<in> set profile_files" and "join profile_directory r = abs_path (''p'' # d @ [n])"
    and "d \<in> set profile_dirs" and "n \<noteq> ''..''" and "list_all plain_text ls"
  shows "profile_read qualification_tree profile_directory r = Inr (unlines ls)"
proof (rule profile_read_plain [of _ "''p'' # d" n])
  show "plain_dirs qualification_tree (''p'' # d)"
    using profile_dirs_plain assms(3) by (simp add: list_all_iff)
  have "distinct (map fst profile_files)" by (simp add: profile_files_def)
  then have "map_of profile_files (d @ [n]) = Some (unlines ls)" using assms(1) by simp
  from map_of_below [OF this] show "qualification_tree ((''p'' # d) @ [n]) = Some (Regular (unlines ls) True)"
    by (simp add: qualification_tree_def map_add_def)
qed (use assms in simp_all)

lemma profile_reads:
  "profile_read qualification_tree profile_directory ''calamares/settings.conf'' = Inr (unlines settings_lines)"
  "profile_read qualification_tree profile_directory ''calamares/modules/desktop.conf'' = Inr (unlines desktop_lines)"
  "profile_read qualification_tree profile_directory ''calamares/modules/bootloader-choice.conf'' = Inr (unlines bootloader_choice_lines)"
  "profile_read qualification_tree profile_directory ''calamares/modules/bootloader.conf'' = Inr (unlines bootloader_lines)"
  "profile_read qualification_tree profile_directory ''calamares/modules/arach-hardware.conf'' = Inr (unlines hardware_lines)"
  "profile_read qualification_tree profile_directory ''calamares/modules/arach-pacman.conf'' = Inr (unlines adapter_lines)"
  "profile_read qualification_tree profile_directory ''packages.x86_64'' = Inr (unlines required_choice_packages)"
  "profile_read qualification_tree profile_directory ''pacman.conf'' = Inr (unlines pacman_lines)"
  "profile_read qualification_tree profile_directory ''profiledef.sh'' = Inr (unlines [''iso_name=arachos''])"
  "profile_read qualification_tree profile_directory ''build.sh'' = Inr (unlines build_lines)"
  "profile_read qualification_tree profile_directory ''airootfs/root/customize_airootfs.sh'' = Inr (unlines customizer_lines)"
  "profile_read qualification_tree profile_directory ''airootfs/usr/share/pacman/keyrings/sisyphus-repo.asc'' = Inr (unlines keyring_lines)"
  "profile_read qualification_tree profile_directory ''README.md'' = Inr (unlines [''Limine remains experimental''])"
  subgoal by (rule profile_texts_read [of "[''calamares'']" "''settings.conf''"])
    (use profile_lines_plain in \<open>simp_all add: profile_files_def profile_dirs_def profile_joins\<close>)
  subgoal by (rule profile_texts_read [of "[''calamares'', ''modules'']" "''desktop.conf''"])
    (use profile_lines_plain in \<open>simp_all add: profile_files_def profile_dirs_def profile_joins\<close>)
  subgoal by (rule profile_texts_read [of "[''calamares'', ''modules'']" "''bootloader-choice.conf''"])
    (use profile_lines_plain in \<open>simp_all add: profile_files_def profile_dirs_def profile_joins\<close>)
  subgoal by (rule profile_texts_read [of "[''calamares'', ''modules'']" "''bootloader.conf''"])
    (use profile_lines_plain in \<open>simp_all add: profile_files_def profile_dirs_def profile_joins\<close>)
  subgoal by (rule profile_texts_read [of "[''calamares'', ''modules'']" "''arach-hardware.conf''"])
    (use profile_lines_plain in \<open>simp_all add: profile_files_def profile_dirs_def profile_joins\<close>)
  subgoal by (rule profile_texts_read [of "[''calamares'', ''modules'']" "''arach-pacman.conf''"])
    (use profile_lines_plain in \<open>simp_all add: profile_files_def profile_dirs_def profile_joins\<close>)
  subgoal by (rule profile_texts_read [of "[]" "''packages.x86_64''"])
    (use profile_lines_plain in \<open>simp_all add: profile_files_def profile_dirs_def profile_joins\<close>)
  subgoal by (rule profile_texts_read [of "[]" "''pacman.conf''"])
    (use profile_lines_plain in \<open>simp_all add: profile_files_def profile_dirs_def profile_joins\<close>)
  subgoal by (rule profile_texts_read [of "[]" "''profiledef.sh''"])
    (use profile_lines_plain in \<open>simp_all add: profile_files_def profile_dirs_def profile_joins\<close>)
  subgoal by (rule profile_texts_read [of "[]" "''build.sh''"])
    (use profile_lines_plain in \<open>simp_all add: profile_files_def profile_dirs_def profile_joins\<close>)
  subgoal by (rule profile_texts_read [of "[''airootfs'', ''root'']" "''customize_airootfs.sh''"])
    (use profile_lines_plain in \<open>simp_all add: profile_files_def profile_dirs_def profile_joins\<close>)
  subgoal by (rule profile_texts_read [of "[''airootfs'', ''usr'', ''share'', ''pacman'', ''keyrings'']" "''sisyphus-repo.asc''"])
    (use profile_lines_plain in \<open>simp_all add: profile_files_def profile_dirs_def profile_joins\<close>)
  subgoal by (rule profile_texts_read [of "[]" "''README.md''"])
    (use profile_lines_plain in \<open>simp_all add: profile_files_def profile_dirs_def profile_joins\<close>)
  done

end
