(* ===== verification/ArchWitness.thy ===== *)
theory ArchWitness
  imports ArchTree
begin

text \<open>
  The witnesses for the release profile, the package lock and the QEMU report.
\<close>

section \<open>The profile\<close>

definition sample_texts :: profile_texts where
  "sample_texts =
     \<lparr>settings_text = unlines settings_lines, desktop_text = unlines desktop_lines,
      bootloader_choice_text = unlines bootloader_choice_lines, bootloader_text = unlines bootloader_lines,
      hardware_text = unlines hardware_lines, pacman_adapter_text = unlines adapter_lines,
      packages_text = unlines required_choice_packages, pacman_text = unlines pacman_lines,
      profile_definition_text = unlines [''iso_name=arachos''], build_text = unlines build_lines,
      customizer_text = unlines customizer_lines, keyring_text = unlines keyring_lines,
      readme_text = unlines [''Limine remains experimental'']\<rparr>"

lemma sample_profile_read: "read_profile qualification_tree profile_directory = Inr sample_texts"
  unfolding read_profile_def profile_reads bindE.simps sample_texts_def by (rule refl)

lemma lines_ascii: "list_all plain_text ls \<Longrightarrow> list_all (list_all (\<lambda>c. \<not> digit7 c)) ls"
  by (auto simp: list_all_iff plain_text_def)

lemma folded_without:
  assumes "list_all plain_text ls" and "w \<noteq> []" and "CHR 0x0A \<notin> set w"
    and "list_all (\<lambda>l. \<not> contains w (map ascii_lower l)) ls"
  shows "\<not> contains w (casefold (unlines ls))"
  using assms(2-) by (simp add: casefold_unlines [OF lines_ascii [OF assms(1)]] contains_unlines list_all_iff list_ex_iff)

text \<open>Two characters, in any letter case, that never follow each other.\<close>

definition unpaired :: "string \<Rightarrow> string \<Rightarrow> string \<Rightarrow> bool" where
  "unpaired as bs s \<longleftrightarrow> successively (\<lambda>c d. c \<in> set as \<longrightarrow> d \<notin> set bs) s"

lemma lower_from:
  assumes "ascii_lower c \<in> {CHR ''i'', CHR ''m'', CHR ''a'', CHR ''u''}"
  shows "c \<in> (if ascii_lower c = CHR ''i'' then set ''iI'' else if ascii_lower c = CHR ''m'' then set ''mM''
    else if ascii_lower c = CHR ''a'' then set ''aA'' else set ''uU'')"
proof -
  have "c = ascii_lower c \<or> c = char_of (of_char (ascii_lower c) - 32 :: nat)"
    by (auto simp: ascii_lower_def)
  moreover have "char_of (of_char CHR ''i'' - 32 :: nat) = CHR ''I''" "char_of (of_char CHR ''m'' - 32 :: nat) = CHR ''M''"
    "char_of (of_char CHR ''a'' - 32 :: nat) = CHR ''A''" "char_of (of_char CHR ''u'' - 32 :: nat) = CHR ''U''"
    by code_simp+
  ultimately show ?thesis using assms by (auto split: if_splits)
qed

lemma unpaired_without:
  assumes "unpaired as bs s" and "\<And>c. ascii_lower c = a \<Longrightarrow> c \<in> set as" and "\<And>c. ascii_lower c = b \<Longrightarrow> c \<in> set bs"
  shows "\<not> contains (a # b # w) (map ascii_lower s)"
  using assms(1)
proof (induction s)
  case (Cons c s)
  then have rest: "\<not> contains (a # b # w) (map ascii_lower s)"
    by (auto simp: unpaired_def successively_Cons)
  have "\<not> starts_with (a # b # w) (map ascii_lower (c # s))"
    using Cons.prems assms(2,3) by (cases s) (auto simp: unpaired_def)
  with rest show ?case by simp
qed simp

lemma lower_im: "ascii_lower c = CHR ''i'' \<Longrightarrow> c \<in> set ''iI''" "ascii_lower c = CHR ''m'' \<Longrightarrow> c \<in> set ''mM''"
  and lower_au: "ascii_lower c = CHR ''a'' \<Longrightarrow> c \<in> set ''aA''" "ascii_lower c = CHR ''u'' \<Longrightarrow> c \<in> set ''uU''"
  using lower_from [of c] by (simp_all split: if_splits)

lemma contains_tail: "contains (a # w) s \<Longrightarrow> contains w s"
  unfolding contains_iff by (metis append_Cons append_Nil append_assoc)

lemma without_im: "unpaired ''iI'' ''mM'' s \<Longrightarrow> \<not> contains ''limine'' (map ascii_lower s)"
  using unpaired_without [of "''iI''" "''mM''" s "CHR ''i''" "CHR ''m''" "''ine''", OF _ lower_im]
    contains_tail [of "CHR ''l''" "''imine''" "map ascii_lower s"] by blast

lemma without_au: "unpaired ''aA'' ''uU'' s \<Longrightarrow> \<not> contains ''aur.archlinux.org'' (map ascii_lower s)"
  by (rule unpaired_without [OF _ lower_au])

lemma sample_without_limine:
  "list_all (list_all (unpaired ''iI'' ''mM''))
     [settings_lines, desktop_lines, bootloader_choice_lines, bootloader_lines, hardware_lines,
      adapter_lines, required_choice_packages, [''iso_name=arachos''], build_lines]"
  by code_simp

lemma sample_without_aur: "list_all (unpaired ''aA'' ''uU'') pacman_lines"
  by code_simp

lemma sample_exclusions_ok: "check_exclusions sample_texts = Inr ()"
proof -
  have limine: "without_limine (unlines ls)" if "list_all plain_text ls"
    "list_all (unpaired ''iI'' ''mM'') ls" for ls
    unfolding without_limine_def using that
    by (intro folded_without) (simp_all add: list_all_iff without_im)
  have all: "list_all without_limine (map unlines
     [settings_lines, desktop_lines, bootloader_choice_lines, bootloader_lines, hardware_lines,
      adapter_lines, required_choice_packages, [''iso_name=arachos''], build_lines])"
    using limine sample_without_limine profile_lines_plain by simp
  have aur: "\<not> contains ''aur.archlinux.org'' (casefold (unlines pacman_lines))"
    using sample_without_aur profile_lines_plain
    by (intro folded_without) (simp_all add: list_all_iff without_au)
  have readme: "contains ''Limine remains experimental'' (unlines [''Limine remains experimental''])" by code_simp
  show ?thesis
    using all aur readme by (simp add: check_exclusions_def sample_texts_def require_profile_fragment_def)
qed

lemma sample_profile_root: "\<not> is_symlink qualification_tree profile_directory" "is_dir qualification_tree profile_directory"
  by (simp_all add: is_symlink_def is_dir_def stat_def lstat_def abs_path_def node_at_def tree_simps)

lemma sample_profile_accepted: "validate_profile_contract qualification_tree profile_directory = Inr ()"
  using sample_profile_root sample_settings_ok sample_desktop_ok sample_bootloader_ok sample_hardware_ok
    sample_trust_ok sample_build_ok sample_exclusions_ok
  by (simp add: validate_profile_contract_def sample_profile_read sample_texts_def)

theorem profile_contract_holds_witness:
  "\<exists>t. read_profile qualification_tree profile_directory = Inr t \<and>
     laid_out (settings_text t)
       [newline @ ''      - arachhardware@hardware'', newline @ ''      - packages'',
        newline @ ''      - arachpacman@hardware-payloads'', newline @ ''      - bootloader@bootloader''] \<and>
     \<not> contains ''limine'' (casefold (build_text t))"
  using profile_contract_holds [OF sample_profile_accepted] by blast


section \<open>The documents\<close>

abbreviation lock_root :: pure_path where
  "lock_root \<equiv> abs_path [''r'']"

definition archiso_signed :: pyval where
  "archiso_signed =
     PDict [(''path'', PStr ''a.bin''), (''sha256'', PStr sample_digest), (''signature'', PStr ''a.bin''),
       (''signature_sha256'', PStr sample_digest), (''signer_fingerprint'', PStr sisyphus_fingerprint)]"

definition sample_url :: string where
  "sample_url = ''https://repo.example/S1''"

definition sample_package :: "string \<Rightarrow> pyval" where
  "sample_package n =
     PDict [(''name'', PStr n), (''version'', PStr ''1.0''), (''architecture'', PStr ''x86_64''),
       (''repository'', PStr sample_url), (''archive'', archiso_signed)]"

definition sample_packages :: "pyval list" where
  "sample_packages = map sample_package required_choice_packages"

definition archiso_floats :: "pyfloat \<Rightarrow> string" where
  "archiso_floats x = ''0.0''"

definition sample_set_digest :: string where
  "sample_set_digest = (case canonical_sha256 archiso_floats (PList sample_packages) of Inr d \<Rightarrow> d | Inl e \<Rightarrow> [])"

definition sample_attachment :: "string \<Rightarrow> pyval" where
  "sample_attachment kind =
     PDict [(''path'', PStr ''a.bin''), (''sha256'', PStr sample_digest), (''format'', PStr kind),
       (''package_set_sha256'', PStr sample_set_digest)]"

definition archiso_snapshot :: pyval where
  "archiso_snapshot =
     PDict [(''id'', PStr ''S1''), (''repository'', PStr sample_url), (''generated_at'', PStr sample_time),
       (''database'', archiso_signed),
       (''keyring'', PDict [(''path'', PStr ''a.bin''), (''sha256'', PStr sample_digest)]),
       (''verification'', PDict [(''path'', PStr ''a.bin''), (''sha256'', PStr sample_digest), (''tool'', PStr ''gpgv'')])]"

definition sample_lock :: pyval where
  "sample_lock =
     PDict [(''format'', PInt 1), (''distribution'', PStr ''ArachOS''),
       (''archiso_profile_revision'', PStr sample_revision), (''snapshot'', archiso_snapshot),
       (''packages'', PList sample_packages), (''package_set_sha256'', PStr sample_set_digest),
       (''sbom'', sample_attachment ''spdx-json''), (''provenance'', sample_attachment ''in-toto-statement'')]"

text \<open>One document that is both a bill of materials and a provenance statement.\<close>

definition sample_evidence :: pyval where
  "sample_evidence =
     PDict [(''spdxVersion'', PStr ''SPDX-2.3''),
       (''packages'', PList (map (\<lambda>n. PDict [(''name'', PStr n), (''versionInfo'', PStr ''1.0'')]) required_choice_packages)),
       (''_type'', PStr ''https://in-toto.io/Statement/v1''), (''predicateType'', PStr ''build''),
       (''predicate'', PDict []),
       (''subject'', PList [PDict [(''name'', PStr ''arachos-package-set''),
         (''digest'', PDict [(''sha256'', PStr sample_set_digest)])]])]"

definition other_digest :: string where
  "other_digest = replicate 64 CHR ''0''"

definition archiso_scenario :: "string \<times> string \<times> string \<times> bool \<Rightarrow> pyval" where
  "archiso_scenario x =
     (case x of (name, before, after, reboot) \<Rightarrow>
        PDict [(''id'', PStr name), (''status'', PStr ''passed''), (''log'', PStr ''a.bin''), (''log_sha256'', PStr sample_digest),
          (''snapshot_before_sha256'', PStr before), (''snapshot_after_sha256'', PStr after),
          (''post_reboot'', PBool reboot)])"

definition sample_qemu :: pyval where
  "sample_qemu =
     PDict [(''format'', PInt 1), (''captured_at'', PStr sample_time), (''package_lock_sha256'', PStr (sha256_hex ''lock'')),
       (''image'', PStr ''a.bin''), (''image_sha256'', PStr sample_digest),
       (''qemu'', PDict [(''binary'', PStr ''qemu-system-x86_64''), (''version'', PStr ''9.0''), (''machine'', PStr ''q35''),
         (''firmware_sha256'', PStr sample_digest)]),
       (''firmware'', PDict [(''path'', PStr ''a.bin''), (''sha256'', PStr sample_digest)]),
       (''initial_snapshot_sha256'', PStr sample_digest), (''update_snapshot_sha256'', PStr other_digest),
       (''scenarios'', PList (map archiso_scenario (zip scenarios (expected_transitions sample_digest other_digest))))]"

definition archiso_json :: "string \<Rightarrow> pyval option" where
  "archiso_json = map_of [(''lock'', sample_lock), (''report'', sample_qemu), (sample_artifact, sample_evidence)]"

section \<open>The lock is accepted\<close>

lemma lock_directory: "plain_dirs qualification_tree [''r'']"
  by (rule plain_dirs_chain) (simp_all add: tree_simps)

lemma lock_entries:
  "qualification_tree ([''r''] @ [''lock.json'']) = Some (Regular ''lock'' True)"
  "qualification_tree ([''r''] @ [''qemu.json'']) = Some (Regular ''report'' True)"
  "qualification_tree ([''r''] @ [''a.bin'']) = Some (Regular sample_artifact True)"
  by (simp_all add: tree_simps)

lemmas artifact_file = plain_regular [OF lock_directory _ lock_entries(3), simplified]
  and lock_file = plain_regular [OF lock_directory _ lock_entries(1), simplified]
  and report_file = plain_regular [OF lock_directory _ lock_entries(2), simplified]

lemma sample_join: "join lock_root ''a.bin'' = abs_path [''r'', ''a.bin'']"
  using join_name [of "''a.bin''" "[''r'']"] by simp

lemma sample_file: "verify_file qualification_tree lock_root (PStr ''a.bin'') (PStr sample_digest) = Inr ()"
proof -
  have "safe_relative ''a.bin''" by code_simp
  then show ?thesis
    unfolding verify_file_iff file_with_digest_def using artifact_file
    by (simp add: sample_join sha256_sample [symmetric])
qed

lemma sample_fingerprint: "fullmatch FINGERPRINT_RE sisyphus_fingerprint"
  unfolding FINGERPRINT_RE_def fullmatch_iff by (subst matches_between_cls) (simp, code_simp)

lemma sample_signed_ok: "verify_signed_file qualification_tree lock_root archiso_signed = Inr ()"
  by (simp add: verify_signed_file_def archiso_signed_def sample_file sample_fingerprint)

lemma sample_names_valid:
  "list_all (\<lambda>n. n \<noteq> [] \<and> set n \<subseteq> set (lower_alnum @ ''@._+:-'')) required_choice_packages"
  by code_simp

lemma sample_package_ok:
  "n \<in> set required_choice_packages \<Longrightarrow>
     lock_package_ok qualification_tree lock_root sample_url (sample_package n)"
  using sample_names_valid sample_signed_ok
  by (simp add: lock_package_ok_def sample_package_def verify_signed_file_iff PACKAGE_RE_def plus_cls_iff list_all_iff
      insert_commute del: insert_iff)

lemma sample_name [simp]: "package_name_of (sample_package n) = n"
  by (simp add: package_name_of_def sample_package_def)

lemma sample_names_distinct: "distinct required_choice_packages"
  by code_simp

lemma sample_lock_loop:
  "forE (lock_package_step qualification_tree lock_root sample_url) 0 sample_packages {} =
     Inr (set required_choice_packages)"
proof -
  have names: "map package_name_of sample_packages = required_choice_packages"
    by (simp add: sample_packages_def comp_def)
  have "\<forall>j < length sample_packages. lock_package_ok qualification_tree lock_root sample_url (sample_packages ! j)"
    by (simp add: sample_packages_def sample_package_ok)
  then have "forE (lock_package_step qualification_tree lock_root sample_url) 0 sample_packages {} =
      Inr (fold (\<lambda>p. insert (package_name_of p)) sample_packages {})"
    unfolding lock_packages.loop_iff names using sample_names_distinct by simp
  then show ?thesis
    using lock_packages.loop_seen [of sample_packages "{}"] names by simp
qed

fun dumpable :: "pyval \<Rightarrow> bool" where
  "dumpable (PList xs) = list_all dumpable xs"
| "dumpable (PDict d) = list_all (\<lambda>(k, v). dumpable v) d"
| "dumpable (PTime t) = False"
| "dumpable v = True"

lemma those_map: "list_all (\<lambda>x. f x \<noteq> None) xs \<Longrightarrow> those (map f xs) \<noteq> None"
  by (induction xs) (auto split: option.splits)

lemma dumpable_json: "dumpable v \<Longrightarrow> \<exists>s. json_dumps fr v = Inr s"
proof (induction fr v rule: json_dumps.induct)
  case (7 fr xs)
  then have "those (map (\<lambda>x. case json_dumps fr x of Inr s \<Rightarrow> Some s | Inl e \<Rightarrow> None) xs) \<noteq> None"
    by (intro those_map) (fastforce simp: list_all_iff)
  then show ?case by auto
next
  case (8 fr d)
  then have "those (map (\<lambda>kv. case json_dumps fr (snd kv) of Inr s \<Rightarrow> Some (fst kv, s) | Inl e \<Rightarrow> None) d) \<noteq> None"
    by (intro those_map) (fastforce simp: list_all_iff)
  then show ?case by auto
qed simp_all

lemma sample_set_encoded: "canonical_sha256 archiso_floats (PList sample_packages) = Inr sample_set_digest"
proof -
  have "dumpable (PList sample_packages)"
    by (auto simp: sample_packages_def sample_package_def archiso_signed_def list_all_iff)
  then obtain s where "json_dumps archiso_floats (PList sample_packages) = Inr s" using dumpable_json by blast
  then show ?thesis by (simp add: canonical_sha256_def sample_set_digest_def)
qed

lemma sample_url_split:
  "urlsplit (\<lambda>h. True) (\<lambda>n. True) sample_url =
     Inr \<lparr>scheme = ''https'', netloc = ''repo.example'', url_path = ''/S1'', url_query = [], fragment = []\<rparr>"
  by code_simp

lemma sample_snapshot_url: "verify_snapshot_url (\<lambda>h. True) (\<lambda>n. True) (PStr sample_url) = Inr ()"
  by code_simp

lemma sample_segments: "''S1'' \<in> set (split_on CHR ''/'' (without_params ''/S1''))"
  by code_simp

lemma sample_timestamp: "verify_timestamp (PStr sample_time) = Inr ()"
  using sample_time_utc by (auto simp: verify_timestamp_def result_simps)

lemma sample_snapshot_id: "fullmatch SNAPSHOT_ID_RE ''S1''"
  unfolding SNAPSHOT_ID_RE_def seq_upto_cls_iff by code_simp

lemma sample_snapshot_ok:
  "validate_snapshot qualification_tree (\<lambda>h. True) (\<lambda>n. True) lock_root archiso_snapshot = Inr ()"
  using sample_snapshot_url sample_signed_ok sample_file
  by (simp add: validate_snapshot_def archiso_snapshot_def sample_timestamp sample_snapshot_id in_str_set_def Let_def
      sample_url_split sample_segments is_dict_iff insert_commute del: fullmatch.simps)
    (simp add: archiso_signed_def)

lemma sample_evidence_loaded:
  "load_evidence_json archiso_json qualification_tree lock_root (sample_attachment kind) = Inr sample_evidence"
proof -
  have "decode_text sample_artifact = Inr sample_artifact" by (rule decode_plain) code_simp
  then show ?thesis using artifact_file
    by (simp add: load_evidence_json_def sample_attachment_def sample_file lock_load_def read_text_def sample_join
        archiso_json_def sample_artifact_def sample_evidence_def)
qed

lemma sample_sbom_loop:
  "forE (sbom_step ''versionInfo'') 0 (list_of (field sample_evidence ''packages'')) [] = Inr (expected_versions sample_packages)"
proof -
  let ?entry = "\<lambda>n. PDict [(''name'', PStr n), (''versionInfo'', PStr ''1.0'')]"
  have entries: "list_of (field sample_evidence ''packages'') = map ?entry required_choice_packages"
    by (simp add: sample_evidence_def)
  have names: "map package_name_of (map ?entry required_choice_packages) = required_choice_packages"
    by (simp add: comp_def package_name_of_def)
  show ?thesis unfolding entries sbom_entries.loop_iff names using sample_names_distinct
    by (simp add: sbom_collected expected_versions_def sample_packages_def comp_def)
      (simp add: package_name_of_def sample_package_def)
qed

lemma sample_attachments_ok:
  "validate_attachments archiso_json qualification_tree lock_root sample_lock sample_packages sample_set_digest = Inr ()"
proof -
  have "verify_sbom archiso_json qualification_tree lock_root (sample_attachment ''spdx-json'') sample_packages sample_set_digest = Inr ()"
    unfolding verify_sbom_def sample_evidence_loaded bindE.simps
    using sample_sbom_loop by (simp add: sample_attachment_def) (simp add: sample_evidence_def)
  moreover have "verify_provenance archiso_json qualification_tree lock_root (sample_attachment ''in-toto-statement'') sample_set_digest = Inr ()"
    unfolding verify_provenance_def sample_evidence_loaded bindE.simps
    by (simp add: sample_attachment_def) (simp add: sample_evidence_def binds_package_set_def)
  ultimately show ?thesis
    by (simp add: validate_attachments_def sample_lock_def Let_def in_str_set_def)
      (simp add: sample_attachment_def attachment_fields_def in_str_set_def)
qed

definition sample_inputs :: lock_inputs where
  "sample_inputs = \<lparr>snapshot_digest = sample_digest, package_set_digest = sample_set_digest, package_count = length sample_packages\<rparr>"

lemma sample_lock_accepted:
  "validate_package_lock archiso_json archiso_floats (\<lambda>h. True) (\<lambda>n. True) qualification_tree lock_root sample_lock = Inr sample_inputs"
proof -
  have some: "sample_packages \<noteq> []" by (simp add: sample_packages_def required_choice_packages_def)
  have fields: "field sample_lock ''packages'' = PList sample_packages" "field sample_lock ''snapshot'' = archiso_snapshot"
    "field sample_lock ''package_set_sha256'' = PStr sample_set_digest" "field sample_lock ''format'' = PInt 1"
    "field sample_lock ''distribution'' = PStr ''ArachOS''"
    "field sample_lock ''archiso_profile_revision'' = PStr sample_revision"
    by (simp_all add: sample_lock_def)
  have keys: "has_fields [''format'', ''distribution'', ''archiso_profile_revision'', ''snapshot'', ''packages'',
      ''package_set_sha256'', ''sbom'', ''provenance''] sample_lock"
    by (simp add: sample_lock_def)
  have snapshot: "field archiso_snapshot ''repository'' = PStr sample_url"
    "field (field archiso_snapshot ''database'') ''sha256'' = PStr sample_digest"
    by (simp_all add: archiso_snapshot_def archiso_signed_def)
  have choices: "\<not> list_ex (\<lambda>p. p \<notin> set required_choice_packages) required_choice_packages" by (simp add: list_ex_iff)
  show ?thesis
    unfolding validate_package_lock_def Let_def fields
    using keys some choices sample_revision_ok
    by (simp add: sample_snapshot_ok snapshot sample_lock_loop sample_set_encoded sample_attachments_ok sample_inputs_def)
qed


section \<open>The report is accepted\<close>

lemma other_digest_ok: "fullmatch SHA256_RE other_digest" "other_digest \<noteq> sample_digest"
proof -
  show "fullmatch SHA256_RE other_digest" by (simp add: sha256_re_iff other_digest_def lower_hex_def)
  have "hd other_digest \<noteq> hd sample_digest" by (simp add: other_digest_def sample_digest_def)
  then show "other_digest \<noteq> sample_digest" by metis
qed

lemma sample_scenarios_ok:
  "forE (scenario_step qualification_tree lock_root) i (map (\<lambda>x. (archiso_scenario x, x)) xs) () = Inr ()"
  by (induction xs arbitrary: i)
    (auto simp: scenario_step_def archiso_scenario_def sample_file Let_def insert_commute)

lemma sample_scenario_list:
  "zip (map archiso_scenario (zip scenarios (expected_transitions a b))) (zip scenarios (expected_transitions a b)) =
     map (\<lambda>x. (archiso_scenario x, x)) (zip scenarios (expected_transitions a b))"
  by (simp add: scenarios_def expected_transitions_def)

lemma sample_qemu_accepted:
  "validate_qemu_report qualification_tree lock_root sample_qemu (sha256_hex ''lock'') sample_digest = Inr 5"
proof -
  have keys: "has_fields [''format'', ''captured_at'', ''package_lock_sha256'', ''image'', ''image_sha256'', ''qemu'',
      ''firmware'', ''initial_snapshot_sha256'', ''update_snapshot_sha256'', ''scenarios''] sample_qemu"
    by (simp add: sample_qemu_def)
  have fields: "field sample_qemu ''format'' = PInt 1" "field sample_qemu ''captured_at'' = PStr sample_time"
    "field sample_qemu ''package_lock_sha256'' = PStr (sha256_hex ''lock'')" "field sample_qemu ''image'' = PStr ''a.bin''"
    "field sample_qemu ''image_sha256'' = PStr sample_digest" "field sample_qemu ''initial_snapshot_sha256'' = PStr sample_digest"
    "field sample_qemu ''update_snapshot_sha256'' = PStr other_digest"
    "field sample_qemu ''firmware'' = PDict [(''path'', PStr ''a.bin''), (''sha256'', PStr sample_digest)]"
    "field sample_qemu ''qemu'' = PDict [(''binary'', PStr ''qemu-system-x86_64''), (''version'', PStr ''9.0''),
      (''machine'', PStr ''q35''), (''firmware_sha256'', PStr sample_digest)]"
    "field sample_qemu ''scenarios'' =
      PList (map archiso_scenario (zip scenarios (expected_transitions sample_digest other_digest)))"
    by (simp_all add: sample_qemu_def)
  have five: "length (zip scenarios (expected_transitions sample_digest other_digest)) = 5" "length scenarios = 5"
    by (simp_all add: scenarios_def expected_transitions_def)
  show ?thesis
    unfolding validate_qemu_report_def Let_def fields list_of.simps str_of.simps sample_scenario_list sample_scenarios_ok
    using keys five other_digest_ok sample_timestamp sample_file by (simp add: verify_digest_def insert_commute)
qed

section \<open>The program\<close>

lemma resolve_regular:
  assumes "plain_dirs fs d" and "n \<noteq> ''..''" and "fs (d @ [n]) = Some (Regular c True)"
  shows "resolve_strict fs (abs_path (d @ [n])) = Inr (abs_path (d @ [n]))"
  using walk_regular [OF assms] assms(3) by (simp add: resolve_strict_def abs_path_def node_at_def)

lemma resolve_directory: "resolve_strict qualification_tree lock_root = Inr lock_root"
proof -
  have "qualification_tree [''r''] = Some Directory" by (simp add: tree_simps)
  then show ?thesis by (simp add: resolve_strict_def abs_path_def node_at_def)
qed

lemma documents_loaded:
  "lock_load archiso_json qualification_tree (abs_path [''r'', ''lock.json'']) = Inr sample_lock"
  "lock_load archiso_json qualification_tree (abs_path [''r'', ''qemu.json'']) = Inr sample_qemu"
  using lock_file report_file
  by (simp_all add: lock_load_def read_text_def decode_text_def utf8_valid_def archiso_json_def)
    (simp_all add: sample_lock_def sample_qemu_def)

lemma sample_qualify_run:
  "qualify archiso_json archiso_floats (\<lambda>h. True) (\<lambda>n. True) qualification_tree (abs_path [''r'', ''lock.json'']) lock_root
     profile_directory (Some (abs_path [''r'', ''qemu.json''], lock_root)) = Inr (12, 5)"
proof -
  have "length sample_packages = 12" by (simp add: sample_packages_def required_choice_packages_def bootloader_packages_def)
  then show ?thesis
    using resolve_regular [OF lock_directory _ lock_entries(1), simplified] lock_file(2)
      resolve_regular [OF lock_directory _ lock_entries(2), simplified]
    by (simp add: qualify_def resolve_directory documents_loaded sample_profile_accepted sample_lock_accepted
        sample_inputs_def sample_qemu_accepted)
qed

theorem qualification_is_end_to_end_witness:
  "\<exists>qemu_document. passed_history qualification_tree lock_root sample_digest (scenarios_of qemu_document)"
  using qualification_is_end_to_end [OF sample_qualify_run] sample_lock_accepted resolve_directory documents_loaded
    resolve_regular [OF lock_directory _ lock_entries(1), simplified]
  by (auto simp: sample_inputs_def)

end
