(* ===== verification/Components.thy ===== *)
theory Components
  imports FileSystem TextSearch "HOL-Library.Multiset"
begin

text \<open>
  \<^verbatim>\<open>scripts/verify-components.py\<close>: the lock of the native stack's components against
  the fixed composition, the pins of \<^verbatim>\<open>Cargo.toml\<close> against the lock, and, with
  \<^verbatim>\<open>--remote\<close>, the objects that the component repositories really hold. The script
  has no exception class of its own; \<open>Rejected\<close> is the \<^verbatim>\<open>ValueError\<close> that it
  raises itself. \<open>toml\<close> is the TOML parser; its errors are \<^verbatim>\<open>ValueError\<close>s too.
\<close>

section \<open>The composition\<close>

definition composition :: "(string \<times> string \<times> string) list" where
  "composition =
     [(''arach-kernel'', ''Arach-Kernel'', ''kernel''), (''slope'', ''Slope'', ''userspace-abi''),
      (''push'', ''Push'', ''pid1''), (''granite'', ''Granite'', ''bootloader''),
      (''corinth'', ''Corinth'', ''package-manager''),
      (''arach-packages'', ''Arach-Packages'', ''package-recipes''),
      (''arach-hwd'', ''Arach-HWD'', ''hardware-provisioning''),
      (''libinput-rs'', ''libinput-rs'', ''input-stack''),
      (''elan-guardian'', ''elan-guardian'', ''input-recovery''),
      (''tuned-rs'', ''tuned-rs'', ''system-tuning''),
      (''ccze-rs'', ''ccze-rs'', ''log-presentation'')]"

definition REVISION :: rx where
  "REVISION = rept 40 (Cls lower_hex)"

definition repository_url :: "string \<Rightarrow> string" where
  "repository_url repository = ''https://github.com/SisyphusAeolides/'' @ repository @ ''.git''"

definition toml_text :: "(string \<Rightarrow> pyval option) \<Rightarrow> string \<Rightarrow> pyval result" where
  "toml_text toml s = (case toml s of None \<Rightarrow> Inl ValueError | Some v \<Rightarrow> Inr v)"

section \<open>The lock\<close>

definition load_component_lock :: "(string \<Rightarrow> pyval option) \<Rightarrow> fs \<Rightarrow> pure_path \<Rightarrow> pyval list result" where
  "load_component_lock toml fs p =
     bindE (read_text fs p) (\<lambda>s.
     bindE (toml_text toml s) (\<lambda>v.
       if \<not> has_fields [''format'', ''distribution'', ''composition'', ''release_role'', ''component''] v
       then Inl (Rejected ''lock contains missing or unknown top-level fields'')
       else if \<not> py_eq (field v ''format'') (PInt 1) \<or>
               \<not> py_eq (field v ''distribution'') (PStr ''ArachOS'') \<or>
               \<not> py_eq (field v ''composition'') (PStr ''native-stack'') \<or>
               \<not> py_eq (field v ''release_role'') (PStr ''experimental'')
       then Inl (Rejected ''lock is not the experimental native-stack composition'')
       else if \<not> is_list (field v ''component'')
       then Inl (Rejected ''component must be an array of tables'')
       else Inr (list_of (field v ''component''))))"

text \<open>
  \<^verbatim>\<open>set(component) == {...}\<close> for any value of a TOML array: the keys of a table,
  the items of an array (which must be hashable), the characters of a string, none of which is a
  field name.
\<close>

fun keys_are :: "string list \<Rightarrow> pyval \<Rightarrow> bool result" where
  "keys_are ks (PDict d) = Inr (has_fields ks (PDict d))"
| "keys_are ks (PStr s) = Inr False"
| "keys_are ks (PList xs) =
     (if list_ex (\<lambda>x. \<not> hashable x) xs then Inl TypeError else Inr (set xs = set (map PStr ks)))"
| "keys_are ks _ = Inl TypeError"

definition component_fields :: "string list" where
  "component_fields = [''name'', ''repository'', ''revision'', ''role'']"

text \<open>\<open>v in seen\<close> for a dictionary or a set with the keys \<open>seen\<close>.\<close>

definition among :: "pyval \<Rightarrow> pyval list \<Rightarrow> bool result" where
  "among v seen = (if \<not> hashable v then Inl TypeError else Inr (list_ex (py_eq v) seen))"

text \<open>The accumulator: the names with their records, and the repositories, that were seen.\<close>

definition component_step ::
    "nat \<Rightarrow> pyval \<Rightarrow> (pyval \<times> pyval) list \<times> pyval list \<Rightarrow> ((pyval \<times> pyval) list \<times> pyval list) result" where
  "component_step index component seen =
     (case seen of (actual, repositories) \<Rightarrow>
      bindE (keys_are component_fields component) (\<lambda>known.
      if \<not> known then Inl (Rejected ''component contains missing or unknown fields'')
      else if \<not> is_dict component then Inl TypeError
      else let name = field component ''name''; revision = field component ''revision'';
               repository = field component ''repository''
        in bindE (among name (map fst actual)) (\<lambda>duplicate.
           if duplicate then Inl (Rejected ''duplicate component'')
           else if \<not> str_that (\<lambda>s. True) revision then Inl TypeError
           else if \<not> fullmatch REVISION (str_of revision)
           then Inl (Rejected ''revision is not a lowercase full object ID'')
           else bindE (among repository repositories) (\<lambda>duplicate.
             if duplicate then Inl (Rejected ''duplicate repository'')
             else Inr (actual @ [(name, component)], repositories @ [repository])))))"

text \<open>
  The message of a set that differs sorts the unknown names, which raises when they are not all
  strings or all numbers (dates are taken not to compare).
\<close>

definition sortable :: "pyval list \<Rightarrow> bool" where
  "sortable xs \<longleftrightarrow>
     length xs \<le> 1 \<or> list_all (str_that (\<lambda>s. True)) xs \<or> list_all (\<lambda>x. number x \<noteq> None) xs"

definition composition_step ::
    "(pyval \<times> pyval) list \<Rightarrow> nat \<Rightarrow> string \<times> string \<times> string \<Rightarrow> unit \<Rightarrow> unit result" where
  "composition_step actual index expected u =
     (case expected of (name, repository, role) \<Rightarrow>
      case map_of actual (PStr name) of
        None \<Rightarrow> Inl KeyError
      | Some component \<Rightarrow>
          (if \<not> py_eq (field component ''repository'') (PStr (repository_url repository))
           then Inl (Rejected ''repository differs from its authority'')
           else if \<not> py_eq (field component ''role'') (PStr role)
           then Inl (Rejected ''role differs from the composition contract'')
           else Inr ()))"

definition validate_components :: "pyval list \<Rightarrow> unit result" where
  "validate_components components =
     bindE (forE component_step 0 components ([], [])) (\<lambda>(actual, repositories).
       let names = map fst actual; expected = map (PStr \<circ> fst) composition in
       if set names \<noteq> set expected
       then (if sortable (filter (\<lambda>n. n \<notin> set expected) names)
             then Inl (Rejected ''component set differs'') else Inl TypeError)
       else forE (composition_step actual) 0 composition ())"

text \<open>\<^verbatim>\<open>{c["name"]: c["revision"] for c in components}\<close>, of a validated list.\<close>

definition locked_revisions :: "pyval list \<Rightarrow> (string \<times> string) list" where
  "locked_revisions components =
     rev (map (\<lambda>c. (str_of (field c ''name''), str_of (field c ''revision''))) components)"

definition locked_revision :: "(string \<times> string) list \<Rightarrow> string \<Rightarrow> string result" where
  "locked_revision locked name =
     (case map_of locked name of None \<Rightarrow> Inl KeyError | Some revision \<Rightarrow> Inr revision)"

section \<open>The Rust manifest\<close>

definition rust_pin_step ::
    "pyval \<Rightarrow> (string \<times> string) list \<Rightarrow> nat \<Rightarrow> string \<times> string \<Rightarrow> unit \<Rightarrow> unit result" where
  "rust_pin_step dependencies locked index names u =
     (case names of (package_name, component_name) \<Rightarrow>
      let dependency = field dependencies package_name in
      if \<not> is_dict dependency then Inl (Rejected ''Cargo.toml dependency must be a Git table'')
      else if \<not> py_eq (field dependency ''git'')
        (PStr (repository_url (if package_name = ''corinth'' then ''Corinth'' else ''Arach-HWD'')))
      then Inl (Rejected ''Cargo.toml dependency repository differs'')
      else bindE (locked_revision locked component_name) (\<lambda>revision.
        if \<not> py_eq (field dependency ''rev'') (PStr revision)
        then Inl (Rejected ''Cargo.toml dependency revision differs from components.lock.toml'')
        else Inr ()))"

definition validate_rust_pins ::
    "(string \<Rightarrow> pyval option) \<Rightarrow> fs \<Rightarrow> pyval list \<Rightarrow> pure_path \<Rightarrow> unit result" where
  "validate_rust_pins toml fs components manifest_path =
     bindE (read_text fs manifest_path) (\<lambda>s.
     bindE (toml_text toml s) (\<lambda>manifest.
       if \<not> is_dict (field manifest ''dependencies'')
       then Inl (Rejected ''Cargo.toml has no dependency table'')
       else forE (rust_pin_step (field manifest ''dependencies'') (locked_revisions components)) 0
         [(''corinth'', ''corinth''), (''arach-hwd'', ''arach-hwd'')] ()))"

section \<open>The remote repositories\<close>

text \<open>
  Git, as what a command answers in a temporary directory after the commands that ran there
  before: an exception (\<^verbatim>\<open>git\<close> cannot be started, or its captured output is not
  UTF-8), or the exit status and the standard output. Every component is fetched into a fresh directory of
  its own, so that the worker threads do not share state; the first failure in the order of the
  components decides, as \<^verbatim>\<open>future.result()\<close> does.
\<close>

type_synonym git = "string list list \<Rightarrow> string list \<Rightarrow> (int \<times> string) result"

definition show_command :: "string \<Rightarrow> string \<Rightarrow> string list" where
  "show_command directory path = [''git'', ''-C'', directory, ''show'', ''FETCH_HEAD:'' @ path]"

definition show_remote_file :: "git \<Rightarrow> string list list \<Rightarrow> string \<Rightarrow> string \<Rightarrow> string result" where
  "show_remote_file git before directory path =
     bindE (git before (show_command directory path)) (\<lambda>(status, output).
       if status \<noteq> 0 then Inl (Rejected ''locked component is missing a file'') else Inr output)"

definition imports_locked_hwd :: "pyval \<Rightarrow> (string \<times> string) list \<Rightarrow> bool result" where
  "imports_locked_hwd manifest locked =
     (let dependency = field (field manifest ''dependencies'') ''arach-hwd'' in
      if \<not> is_dict (field manifest ''dependencies'') \<or> \<not> is_dict dependency \<or>
         \<not> py_eq (field dependency ''git'') (PStr (repository_url ''Arach-HWD''))
      then Inr False
      else bindE (locked_revision locked ''arach-hwd'') (\<lambda>revision.
        Inr (py_eq (field dependency ''rev'') (PStr revision))))"

definition recipes :: "(string \<times> string \<times> string) list" where
  "recipes =
     [(''recipes/base/corinth/package.toml'', repository_url ''Corinth'', ''corinth''),
      (''recipes/base/arach-hwd/package.toml'', repository_url ''Arach-HWD'', ''arach-hwd'')]"

definition recipe_ok :: "pyval \<Rightarrow> string \<Rightarrow> (string \<times> string) list \<Rightarrow> string \<Rightarrow> bool result" where
  "recipe_ok recipe repository locked component_name =
     (let sources = field recipe ''source''; entry = hd (list_of sources) in
      if \<not> is_list sources \<or> length (list_of sources) \<noteq> 1 \<or> \<not> is_dict entry \<or>
         \<not> py_eq (field entry ''kind'') (PStr ''git'') \<or> \<not> py_eq (field entry ''url'') (PStr repository)
      then Inr False
      else bindE (locked_revision locked component_name) (\<lambda>revision.
        Inr (py_eq (field entry ''revision'') (PStr revision))))"

text \<open>The accumulator is the history of the directory.\<close>

definition recipe_step ::
    "(string \<Rightarrow> pyval option) \<Rightarrow> git \<Rightarrow> string \<Rightarrow> (string \<times> string) list \<Rightarrow> nat \<Rightarrow>
     string \<times> string \<times> string \<Rightarrow> string list list \<Rightarrow> string list list result" where
  "recipe_step toml git directory locked index r before =
     (case r of (path, repository, component_name) \<Rightarrow>
      bindE (show_remote_file git before directory path) (\<lambda>output.
      bindE (toml_text toml output) (\<lambda>recipe.
      bindE (recipe_ok recipe repository locked component_name) (\<lambda>ok.
        if \<not> ok then Inl (Rejected ''locked Arach-Packages recipe differs from the component graph'')
        else Inr (before @ [show_command directory path])))))"

definition kernel_source :: "string \<Rightarrow> string \<Rightarrow> pyval" where
  "kernel_source repository revision =
     PDict [(''kind'', PStr ''git''), (''url'', PStr (repository_url repository)),
       (''revision'', PStr revision), (''submodules'', PBool False)]"

definition validate_nested_authority ::
    "(string \<Rightarrow> pyval option) \<Rightarrow> git \<Rightarrow> string list list \<Rightarrow> pyval \<Rightarrow> string \<Rightarrow> (string \<times> string) list \<Rightarrow>
     unit result" where
  "validate_nested_authority toml git before component directory locked =
     (if py_eq (field component ''name'') (PStr ''corinth'')
      then bindE (show_remote_file git before directory ''Cargo.toml'') (\<lambda>output.
           bindE (toml_text toml output) (\<lambda>manifest.
           bindE (imports_locked_hwd manifest locked) (\<lambda>ok.
             if \<not> ok then Inl (Rejected ''locked Corinth imports a different Arach-HWD revision'')
             else Inr ())))
      else if \<not> py_eq (field component ''name'') (PStr ''arach-packages'') then Inr ()
      else bindE (forE (recipe_step toml git directory locked) 0 recipes before) (\<lambda>before.
           bindE (show_remote_file git before directory ''recipes/base/arach-kernel/package.toml'') (\<lambda>output.
           bindE (toml_text toml output) (\<lambda>recipe.
           bindE (locked_revision locked ''arach-kernel'') (\<lambda>kernel.
           bindE (locked_revision locked ''push'') (\<lambda>push.
             if \<not> py_eq (field recipe ''source'')
               (PList [kernel_source ''Arach-Kernel'' kernel, kernel_source ''Push'' push])
             then Inl (Rejected ''locked Arach-Packages kernel recipe differs from the component graph'')
             else Inr ()))))))"

definition init_command :: "string \<Rightarrow> string list" where
  "init_command directory = [''git'', ''init'', ''--bare'', ''--quiet'', directory]"

definition fetch_command :: "string \<Rightarrow> pyval \<Rightarrow> string list" where
  "fetch_command directory component =
     [''git'', ''-C'', directory, ''fetch'', ''--quiet'', ''--no-tags'', ''--depth=1'',
      str_of (field component ''repository''), str_of (field component ''revision'')]"

definition rev_parse_command :: "string \<Rightarrow> string list" where
  "rev_parse_command directory = [''git'', ''-C'', directory, ''rev-parse'', ''FETCH_HEAD'']"

text \<open>\<open>directory\<close> is the temporary directory, or the error of its creation.\<close>

definition verify_remote ::
    "(string \<Rightarrow> pyval option) \<Rightarrow> git \<Rightarrow> string result \<Rightarrow> pyval \<Rightarrow> (string \<times> string) list \<Rightarrow> unit result" where
  "verify_remote toml git made component locked =
     bindE made (\<lambda>directory.
     let init = init_command directory; fetch = fetch_command directory component;
         rev_parse = rev_parse_command directory in
     bindE (git [] init) (\<lambda>(status, output).
     if status \<noteq> 0 then Inl ProcessError
     else bindE (git [init] fetch) (\<lambda>(status, output).
     if status \<noteq> 0 then Inl (Rejected ''revision is unavailable'')
     else bindE (git [init, fetch] rev_parse) (\<lambda>(status, output).
     if status \<noteq> 0 then Inl ProcessError
     else if \<not> py_eq (PStr (py_strip output)) (field component ''revision'')
     then Inl (Rejected ''fetched object differs from its pin'')
     else validate_nested_authority toml git [init, fetch, rev_parse] component directory locked))))"

definition components_main ::
    "(string \<Rightarrow> pyval option) \<Rightarrow> git \<Rightarrow> (nat \<Rightarrow> string result) \<Rightarrow> fs \<Rightarrow> pure_path \<Rightarrow> pure_path \<Rightarrow> bool \<Rightarrow>
     nat result" where
  "components_main toml git directories fs lock manifest remote =
     bindE (load_component_lock toml fs lock) (\<lambda>components.
     bindE (validate_components components) (\<lambda>u.
     bindE (validate_rust_pins toml fs components manifest) (\<lambda>u.
     bindE (if remote
         then forE (\<lambda>i component u.
           verify_remote toml git (directories i) component (locked_revisions components)) 0 components ()
         else Inr ()) (\<lambda>u.
       Inr (length components)))))"

end
