(* ===== verification/ComponentsProps.thy ===== *)
theory ComponentsProps
  imports Components Ledger
begin

text \<open>
  What the component lock, the pins and the fetched objects are worth when
  \<^verbatim>\<open>verify-components.py\<close> accepts them.
\<close>

section \<open>The loop over the components\<close>

definition component_ok :: "pyval \<Rightarrow> bool" where
  "component_ok c \<longleftrightarrow>
     has_fields component_fields c \<and> hashable (field c ''name'') \<and> hashable (field c ''repository'') \<and>
     str_that (fullmatch REVISION) (field c ''revision'')"

fun fresh_keys :: "pyval list \<Rightarrow> pyval list \<Rightarrow> bool" where
  "fresh_keys [] seen = True"
| "fresh_keys (x # xs) seen = (\<not> list_ex (py_eq x) seen \<and> fresh_keys xs (seen @ [x]))"

lemma among_iff [result_simps]: "among v seen = Inr b \<longleftrightarrow> hashable v \<and> b = list_ex (py_eq v) seen"
  by (auto simp: among_def)

lemma keys_are_dict [result_simps]: "is_dict v \<Longrightarrow> keys_are ks v = Inr b \<longleftrightarrow> b = has_fields ks v"
  by (cases v) auto

lemma component_step_iff:
  "component_step i c (A, R) = Inr t \<longleftrightarrow>
     component_ok c \<and> \<not> list_ex (py_eq (field c ''name'')) (map fst A) \<and>
     \<not> list_ex (py_eq (field c ''repository'')) R \<and>
     t = (A @ [(field c ''name'', c)], R @ [field c ''repository''])"
proof (cases "is_dict c")
  case True
  then show ?thesis
    by (auto simp: component_step_def component_ok_def Let_def result_simps)
next
  case False
  then have "\<not> component_ok c" by (cases c) (auto simp: component_ok_def)
  with False show ?thesis by (auto simp: component_step_def result_simps)
qed

lemma component_loop:
  "forE component_step i cs (A, R) = Inr (A', R') \<longleftrightarrow>
     (\<forall>c \<in> set cs. component_ok c) \<and>
     fresh_keys (map (\<lambda>c. field c ''name'') cs) (map fst A) \<and>
     fresh_keys (map (\<lambda>c. field c ''repository'') cs) R \<and>
     A' = A @ map (\<lambda>c. (field c ''name'', c)) cs \<and> R' = R @ map (\<lambda>c. field c ''repository'') cs"
proof (induction cs arbitrary: i A R)
  case (Cons c cs)
  then show ?case by (auto simp: bindE_Inr_iff component_step_iff)
qed auto

lemma fresh_strings:
  "fresh_keys (map PStr ss) (map PStr ts) \<longleftrightarrow> distinct ss \<and> set ss \<inter> set ts = {}"
proof (induction ss arbitrary: ts)
  case (Cons s ss)
  from Cons.IH [of "ts @ [s]"] show ?case by (auto simp: list_ex_iff)
qed simp

section \<open>The accepted locks\<close>

definition identity_of :: "pyval \<Rightarrow> pyval \<times> pyval \<times> pyval" where
  "identity_of c = (field c ''name'', field c ''repository'', field c ''role'')"

definition composition_identities :: "(pyval \<times> pyval \<times> pyval) list" where
  "composition_identities =
     map (\<lambda>(name, repository, role). (PStr name, PStr (repository_url repository), PStr role)) composition"

lemma composition_distinct:
  "distinct (map fst composition)" "distinct (map (\<lambda>(n, r, l). repository_url r) composition)"
  by (simp_all add: composition_def repository_url_def)

lemma composition_loop:
  "forE (composition_step actual) i xs u = Inr v \<longleftrightarrow>
     (\<forall>(name, repository, role) \<in> set xs. \<exists>c. map_of actual (PStr name) = Some c \<and>
        field c ''repository'' = PStr (repository_url repository) \<and> field c ''role'' = PStr role)"
  by (induction xs arbitrary: i u) (auto simp: bindE_Inr_iff composition_step_def split: option.splits if_splits)

lemma name_of_composition: "map fst composition_identities = map (PStr \<circ> fst) composition"
  by (simp add: composition_identities_def comp_def split_beta)

lemma exact_identities:
  assumes "fresh_keys (map (\<lambda>c. field c ''name'') cs) []"
    and names: "set (map (\<lambda>c. field c ''name'') cs) = set (map (PStr \<circ> fst) composition)"
    and all: "\<forall>(name, repository, role) \<in> set composition.
      \<exists>c. map_of (map (\<lambda>c. (field c ''name'', c)) cs) (PStr name) = Some c \<and>
        field c ''repository'' = PStr (repository_url repository) \<and> field c ''role'' = PStr role"
  shows "mset (map identity_of cs) = mset composition_identities"
proof -
  let ?names = "map (\<lambda>c. field c ''name'') cs"
  have "\<forall>x \<in> set ?names. \<exists>s. x = PStr s" using names by auto
  then have "\<exists>ss. ?names = map PStr ss" by (simp only: ex_map_conv)
  then obtain ss where ss: "?names = map PStr ss" ..
  with assms(1) have distinct: "distinct ?names" using fresh_strings [of ss "[]"] by (simp add: distinct_map inj_on_def)
  have found: "map_of (map (\<lambda>c. (field c ''name'', c)) cs) (field c ''name'') = Some c" if "c \<in> set cs" for c
    using distinct that by (intro map_of_is_SomeI) (auto simp: comp_def)
  have "set (map identity_of cs) \<subseteq> set composition_identities"
  proof
    fix x assume "x \<in> set (map identity_of cs)"
    then obtain c where c: "c \<in> set cs" "x = identity_of c" by auto
    then have "field c ''name'' \<in> set (map (PStr \<circ> fst) composition)" using names by auto
    then obtain name repository role where e: "(name, repository, role) \<in> set composition" "field c ''name'' = PStr name"
      by auto
    with all found [OF c(1)] have "field c ''repository'' = PStr (repository_url repository)" "field c ''role'' = PStr role"
      by auto
    with e c(2) show "x \<in> set composition_identities"
      by (force simp: identity_of_def composition_identities_def)
  qed
  moreover have "set composition_identities \<subseteq> set (map identity_of cs)"
  proof
    fix x assume "x \<in> set composition_identities"
    then obtain name repository role where e: "(name, repository, role) \<in> set composition"
      "x = (PStr name, PStr (repository_url repository), PStr role)"
      by (auto simp: composition_identities_def)
    with all obtain c where "map_of (map (\<lambda>c. (field c ''name'', c)) cs) (PStr name) = Some c"
      "field c ''repository'' = PStr (repository_url repository)" "field c ''role'' = PStr role" by blast
    with e(2) show "x \<in> set (map identity_of cs)"
      by (force simp: identity_of_def dest!: map_of_SomeD)
  qed
  moreover have "distinct (map fst (map identity_of cs))"
    using distinct by (simp add: identity_of_def comp_def)
  then have "distinct (map identity_of cs)"
    by (rule distinct_map [THEN iffD1, THEN conjunct1])
  moreover have "distinct composition_identities"
    by (simp add: composition_identities_def composition_def repository_url_def)
  ultimately show ?thesis by (metis set_eq_iff_mset_eq_distinct subset_antisym)
qed

lemma accepted_identities:
  assumes "validate_components cs = Inr u"
  shows "(\<forall>c \<in> set cs. component_ok c) \<and> mset (map identity_of cs) = mset composition_identities"
proof -
  from assms have loop: "\<forall>c \<in> set cs. component_ok c"
      "fresh_keys (map (\<lambda>c. field c ''name'') cs) []"
    and names: "set (map (\<lambda>c. field c ''name'') cs) = set (map (PStr \<circ> fst) composition)"
    and all: "\<forall>(name, repository, role) \<in> set composition.
      \<exists>c. map_of (map (\<lambda>c. (field c ''name'', c)) cs) (PStr name) = Some c \<and>
        field c ''repository'' = PStr (repository_url repository) \<and> field c ''role'' = PStr role"
    by (auto simp: validate_components_def bindE_Inr_iff component_loop composition_loop Let_def comp_def
        image_image split: if_splits)
  from loop exact_identities [OF loop(2) names all] show ?thesis by simp
qed

lemma accepted_from_identities:
  assumes ok: "\<forall>c \<in> set cs. component_ok c" and "mset (map identity_of cs) = mset composition_identities"
  shows "validate_components cs = Inr ()"
proof -
  let ?names = "map (\<lambda>c. field c ''name'') cs" and ?urls = "map (\<lambda>c. field c ''repository'') cs"
  have names: "mset ?names = mset (map PStr (map fst composition))"
    using arg_cong [OF assms(2), of "image_mset fst"]
    by (simp add: identity_of_def composition_identities_def image_mset.compositionality comp_def split_beta)
  have urls: "mset ?urls = mset (map PStr (map (\<lambda>(n, r, l). repository_url r) composition))"
    using arg_cong [OF assms(2), of "image_mset (fst \<circ> snd)"]
    by (simp add: identity_of_def composition_identities_def image_mset.compositionality comp_def split_beta)
  have strings: "\<exists>ss. xs = map PStr ss \<and> distinct ss" if "mset xs = mset (map PStr ts)" "distinct ts" for xs ts
  proof -
    from that(1) have "set xs = PStr ` set ts" by (metis mset_eq_setD list.set_map)
    then have "\<forall>x \<in> set xs. \<exists>s. x = PStr s" by auto
    then have "\<exists>ss. xs = map PStr ss" by (simp only: ex_map_conv)
    then obtain ss where ss: "xs = map PStr ss" ..
    from that have "distinct xs" by (metis distinct_PStr mset_eq_imp_distinct_iff)
    with ss show ?thesis by (auto simp: distinct_map)
  qed
  obtain ns where ns: "?names = map PStr ns" "distinct ns" using strings [OF names] composition_distinct by blast
  obtain rs where rs: "?urls = map PStr rs" "distinct rs" using strings [OF urls] composition_distinct by blast
  have loop: "forE component_step 0 cs ([], []) = Inr (map (\<lambda>c. (field c ''name'', c)) cs, ?urls)"
    using ok fresh_strings [of ns "[]"] fresh_strings [of rs "[]"] ns rs by (simp add: component_loop)
  have set_names: "set ?names = set (map (PStr \<circ> fst) composition)"
    using mset_eq_setD [OF names] by simp
  have "\<exists>c. map_of (map (\<lambda>c. (field c ''name'', c)) cs) (PStr name) = Some c \<and>
      field c ''repository'' = PStr (repository_url repository) \<and> field c ''role'' = PStr role"
    if "(name, repository, role) \<in> set composition" for name repository role
  proof -
    have "(PStr name, PStr (repository_url repository), PStr role) \<in> set (map identity_of cs)"
      unfolding mset_eq_setD [OF assms(2)] using that by (force simp: composition_identities_def)
    then obtain c where c: "c \<in> set cs" "field c ''name'' = PStr name"
      "field c ''repository'' = PStr (repository_url repository)" "field c ''role'' = PStr role"
      by (auto simp: identity_of_def)
    have "distinct (map fst (map (\<lambda>c. (field c ''name'', c)) cs))"
      using ns by (simp add: comp_def distinct_map inj_on_def)
    moreover have "(PStr name, c) \<in> set (map (\<lambda>c. (field c ''name'', c)) cs)" using c by force
    ultimately have "map_of (map (\<lambda>c. (field c ''name'', c)) cs) (PStr name) = Some c"
      by (rule map_of_is_SomeI)
    with c show ?thesis by blast
  qed
  then have "forE (composition_step (map (\<lambda>c. (field c ''name'', c)) cs)) 0 composition () = Inr ()"
    unfolding composition_loop by blast
  then show ?thesis using loop set_names by (simp add: validate_components_def Let_def comp_def image_image)
qed

text \<open>
  C7. A component lock is accepted exactly when it is the composition: every component is a table
  with the four fields whose revision is a full lower case object ID, and the names, repositories and roles are
  those of the authority table, each once, in any order.
\<close>

theorem component_lock_is_exact:
  "validate_components cs = Inr () \<longleftrightarrow>
     (\<forall>c \<in> set cs. component_ok c) \<and> mset (map identity_of cs) = mset composition_identities"
  using accepted_identities accepted_from_identities by blast

section \<open>The remote repositories\<close>

text \<open>The component's pinned object is what the fetch brought.\<close>

definition fetched :: "git \<Rightarrow> string \<Rightarrow> pyval \<Rightarrow> bool" where
  "fetched git d c \<longleftrightarrow>
     (\<exists>a b out. git [] (init_command d) = Inr (0, a) \<and>
        git [init_command d] (fetch_command d c) = Inr (0, b) \<and>
        git [init_command d, fetch_command d c] (rev_parse_command d) = Inr (0, out) \<and>
        field c ''revision'' = PStr (py_strip out))"

definition after_fetch :: "string \<Rightarrow> pyval \<Rightarrow> string list list" where
  "after_fetch d c = [init_command d, fetch_command d c, rev_parse_command d]"

text \<open>\<open>doc\<close> is what a file of the fetched object contains.\<close>

definition remote_document ::
    "(string \<Rightarrow> pyval option) \<Rightarrow> git \<Rightarrow> string list list \<Rightarrow> string \<Rightarrow> string \<Rightarrow> pyval \<Rightarrow> bool" where
  "remote_document toml git before d path doc \<longleftrightarrow>
     (\<exists>out. git before (show_command d path) = Inr (0, out) \<and> toml out = Some doc)"

lemma toml_text_iff [result_simps]: "toml_text toml s = Inr v \<longleftrightarrow> toml s = Some v"
  by (simp add: toml_text_def split: option.splits)

lemma show_remote_file_iff [result_simps]:
  "show_remote_file git before d path = Inr out \<longleftrightarrow> git before (show_command d path) = Inr (0, out)"
  by (auto simp: show_remote_file_def result_simps split: prod.splits)

lemma locked_revision_iff [result_simps]: "locked_revision locked n = Inr r \<longleftrightarrow> map_of locked n = Some r"
  by (simp add: locked_revision_def split: option.splits)

lemma remote_loop:
  "forE (\<lambda>i c u. verify_remote toml git (directories i) c locked) i cs u = Inr v \<longleftrightarrow>
     (\<forall>j < length cs. verify_remote toml git (directories (i + j)) (cs ! j) locked = Inr ())"
proof (induction cs arbitrary: i u)
  case (Cons c cs)
  have "(\<forall>j < Suc n. P j) \<longleftrightarrow> P 0 \<and> (\<forall>j < n. P (Suc j))" for P n
    using less_Suc_eq_0_disj by auto
  with Cons show ?case by (simp add: bindE_Inr_iff)
qed simp

lemma verify_remote_fetched:
  assumes "verify_remote toml git made c locked = Inr u"
  shows "\<exists>d. made = Inr d \<and> fetched git d c \<and>
    validate_nested_authority toml git (after_fetch d c) c d locked = Inr ()"
  using assms
  by (auto simp: verify_remote_def fetched_def after_fetch_def Let_def result_simps split: prod.splits)

definition hwd_import :: "pyval \<Rightarrow> pyval" where
  "hwd_import manifest = field (field (field manifest ''dependencies'') ''arach-hwd'') ''rev''"

definition hwd_recipe_path :: string where
  "hwd_recipe_path = ''recipes/base/arach-hwd/package.toml''"

definition before_hwd_recipe :: "string \<Rightarrow> pyval \<Rightarrow> string list list" where
  "before_hwd_recipe d c = after_fetch d c @ [show_command d ''recipes/base/corinth/package.toml'']"

lemma corinth_import:
  assumes "validate_nested_authority toml git before c d locked = Inr u" and "field c ''name'' = PStr ''corinth''"
    and "map_of locked ''arach-hwd'' = Some r"
  shows "\<exists>doc. remote_document toml git before d ''Cargo.toml'' doc \<and> hwd_import doc = PStr r"
  using assms
  by (auto simp: validate_nested_authority_def imports_locked_hwd_def remote_document_def hwd_import_def Let_def
      result_simps split: if_splits)

lemma packages_recipe:
  assumes "validate_nested_authority toml git (after_fetch d c) c d locked = Inr u"
    and "field c ''name'' = PStr ''arach-packages''" and "map_of locked ''arach-hwd'' = Some r"
  shows "\<exists>doc entry. remote_document toml git (before_hwd_recipe d c) d hwd_recipe_path doc \<and>
    field doc ''source'' = PList [entry] \<and> field entry ''revision'' = PStr r"
proof -
  obtain last where "forE (recipe_step toml git d locked) 0 recipes (after_fetch d c) = Inr last"
    using assms(1,2) by (auto simp: validate_nested_authority_def result_simps)
  then obtain out doc where doc: "git (before_hwd_recipe d c) (show_command d hwd_recipe_path) = Inr (0, out)"
      "toml out = Some doc" "recipe_ok doc (repository_url ''Arach-HWD'') locked ''arach-hwd'' = Inr True"
    by (auto simp: recipes_def recipe_step_def before_hwd_recipe_def hwd_recipe_path_def result_simps)
  then obtain entry where "field doc ''source'' = PList [entry]" "field entry ''revision'' = PStr r"
    using assms(3) by (auto simp: recipe_ok_def Let_def result_simps is_list_iff length_Suc_conv split: if_splits)
  with doc show ?thesis by (auto simp: remote_document_def)
qed

lemma accepted_length: "validate_components cs = Inr u \<Longrightarrow> length cs = length composition"
  using accepted_identities [of cs u]
  by (metis (no_types, lifting) composition_identities_def length_map size_mset)

lemma accepted_member:
  assumes "validate_components cs = Inr u" and "n \<in> fst ` set composition"
  shows "\<exists>c \<in> set cs. \<exists>r. field c ''name'' = PStr n \<and> field c ''revision'' = PStr r \<and> fullmatch REVISION r \<and>
    map_of (locked_revisions cs) n = Some r"
proof -
  from accepted_identities [OF assms(1)] have ok: "\<forall>c \<in> set cs. component_ok c"
    and same: "mset (map identity_of cs) = mset composition_identities" by auto
  have names: "mset (map fst (map identity_of cs)) = mset (map PStr (map fst composition))"
    using arg_cong [OF same, of "image_mset fst"]
    by (simp add: composition_identities_def image_mset.compositionality comp_def split_beta)
  then have "distinct (map fst (map identity_of cs))"
    using composition_distinct(1) distinct_PStr by (metis mset_eq_imp_distinct_iff)
  then have distinct: "distinct (map (\<lambda>c. field c ''name'') cs)" by (simp add: identity_of_def comp_def)
  have "PStr n \<in> set (map fst (map identity_of cs))"
    unfolding mset_eq_setD [OF names] using assms(2) by auto
  then obtain c where c: "c \<in> set cs" "field c ''name'' = PStr n" by (auto simp: identity_of_def)
  with ok obtain r where r: "field c ''revision'' = PStr r" "fullmatch REVISION r" by (auto simp: component_ok_def)
  have strings: "PStr (str_of (field x ''name'')) = field x ''name''" if "x \<in> set cs" for x
  proof -
    have "field x ''name'' \<in> set (map PStr (map fst composition))"
      unfolding mset_eq_setD [OF names, symmetric] using that by (force simp: identity_of_def)
    then show ?thesis by auto
  qed
  have "distinct (map (\<lambda>c. str_of (field c ''name'')) cs)"
    using distinct strings by (auto simp: distinct_map inj_on_def) (metis strings)
  then have "map_of (locked_revisions cs) n = Some r"
    using c r by (intro map_of_is_SomeI) (force simp: locked_revisions_def comp_def rev_map [symmetric])+
  with c r show ?thesis by blast
qed

lemma rust_pin:
  assumes "validate_rust_pins toml fs cs manifest = Inr u" and "map_of (locked_revisions cs) ''arach-hwd'' = Some r"
  shows "\<exists>s doc. read_text fs manifest = Inr s \<and> toml s = Some doc \<and> hwd_import doc = PStr r"
  using assms
  by (auto simp: validate_rust_pins_def rust_pin_step_def hwd_import_def Let_def result_simps split: if_splits)

text \<open>
  C5. There is one revision of the hardware crate. When the program accepts with
  \<^verbatim>\<open>--remote\<close>, all eleven repositories hold the object that the lock pins for
  them, and the full revision that the lock pins for \<^verbatim>\<open>arach-hwd\<close> is the one that the
  manifest of this repository imports, that the manifest in the fetched Corinth object imports, and
  that the package recipe in the fetched Arach-Packages object builds.
\<close>

theorem components_share_one_hardware_revision:
  assumes "components_main toml git directories fs lock manifest True = Inr n"
  shows "\<exists>cs r. load_component_lock toml fs lock = Inr cs \<and> n = 11 \<and> length cs = 11 \<and> fullmatch REVISION r \<and>
    (\<forall>i < 11. \<exists>d. directories i = Inr d \<and> fetched git d (cs ! i)) \<and>
    (\<exists>c \<in> set cs. field c ''name'' = PStr ''arach-hwd'' \<and> field c ''revision'' = PStr r) \<and>
    (\<exists>s doc. read_text fs manifest = Inr s \<and> toml s = Some doc \<and> hwd_import doc = PStr r) \<and>
    (\<exists>i < 11. \<exists>d doc. field (cs ! i) ''name'' = PStr ''corinth'' \<and> directories i = Inr d \<and>
       remote_document toml git (after_fetch d (cs ! i)) d ''Cargo.toml'' doc \<and> hwd_import doc = PStr r) \<and>
    (\<exists>i < 11. \<exists>d doc entry. field (cs ! i) ''name'' = PStr ''arach-packages'' \<and> directories i = Inr d \<and>
       remote_document toml git (before_hwd_recipe d (cs ! i)) d hwd_recipe_path doc \<and>
       field doc ''source'' = PList [entry] \<and> field entry ''revision'' = PStr r)"
proof -
  obtain cs where cs: "load_component_lock toml fs lock = Inr cs" "validate_components cs = Inr ()"
    "validate_rust_pins toml fs cs manifest = Inr ()" "n = length cs"
    and loop: "\<forall>i < length cs. verify_remote toml git (directories i) (cs ! i) (locked_revisions cs) = Inr ()"
    using assms by (auto simp: components_main_def remote_loop result_simps)
  have eleven: "length cs = 11" using accepted_length [OF cs(2)] by (simp add: composition_def)
  have member: "n \<in> fst ` set composition \<Longrightarrow> \<exists>i < 11. field (cs ! i) ''name'' = PStr n" for n
    using accepted_member [OF cs(2), of n] eleven by (metis in_set_conv_nth)
  have names: "''arach-hwd'' \<in> fst ` set composition" "''corinth'' \<in> fst ` set composition"
    "''arach-packages'' \<in> fst ` set composition" by (simp_all add: composition_def)
  from accepted_member [OF cs(2) names(1)] obtain c r where c: "c \<in> set cs" "field c ''name'' = PStr ''arach-hwd''"
    "field c ''revision'' = PStr r" "fullmatch REVISION r" "map_of (locked_revisions cs) ''arach-hwd'' = Some r"
    by blast
  have remote: "\<exists>d. directories i = Inr d \<and> fetched git d (cs ! i) \<and>
      validate_nested_authority toml git (after_fetch d (cs ! i)) (cs ! i) d (locked_revisions cs) = Inr ()"
    if "i < 11" for i
    by (rule verify_remote_fetched) (use loop eleven that in simp)
  from member [OF names(2)] obtain i where i: "i < 11" "field (cs ! i) ''name'' = PStr ''corinth''" by blast
  with remote [OF i(1)] corinth_import [OF _ i(2) c(5)] have corinth: "\<exists>d doc. directories i = Inr d \<and>
      remote_document toml git (after_fetch d (cs ! i)) d ''Cargo.toml'' doc \<and> hwd_import doc = PStr r" by blast
  from member [OF names(3)] obtain j where j: "j < 11" "field (cs ! j) ''name'' = PStr ''arach-packages''" by blast
  with remote [OF j(1)] packages_recipe [OF _ j(2) c(5)] have packages: "\<exists>d doc entry. directories j = Inr d \<and>
      remote_document toml git (before_hwd_recipe d (cs ! j)) d hwd_recipe_path doc \<and>
      field doc ''source'' = PList [entry] \<and> field entry ''revision'' = PStr r" by blast
  have all: "\<forall>i < 11. \<exists>d. directories i = Inr d \<and> fetched git d (cs ! i)" using remote by blast
  show ?thesis
    using cs(1,4) eleven c rust_pin [OF cs(3) c(5)] all i corinth j packages by blast
qed

end
