(* ===== verification/ComponentsRun.thy ===== *)
theory ComponentsRun
  imports ComponentsProps
begin

text \<open>
  A concrete lock, manifest and remote repositories that \<^verbatim>\<open>verify-components.py\<close>
  accepts, for the witnesses.
\<close>

definition sample_component :: "string \<times> string \<times> string \<Rightarrow> pyval" where
  "sample_component entry =
     (case entry of (name, repository, role) \<Rightarrow>
        PDict [(''name'', PStr name), (''repository'', PStr (repository_url repository)),
          (''revision'', PStr sample_revision), (''role'', PStr role)])"

definition sample_components :: "pyval list" where
  "sample_components = map sample_component composition"

definition sample_cargo :: pyval where
  "sample_cargo =
     PDict [(''dependencies'', PDict (map (\<lambda>(p, r). (p, PDict [(''git'', PStr (repository_url r)),
       (''rev'', PStr sample_revision)])) [(''corinth'', ''Corinth''), (''arach-hwd'', ''Arach-HWD'')]))]"

definition sample_recipe :: "string \<Rightarrow> pyval" where
  "sample_recipe repository =
     PDict [(''source'', PList [PDict [(''kind'', PStr ''git''), (''url'', PStr (repository_url repository)),
       (''revision'', PStr sample_revision)]])]"

definition component_toml :: "string \<Rightarrow> pyval option" where
  "component_toml = map_of
     [(''lock'', PDict [(''format'', PInt 1), (''distribution'', PStr ''ArachOS''),
        (''composition'', PStr ''native-stack''), (''release_role'', PStr ''experimental''),
        (''component'', PList sample_components)]),
      (''cargo'', sample_cargo), (''FETCH_HEAD:Cargo.toml'', sample_cargo),
      (''FETCH_HEAD:recipes/base/corinth/package.toml'', sample_recipe ''Corinth''),
      (''FETCH_HEAD:recipes/base/arach-hwd/package.toml'', sample_recipe ''Arach-HWD''),
      (''FETCH_HEAD:recipes/base/arach-kernel/package.toml'',
        PDict [(''source'', PList [kernel_source ''Arach-Kernel'' sample_revision,
          kernel_source ''Push'' sample_revision])])]"

definition component_tree :: fs where
  "component_tree = map_of [([''lock''], Regular ''lock'' True), ([''cargo''], Regular ''cargo'' True)]"

text \<open>Every command succeeds; a file shown is its own name.\<close>

definition sample_git :: git where
  "sample_git before cmd =
     Inr (0, if ''rev-parse'' \<in> set cmd then sample_revision @ [CHR 0x0A] else last cmd)"

lemma revision_iff: "fullmatch REVISION s \<longleftrightarrow> length s = 40 \<and> set s \<subseteq> set lower_hex"
  by (simp add: REVISION_def fullmatch_iff matches_rept_cls)

lemma sample_revision_full: "fullmatch REVISION sample_revision"
  unfolding revision_iff by code_simp

lemma sample_component_ok: "component_ok (sample_component e)"
  by (cases e) (auto simp: component_ok_def component_fields_def sample_component_def sample_revision_full)

lemma sample_identities: "map identity_of sample_components = composition_identities"
  by (simp add: sample_components_def composition_identities_def identity_of_def sample_component_def split_beta)

lemma sample_components_accepted: "validate_components sample_components = Inr ()"
proof (rule accepted_from_identities)
  show "\<forall>c \<in> set sample_components. component_ok c"
    by (auto simp: sample_components_def sample_component_ok)
  show "mset (map identity_of sample_components) = mset composition_identities"
    by (simp only: sample_identities)
qed

theorem component_lock_is_exact_witness: "validate_components (rev sample_components) = Inr ()"
proof (rule component_lock_is_exact [THEN iffD2], intro conjI)
  show "\<forall>c \<in> set (rev sample_components). component_ok c"
    by (auto simp: sample_components_def sample_component_ok)
  show "mset (map identity_of (rev sample_components)) = mset composition_identities"
    using arg_cong [OF sample_identities, of mset] by simp
qed

lemma sample_locked:
  "n \<in> fst ` set composition \<Longrightarrow> map_of (locked_revisions sample_components) n = Some sample_revision"
  using accepted_member [OF sample_components_accepted, of n]
  by (auto simp: sample_components_def sample_component_def)

lemma sample_locked_names:
  "map_of (locked_revisions sample_components) ''arach-hwd'' = Some sample_revision"
  "map_of (locked_revisions sample_components) ''corinth'' = Some sample_revision"
  "map_of (locked_revisions sample_components) ''arach-kernel'' = Some sample_revision"
  "map_of (locked_revisions sample_components) ''push'' = Some sample_revision"
  by (rule sample_locked; simp add: composition_def)+

lemma sample_stripped: "py_strip (sample_revision @ [CHR 0x0A]) = sample_revision"
  by code_simp

lemma sample_remote:
  assumes "c \<in> set sample_components"
  shows "verify_remote component_toml sample_git (Inr ''d'') c (locked_revisions sample_components) = Inr ()"
proof -
  obtain name repository role where c: "c = sample_component (name, repository, role)"
    using assms by (auto simp: sample_components_def)
  have "validate_nested_authority component_toml sample_git before c ''d'' (locked_revisions sample_components) = Inr ()" for before
    by (simp add: c sample_component_def validate_nested_authority_def imports_locked_hwd_def show_remote_file_def
        sample_git_def show_command_def toml_text_def component_toml_def sample_cargo_def locked_revision_def
        sample_locked_names recipes_def recipe_step_def recipe_ok_def sample_recipe_def py_eq.simps kernel_source_def
        scaled_def)
  then show ?thesis
    by (simp add: c verify_remote_def Let_def sample_git_def init_command_def fetch_command_def rev_parse_command_def
        sample_stripped sample_component_def)
qed

lemma sample_rust_pins:
  "read_text fs manifest = Inr ''cargo'' \<Longrightarrow> validate_rust_pins component_toml fs sample_components manifest = Inr ()"
  by (simp add: validate_rust_pins_def toml_text_def component_toml_def sample_cargo_def rust_pin_step_def
      locked_revision_def sample_locked_names)

lemma sample_component_lock:
  "read_text fs lock = Inr ''lock'' \<Longrightarrow> load_component_lock component_toml fs lock = Inr sample_components"
  by (simp add: load_component_lock_def toml_text_def component_toml_def insert_commute)

lemma sample_components_run:
  assumes "read_text fs lock = Inr ''lock''" and "read_text fs manifest = Inr ''cargo''"
  shows "components_main component_toml sample_git (\<lambda>i. Inr ''d'') fs lock manifest True = Inr 11"
proof -
  have "forE (\<lambda>i c u. verify_remote component_toml sample_git (Inr ''d'') c (locked_revisions sample_components)) 0
      sample_components () = Inr ()"
    using remote_loop [of component_toml sample_git "\<lambda>i. Inr ''d''" "locked_revisions sample_components" 0 sample_components "()" "()"]
      sample_remote by simp
  moreover have "length sample_components = 11" by (simp add: sample_components_def composition_def)
  ultimately show ?thesis using assms
    by (simp add: components_main_def sample_component_lock sample_components_accepted sample_rust_pins)
qed

lemma component_tree_texts:
  "read_text component_tree (abs_path [''lock'']) = Inr ''lock''"
  "read_text component_tree (abs_path [''cargo'']) = Inr ''cargo''"
  by (simp_all add: read_text_def read_bytes_def stat_def abs_path_def node_at_def component_tree_def
      decode_text_def utf8_valid_def)

theorem components_share_one_hardware_revision_witness:
  "\<exists>cs r. load_component_lock component_toml component_tree (abs_path [''lock'']) = Inr cs \<and>
     fullmatch REVISION r \<and> (\<exists>c \<in> set cs. field c ''name'' = PStr ''arach-hwd'' \<and> field c ''revision'' = PStr r)"
  using components_share_one_hardware_revision [OF sample_components_run [OF component_tree_texts]] by blast

end
