(* ===== verification/WorkflowPins.thy ===== *)
theory WorkflowPins
  imports Components
begin

text \<open>
  \<^verbatim>\<open>scripts/verify-workflow-pins.py\<close>: the revisions that the measured workflow checks
  out, and those that it asserts, against the component lock. \<open>Rejected\<close> is
  \<^verbatim>\<open>WorkflowPinError\<close>.
\<close>

definition checkouts :: "(string \<times> string \<times> string) list" where
  "checkouts =
     [(''arach-kernel'', ''Arach-Kernel'', ''target/live-sources/kernel''),
      (''push'', ''Push'', ''target/live-sources/push''),
      (''granite'', ''Granite'', ''target/live-sources/granite'')]"

section \<open>The lock\<close>

definition pin_step :: "nat \<Rightarrow> pyval \<Rightarrow> (string \<times> string) list \<Rightarrow> (string \<times> string) list result" where
  "pin_step index component locked =
     (if \<not> is_dict component then Inl (Rejected ''component lock entry is not a table'')
      else let name = field component ''name''; revision = field component ''revision'' in
        if \<not> str_that (\<lambda>s. True) name \<or> \<not> str_that (\<lambda>s. True) revision
        then Inl (Rejected ''component lock entry lacks name or revision'')
        else if \<not> fullmatch REVISION (str_of revision) then Inl (Rejected ''revision is invalid'')
        else if str_of name \<in> fst ` set locked then Inl (Rejected ''component is duplicated'')
        else Inr (locked @ [(str_of name, str_of revision)]))"

definition load_pins :: "(string \<Rightarrow> pyval option) \<Rightarrow> fs \<Rightarrow> pure_path \<Rightarrow> (string \<times> string) list result" where
  "load_pins toml fs p =
     (case read_text fs p of
        Inl e \<Rightarrow> Inl (if e = OSError then Rejected ''cannot load component lock'' else e)
      | Inr s \<Rightarrow>
          (case toml s of
             None \<Rightarrow> Inl (Rejected ''cannot load component lock'')
           | Some document \<Rightarrow>
               (if \<not> is_list (field document ''component'')
                then Inl (Rejected ''component lock has no component array'')
                else forE pin_step 0 (list_of (field document ''component'')) [])))"

section \<open>The workflow\<close>

text \<open>What follows a literal in front of a text.\<close>

definition after_word :: "string \<Rightarrow> string \<Rightarrow> string option" where
  "after_word w s = (if starts_with w s then Some (drop (length w) s) else None)"

text \<open>\<^verbatim>\<open>\s+WORD\s*\<close> in front of a text: what follows.\<close>

definition after_key :: "string \<Rightarrow> string \<Rightarrow> string option" where
  "after_key w s =
     (case blanks s of (b, r) \<Rightarrow>
        if b = [] then None else map_option (\<lambda>r. snd (blanks r)) (after_word w r))"

text \<open>
  \<^verbatim>\<open>\s*$\n^\s+WORD\s*\<close>: the blanks in front of the word contain a newline that is not the
  last of them.
\<close>

definition next_key :: "string \<Rightarrow> string \<Rightarrow> string option" where
  "next_key w s =
     (case blanks s of (b, r) \<Rightarrow>
        if CHR 0x0A \<notin> set (butlast b) then None else map_option (\<lambda>r. snd (blanks r)) (after_word w r))"

text \<open>\<^verbatim>\<open>([0-9a-f]{40})\<close> and what follows it.\<close>

definition revision_at :: "string \<Rightarrow> (string \<times> string) option" where
  "revision_at s =
     (if fullmatch REVISION (take 40 s) then Some (take 40 s, drop 40 s) else None)"

text \<open>The end of a match, \<^verbatim>\<open>\s*$\<close>, of a text \<open>s\<close> of which \<open>r\<close> is left: its length.\<close>

definition match_end :: "string \<Rightarrow> string \<Rightarrow> nat option" where
  "match_end s r =
     (case blanks r of (b, q) \<Rightarrow> map_option (\<lambda>n. length s - length r + n) (line_end b q))"

text \<open>
  The two expressions at the beginning of a line. As in \<open>choice_at\<close>, every repetition stops at the
  first character it cannot take, and a choice of the newline between two lines does not change what
  is matched.
\<close>

definition checkout_at :: "string \<Rightarrow> string \<Rightarrow> string \<Rightarrow> (string \<times> nat) option" where
  "checkout_at repository path s =
     Option.bind (after_key ''repository:'' s) (\<lambda>r.
     Option.bind (after_word (''SisyphusAeolides/'' @ repository) r) (\<lambda>r.
     Option.bind (next_key ''ref:'' r) (\<lambda>r.
     Option.bind (revision_at r) (\<lambda>(revision, r).
     Option.bind (next_key ''path:'' r) (\<lambda>r.
     Option.bind (after_word path r) (\<lambda>r.
     map_option (\<lambda>n. (revision, n)) (match_end s r)))))))"

definition assertion_text :: "string \<Rightarrow> string" where
  "assertion_text path =
     ''test '' @ CHR 0x22 # ''$(git -C '' @ path @ '' rev-parse HEAD)'' @ CHR 0x22 # '' = ''"

definition assertion_at :: "string \<Rightarrow> string \<Rightarrow> (string \<times> nat) option" where
  "assertion_at path s =
     Option.bind (after_word (assertion_text path) (snd (blanks s))) (\<lambda>r.
     Option.bind (revision_at r) (\<lambda>(revision, r).
     map_option (\<lambda>n. (revision, n)) (match_end s r)))"

definition the_only :: "string \<Rightarrow> string list \<Rightarrow> string result" where
  "the_only message ms = (if length ms \<noteq> 1 then Inl (Rejected message) else Inr (hd ms))"

definition checkout_revision :: "string \<Rightarrow> string \<Rightarrow> string \<Rightarrow> string result" where
  "checkout_revision workflow repository path =
     the_only ''workflow must contain exactly one pinned checkout''
       (scan (checkout_at repository path) 0 True workflow)"

definition verify_line_revision :: "string \<Rightarrow> string \<Rightarrow> string result" where
  "verify_line_revision workflow path =
     the_only ''workflow must contain exactly one revision assertion''
       (scan (assertion_at path) 0 True workflow)"

section \<open>The program\<close>

definition pin_check ::
    "(string \<times> string) list \<Rightarrow> string \<Rightarrow> nat \<Rightarrow> string \<times> string \<times> string \<Rightarrow> unit \<Rightarrow> unit result" where
  "pin_check locked workflow index entry u =
     (case entry of (component_name, repository, path) \<Rightarrow>
      case map_of locked component_name of
        None \<Rightarrow> Inl (Rejected ''component lock lacks a component'')
      | Some expected \<Rightarrow>
          bindE (checkout_revision workflow repository path) (\<lambda>checkout.
          bindE (verify_line_revision workflow path) (\<lambda>assertion.
          if checkout \<noteq> expected
          then Inl (Rejected ''checkout revision differs from components.lock.toml'')
          else if assertion \<noteq> expected
          then Inl (Rejected ''revision assertion differs from components.lock.toml'')
          else Inr ())))"

definition validate_pins :: "(string \<times> string) list \<Rightarrow> string \<Rightarrow> unit result" where
  "validate_pins locked workflow = forE (pin_check locked workflow) 0 checkouts ()"

text \<open>The exit status, or an exception that the program does not catch.\<close>

definition pins_main :: "(string \<Rightarrow> pyval option) \<Rightarrow> fs \<Rightarrow> pure_path \<Rightarrow> pure_path \<Rightarrow> nat result" where
  "pins_main toml fs lock workflow_path =
     (let r = bindE (load_pins toml fs lock) (\<lambda>locked.
              bindE (read_text fs workflow_path) (\<lambda>workflow. validate_pins locked workflow))
      in case r of
           Inl (Rejected m) \<Rightarrow> Inr 1
         | Inl OSError \<Rightarrow> Inr 1
         | Inl e \<Rightarrow> Inl e
         | Inr u \<Rightarrow> Inr 0)"

end
