(* ===== verification/WorkflowProps.thy ===== *)
theory WorkflowProps
  imports WorkflowPins ComponentsRun
begin

text \<open>
  What an accepted workflow checks out and asserts, in terms of its text and of the components
  that \<^verbatim>\<open>verify-components.py\<close> accepts.
\<close>

section \<open>The matches\<close>

lemma scan_sound: "x \<in> set (scan m k b s) \<Longrightarrow> \<exists>p n. m (drop p s) = Some (x, n)"
proof (induction m k b s rule: scan.induct)
  case (2 m k b c s)
  then obtain p n where "m (drop (Suc p) (c # s)) = Some (x, n)" by auto
  then show ?case by blast
next
  case (3 m b c s)
  have later: "\<exists>p n. m (drop p (c # s)) = Some (x, n)" if "\<exists>p n. m (drop p s) = Some (x, n)"
    using that by (metis drop_Suc_Cons)
  show ?case
  proof (cases "if b then m (c # s) else None")
    case None
    with 3 later show ?thesis by simp
  next
    case (Some r)
    obtain y n where r: "r = (y, n)" by (cases r)
    with Some have head: "m (drop 0 (c # s)) = Some (y, n)" by (simp split: if_splits)
    show ?thesis
    proof (cases "x = y")
      case True
      with head show ?thesis by blast
    next
      case False
      with 3 Some r later show ?thesis by simp
    qed
  qed
qed simp

definition spaces :: "string \<Rightarrow> bool" where
  "spaces s \<longleftrightarrow> (\<exists>ws. set ws \<subseteq> set space_chars \<and> s = concat ws)"

lemma strip_front_spaces: "\<exists>ws. set ws \<subseteq> set cs \<and> s = concat ws @ strip_front n cs s"
proof (induction n arbitrary: s)
  case 0
  show ?case by (intro exI [of _ "[]"]) simp
next
  case (Suc n)
  show ?case
  proof (cases "find (\<lambda>x. starts_with x s) cs")
    case None
    then show ?thesis by (intro exI [of _ "[]"]) simp
  next
    case (Some x)
    then have x: "x \<in> set cs" "starts_with x s" by (auto simp: find_Some_iff)
    then obtain r where r: "s = x @ r" by (auto simp: starts_with_iff)
    from Suc [of r] obtain ws where "set ws \<subseteq> set cs" "r = concat ws @ strip_front n cs r" by blast
    with Some x r show ?thesis by (intro exI [of _ "x # ws"]) simp
  qed
qed

lemma blanks_split: "blanks s = (b, r) \<Longrightarrow> s = b @ r \<and> spaces b"
proof -
  assume b: "blanks s = (b, r)"
  obtain ws where "set ws \<subseteq> set space_chars" "s = concat ws @ strip_front (length s) space_chars s"
    using strip_front_spaces by blast
  moreover from this have "take (length s - length (strip_front (length s) space_chars s)) s = concat ws"
    by (metis append_eq_conv_conj diff_add_inverse2 length_append)
  ultimately show ?thesis using b by (auto simp: blanks_def Let_def spaces_def)
qed

lemma after_word_iff: "after_word w s = Some r \<longleftrightarrow> s = w @ r"
  by (auto simp: after_word_def starts_with_iff)

lemma after_key_split:
  "after_key w s = Some r \<Longrightarrow> \<exists>b b'. s = b @ w @ b' @ r \<and> spaces b \<and> b \<noteq> [] \<and> spaces b'"
  by (auto simp: after_key_def after_word_iff split: prod.splits if_splits dest!: blanks_split) (metis blanks_split prod.collapse)

lemma next_key_split:
  "next_key w s = Some r \<Longrightarrow> \<exists>b b'. s = b @ w @ b' @ r \<and> spaces b \<and> CHR 0x0A \<in> set b \<and> spaces b'"
  by (auto simp: next_key_def after_word_iff split: prod.splits if_splits dest!: blanks_split dest: in_set_butlastD)
    (metis blanks_split prod.collapse in_set_butlastD)

lemma revision_at_split: "revision_at s = Some (v, r) \<Longrightarrow> s = v @ r \<and> fullmatch REVISION v"
  by (auto simp: revision_at_def split: if_splits)

text \<open>A checkout step, and an assertion, of the revision \<open>v\<close> in a workflow.\<close>

definition checks_out :: "string \<Rightarrow> string \<Rightarrow> string \<Rightarrow> string \<Rightarrow> bool" where
  "checks_out workflow repository path v \<longleftrightarrow>
     (\<exists>before b1 b2 b3 b4 b5 after.
        workflow = before @ ''repository:'' @ b1 @ ''SisyphusAeolides/'' @ repository @
          b2 @ ''ref:'' @ b3 @ v @ b4 @ ''path:'' @ b5 @ path @ after \<and>
        list_all spaces [b1, b2, b3, b4, b5] \<and> CHR 0x0A \<in> set b2 \<and> CHR 0x0A \<in> set b4)"

definition asserts :: "string \<Rightarrow> string \<Rightarrow> string \<Rightarrow> bool" where
  "asserts workflow path v \<longleftrightarrow> contains (assertion_text path @ v) workflow"

lemma drop_split: "drop p s = t \<Longrightarrow> \<exists>a. s = a @ t"
  by (metis append_take_drop_id)

lemma checkout_sound:
  assumes "v \<in> set (scan (checkout_at repository path) 0 True workflow)"
  shows "checks_out workflow repository path v \<and> fullmatch REVISION v"
proof -
  obtain p n where "checkout_at repository path (drop p workflow) = Some (v, n)"
    using scan_sound [OF assms] by blast
  then obtain r1 r2 r3 r4 r5 r6 where r: "after_key ''repository:'' (drop p workflow) = Some r1"
      "after_word (''SisyphusAeolides/'' @ repository) r1 = Some r2" "next_key ''ref:'' r2 = Some r3"
      "revision_at r3 = Some (v, r4)" "next_key ''path:'' r4 = Some r5" "after_word path r5 = Some r6"
    by (auto simp: checkout_at_def bind_eq_Some_conv)
  obtain b0 b1 where 1: "drop p workflow = b0 @ ''repository:'' @ b1 @ r1" "spaces b1"
    using after_key_split [OF r(1)] by blast
  have 2: "r1 = ''SisyphusAeolides/'' @ repository @ r2" using r(2) by (simp add: after_word_iff)
  obtain b2 b3 where 3: "r2 = b2 @ ''ref:'' @ b3 @ r3" "spaces b2" "CHR 0x0A \<in> set b2" "spaces b3"
    using next_key_split [OF r(3)] by blast
  have 4: "r3 = v @ r4" "fullmatch REVISION v" using revision_at_split [OF r(4)] by auto
  obtain b4 b5 where 5: "r4 = b4 @ ''path:'' @ b5 @ r5" "spaces b4" "CHR 0x0A \<in> set b4" "spaces b5"
    using next_key_split [OF r(5)] by blast
  have 6: "r5 = path @ r6" using r(6) by (simp add: after_word_iff)
  obtain a where "workflow = a @ drop p workflow" using drop_split by blast
  then have "workflow = (a @ b0) @ ''repository:'' @ b1 @ ''SisyphusAeolides/'' @ repository @
      b2 @ ''ref:'' @ b3 @ v @ b4 @ ''path:'' @ b5 @ path @ r6"
    using 1(1) 2 3(1) 4(1) 5(1) 6 by simp
  moreover have "list_all spaces [b1, b2, b3, b4, b5]" using 1 3 5 by simp
  ultimately show ?thesis unfolding checks_out_def using 3(3) 4(2) 5(3) by blast
qed

lemma assertion_sound:
  assumes "v \<in> set (scan (assertion_at path) 0 True workflow)"
  shows "asserts workflow path v"
proof -
  obtain p n where "assertion_at path (drop p workflow) = Some (v, n)"
    using scan_sound [OF assms] by blast
  then obtain r1 r2 where r: "after_word (assertion_text path) (snd (blanks (drop p workflow))) = Some r1"
      "revision_at r1 = Some (v, r2)"
    by (auto simp: assertion_at_def bind_eq_Some_conv)
  obtain b where "drop p workflow = b @ snd (blanks (drop p workflow))"
    using blanks_split by (metis prod.collapse)
  moreover obtain a where "workflow = a @ drop p workflow" using drop_split by blast
  ultimately have "workflow = (a @ b) @ (assertion_text path @ v) @ r2"
    using r(1) revision_at_split [OF r(2)] by (simp add: after_word_iff)
  then show ?thesis unfolding asserts_def contains_iff by blast
qed

section \<open>The program\<close>

lemma pin_step_pair:
  "pin_step i c locked = Inr t \<Longrightarrow>
     \<exists>n r. field c ''name'' = PStr n \<and> field c ''revision'' = PStr r \<and> t = locked @ [(n, r)]"
  by (auto simp: pin_step_def Let_def split: if_splits)

lemma pin_loop:
  "forE pin_step i cs locked = Inr locked' \<Longrightarrow>
     set locked' \<subseteq> set locked \<union> {(n, r). \<exists>c \<in> set cs. field c ''name'' = PStr n \<and> field c ''revision'' = PStr r}"
proof (induction cs arbitrary: i locked)
  case (Cons c cs)
  from Cons.prems obtain n r where c: "field c ''name'' = PStr n" "field c ''revision'' = PStr r"
      "forE pin_step (Suc i) cs (locked @ [(n, r)]) = Inr locked'"
    by (auto simp: bindE_Inr_iff dest: pin_step_pair)
  from Cons.IH [OF c(3)] c(1,2) show ?case by fastforce
qed simp

lemma the_only_iff: "the_only e ms = Inr x \<longleftrightarrow> ms = [x]"
  by (auto simp: the_only_def length_Suc_conv)

lemma pin_checks:
  assumes "forE (pin_check locked workflow) i xs u = Inr v" and "(component, repository, path) \<in> set xs"
  shows "\<exists>r. map_of locked component = Some r \<and> scan (checkout_at repository path) 0 True workflow = [r] \<and>
    scan (assertion_at path) 0 True workflow = [r]"
  using assms
proof (induction xs arbitrary: i u)
  case (Cons x xs)
  then show ?case
    by (auto simp: bindE_Inr_iff pin_check_def checkout_revision_def verify_line_revision_def the_only_iff
        split: option.splits if_splits)
qed simp

lemma component_repository:
  assumes "validate_components cs = Inr u" and "c \<in> set cs" and "field c ''name'' = PStr n"
    and "(n, repository, path) \<in> set checkouts"
  shows "field c ''repository'' = PStr (repository_url repository)"
proof -
  have "identity_of c \<in> set (map identity_of cs)" using assms(2) by simp
  also have "set (map identity_of cs) = set composition_identities"
    using accepted_identities [OF assms(1)] by (metis mset_eq_setD)
  finally have "identity_of c \<in> set composition_identities" .
  with assms(3,4) show ?thesis
    by (auto simp: identity_of_def composition_identities_def composition_def checkouts_def)
qed

text \<open>
  C8. The measured workflow is bound to the components. When the two scripts accept one lock, the workflow
  has for each of the three measured components exactly one checkout and exactly one assertion of
  its path, both of the full revision that the lock pins for it, and the lock gives that component
  the repository that is checked out.
\<close>

theorem workflow_is_bound_to_components:
  assumes "pins_main toml fs lock workflow_path = Inr 0"
    and "components_main toml git directories fs lock manifest remote = Inr n"
  shows "\<exists>workflow cs. read_text fs workflow_path = Inr workflow \<and> load_component_lock toml fs lock = Inr cs \<and>
    (\<forall>(component, repository, path) \<in> set checkouts. \<exists>c \<in> set cs. \<exists>r.
       field c ''name'' = PStr component \<and> field c ''revision'' = PStr r \<and>
       field c ''repository'' = PStr (repository_url repository) \<and> fullmatch REVISION r \<and>
       checks_out workflow repository path r \<and> asserts workflow path r \<and>
       scan (checkout_at repository path) 0 True workflow = [r] \<and>
       scan (assertion_at path) 0 True workflow = [r])"
proof -
  obtain locked workflow where pins: "load_pins toml fs lock = Inr locked"
      "read_text fs workflow_path = Inr workflow" "validate_pins locked workflow = Inr ()"
    using assms(1) by (auto simp: pins_main_def Let_def bindE_Inr_iff split: sum.splits exn.splits)
  obtain cs where cs: "load_component_lock toml fs lock = Inr cs" "validate_components cs = Inr ()"
    using assms(2) by (auto simp: components_main_def result_simps)
  have "forE pin_step 0 cs [] = Inr locked"
    using pins(1) cs(1)
    by (auto simp: load_pins_def load_component_lock_def result_simps split: sum.splits option.splits if_splits)
  from pin_loop [OF this] have locked: "(a, r) \<in> set locked \<Longrightarrow>
      \<exists>c \<in> set cs. field c ''name'' = PStr a \<and> field c ''revision'' = PStr r" for a r
    by auto
  have "\<exists>c \<in> set cs. \<exists>r. field c ''name'' = PStr component \<and> field c ''revision'' = PStr r \<and>
      field c ''repository'' = PStr (repository_url repository) \<and> fullmatch REVISION r \<and>
      checks_out workflow repository path r \<and> asserts workflow path r \<and>
      scan (checkout_at repository path) 0 True workflow = [r] \<and> scan (assertion_at path) 0 True workflow = [r]"
    if entry: "(component, repository, path) \<in> set checkouts" for component repository path
  proof -
    obtain r where r: "map_of locked component = Some r"
        "scan (checkout_at repository path) 0 True workflow = [r]" "scan (assertion_at path) 0 True workflow = [r]"
      using pin_checks [OF pins(3) [unfolded validate_pins_def] entry] by blast
    from locked [OF map_of_SomeD [OF r(1)]] obtain c where c: "c \<in> set cs" "field c ''name'' = PStr component"
      "field c ''revision'' = PStr r" by blast
    with component_repository [OF cs(2) c(1,2) entry] r checkout_sound [of r repository path workflow]
      assertion_sound [of r path workflow] show ?thesis by auto
  qed
  with pins(2) cs(1) show ?thesis by blast
qed

end
