(* ===== verification/WorkflowRun.thy ===== *)
theory WorkflowRun
  imports WorkflowProps ArchTree
begin

text \<open>A concrete workflow that \<^verbatim>\<open>verify-workflow-pins.py\<close> accepts, for the witness.\<close>

definition checkout_lines :: "string list" where
  "checkout_lines =
     concat (map (\<lambda>(component, repository, path).
       ['' repository: SisyphusAeolides/'' @ repository, '' ref: '' @ sample_revision, '' path: '' @ path]) checkouts)"

definition sample_lines :: "string list" where
  "sample_lines =
     checkout_lines @ map (\<lambda>(component, repository, path). assertion_text path @ sample_revision) checkouts"

definition sample_workflow :: string where
  "sample_workflow = unlines sample_lines"

definition workflow_tree :: fs where
  "workflow_tree = component_tree([''workflow''] \<mapsto> Regular sample_workflow True)"

section \<open>The matches\<close>

lemma kernel_checkout: "scan (checkout_at ''Arach-Kernel'' ''target/live-sources/kernel'') 0 True sample_workflow = [sample_revision]"
  by code_simp

lemma push_checkout: "scan (checkout_at ''Push'' ''target/live-sources/push'') 0 True sample_workflow = [sample_revision]"
  by code_simp

lemma granite_checkout: "scan (checkout_at ''Granite'' ''target/live-sources/granite'') 0 True sample_workflow = [sample_revision]"
  by code_simp

lemma kernel_assertion: "scan (assertion_at ''target/live-sources/kernel'') 0 True sample_workflow = [sample_revision]"
  by code_simp

lemma push_assertion: "scan (assertion_at ''target/live-sources/push'') 0 True sample_workflow = [sample_revision]"
  by code_simp

lemma granite_assertion: "scan (assertion_at ''target/live-sources/granite'') 0 True sample_workflow = [sample_revision]"
  by code_simp

lemmas sample_scans = kernel_checkout push_checkout granite_checkout
  kernel_assertion push_assertion granite_assertion

section \<open>The run\<close>

lemma workflow_plain: "list_all plain_text sample_lines"
  by code_simp

lemma workflow_texts:
  "read_text workflow_tree (abs_path [''lock'']) = Inr ''lock''"
  "read_text workflow_tree (abs_path [''cargo'']) = Inr ''cargo''"
  "read_text workflow_tree (abs_path [''workflow'']) = Inr sample_workflow"
  using decode_plain [OF plain_unlines [OF workflow_plain], folded sample_workflow_def]
  by (simp_all add: read_text_def read_bytes_def stat_def abs_path_def node_at_def workflow_tree_def component_tree_def)
    (simp_all add: decode_text_def utf8_valid_def)

lemma sample_pins_loop:
  "set cs \<subseteq> set composition \<Longrightarrow> distinct (map fst cs) \<Longrightarrow> fst ` set cs \<inter> fst ` set locked = {} \<Longrightarrow>
     forE pin_step i (map sample_component cs) locked =
       Inr (locked @ map (\<lambda>e. (fst e, sample_revision)) cs)"
  by (induction cs arbitrary: i locked)
    (auto simp: pin_step_def sample_component_def sample_revision_full)

lemma sample_pins_loaded:
  "load_pins component_toml workflow_tree (abs_path [''lock'']) =
     Inr (map (\<lambda>e. (fst e, sample_revision)) composition)"
  using sample_pins_loop [of composition "[]" 0] composition_distinct
  by (simp add: load_pins_def workflow_texts component_toml_def sample_components_def)

lemma sample_pins_run: "pins_main component_toml workflow_tree (abs_path [''lock'']) (abs_path [''workflow'']) = Inr 0"
  by (simp add: pins_main_def sample_pins_loaded workflow_texts validate_pins_def checkouts_def pin_check_def
      checkout_revision_def verify_line_revision_def sample_scans the_only_def composition_def)

theorem workflow_is_bound_to_components_witness:
  "\<exists>workflow cs. read_text workflow_tree (abs_path [''workflow'']) = Inr workflow \<and>
     load_component_lock component_toml workflow_tree (abs_path [''lock'']) = Inr cs"
  using workflow_is_bound_to_components [OF sample_pins_run sample_components_run [OF workflow_texts(1,2)]] by blast

end
