(* ===== verification/Fuzz.thy ===== *)
theory Fuzz
  imports Recovery Controls Threats Readiness Releases Json Markers "HOL-Library.State_Monad"
begin

text \<open>
  \<^verbatim>\<open>scripts/fuzz_control_documents.py\<close>: mutations of the control documents against
  their validators, which are the models of the five scripts that it loads. The generator
  \<^verbatim>\<open>random.Random(seed)\<close> is the parameter \<open>rnd\<close>: \<open>rnd k n\<close> is the \<open>k\<close>-th draw, which
  was asked for a number below \<open>n\<close>; the number of draws is the state. \<open>json\<close> and \<open>toml\<close> are the
  parsers, \<open>fr\<close> is the form of floats. \<open>Rejected\<close> is \<^verbatim>\<open>FuzzError\<close>; an error of a
  validator that escapes from the harness is a \<^verbatim>\<open>ValueError\<close>, the base class of all
  their exceptions.
\<close>

type_synonym generator = "nat \<Rightarrow> nat \<Rightarrow> nat"
type_synonym 'a draws = "(nat, 'a) state"

definition draw :: "generator \<Rightarrow> nat \<Rightarrow> nat draws" where
  "draw rnd n = State (\<lambda>k. (rnd k n, Suc k))"

definition fuzz_max_document_bytes :: nat where
  "fuzz_max_document_bytes = 2 * 1024 * 1024"

section \<open>Mutations of the text\<close>

fun drawn_bytes :: "generator \<Rightarrow> nat \<Rightarrow> string draws" where
  "drawn_bytes rnd 0 = State_Monad.return []"
| "drawn_bytes rnd (Suc n) =
     do { b \<leftarrow> draw rnd 256; bs \<leftarrow> drawn_bytes rnd n; State_Monad.return (char_of b # bs) }"

definition mutate_bytes :: "generator \<Rightarrow> string \<Rightarrow> string draws" where
  "mutate_bytes rnd source =
     do {
       operation \<leftarrow> draw rnd 4;
       if operation = 0 \<and> source \<noteq> [] then
         do { index \<leftarrow> draw rnd (length source); b \<leftarrow> draw rnd 256;
              State_Monad.return (source[index := char_of b]) }
       else if operation = 1 \<and> source \<noteq> [] then
         do { index \<leftarrow> draw rnd (length source);
              State_Monad.return (take index source @ drop (Suc index) source) }
       else if operation = 2 then
         do { index \<leftarrow> draw rnd (length source + 1); b \<leftarrow> draw rnd 256;
              State_Monad.return (take index source @ [char_of b] @ drop index source) }
       else if source \<noteq> [] then
         do { start \<leftarrow> draw rnd (length source); span \<leftarrow> draw rnd 16; n \<leftarrow> draw rnd 17;
              bs \<leftarrow> drawn_bytes rnd n;
              State_Monad.return (take start source @ bs @ drop (min (length source) (start + (1 + span))) source) }
       else State_Monad.return source
     }"

section \<open>Mutations of the structure\<close>

fun children :: "pyval \<Rightarrow> pyval list" where
  "children (PDict d) = map snd d"
| "children (PList xs) = xs"
| "children v = []"

definition is_container :: "pyval \<Rightarrow> bool" where
  "is_container v \<longleftrightarrow> is_dict v \<or> is_list v"

text \<open>
  Documents have no shared parts, so that a container is known by its position, the indices on the
  way to it. \<open>found_from\<close> is the loop over the stack, whose top is the head of the list.
\<close>

lemma children_smaller: "sum_list (map (\<lambda>c. Suc (size c)) (children v)) \<le> size v"
proof (cases v)
  case (PList xs)
  have "sum_list (map (\<lambda>c. Suc (size c)) xs) = size_list size xs" by (induction xs) auto
  with PList show ?thesis by simp
next
  case (PDict d)
  have "sum_list (map (\<lambda>c. Suc (size c)) (map snd d)) \<le> size_list (size_prod (\<lambda>x. 0) size) d"
    by (induction d) (auto simp: size_prod_def split: prod.splits)
  with PDict show ?thesis by simp
qed simp_all

definition placed_children :: "nat list \<Rightarrow> pyval \<Rightarrow> (nat list \<times> pyval) list" where
  "placed_children p v = map (\<lambda>i. (p @ [i], children v ! i)) [0..<length (children v)]"

lemma placed_snd: "map snd (placed_children p v) = children v"
  by (simp add: placed_children_def comp_def map_nth)

function found_from :: "(nat list \<times> pyval) list \<Rightarrow> (nat list \<times> pyval) list" where
  "found_from [] = []"
| "found_from ((p, v) # stack) =
     (if is_container v then (p, v) # found_from (rev (placed_children p v) @ stack) else found_from stack)"
  by pat_completeness auto

termination
proof (relation "measure (\<lambda>stack. sum_list (map (\<lambda>x. Suc (size (snd x))) stack))", simp)
  fix p v stack
  have "map (\<lambda>x. Suc (size (snd x))) (placed_children p v) = map (\<lambda>c. Suc (size c)) (children v)"
    unfolding placed_snd [of p v, symmetric] by simp
  with children_smaller [of v]
  show "(rev (placed_children p v) @ stack, (p, v) # stack) \<in>
      measure (\<lambda>stack. sum_list (map (\<lambda>x. Suc (size (snd x))) stack))"
    by (simp add: rev_map [symmetric])
qed simp

definition containers :: "pyval \<Rightarrow> (nat list \<times> pyval) list" where
  "containers v = found_from [([], v)]"

fun set_child :: "pyval \<Rightarrow> nat \<Rightarrow> pyval \<Rightarrow> pyval" where
  "set_child (PDict d) i c = PDict (d[i := (fst (d ! i), c)])"
| "set_child (PList xs) i c = PList (xs[i := c])"
| "set_child v i c = v"

fun put_at :: "nat list \<Rightarrow> pyval \<Rightarrow> pyval \<Rightarrow> pyval" where
  "put_at [] c v = c"
| "put_at (i # p) c v = set_child v i (put_at p c (children v ! i))"

definition dict_set :: "(string \<times> pyval) list \<Rightarrow> string \<Rightarrow> pyval \<Rightarrow> (string \<times> pyval) list" where
  "dict_set d k v =
     (if k \<in> fst ` set d then map (\<lambda>(k', w). (k', if k' = k then v else w)) d else d @ [(k, v)])"

definition dict_replacements :: "pyval list" where
  "dict_replacements =
     [PNone, PBool True, PBool False, PInt 0, PInt (- 1), PStr [], PList [], PDict [], PList [PNone],
      PDict [(''unexpected'', PBool True)]]"

definition list_insertions :: "pyval list" where
  "list_insertions = [PNone, PBool True, PInt 0, PStr [], PDict [], PList []]"

definition insert_at :: "nat \<Rightarrow> 'a \<Rightarrow> 'a list \<Rightarrow> 'a list" where
  "insert_at i x xs = take i xs @ [x] @ drop i xs"

definition remove_at :: "nat \<Rightarrow> 'a list \<Rightarrow> 'a list" where
  "remove_at i xs = take i xs @ drop (Suc i) xs"

definition mutate_dict :: "generator \<Rightarrow> (string \<times> pyval) list \<Rightarrow> (string \<times> pyval) list draws" where
  "mutate_dict rnd d =
     do {
       operation \<leftarrow> draw rnd 4;
       if operation = 0 \<and> d \<noteq> [] then
         do { j \<leftarrow> draw rnd (length d); State_Monad.return (remove_at j d) }
       else if operation = 1 then
         do { n \<leftarrow> draw rnd 1000000; State_Monad.return (dict_set d (''unknown_'' @ int_str (int n)) PNone) }
       else if operation = 2 \<and> d \<noteq> [] then
         do { j \<leftarrow> draw rnd (length d); m \<leftarrow> draw rnd (length dict_replacements);
              State_Monad.return (d[j := (fst (d ! j), dict_replacements ! m)]) }
       else if d \<noteq> [] then do { j \<leftarrow> draw rnd (length d); State_Monad.return d }
       else State_Monad.return d
     }"

definition mutate_list :: "generator \<Rightarrow> pyval list \<Rightarrow> pyval list draws" where
  "mutate_list rnd xs =
     do {
       operation \<leftarrow> draw rnd 4;
       if operation = 0 \<and> xs \<noteq> [] then
         do { j \<leftarrow> draw rnd (length xs); State_Monad.return (remove_at j xs) }
       else if operation = 1 \<and> xs \<noteq> [] then
         do { j \<leftarrow> draw rnd (length xs + 1); State_Monad.return (insert_at j (hd xs) xs) }
       else if operation = 2 then
         do { j \<leftarrow> draw rnd (length xs + 1); m \<leftarrow> draw rnd (length list_insertions);
              State_Monad.return (insert_at j (list_insertions ! m) xs) }
       else State_Monad.return (rev xs)
     }"

fun mutate_container :: "generator \<Rightarrow> pyval \<Rightarrow> pyval draws" where
  "mutate_container rnd (PDict d) = do { d' \<leftarrow> mutate_dict rnd d; State_Monad.return (PDict d') }"
| "mutate_container rnd (PList xs) = do { xs' \<leftarrow> mutate_list rnd xs; State_Monad.return (PList xs') }"
| "mutate_container rnd v = State_Monad.return v"

definition mutate_structure :: "generator \<Rightarrow> pyval \<Rightarrow> pyval draws" where
  "mutate_structure rnd source =
     do {
       i \<leftarrow> draw rnd (length (containers source));
       target \<leftarrow> mutate_container rnd (snd (containers source ! i));
       State_Monad.return (put_at (fst (containers source ! i)) target source)
     }"

section \<open>The targets\<close>

record target =
  target_name :: string
  target_document :: pyval
  target_validate :: "pyval \<Rightarrow> unit result"

definition fuzz_load :: "(string \<Rightarrow> pyval option) \<Rightarrow> fs \<Rightarrow> pure_path \<Rightarrow> pyval result" where
  "fuzz_load json fs p =
     (if not_regular fs p then Inl (Rejected ''control document is not a regular file'')
      else if (case stat fs p of Some (Regular c r) \<Rightarrow> fuzz_max_document_bytes < length c | _ \<Rightarrow> False)
      then Inl (Rejected ''control document exceeds bounded size'')
      else case read_text fs p of
          Inl e \<Rightarrow> Inl (if e = OSError then Rejected ''cannot load control document'' else e)
        | Inr s \<Rightarrow>
            (case json s of
               None \<Rightarrow> Inl (Rejected ''cannot load control document'')
             | Some v \<Rightarrow> (if \<not> is_dict v then Inl (Rejected ''control document root is not an object'')
                          else Inr v)))"

definition ignoring :: "'a result \<Rightarrow> unit result" where
  "ignoring r = bindE r (\<lambda>x. Inr ())"

text \<open>The validators with the places of their documents, in the order of the harness.\<close>

definition validators ::
    "(string \<Rightarrow> pyval option) \<Rightarrow> (string \<Rightarrow> pyval option) \<Rightarrow> fs \<Rightarrow> pure_path \<Rightarrow> (string \<times> string \<times> (pyval \<Rightarrow> unit result)) list" where
  "validators json toml fs root =
     [(''readiness'', ''production/readiness.json'', readiness_validate toml fs root),
      (''installer-recovery'', ''production/installer-recovery.json'', \<lambda>d. ignoring (recovery_audit fs root d)),
      (''threat-model'', ''production/threat-model.json'', \<lambda>d. ignoring (threat_validate fs root d)),
      (''release-channels'', ''production/release-channels.json'', \<lambda>d. ignoring (release_validate json toml fs root d))] @
     map (\<lambda>(matrix, ids). (''control-matrix:'' @ matrix, ''production/control-matrices/'' @ matrix @ ''.json'',
       \<lambda>d. ignoring (control_validate_document fs root d ids))) control_matrices"

definition add_target ::
    "(string \<Rightarrow> pyval option) \<Rightarrow> fs \<Rightarrow> pure_path \<Rightarrow> nat \<Rightarrow> string \<times> string \<times> (pyval \<Rightarrow> unit result) \<Rightarrow>
     target list \<Rightarrow> target list result" where
  "add_target json fs root index x result =
     (case x of (name, location, validate) \<Rightarrow>
      bindE (fuzz_load json fs (join root location)) (\<lambda>document.
        Inr (result @ [\<lparr>target_name = name, target_document = document, target_validate = validate\<rparr>])))"

definition check_target :: "nat \<Rightarrow> target \<Rightarrow> unit \<Rightarrow> unit result" where
  "check_target index t u =
     (case target_validate t (target_document t) of
        Inl (Rejected m) \<Rightarrow> Inl ValueError
      | Inl e \<Rightarrow> Inl e
      | Inr v \<Rightarrow> Inr ())"

definition targets ::
    "(string \<Rightarrow> pyval option) \<Rightarrow> (string \<Rightarrow> pyval option) \<Rightarrow> fs \<Rightarrow> pure_path \<Rightarrow> target list result" where
  "targets json toml fs root =
     bindE (forE (add_target json fs root) 0 (validators json toml fs root) []) (\<lambda>result.
     bindE (forE check_target 0 result ()) (\<lambda>u. Inr result))"

section \<open>The run\<close>

datatype verdict = ParseReject | SemanticReject | Accepted

record counts =
  case_count :: nat
  parse_count :: nat
  semantic_count :: nat
  accepted_count :: nat

definition no_counts :: counts where
  "no_counts = \<lparr>case_count = 0, parse_count = 0, semantic_count = 0, accepted_count = 0\<rparr>"

fun count_verdict :: "verdict \<Rightarrow> counts \<Rightarrow> counts" where
  "count_verdict ParseReject c = c\<lparr>parse_count := Suc (parse_count c)\<rparr>"
| "count_verdict SemanticReject c = c\<lparr>semantic_count := Suc (semantic_count c)\<rparr>"
| "count_verdict Accepted c = c\<lparr>accepted_count := Suc (accepted_count c)\<rparr>"

definition exercise :: "target \<Rightarrow> pyval \<Rightarrow> verdict result" where
  "exercise t document =
     (case target_validate t document of
        Inl (Rejected m) \<Rightarrow> Inr SemanticReject
      | Inl e \<Rightarrow> Inl (Rejected ''validator crashed'')
      | Inr u \<Rightarrow> Inr Accepted)"

text \<open>One case: the verdict and the number of draws so far.\<close>

definition fuzz_case ::
    "generator \<Rightarrow> (string \<Rightarrow> pyval option) \<Rightarrow> (pyfloat \<Rightarrow> string) \<Rightarrow> target \<Rightarrow> nat \<Rightarrow> nat \<Rightarrow>
     (verdict \<times> nat) result" where
  "fuzz_case rnd json fr t index drawn =
     (if even index
      then bindE (json_dumps fr (target_document t)) (\<lambda>canonical.
        case run_state (mutate_bytes rnd canonical) drawn of (mutated, drawn) \<Rightarrow>
          if fuzz_max_document_bytes < length mutated then Inl (Rejected ''mutated document exceeded bounded size'')
          else case (if utf8_valid mutated then json mutated else None) of
              None \<Rightarrow> Inr (ParseReject, drawn)
            | Some document \<Rightarrow>
                (if \<not> is_dict document then Inr (SemanticReject, drawn)
                 else bindE (exercise t document) (\<lambda>v. Inr (v, drawn))))
      else case run_state (mutate_structure rnd (target_document t)) drawn of (document, drawn) \<Rightarrow>
        bindE (exercise t document) (\<lambda>v. Inr (v, drawn)))"

definition fuzz_step ::
    "generator \<Rightarrow> (string \<Rightarrow> pyval option) \<Rightarrow> (pyfloat \<Rightarrow> string) \<Rightarrow> target list \<Rightarrow> nat \<Rightarrow> nat \<Rightarrow>
     nat \<times> (string \<Rightarrow> counts) \<Rightarrow> (nat \<times> (string \<Rightarrow> counts)) result" where
  "fuzz_step rnd json fr loaded i index s =
     (case s of (drawn, counters) \<Rightarrow>
      let t = loaded ! (index mod length loaded); n = target_name t;
          c = (counters n)\<lparr>case_count := Suc (case_count (counters n))\<rparr> in
      bindE (fuzz_case rnd json fr t index drawn) (\<lambda>(v, drawn).
        Inr (drawn, counters(n := count_verdict v c))))"

record fuzz_report =
  report_seed :: int
  report_cases :: nat
  report_targets :: "(string \<times> counts) list"

text \<open>\<^verbatim>\<open>random.Random(seed)\<close> is \<open>generators seed\<close>.\<close>

definition fuzz_loaded ::
    "(int \<Rightarrow> generator) \<Rightarrow> (string \<Rightarrow> pyval option) \<Rightarrow> (pyfloat \<Rightarrow> string) \<Rightarrow> target list \<Rightarrow> nat \<Rightarrow> int \<Rightarrow>
     fuzz_report result" where
  "fuzz_loaded generators json fr loaded cases seed =
     bindE (forE (fuzz_step (generators seed) json fr loaded) 0 [0..<cases] (0, \<lambda>n. no_counts)) (\<lambda>(drawn, counters).
       let names = remdups (map target_name loaded) in
       if sum_list (map (\<lambda>n. case_count (counters n)) names) \<noteq> cases
       then Inl (Rejected ''fuzz accounting mismatch'')
       else Inr \<lparr>report_seed = seed, report_cases = cases, report_targets = map (\<lambda>n. (n, counters n)) names\<rparr>)"

definition fuzz_run ::
    "(int \<Rightarrow> generator) \<Rightarrow> (string \<Rightarrow> pyval option) \<Rightarrow> (string \<Rightarrow> pyval option) \<Rightarrow> (pyfloat \<Rightarrow> string) \<Rightarrow>
     fs \<Rightarrow> pure_path \<Rightarrow> int \<Rightarrow> int \<Rightarrow> fuzz_report result" where
  "fuzz_run generators json toml fr fs root cases seed =
     (if cases < 1 \<or> 100000 < cases then Inl (Rejected ''case count must be between 1 and 100000'')
      else bindE (targets json toml fs root) (\<lambda>loaded.
        fuzz_loaded generators json fr loaded (nat cases) seed))"

text \<open>
  \<^verbatim>\<open>write_report\<close>; \<open>render\<close> is the indented JSON text of the report, whose
  \<^verbatim>\<open>crashes\<close> field is always 0.
\<close>

definition write_fuzz_report :: "os \<Rightarrow> (fuzz_report \<Rightarrow> string) \<Rightarrow> pure_path \<Rightarrow> fuzz_report \<Rightarrow> unit job" where
  "write_fuzz_report os render p outcome =
     bindM (is_symlink_call os p) (\<lambda>linked.
     if linked then raiseM (Rejected ''fuzz report cannot be a symlink'')
     else bindM (mkdirs os (parent p) 511) (\<lambda>u.
          bindM (open_text_call os p) (\<lambda>q. append_call os q (render outcome @ [CHR 0x0A]))))"

text \<open>The validators read the tree as it is when the run begins.\<close>

definition fuzz_main ::
    "os \<Rightarrow> (int \<Rightarrow> generator) \<Rightarrow> (string \<Rightarrow> pyval option) \<Rightarrow> (string \<Rightarrow> pyval option) \<Rightarrow> (pyfloat \<Rightarrow> string) \<Rightarrow>
     (fuzz_report \<Rightarrow> string) \<Rightarrow> pure_path \<Rightarrow> pure_path \<Rightarrow> int \<Rightarrow> int \<Rightarrow> int job" where
  "fuzz_main os generators json toml fr render root report_path cases seed w =
     catchM (bindM (liftM (fuzz_run generators json toml fr (tree w) root cases seed)) (\<lambda>outcome.
             bindM (write_fuzz_report os render
               (if is_absolute report_path then report_path else report_path\<lparr>anchor := anchor root, tail := tail root @ tail report_path\<rparr>)
               outcome) (\<lambda>u. returnM 0)))
       (\<lambda>e. case e of Rejected m \<Rightarrow> returnM 1 | _ \<Rightarrow> raiseM e) w"

end
