(* ===== verification/FuzzProps.thy ===== *)
theory FuzzProps
  imports Fuzz "HOL-Library.Sublist"
begin

text \<open>
  The fuzzing harness: what its search for containers finds, that its counters add up, and for
  which validators it can never report a crash.
\<close>

section \<open>Containers\<close>

fun value_at :: "pyval \<Rightarrow> nat list \<Rightarrow> pyval option" where
  "value_at v [] = Some v"
| "value_at v (i # p) = (if i < length (children v) then value_at (children v ! i) p else None)"

lemma in_placed: "x \<in> set (placed_children p v) \<longleftrightarrow> (\<exists>i < length (children v). x = (p @ [i], children v ! i))"
  by (auto simp: placed_children_def)

text \<open>The value \<open>c\<close> stands at the position \<open>q\<close>, at or below the value \<open>v\<close> that stands at \<open>p\<close>.\<close>

definition leads :: "nat list \<Rightarrow> pyval \<Rightarrow> nat list \<times> pyval \<Rightarrow> bool" where
  "leads q c x \<longleftrightarrow> (\<exists>r. q = fst x @ r \<and> value_at (snd x) r = Some c)"

lemma leads_below:
  "leads q c (p, v) \<longleftrightarrow> (q, c) = (p, v) \<or> (\<exists>x \<in> set (placed_children p v). leads q c x)"
proof
  assume "leads q c (p, v)"
  then obtain r where r: "q = p @ r" "value_at v r = Some c" by (auto simp: leads_def)
  show "(q, c) = (p, v) \<or> (\<exists>x \<in> set (placed_children p v). leads q c x)"
  proof (cases r)
    case (Cons i s)
    with r have i: "i < length (children v)" "value_at (children v ! i) s = Some c" by (auto split: if_splits)
    then have "(p @ [i], children v ! i) \<in> set (placed_children p v)" by (auto simp: in_placed)
    moreover have "leads q c (p @ [i], children v ! i)" using r(1) Cons i(2) by (simp add: leads_def)
    ultimately show ?thesis by blast
  qed (use r in simp)
next
  assume "(q, c) = (p, v) \<or> (\<exists>x \<in> set (placed_children p v). leads q c x)"
  then show "leads q c (p, v)"
  proof
    assume "\<exists>x \<in> set (placed_children p v). leads q c x"
    then obtain i r where "i < length (children v)" "q = (p @ [i]) @ r" "value_at (children v ! i) r = Some c"
      by (auto simp: in_placed leads_def)
    then show ?thesis unfolding leads_def by (intro exI [of _ "i # r"]) simp
  qed (simp add: leads_def)
qed

lemma leads_atom: "\<not> is_container v \<Longrightarrow> is_container c \<Longrightarrow> \<not> leads q c (p, v)"
  unfolding leads_below by (cases v) (auto simp: is_container_def placed_children_def)

lemma found_iff: "(q, c) \<in> set (found_from stack) \<longleftrightarrow> is_container c \<and> (\<exists>x \<in> set stack. leads q c x)"
proof (induction stack rule: found_from.induct)
  case (2 p v stack)
  show ?case
  proof (cases "is_container v")
    case True
    then have "(q, c) \<in> set (found_from ((p, v) # stack)) \<longleftrightarrow>
        (q, c) = (p, v) \<or> is_container c \<and> (\<exists>x \<in> set (placed_children p v) \<union> set stack. leads q c x)"
      using 2(1) by simp
    with True leads_below [of q c p v] show ?thesis by auto
  next
    case False
    with 2(2) leads_atom show ?thesis by auto
  qed
qed simp

abbreviation apart :: "(nat list \<times> pyval) list \<Rightarrow> bool" where
  "apart stack \<equiv> sorted_wrt (\<lambda>x y. fst x \<parallel> fst y) stack"

lemma placed_apart: "apart (rev (placed_children p v))"
proof -
  have "sorted_wrt (\<lambda>x y. fst y \<parallel> fst x) (placed_children p v)"
    by (auto simp: placed_children_def sorted_wrt_map sorted_wrt_iff_nth_less parallel_def)
  then show ?thesis by (simp add: sorted_wrt_rev)
qed

lemma found_distinct: "apart stack \<Longrightarrow> distinct (map fst (found_from stack))"
proof (induction stack rule: found_from.induct)
  case (2 p v stack)
  from 2(3) have stack: "\<forall>x \<in> set stack. p \<parallel> fst x" "apart stack" by auto
  show ?case
  proof (cases "is_container v")
    case True
    have children: "p @ [i] \<parallel> fst x" if "x \<in> set stack" for x i
      using parallel_append [of p "fst x" "[i]" "[]"] stack(1) that by simp
    then have "apart (rev (placed_children p v) @ stack)"
      using placed_apart [of p v] stack(2) by (auto simp: sorted_wrt_append in_placed)
    moreover have "p \<notin> fst ` set (found_from (rev (placed_children p v) @ stack))"
    proof
      assume "p \<in> fst ` set (found_from (rev (placed_children p v) @ stack))"
      then obtain c where "(p, c) \<in> set (found_from (rev (placed_children p v) @ stack))" by auto
      then obtain x r where "x \<in> set (placed_children p v) \<union> set stack" "p = fst x @ r"
        by (auto simp: found_iff leads_def)
      moreover from this have "\<not> p \<parallel> fst x" by (metis parallelD2 prefixI)
      moreover have "length (fst x) \<le> length p" using \<open>p = fst x @ r\<close> by simp
      moreover have "length (fst x) = Suc (length p)" if "x \<in> set (placed_children p v)"
        using that by (auto simp: in_placed)
      ultimately show False using stack(1) by auto
    qed
    ultimately show ?thesis using True 2(1) by simp
  qed (use 2 stack in simp)
qed simp

text \<open>
  C38. The search for containers is complete: its loop over a stack ends, and it finds every object
  and every array of a document, at whatever depth, with its position, and each of them once.
\<close>

theorem containers_are_all_found:
  "set (containers v) = {(p, c). value_at v p = Some c \<and> is_container c} \<and> distinct (map fst (containers v))"
  using found_distinct [of "[([], v)]"] by (auto simp: containers_def found_iff leads_def simp del: found_from.simps)

section \<open>The counters\<close>

lemma fuzz_step_counts:
  assumes "fuzz_step rnd json fr loaded i index (drawn, counters) = Inr (drawn', counters')"
  shows "\<exists>v. counters' = counters(target_name (loaded ! (index mod length loaded)) :=
    count_verdict v ((counters (target_name (loaded ! (index mod length loaded))))
      \<lparr>case_count := Suc (case_count (counters (target_name (loaded ! (index mod length loaded)))))\<rparr>))"
  using assms by (auto simp: fuzz_step_def Let_def bindE_Inr_iff)

lemma count_verdict_simps [simp]:
  "case_count (count_verdict v c) = case_count c"
  "parse_count (count_verdict v c) + semantic_count (count_verdict v c) + accepted_count (count_verdict v c) =
     Suc (parse_count c + semantic_count c + accepted_count c)"
  by (cases v; simp)+

definition adds_up :: "counts \<Rightarrow> bool" where
  "adds_up c \<longleftrightarrow> case_count c = parse_count c + semantic_count c + accepted_count c"

lemma fuzz_loop_counts:
  assumes "forE (fuzz_step rnd json fr loaded) i indexes (drawn, counters) = Inr (drawn', counters')"
    and "\<forall>n. adds_up (counters n)"
  shows "(\<forall>n. adds_up (counters' n)) \<and>
    (\<forall>n. case_count (counters' n) = case_count (counters n) +
       length (filter (\<lambda>j. target_name (loaded ! (j mod length loaded)) = n) indexes))"
  using assms
proof (induction indexes arbitrary: i drawn counters)
  case (Cons index indexes)
  let ?n = "target_name (loaded ! (index mod length loaded))"
  obtain d c where c: "fuzz_step rnd json fr loaded i index (drawn, counters) = Inr (d, c)"
      "forE (fuzz_step rnd json fr loaded) (Suc i) indexes (d, c) = Inr (drawn', counters')"
    using Cons.prems(1) by (auto simp: bindE_Inr_iff)
  then obtain v where v: "c = counters(?n := count_verdict v ((counters ?n)\<lparr>case_count := Suc (case_count (counters ?n))\<rparr>))"
    using fuzz_step_counts by blast
  have "\<forall>n. adds_up (c n)" using Cons.prems(2) v by (simp add: adds_up_def)
  from Cons.IH [OF c(2) this] show ?case by (auto simp: v)
qed simp

lemma sum_by_name:
  assumes "distinct names" and "\<forall>j \<in> set xs. f j \<in> set names"
  shows "sum_list (map (\<lambda>n. length (filter (\<lambda>j. f j = n) xs)) names) = length xs"
  using assms(2)
proof (induction xs)
  case (Cons x xs)
  have "sum_list (map (\<lambda>n. length (filter (\<lambda>j. f j = n) (x # xs))) names) =
      sum_list (map (\<lambda>n. (if f x = n then 1 else 0) + length (filter (\<lambda>j. f j = n) xs)) names)"
    by (rule arg_cong [where f = sum_list]) simp
  also have "\<dots> = sum_list (map (\<lambda>n. if f x = n then 1 else 0) names) + length xs"
    using Cons by (simp add: sum_list_addf)
  also have "sum_list (map (\<lambda>n. if f x = n then 1 else 0) names) = (1 :: nat)"
    using assms(1) Cons.prems by (simp add: sum_list_distinct_conv_sum_set)
  finally show ?case by simp
qed simp

lemma fuzz_loaded_counts:
  assumes "loaded \<noteq> []"
    and "forE (fuzz_step rnd json fr loaded) 0 [0..<cases] (0, \<lambda>n. no_counts) = Inr (drawn, counters)"
  shows "sum_list (map (\<lambda>n. case_count (counters n)) (remdups (map target_name loaded))) = cases"
proof -
  have counts: "case_count (counters n) =
      length (filter (\<lambda>j. target_name (loaded ! (j mod length loaded)) = n) [0..<cases])" for n
  proof -
    have "\<forall>n. adds_up no_counts" by (simp add: adds_up_def no_counts_def)
    from fuzz_loop_counts [OF assms(2) this] show ?thesis by (simp add: no_counts_def)
  qed
  have "\<forall>j \<in> set [0..<cases]. target_name (loaded ! (j mod length loaded)) \<in> set (remdups (map target_name loaded))"
    using assms(1) by auto
  from sum_by_name [OF _ this] show ?thesis by (simp add: counts)
qed

lemma next_multiple:
  assumes "j < (m :: nat)"
  shows "(n + (m - j)) mod m = 0 \<longleftrightarrow> n mod m = j"
proof -
  have "(n + (m - j)) mod m = (n mod m + (m - j)) mod m" by (simp add: mod_add_left_eq)
  moreover have "n mod m < m" using assms by simp
  moreover have "(r + (m - j)) mod m = (if r < j then r + (m - j) else r - j)" if "r < m" for r
    using that assms by (auto simp: mod_if)
  ultimately show ?thesis using assms by auto
qed

lemma round_robin:
  assumes "j < (m :: nat)"
  shows "length (filter (\<lambda>i. i mod m = j) [0..<n]) = (n + (m - 1 - j)) div m"
proof (induction n)
  case 0
  then show ?case using assms by simp
next
  case (Suc n)
  define a where "a = n + (m - 1 - j)"
  have a: "Suc n + (m - 1 - j) = Suc a" "n + (m - j) = Suc a" using assms by (simp_all add: a_def)
  have "Suc a div m = a div m + (if Suc a mod m = 0 then 1 else 0)" by (simp add: div_Suc)
  also have "(Suc a mod m = 0) = (n mod m = j)" using next_multiple [OF assms, of n] by (simp add: a(2))
  finally show ?case using Suc by (simp add: a(1)) (simp add: a_def)
qed

section \<open>The targets\<close>

definition target_names :: "string list" where
  "target_names = [''readiness'', ''installer-recovery'', ''threat-model'', ''release-channels''] @
     map (\<lambda>(matrix, ids). ''control-matrix:'' @ matrix) control_matrices"

lemma validator_names: "map fst (validators json toml fs root) = target_names"
  by (simp add: validators_def target_names_def split_beta)

lemma target_names_distinct: "distinct target_names" "length target_names = 7"
  by (simp_all add: target_names_def control_matrices_def)

lemma fuzz_load_dict: "fuzz_load json fs p = Inr v \<Longrightarrow> is_dict v"
  by (auto simp: fuzz_load_def split: if_splits sum.splits option.splits)

definition target_of :: "target \<Rightarrow> string \<times> string \<times> (pyval \<Rightarrow> unit result) \<Rightarrow> bool" where
  "target_of t x \<longleftrightarrow> target_name t = fst x \<and> target_validate t = snd (snd x) \<and> is_dict (target_document t)"

lemma add_target_one:
  assumes "add_target json fs root i x ts = Inr ts'"
  shows "\<exists>t. target_of t x \<and> ts' = ts @ [t]"
proof -
  obtain name location validate where x: "x = (name, location, validate)" by (cases x)
  with assms obtain document where "fuzz_load json fs (join root location) = Inr document"
    "ts' = ts @ [\<lparr>target_name = name, target_document = document, target_validate = validate\<rparr>]"
    by (auto simp: add_target_def bindE_Inr_iff)
  with x fuzz_load_dict show ?thesis by (auto simp: target_of_def)
qed

lemma add_target_loop:
  "forE (add_target json fs root) i xs ts = Inr ts' \<Longrightarrow> \<exists>new. ts' = ts @ new \<and> list_all2 target_of new xs"
proof (induction xs arbitrary: i ts)
  case (Cons x xs)
  then obtain t where t: "target_of t x" "forE (add_target json fs root) (Suc i) xs (ts @ [t]) = Inr ts'"
    by (auto simp: bindE_Inr_iff dest: add_target_one)
  from Cons.IH [OF t(2)] t(1) show ?case by auto
qed simp

lemma targets_loaded:
  "targets json toml fs root = Inr loaded \<Longrightarrow> list_all2 target_of loaded (validators json toml fs root)"
  using add_target_loop by (fastforce simp: targets_def bindE_Inr_iff)

lemma loaded_names:
  assumes "list_all2 target_of loaded (validators json toml fs root)"
  shows "map target_name loaded = target_names"
proof -
  have "map target_name loaded = map fst (validators json toml fs root)"
    using assms by (induction rule: list_all2_induct) (simp_all add: target_of_def)
  then show ?thesis by (simp only: validator_names)
qed

text \<open>
  C39. The report accounts for every case. A run over targets for the seven validators that returns
  reports the cases that were asked for; they add up over the targets; each target's
  cases are its parse rejections, semantic rejections and acceptances; and the targets take turns:
  the \<open>j\<close>-th of them has every seventh case from the \<open>j\<close>-th on.
\<close>

theorem fuzzing_accounts_for_every_case:
  assumes "list_all2 target_of loaded (validators json toml fs root)"
    and "fuzz_loaded generators json fr loaded cases seed = Inr outcome"
  shows "report_cases outcome = cases \<and> map fst (report_targets outcome) = target_names \<and>
    sum_list (map (\<lambda>(n, c). case_count c) (report_targets outcome)) = cases \<and>
    (\<forall>j < 7. case_count (snd (report_targets outcome ! j)) = (cases + (6 - j)) div 7) \<and>
    (\<forall>(n, c) \<in> set (report_targets outcome).
       case_count c = parse_count c + semantic_count c + accepted_count c)"
proof -
  obtain drawn counters
    where loop: "forE (fuzz_step (generators seed) json fr loaded) 0 [0..<cases] (0, \<lambda>n. no_counts) = Inr (drawn, counters)"
    and sum: "sum_list (map (\<lambda>n. case_count (counters n)) (remdups (map target_name loaded))) = cases"
    and outcome: "outcome = \<lparr>report_seed = seed, report_cases = cases,
      report_targets = map (\<lambda>n. (n, counters n)) (remdups (map target_name loaded))\<rparr>"
    using assms(2) by (auto simp: fuzz_loaded_def bindE_Inr_iff Let_def split: if_splits)
  have names: "map target_name loaded = target_names" by (rule loaded_names [OF assms(1)])
  then have dedup: "remdups (map target_name loaded) = target_names" and seven: "length loaded = 7"
    using target_names_distinct by (simp_all add: distinct_remdups_id) (metis length_map)
  have counts: "(\<forall>n. adds_up (counters n)) \<and> (\<forall>n. case_count (counters n) =
      length (filter (\<lambda>i. target_name (loaded ! (i mod length loaded)) = n) [0..<cases]))"
  proof -
    have "\<forall>n. adds_up no_counts" by (simp add: adds_up_def no_counts_def)
    from fuzz_loop_counts [OF loop this] show ?thesis by (simp add: no_counts_def)
  qed
  have turn: "case_count (counters (target_names ! j)) = (cases + (6 - j)) div 7" if "j < 7" for j
  proof -
    have "target_name (loaded ! (i mod 7)) = target_names ! j \<longleftrightarrow> i mod 7 = j" for i
      using that names seven target_names_distinct nth_eq_iff_index_eq [of target_names "i mod 7" j]
      by (simp flip: names)
    with counts seven round_robin [OF that, of cases] show ?thesis by simp
  qed
  show ?thesis
    using sum counts turn target_names_distinct(2)
    by (auto simp: outcome dedup comp_def adds_up_def)
qed

text \<open>A run that returns has loaded such targets.\<close>

corollary fuzz_run_report:
  assumes "fuzz_run generators json toml fr fs root cases seed = Inr outcome"
  shows "\<exists>loaded. list_all2 target_of loaded (validators json toml fs root) \<and>
    fuzz_loaded generators json fr loaded (nat cases) seed = Inr outcome \<and> 1 \<le> cases \<and> cases \<le> 100000"
  using assms by (auto simp: fuzz_run_def bindE_Inr_iff dest: targets_loaded split: if_splits)

text \<open>Targets for the seven validators, each with the empty object, over an empty tree.\<close>

definition bare_targets :: "target list" where
  "bare_targets =
     map (\<lambda>x. \<lparr>target_name = fst x, target_document = PDict [], target_validate = snd (snd x)\<rparr>)
       (validators (\<lambda>s. None) (\<lambda>s. None) (\<lambda>q. None) sample_root)"

lemma bare_targets_of:
  "list_all2 target_of bare_targets (validators (\<lambda>s. None) (\<lambda>s. None) (\<lambda>q. None) sample_root)"
  by (simp add: bare_targets_def list_all2_map1 target_of_def list_all2_same)

section \<open>Crashes\<close>

text \<open>What \<^verbatim>\<open>randrange\<close> documents: a number below \<open>n\<close>.\<close>

definition lawful :: "generator \<Rightarrow> bool" where
  "lawful rnd \<longleftrightarrow> (\<forall>k n. 0 < n \<longrightarrow> rnd k n < n)"

lemma run_bind [simp]:
  "run_state (State_Monad.bind m f) k = (case run_state m k of (a, k') \<Rightarrow> run_state (f a) k')"
  by (simp add: State_Monad.bind_def)

lemma run_draw [simp]: "run_state (draw rnd n) k = (rnd k n, Suc k)"
  by (simp add: draw_def)

lemma mutate_container_dict: "is_dict v \<Longrightarrow> is_dict (fst (run_state (mutate_container rnd v) k))"
  by (cases v) (simp_all add: State_Monad.return_def split: prod.splits)

lemma put_at_dict: "is_dict v \<Longrightarrow> p \<noteq> [] \<Longrightarrow> is_dict (put_at p c v)"
  by (cases v; cases p) simp_all

lemma containers_nonempty: "is_dict v \<Longrightarrow> containers v \<noteq> []"
  by (simp add: containers_def is_container_def)

lemma root_container: "([], c) \<in> set (containers v) \<Longrightarrow> c = v"
  unfolding containers_def found_iff by (auto simp: leads_def)

lemma mutated_document:
  assumes "lawful rnd" and "is_dict source"
  shows "is_dict (fst (run_state (mutate_structure rnd source) k))"
proof -
  define i where "i = rnd k (length (containers source))"
  obtain p v where x: "containers source ! i = (p, v)" by (cases "containers source ! i")
  have "i < length (containers source)"
    using assms containers_nonempty by (simp add: lawful_def i_def)
  then have member: "(p, v) \<in> set (containers source)" using x nth_mem by metis
  obtain c k' where c: "run_state (mutate_container rnd v) (Suc k) = (c, k')"
    by (cases "run_state (mutate_container rnd v) (Suc k)")
  have "is_dict (put_at p c source)"
  proof (cases p)
    case Nil
    with member root_container assms(2) have "is_dict v" by blast
    with mutate_container_dict [of v rnd "Suc k"] c Nil show ?thesis by simp
  next
    case (Cons i q)
    with assms(2) show ?thesis using put_at_dict [of source p c] by simp
  qed
  then show ?thesis using c x by (simp add: mutate_structure_def i_def State_Monad.return_def)
qed

lemma bindE_Inl_iff:
  "bindE r f = Inl e \<longleftrightarrow> r = Inl e \<or> (\<exists>x. r = Inr x \<and> f x = Inl e)"
  by (cases r) auto

lemma exercise_sound:
  "crash_free (target_validate t document) \<Longrightarrow> exercise t document \<noteq> Inl e"
  by (cases "target_validate t document" rule: crash_free.cases) (simp_all add: exercise_def)

lemma ignoring_safe: "crash_free r \<Longrightarrow> crash_free (ignoring r)"
  unfolding ignoring_def by (intro safe_intros)

lemma sound_validators:
  assumes "readable_tree fs" and "(name, location, validate) \<in> set (validators json toml fs root)"
    and "name \<notin> {''readiness'', ''release-channels''}" and "is_dict d"
  shows "crash_free (validate d)"
proof -
  obtain fields where "d = PDict fields" using assms(4) by (auto simp: is_dict_iff)
  with assms(1-3) show ?thesis
    by (auto simp: validators_def intro!: ignoring_safe recovery_audit_never_crashes threat_validate_never_crashes
        control_document_never_crashes)
qed


lemma bare_case:
  "target_document t = PDict [] \<Longrightarrow>
   fuzz_case (\<lambda>k n. 0) (\<lambda>s. None) fr t 0 0 = Inr (ParseReject, 3)"
  by (simp add: fuzz_case_def mutate_bytes_def fuzz_max_document_bytes_def State_Monad.return_def)

lemma bare_documents: "\<forall>t \<in> set bare_targets. target_document t = PDict []"
  by (simp add: bare_targets_def)

theorem fuzzing_accounts_for_every_case_witness:
  "\<exists>outcome. fuzz_loaded (\<lambda>seed k n. 0) (\<lambda>s. None) (\<lambda>x. []) bare_targets 1 7 = Inr outcome \<and>
     case_count (snd (report_targets outcome ! 0)) = 1 \<and> case_count (snd (report_targets outcome ! 1)) = 0"
proof -
  have some: "bare_targets \<noteq> []" by (simp add: bare_targets_def validators_def)
  then have "target_document (bare_targets ! 0) = PDict []" using bare_documents by simp
  then obtain drawn counters where
    loop: "forE (fuzz_step (\<lambda>k n. 0) (\<lambda>s. None) (\<lambda>x. []) bare_targets) 0 [0..<1] (0, \<lambda>n. no_counts) = Inr (drawn, counters)"
    by (simp add: fuzz_step_def bare_case Let_def)
  obtain outcome where
    outcome: "fuzz_loaded (\<lambda>seed k n. 0) (\<lambda>s. None) (\<lambda>x. []) bare_targets 1 7 = Inr outcome"
    using fuzz_loaded_counts [OF some loop] unfolding fuzz_loaded_def loop by (simp only: bindE.simps Let_def prod.case) auto
  with fuzzing_accounts_for_every_case [OF bare_targets_of outcome] show ?thesis by auto
qed


end
