(* ===== verification/Spec2Isabelle.thy ===== *)
theory Spec2Isabelle
  imports Recovery Controls Threats ReadinessProps ReleasesSafe Installer MarkersRun ArchWitness ComponentsRun
    WorkflowRun FuzzProps
begin

text \<open>
  A verification development for the Python code of Arach-OS: the validators under
  \<^verbatim>\<open>scripts/\<close> that decide whether a release may be made, and the three Calamares jobs
  under \<^verbatim>\<open>installer/calamares/modules/\<close> that install it.

  \<^bold>\<open>The program.\<close> The validators read documents from the repository
  (\<^verbatim>\<open>production/*.json\<close>, \<^verbatim>\<open>components.lock.toml\<close>,
  \<^verbatim>\<open>Cargo.toml\<close>, the ArchISO profile, a workflow file, serial logs) and either reject
  them with a diagnosis or accept them. They depend on each other through the documents: the
  release check reads the statuses of the readiness ledger, the readiness ledger binds its
  evidence to the revisions of the component lock, the workflow pins repeat that lock, and the QEMU
  report names the digest of the package lock. The fuzzing harness loads five of the validators
  and runs them on mutated documents. The installer jobs communicate through files and through the
  global storage of Calamares: \<^verbatim>\<open>arachhardware\<close> plans the hardware and hands over a
  plan, a receipt and a catalog, \<^verbatim>\<open>arachtransaction\<close> prepares, commits and rolls
  back, \<^verbatim>\<open>arachpacman\<close> stages a signed snapshot for the verified plan and runs
  pacman on it.

  \<^bold>\<open>How the code is modelled.\<close> A function that may raise yields a sum, \<open>'a result\<close>
  (theory \<open>Prelude\<close>): the exception class of the script is \<open>Rejected\<close> with the fixed text of its
  message, every other constructor of \<open>exn\<close> is an exception that the script does not intend. A
  \<^verbatim>\<open>for\<close> loop with an index and an accumulator is \<open>forE\<close> over a definition named
  \<open>..._step\<close>, one per loop of the source; early returns and guards are conditionals in the order of
  the code. JSON and TOML values are \<open>pyval\<close>, with Python's equality (\<open>True == 1\<close>) and hashing.
  The repository of a validator is an immutable tree \<open>fs\<close>. A job of the installer is a function on
  the state \<open>world\<close> (tree, permission bits, storage, log of events, number of calls) in which, between any two
  calls, other processes may change the tree and any call may fail.

  \<^bold>\<open>Shared theories.\<close> \<open>Prelude\<close> (results, loops and their locales), \<open>PyValue\<close>
  (dynamic values), \<open>Patterns\<close> (regular expressions and a matcher proved against their language),
  \<open>TextSearch\<close> (\<^verbatim>\<open>find\<close>, \<^verbatim>\<open>count\<close>, \<^verbatim>\<open>findall\<close>), \<open>Paths\<close>
  (pure paths and the path guard), \<open>Urls\<close> (\<^verbatim>\<open>urllib.parse\<close>), \<open>FileSystem\<close> (trees with
  links), \<open>Timestamps\<close> (\<^verbatim>\<open>fromisoformat\<close>,
  and the order of its results), \<open>Sha256\<close> (executable SHA-256), \<open>Json\<close>
  (compact rendering), \<open>Ledger\<close> (loops against a canonical list), \<open>Samples\<close> (inputs of the
  witnesses); for the jobs \<open>Jobs\<close> (world, system calls, Hoare rules), \<open>PrivateArea\<close> (knowledge about
  a directory under interference), \<open>AtomicWrite\<close>, \<open>Calm\<close> (runs in which nothing fails).

  \<^bold>\<open>Components.\<close> The theory of the model first, then those of its lemmas, properties and
  concrete inputs:
  \<^item> \<^verbatim>\<open>scripts/verify_production_readiness.py\<close>: \<open>Cycles\<close> (\<^verbatim>\<open>detect_cycles\<close>),
    \<open>Readiness\<close>; \<open>ReadinessSpec\<close>, \<open>ReadinessProps\<close>, \<open>ReadinessSample\<close>.
  \<^item> \<^verbatim>\<open>scripts/verify_release_channels.py\<close>: \<open>Releases\<close>; \<open>ReleasesSpec\<close>,
    \<open>ReleasesPolicy\<close>, \<open>ReleasesProps\<close>, \<open>ReleasesSafe\<close>, \<open>ReleasesSample\<close>.
  \<^item> \<^verbatim>\<open>scripts/verify_control_matrices.py\<close>: \<open>Controls\<close>;
    \<^verbatim>\<open>scripts/verify_threat_model.py\<close>: \<open>Threats\<close>;
    \<^verbatim>\<open>scripts/verify_installer_recovery.py\<close>: \<open>Recovery\<close>.
  \<^item> \<^verbatim>\<open>scripts/verify_archiso_qualification.py\<close>: \<open>ArchProfile\<close> (profile contract),
    \<open>ArchLock\<close> (package lock, QEMU report, \<^verbatim>\<open>main\<close>); \<open>ArchProps\<close>, \<open>ArchSample\<close>,
    \<open>ArchTree\<close>, \<open>ArchWitness\<close>.
  \<^item> \<^verbatim>\<open>scripts/verify-components.py\<close>: \<open>Components\<close>; \<open>ComponentsProps\<close>,
    \<open>ComponentsRun\<close>. \<^verbatim>\<open>scripts/verify-workflow-pins.py\<close>: \<open>WorkflowPins\<close>;
    \<open>WorkflowProps\<close>, \<open>WorkflowRun\<close>.
  \<^item> \<^verbatim>\<open>scripts/verify_marker_sequence.py\<close>: \<open>Markers\<close>; \<open>MarkersProps\<close>,
    \<open>MarkersRun\<close>.
  \<^item> \<^verbatim>\<open>scripts/fuzz_control_documents.py\<close>: \<open>Fuzz\<close> (draws of the generator in the
    state monad; a position in a document stands for an aliased container); \<open>FuzzProps\<close>.
  \<^item> \<^verbatim>\<open>arachtransaction/protocol.py\<close>, \<^verbatim>\<open>main.py\<close>: \<open>Transaction\<close>;
    \<open>TransactionProps\<close>, \<open>TransactionState\<close>.
  \<^item> \<^verbatim>\<open>arachhardware/repository.py\<close>, \<^verbatim>\<open>main.py\<close>: \<open>Hardware\<close>,
    \<open>HardwareJob\<close>; \<open>HardwareProps\<close>, \<open>HardwareSample\<close>, \<open>HardwareRun\<close>.
  \<^item> \<^verbatim>\<open>arachpacman/adapter.py\<close>, \<^verbatim>\<open>main.py\<close>: \<open>Pacman\<close>; \<open>PacmanProps\<close>,
    \<open>PacmanSample\<close>, \<open>PacmanRun\<close>. \<open>Installer\<close>: the three jobs together.

  This theory holds the property that spans the readiness ledger and the release channels.

  \<^bold>\<open>The lemmas.\<close> For each validator the specification lemmas (names ending in \<open>_iff\<close>) state
  exactly which documents a step, a loop and the whole check accept; the properties are derived
  from them, without looking at the code again. The loops are interpretations of five contracts:
  \<open>unique_loop\<close> (each record is tested and must be new), \<open>plain_loop\<close> (only tested), \<open>collect_loop\<close>
  (results are gathered in order), \<open>canonical_loop\<close> with its extension \<open>status_ledger\<close> (records
  against a fixed list, statuses counted), \<open>ranked_loop\<close> (records against a table by index).
  \<open>path_guard\<close> is what the path checks promise to the code behind them, \<open>field_codec\<close> what
  an escaping promises to a reader. Crash freedom is the predicate \<open>crash_free\<close>, derived by the rules
  \<open>safe_intros\<close>. The jobs are verified call by call with the Hoare rules \<open>job_rules\<close> and with \<open>known\<close>, the
  exact contents of a private directory; \<open>storage_rules\<close> and \<open>blind_rules\<close> give the
  non-interference of the installer's secrets. \<open>Installer\<close> composes the jobs: what one writes is
  what the next demands.

  \<^bold>\<open>Bounds and fuel.\<close> The resolution of a path follows at most 40 links, as Linux does;
  beyond that, and for any path that cannot be resolved, the path counts as not found. The cycle
  search has fuel for one more than the number of nodes, which \<open>detect_cycles_decides\<close> shows to be
  enough. The copy loop of the package adapter ends because each chunk brings it closer to the
  size limit of the source; the loop over containers because each round takes a value off
  the stack. The other recursions need no argument beyond their patterns. Words of SHA-256 are integers below \<open>2 ^ 32\<close> with
  the wrap-around written out.

  \<^bold>\<open>Parameters.\<close> Code outside the repository is an argument of the definitions that use it:
  the JSON and TOML parsers (\<open>json\<close>, \<open>toml\<close>; \<open>None\<close> is their error), \<^verbatim>\<open>float.__repr__\<close>
  (\<open>fr\<close>), \<^verbatim>\<open>str\<close> of values that are not strings (\<open>show\<close>, \<open>describe\<close>), the two checks
  of \<^verbatim>\<open>urlsplit\<close> on addresses and Unicode (\<open>host_ok\<close>, \<open>netloc_ok\<close>),
  \<^verbatim>\<open>re.compile\<close> of the markers given on the command line, \<^verbatim>\<open>git\<close>,
  \<^verbatim>\<open>random.Random\<close>, the clock, and, collected in \<open>os\<close>, external commands, temporary names,
  failures and interference. Where a property needs a law of theirs it is a named hypothesis: the generator
  draws below its bound (\<open>lawful\<close>), other processes stay out of a private directory.

  \<^bold>\<open>Conventions.\<close> A Python string is its UTF-8 encoding. The interpreter is CPython 3.12.
  Relative paths of a job are taken from the root directory. A file created with mode 0666 gets
  the permissions of umask 022. A validator reads its tree at one moment, except for the marker check, which runs
  under interference like the jobs. Sets are iterated in one fixed
  order, which only decides which diagnosis comes first.

  \<^bold>\<open>Not modelled.\<close> Command line parsing, printing and translated titles; the interpolated
  values in messages; threads (the futures of \<^verbatim>\<open>verify-components.py\<close> are taken in order);
  the dynamic loading of modules by the harness, which uses the models of these modules instead;
  the indented rendering of its report. Of the other parts of the repository: the Rust programs
  \<^verbatim>\<open>src/\<close>, which the jobs only start as commands; the shell scripts and workflows, which are
  sequences of external tools; the Fortran, Agda and Idris sources, which the Python code does not
  use; tests, configuration and documents, which are data.
\<close>

section \<open>Releases and readiness\<close>

lemma same_ledger:
  assumes "readiness_load json fs (join root readiness_manifest_path) = Inr manifest"
    and "release_load json fs (join root release_readiness_path) = Inr document"
  shows "document = manifest"
  using assms
  by (auto simp: readiness_load_def release_load_def readiness_manifest_path_def
      release_readiness_path_def split: if_splits sum.splits option.splits)

lemma status_table_entry:
  "fold (\<lambda>g m. m(str_of (field g ''id'') \<mapsto> status_of g)) gs m k = Some s \<Longrightarrow>
     m k = Some s \<or> (\<exists>g \<in> set gs. gate_id g = k \<and> status_of g = s)"
proof (induction gs arbitrary: m)
  case (Cons g gs)
  from Cons.IH [of "m(str_of (field g ''id'') \<mapsto> status_of g)"] Cons.prems show ?case
    by (auto simp: gate_id_def split: if_splits)
qed simp

lemma status_table:
  assumes "readiness_status json fs root = Inr readiness" and "readiness g = Some s"
    and "readiness_load json fs (join root readiness_manifest_path) = Inr manifest"
  shows "\<exists>gate \<in> set (gates_of manifest). gate_id gate = g \<and> status_of gate = s"
proof -
  obtain document where "release_load json fs (join root release_readiness_path) = Inr document"
    and "readiness = fold (\<lambda>g m. m(str_of (field g ''id'') \<mapsto> status_of g))
      (list_of (field document ''gates'')) (\<lambda>_. None)"
    using assms(1) by (auto simp: readiness_status_def bindE_Inr_iff status_entries.loop_iff
        split: if_splits)
  with same_ledger [OF assms(3)] status_table_entry assms(2) show ?thesis
    by (fastforce simp: gates_of_def)
qed

text \<open>
  C2. Releases inherit the whole readiness closure: when the readiness check and the release check
  both accept a repository, every gate that the channel of an active release requires is a gate
  of the ledger that is qualified and has no open blocker, and so is every gate it depends on,
  directly or through other gates.
\<close>

theorem released_gates_are_closed:
  assumes "readiness_run json toml fs root require = Inr manifest"
    and "release_validate json toml fs root policy = Inr counts"
    and "r \<in> set (releases_of policy)" and "i < 3" and "channel_name_of r = channels ! i"
    and "g \<in> set (texts (field (channels_of policy ! i) ''required_readiness_gates''))"
  shows "\<exists>gate \<in> set (gates_of manifest). gate_id gate = g \<and>
    status_of gate = ''qualified'' \<and> field gate ''blockers'' = PList [] \<and>
    (\<forall>h \<in> set (gates_of manifest).
       (gate_id gate, gate_id h) \<in> (depends (gate_graph (gates_of manifest)))\<^sup>+ \<longrightarrow>
       status_of h = ''qualified'' \<and> field h ''blockers'' = PList [])"
proof -
  from assms(1) have load: "readiness_load json fs (join root readiness_manifest_path) = Inr manifest"
    and valid: "readiness_validate toml fs root manifest = Inr ()"
    by (auto simp: readiness_run_def bindE_Inr_iff)
  obtain readiness by_name where status: "readiness_status json fs root = Inr readiness"
    and ok: "release_policy_ok json toml fs root readiness by_name policy"
    using assms(2) by (rule accepted_policy)
  have unblocked: "field h ''blockers'' = PList []"
    if "h \<in> set (gates_of manifest)" "status_of h = ''qualified''" for h
    using accepted_qualified [OF valid that] by (auto simp: qualification_ok_def is_list_iff)
  obtain j where j: "j < 3" "channel_name_of r = channels ! j"
      "channel_of by_name r = channels_of policy ! j"
    using accepted_channel [OF ok assms(3)] by blast
  moreover have "distinct channels" "length channels = 3" by (simp_all add: channels_def)
  ultimately have "j = i" using assms(4,5) by (metis nth_eq_iff_index_eq)
  with j accepted_release [OF ok assms(3)] assms(6) have "readiness g = Some ''qualified''"
    by (auto simp: release_ok_def release_safeguards_ok_def)
  then obtain gate where "gate \<in> set (gates_of manifest)" "gate_id gate = g"
      "status_of gate = ''qualified''"
    using status_table [OF status _ load] by blast
  with unblocked qualification_closed [OF valid this(1,3)] show ?thesis by blast
qed

lemma sample_run:
  "readiness_run sample_json sample_toml ledger_tree sample_root False = Inr sample_ledger"
proof -
  have "read_text ledger_tree (join sample_root readiness_manifest_path) = Inr ''ledger''"
    by code_simp
  then have "readiness_load sample_json ledger_tree (join sample_root readiness_manifest_path) =
      Inr sample_ledger"
    by (simp add: readiness_load_def sample_json_def) (simp add: sample_ledger_def)
  then show ?thesis by (simp add: readiness_run_def sample_ledger_accepted)
qed

theorem released_gates_are_closed_witness:
  "\<exists>gate \<in> set sample_gates. gate_id gate = ''linux-posix-compatibility'' \<and>
     status_of gate = ''qualified''"
proof -
  obtain counts where ok: "release_validate sample_json sample_toml ledger_tree sample_root
      sample_policy = Inr counts" by (rule sample_counts)
  have member: "sample_release ''stable'' (PInt 1) \<in> set (releases_of sample_policy)"
    by (simp add: sample_releases_of sample_releases_def)
  have required: "''linux-posix-compatibility'' \<in>
      set (texts (field (channels_of sample_policy ! 2) ''required_readiness_gates''))"
    by (simp add: channels_of_def sample_policy_def sample_entries_def sample_channel_fields texts_def)
  show ?thesis
    using released_gates_are_closed [OF sample_run ok member _ _ required]
    by (auto simp: sample_release_readers channels_def sample_ledger_gates)
qed

end
